(* ===== verification/JsValue.thy ===== *)
theory JsValue
  imports Prelude
begin

text \<open>
  The JavaScript values the handlers of \<open>src/backend/routes\<close> inspect: request
  bodies and query strings arrive loosely typed, and the handlers test them with
  truthiness (\<open>!price\<close>), \<open>isNaN\<close>, \<open>Number(..)\<close>, \<open>price < 0\<close> and
  \<open>toLowerCase()\<close>. This theory gives those operations their ECMAScript meaning.
  Numbers are exact rationals with NaN and the two infinities (no rounding, no
  negative zero); strings are byte lists, and only ASCII letters and ASCII
  white space are treated specially (the Unicode letters and spaces of ECMAScript
  are outside the model). Arrays and objects as input values are not modelled.
\<close>

datatype jsnum = NaN | PosInf | NegInf | Fin rat

datatype jsval = JUndefined | JNull | JBool bool | JNum jsnum | JStr string

datatype js_exn = TypeError

subsection \<open>Truthiness (ECMAScript ToBoolean)\<close>

fun truthy :: "jsval \<Rightarrow> bool" where
  "truthy JUndefined = False"
| "truthy JNull = False"
| "truthy (JBool b) = b"
| "truthy (JNum NaN) = False"
| "truthy (JNum (Fin r)) = (r \<noteq> 0)"
| "truthy (JNum PosInf) = True"
| "truthy (JNum NegInf) = True"
| "truthy (JStr s) = (s \<noteq> [])"

subsection \<open>StringToNumber\<close>

definition is_ws :: "char \<Rightarrow> bool" where
  "is_ws c \<longleftrightarrow> c \<in> {CHR 0x09, CHR 0x0A, CHR 0x0B, CHR 0x0C, CHR 0x0D, CHR '' ''}"

definition trim_ws :: "string \<Rightarrow> string" where
  "trim_ws s = rev (dropWhile is_ws (rev (dropWhile is_ws s)))"

definition radix_digit :: "nat \<Rightarrow> char \<Rightarrow> nat option" where
  "radix_digit r c =
     (let k = (of_char c :: nat);
          d = (if 48 \<le> k \<and> k \<le> 57 then Some (k - 48)
               else if 97 \<le> k \<and> k \<le> 102 then Some (k - 87)
               else if 65 \<le> k \<and> k \<le> 70 then Some (k - 55) else None)
      in case d of Some v \<Rightarrow> if v < r then Some v else None | None \<Rightarrow> None)"

fun radix_val :: "nat \<Rightarrow> nat \<Rightarrow> string \<Rightarrow> nat option" where
  "radix_val r acc [] = Some acc"
| "radix_val r acc (c # cs) =
     (case radix_digit r c of None \<Rightarrow> None | Some d \<Rightarrow> radix_val r (r * acc + d) cs)"

definition scale10 :: "rat \<Rightarrow> int \<Rightarrow> rat" where
  "scale10 q e = (if 0 \<le> e then q * 10 ^ nat e else q / 10 ^ nat (- e))"

text \<open>The exponent part \<open>(e|E)(+|-)?digits\<close>, or nothing.\<close>

fun parse_exponent :: "string \<Rightarrow> int option" where
  "parse_exponent [] = Some 0"
| "parse_exponent (e # rest) =
     (if e = CHR ''e'' \<or> e = CHR ''E'' then
        (let neg = (rest \<noteq> [] \<and> hd rest = CHR ''-'');
             ds = (if rest \<noteq> [] \<and> (hd rest = CHR ''-'' \<or> hd rest = CHR ''+'') then tl rest else rest)
         in if ds \<noteq> [] \<and> list_all is_digit ds
            then Some (if neg then - int (digits_val ds) else int (digits_val ds)) else None)
      else None)"

text \<open>StrUnsignedDecimalLiteral: \<open>Infinity\<close>, or digits with an optional
  fraction and exponent, at least one digit before or after the point.\<close>

definition parse_unsigned_decimal :: "string \<Rightarrow> jsnum option" where
  "parse_unsigned_decimal s =
     (if s = ''Infinity'' then Some PosInf
      else
        (let ip = takeWhile is_digit s;
             r1 = dropWhile is_digit s;
             dot = (r1 \<noteq> [] \<and> hd r1 = CHR ''.'');
             fp = (if dot then takeWhile is_digit (tl r1) else []);
             r2 = (if dot then dropWhile is_digit (tl r1) else r1)
         in if ip = [] \<and> fp = [] then None
            else map_option
                   (\<lambda>e. Fin (scale10 (of_nat (digits_val ip) + of_nat (digits_val fp) / 10 ^ length fp) e))
                   (parse_exponent r2)))"

fun neg_jsnum :: "jsnum \<Rightarrow> jsnum" where
  "neg_jsnum NaN = NaN"
| "neg_jsnum PosInf = NegInf"
| "neg_jsnum NegInf = PosInf"
| "neg_jsnum (Fin r) = Fin (- r)"

definition parse_signed_decimal :: "string \<Rightarrow> jsnum option" where
  "parse_signed_decimal s =
     (if s \<noteq> [] \<and> hd s = CHR ''+'' then parse_unsigned_decimal (tl s)
      else if s \<noteq> [] \<and> hd s = CHR ''-'' then map_option neg_jsnum (parse_unsigned_decimal (tl s))
      else parse_unsigned_decimal s)"

definition parse_non_decimal :: "nat \<Rightarrow> string \<Rightarrow> jsnum option" where
  "parse_non_decimal r ds =
     (if ds = [] then None else map_option (\<lambda>n. Fin (of_nat n)) (radix_val r 0 ds))"

text \<open>StringNumericLiteral: \<open>0x\<close>, \<open>0o\<close>, \<open>0b\<close> integers (unsigned) or a signed decimal.\<close>

fun parse_numeric_literal :: "string \<Rightarrow> jsnum option" where
  "parse_numeric_literal (c0 # c1 # ds) =
     (if c0 = CHR ''0'' \<and> (c1 = CHR ''x'' \<or> c1 = CHR ''X'') then parse_non_decimal 16 ds
      else if c0 = CHR ''0'' \<and> (c1 = CHR ''o'' \<or> c1 = CHR ''O'') then parse_non_decimal 8 ds
      else if c0 = CHR ''0'' \<and> (c1 = CHR ''b'' \<or> c1 = CHR ''B'') then parse_non_decimal 2 ds
      else parse_signed_decimal (c0 # c1 # ds))"
| "parse_numeric_literal s = parse_signed_decimal s"

definition string_to_number :: "string \<Rightarrow> jsnum" where
  "string_to_number s =
     (let t = trim_ws s in
      if t = [] then Fin 0 else (case parse_numeric_literal t of Some n \<Rightarrow> n | None \<Rightarrow> NaN))"

subsection \<open>ToNumber, \<open>isNaN\<close>, comparison with a number\<close>

fun to_number :: "jsval \<Rightarrow> jsnum" where
  "to_number JUndefined = NaN"
| "to_number JNull = Fin 0"
| "to_number (JBool b) = Fin (if b then 1 else 0)"
| "to_number (JNum n) = n"
| "to_number (JStr s) = string_to_number s"

definition is_nan :: "jsval \<Rightarrow> bool" where
  "is_nan v \<longleftrightarrow> to_number v = NaN"

text \<open>\<open>v < q\<close> for a number literal \<open>q\<close>: both sides go through ToNumber, and
  NaN compares false.\<close>

fun jsnum_less_rat :: "jsnum \<Rightarrow> rat \<Rightarrow> bool" where
  "jsnum_less_rat NaN q = False"
| "jsnum_less_rat PosInf q = False"
| "jsnum_less_rat NegInf q = True"
| "jsnum_less_rat (Fin r) q = (r < q)"

definition js_less_num :: "jsval \<Rightarrow> rat \<Rightarrow> bool" where
  "js_less_num v q = jsnum_less_rat (to_number v) q"

subsection \<open>Number arithmetic (IEEE special values)\<close>

fun js_add :: "jsnum \<Rightarrow> jsnum \<Rightarrow> jsnum" where
  "js_add NaN y = NaN"
| "js_add x NaN = NaN"
| "js_add PosInf NegInf = NaN"
| "js_add NegInf PosInf = NaN"
| "js_add PosInf y = PosInf"
| "js_add NegInf y = NegInf"
| "js_add x PosInf = PosInf"
| "js_add x NegInf = NegInf"
| "js_add (Fin a) (Fin b) = Fin (a + b)"

definition js_sub :: "jsnum \<Rightarrow> jsnum \<Rightarrow> jsnum" where
  "js_sub x y = js_add x (neg_jsnum y)"

fun js_sign :: "jsnum \<Rightarrow> int" where
  "js_sign NaN = 0"
| "js_sign PosInf = 1"
| "js_sign NegInf = -1"
| "js_sign (Fin r) = sgn \<lfloor>sgn r\<rfloor>"

definition signed_inf :: "int \<Rightarrow> jsnum" where
  "signed_inf s = (if 0 < s then PosInf else NegInf)"

fun js_mul :: "jsnum \<Rightarrow> jsnum \<Rightarrow> jsnum" where
  "js_mul NaN y = NaN"
| "js_mul x NaN = NaN"
| "js_mul (Fin a) (Fin b) = Fin (a * b)"
| "js_mul x y = (if js_sign x * js_sign y = 0 then NaN else signed_inf (js_sign x * js_sign y))"

text \<open>Division; \<open>x / 0\<close> is \<open>\<plusminus>Infinity\<close> or NaN, zero being positive zero.\<close>

fun js_div :: "jsnum \<Rightarrow> jsnum \<Rightarrow> jsnum" where
  "js_div NaN y = NaN"
| "js_div x NaN = NaN"
| "js_div (Fin a) (Fin b) =
     (if b \<noteq> 0 then Fin (a / b) else if a = 0 then NaN else signed_inf (js_sign (Fin a)))"
| "js_div (Fin a) y = Fin 0"
| "js_div x (Fin b) = signed_inf (js_sign x * (if b = 0 then 1 else js_sign (Fin b)))"
| "js_div x y = NaN"

fun js_ceil :: "jsnum \<Rightarrow> jsnum" where
  "js_ceil (Fin r) = Fin (of_int \<lceil>r\<rceil>)"
| "js_ceil x = x"

subsection \<open>\<open>String.prototype.toLowerCase\<close>\<close>

definition lower_char :: "char \<Rightarrow> char" where
  "lower_char c = (let k = (of_char c :: nat) in if 65 \<le> k \<and> k \<le> 90 then char_of (k + 32) else c)"

definition to_lower :: "string \<Rightarrow> string" where
  "to_lower s = map lower_char s"

text \<open>Calling \<open>v.toLowerCase()\<close> on a value that is not a string throws a TypeError
  (there is no such method on numbers and booleans, and no property access on
  \<open>undefined\<close> or \<open>null\<close>).\<close>

fun js_to_lower :: "jsval \<Rightarrow> js_exn + string" where
  "js_to_lower (JStr s) = Inr (to_lower s)"
| "js_to_lower v = Inl TypeError"

subsection \<open>\<open>Math.floor\<close>, \<open>Math.max\<close>, \<open>Math.min\<close>, \<open>parseInt\<close>\<close>

fun js_floor :: "jsnum \<Rightarrow> jsnum" where
  "js_floor (Fin r) = Fin (of_int \<lfloor>r\<rfloor>)"
| "js_floor x = x"

text \<open>The numeric order on numbers other than NaN.\<close>

fun jsnum_le :: "jsnum \<Rightarrow> jsnum \<Rightarrow> bool" where
  "jsnum_le NaN y = False"
| "jsnum_le x NaN = False"
| "jsnum_le NegInf y = True"
| "jsnum_le x PosInf = True"
| "jsnum_le PosInf y = False"
| "jsnum_le x NegInf = False"
| "jsnum_le (Fin a) (Fin b) = (a \<le> b)"

text \<open>\<open>Math.max\<close> and \<open>Math.min\<close> of two numbers: NaN if either is NaN.\<close>

definition js_max :: "jsnum \<Rightarrow> jsnum \<Rightarrow> jsnum" where
  "js_max x y = (if x = NaN \<or> y = NaN then NaN else if jsnum_le x y then y else x)"

definition js_min :: "jsnum \<Rightarrow> jsnum \<Rightarrow> jsnum" where
  "js_min x y = (if x = NaN \<or> y = NaN then NaN else if jsnum_le x y then x else y)"

text \<open>\<open>parseInt(s)\<close> without a radix: leading white space and a sign are
  skipped, \<open>0x\<close>/\<open>0X\<close> selects base 16, and the longest prefix of digits is
  read; no digit at all gives NaN.\<close>

definition parse_int :: "string \<Rightarrow> jsnum" where
  "parse_int s =
     (let t = dropWhile is_ws s;
          (neg, u) = (case t of c # r \<Rightarrow> if c = CHR ''-'' then (True, r) else if c = CHR ''+'' then (False, r) else (False, t)
                      | [] \<Rightarrow> (False, []));
          (rdx, w) = (if has_prefix ''0x'' u \<or> has_prefix ''0X'' u then (16, drop 2 u) else (10, u));
          ds = takeWhile (\<lambda>c. radix_digit rdx c \<noteq> None) w
      in if ds = [] then NaN
         else (case radix_val rdx 0 ds of Some n \<Rightarrow> Fin (if neg then - of_nat n else of_nat n) | None \<Rightarrow> NaN))"

subsection \<open>\<open>Number()\<close> on digit strings\<close>

lemma is_digit_not_ws: "is_digit c \<Longrightarrow> \<not> is_ws c"
  by (auto simp: is_digit_def is_ws_def)

lemma trim_ws_digits: "list_all is_digit s \<Longrightarrow> trim_ws s = s"
proof -
  assume d: "list_all is_digit s"
  then have "dropWhile is_ws s = s"
    by (cases s) (auto dest: is_digit_not_ws)
  moreover from d have "dropWhile is_ws (rev s) = rev s"
    by (cases "rev s") (auto dest: is_digit_not_ws simp: list_all_iff
        dest!: arg_cong [where f = set] )
  ultimately show ?thesis by (simp add: trim_ws_def)
qed

lemma digits_not_Infinity: "list_all is_digit s \<Longrightarrow> s \<noteq> ''Infinity''"
  by (auto simp: is_digit_def)

lemma parse_unsigned_digits:
  assumes "s \<noteq> []" and "list_all is_digit s"
  shows "parse_unsigned_decimal s = Some (Fin (of_nat (digits_val s)))"
proof -
  from assms(2) have tw: "takeWhile is_digit s = s" and dw: "dropWhile is_digit s = []"
    by (simp_all add: list_all_iff)
  from assms(2) have "s \<noteq> ''Infinity''" by (rule digits_not_Infinity)
  with assms(1) show ?thesis
    by (simp only: parse_unsigned_decimal_def Let_def tw dw) (simp add: scale10_def)
qed

lemma parse_numeric_digits:
  assumes "s \<noteq> []" and "list_all is_digit s"
  shows "parse_numeric_literal s = Some (Fin (of_nat (digits_val s)))"
proof -
  have sd: "parse_signed_decimal s = Some (Fin (of_nat (digits_val s)))"
    using assms by (cases s) (auto simp: parse_signed_decimal_def parse_unsigned_digits is_digit_def)
  show ?thesis
  proof (cases s)
    case Nil
    with assms show ?thesis by simp
  next
    case (Cons c0 t)
    show ?thesis
    proof (cases t)
      case Nil
      with Cons sd show ?thesis by simp
    next
      case (Cons c1 ds)
      with \<open>s = c0 # t\<close> assms(2) have "is_digit c1" by simp
      then have "c1 \<notin> {CHR ''x'', CHR ''X'', CHR ''o'', CHR ''O'', CHR ''b'', CHR ''B''}"
        by (auto simp: is_digit_def)
      with \<open>s = c0 # t\<close> Cons sd show ?thesis by auto
    qed
  qed
qed

lemma string_to_number_digits [js_simps]:
  "s \<noteq> [] \<Longrightarrow> list_all is_digit s \<Longrightarrow> string_to_number s = Fin (of_nat (digits_val s))"
  by (simp add: string_to_number_def trim_ws_digits parse_numeric_digits)

subsection \<open>\<open>trim()\<close> is idempotent\<close>

lemma dropWhile_trailing:
  assumes "t = [] \<or> \<not> P (hd t)"
  shows "dropWhile P (rev (dropWhile P (rev t))) = rev (dropWhile P (rev t))"
proof (cases "rev (dropWhile P (rev t))")
  case (Cons a v)
  have "t = rev (dropWhile P (rev t)) @ rev (takeWhile P (rev t))"
    by (metis rev_append rev_rev_ident takeWhile_dropWhile_id)
  then have "t = a # v @ rev (takeWhile P (rev t))" using Cons by simp
  then have "hd t = a" by (metis list.sel(1))
  with assms Cons show ?thesis by auto
next
  case Nil
  show ?thesis by (simp only: Nil) simp
qed

lemma trim_ws_idem: "trim_ws (trim_ws s) = trim_ws s"
proof -
  let ?t = "dropWhile is_ws s"
  have "?t = [] \<or> \<not> is_ws (hd ?t)" using hd_dropWhile by blast
  then have "dropWhile is_ws (trim_ws s) = trim_ws s"
    unfolding trim_ws_def by (rule dropWhile_trailing)
  then show ?thesis by (simp add: trim_ws_def)
qed

end
