(* ===== verification/ProductModel.thy ===== *)
theory ProductModel
  imports JsValue "HOL-Library.Product_Lexorder"
begin

text \<open>
  The product document of \<open>src/backend/models/Product.js\<close>: its fields, the
  casts Mongoose applies when a value is assigned to them, and the schema's
  validators with their messages. Numbers are stored as \<open>jsnum\<close> (a Number path
  holds any number but NaN, Infinity included); the store orders numbers the way
  MongoDB's BSON comparison does, which is the \<open>linorder\<close> instance below.
  Document identifiers (ObjectIds) are natural numbers, written in URLs as 24
  hexadecimal digits.
\<close>

subsection \<open>BSON order on numbers\<close>

text \<open>MongoDB sorts NaN below every number, then minus infinity, the finite
  numbers, plus infinity.\<close>

fun bson_rank :: "jsnum \<Rightarrow> nat \<times> rat" where
  "bson_rank NaN = (0, 0)"
| "bson_rank NegInf = (1, 0)"
| "bson_rank (Fin r) = (2, r)"
| "bson_rank PosInf = (3, 0)"

lemma bson_rank_inj: "bson_rank x = bson_rank y \<Longrightarrow> x = y"
  by (cases x; cases y) auto

instantiation jsnum :: linorder
begin

definition less_eq_jsnum :: "jsnum \<Rightarrow> jsnum \<Rightarrow> bool" where
  "less_eq_jsnum x y \<longleftrightarrow> bson_rank x \<le> bson_rank y"

definition less_jsnum :: "jsnum \<Rightarrow> jsnum \<Rightarrow> bool" where
  "less_jsnum x y \<longleftrightarrow> bson_rank x < bson_rank y"

instance
  by standard (auto simp: less_eq_jsnum_def less_jsnum_def dest: bson_rank_inj)

end

lemma Fin_le_Fin [simp]: "Fin a \<le> Fin b \<longleftrightarrow> a \<le> b"
  by (simp add: less_eq_jsnum_def)

lemma Fin_less_Fin [simp]: "Fin a < Fin b \<longleftrightarrow> a < b"
  by (simp add: less_jsnum_def)

subsection \<open>ObjectIds\<close>

type_synonym oid = nat

text \<open>Casting a path parameter to an ObjectId: exactly 24 hexadecimal digits,
  otherwise Mongoose throws a CastError.\<close>

definition parse_oid :: "string \<Rightarrow> oid option" where
  "parse_oid s = (if length s = 24 then radix_val 16 0 s else None)"

subsection \<open>The product document\<close>

record product =
  prod_id :: oid
  prod_name :: string
  prod_description :: string
  prod_category :: string
  prod_price :: jsnum
  prod_rating :: jsnum
  prod_image :: string
  prod_stock :: jsnum
  prod_num_reviews :: jsnum
  prod_created_at :: nat
  prod_user :: "oid option"

definition product_categories :: "string list" where
  "product_categories = [''electronics'', ''clothing'', ''books'', ''home'', ''other'']"

subsection \<open>Casts on assignment\<close>

text \<open>A String path stores a string as it is and the string form of a number or a
  boolean. Only integral numbers and the special values are rendered here; the
  decimal form of a non-integral number is outside the model and reported as a
  cast failure.\<close>

definition int_string :: "int \<Rightarrow> string" where
  "int_string i = (if i < 0 then CHR ''-'' # dec_string (nat (- i)) else dec_string (nat i))"

fun number_string :: "jsnum \<Rightarrow> string option" where
  "number_string NaN = Some ''NaN''"
| "number_string PosInf = Some ''Infinity''"
| "number_string NegInf = Some ''-Infinity''"
| "number_string (Fin r) = (if r = of_int \<lfloor>r\<rfloor> then Some (int_string \<lfloor>r\<rfloor>) else None)"

fun cast_string :: "jsval \<Rightarrow> string option" where
  "cast_string (JStr s) = Some s"
| "cast_string (JBool b) = Some (if b then ''true'' else ''false'')"
| "cast_string (JNum n) = number_string n"
| "cast_string v = None"

text \<open>The \<open>trim: true\<close> option of the name path is a setter.\<close>

definition set_name :: "string \<Rightarrow> string" where
  "set_name s = trim_ws s"

subsection \<open>Validators\<close>

text \<open>One error per failing path, in schema order, as Mongoose reports them; a path
  stops at its first failing validator (required before maxlength).\<close>

definition check_path :: "string \<Rightarrow> (bool \<times> string) list \<Rightarrow> (string \<times> string) list" where
  "check_path path vs = (case filter (\<lambda>(ok, msg). \<not> ok) vs of [] \<Rightarrow> [] | (_, msg) # _ \<Rightarrow> [(path, msg)])"

fun min_ok :: "rat \<Rightarrow> jsnum \<Rightarrow> bool" where
  "min_ok m NaN = False"
| "min_ok m NegInf = False"
| "min_ok m PosInf = True"
| "min_ok m (Fin r) = (m \<le> r)"

fun max_ok :: "rat \<Rightarrow> jsnum \<Rightarrow> bool" where
  "max_ok m NaN = False"
| "max_ok m NegInf = True"
| "max_ok m PosInf = False"
| "max_ok m (Fin r) = (r \<le> m)"

definition enum_message :: "string \<Rightarrow> string" where
  "enum_message v = CHR ''`'' # v @ ''` is not a valid enum value for path `category`.''"

text \<open>The validators of each path, in schema order, with their messages.\<close>

definition name_checks :: "string \<Rightarrow> (bool \<times> string) list" where
  "name_checks s = [(s \<noteq> [], ''Please provide a product name''),
                    (length s \<le> 100, ''Name cannot be more than 100 characters'')]"

definition description_checks :: "string \<Rightarrow> (bool \<times> string) list" where
  "description_checks s = [(s \<noteq> [], ''Please provide a product description''),
                           (length s \<le> 1000, ''Description cannot be more than 1000 characters'')]"

definition category_checks :: "string \<Rightarrow> (bool \<times> string) list" where
  "category_checks c = [(c \<noteq> [], ''Please provide a product category''),
                        (c \<in> set product_categories, enum_message c)]"

definition price_checks :: "jsnum \<Rightarrow> (bool \<times> string) list" where
  "price_checks x = [(min_ok 0 x, ''Price cannot be negative'')]"

definition rating_checks :: "jsnum \<Rightarrow> (bool \<times> string) list" where
  "rating_checks x = [(min_ok 0 x, ''Rating must be at least 0''), (max_ok 5 x, ''Rating cannot be more than 5'')]"

definition image_checks :: "string \<Rightarrow> (bool \<times> string) list" where
  "image_checks s = [(s \<noteq> [], ''Please provide a product image'')]"

definition stock_checks :: "jsnum \<Rightarrow> (bool \<times> string) list" where
  "stock_checks x = [(min_ok 0 x, ''Stock cannot be negative'')]"

definition product_errors :: "product \<Rightarrow> (string \<times> string) list" where
  "product_errors p =
     check_path ''name'' (name_checks (prod_name p))
   @ check_path ''description'' (description_checks (prod_description p))
   @ check_path ''category'' (category_checks (prod_category p))
   @ check_path ''price'' (price_checks (prod_price p))
   @ check_path ''rating'' (rating_checks (prod_rating p))
   @ check_path ''image'' (image_checks (prod_image p))
   @ check_path ''stock'' (stock_checks (prod_stock p))"

lemmas path_checks = name_checks_def description_checks_def category_checks_def price_checks_def
  rating_checks_def image_checks_def stock_checks_def

text \<open>The schema invariant: what every stored product satisfies.\<close>

definition product_valid :: "product \<Rightarrow> bool" where
  "product_valid p \<longleftrightarrow> product_errors p = []"

lemma check_path_Nil [simp]: "check_path path vs = [] \<longleftrightarrow> list_all fst vs"
  by (induction vs) (auto simp: check_path_def split: list.splits)

lemma product_valid_iff:
  "product_valid p \<longleftrightarrow>
     prod_name p \<noteq> [] \<and> length (prod_name p) \<le> 100 \<and>
     prod_description p \<noteq> [] \<and> length (prod_description p) \<le> 1000 \<and>
     prod_category p \<in> set product_categories \<and>
     min_ok 0 (prod_price p) \<and> min_ok 0 (prod_rating p) \<and> max_ok 5 (prod_rating p) \<and>
     prod_image p \<noteq> [] \<and> min_ok 0 (prod_stock p)"
  by (auto simp: product_valid_def product_errors_def path_checks product_categories_def)

end
