(* ===== verification/Store.thy ===== *)
theory Store
  imports ProductModel
begin

text \<open>
  The document store the handlers call through Mongoose. The database is an
  external collaborator: its semantics here is taken from the MongoDB and
  Mongoose documentation, not from this repository. A collection is a list in
  insertion order; a query is the filter object the handler builds; \<open>sort\<close> is a
  stable sort on one key (ties keep insertion order, where MongoDB leaves them
  unspecified); \<open>skip\<close> must be a non-negative integer and \<open>limit\<close> an integer
  (0 means no limit, a negative limit its absolute value), anything else is a
  server-side error. The regular-expression engine of \<open>$regex\<close> is a parameter
  \<open>rx\<close> (pattern, then subject) of every query.
  The user model (\<open>src/backend/models/User.js\<close> is not part of the sources) is
  modelled from the spec: email, password hash, role and a unique index on email.
\<close>

datatype store_error = CastError | ValidationError "(string \<times> string) list" | BadValue | DuplicateKey

type_synonym regex_engine = "string \<Rightarrow> string \<Rightarrow> bool"

subsection \<open>Users\<close>

datatype role = RoleUser | RoleAdmin

text \<open>The bcrypt hash of a password, kept as an opaque value: only a password equal
  to the one hashed compares equal.\<close>

datatype pw_hash = Bcrypt string

record user =
  user_id :: oid
  user_email :: string
  user_password :: pw_hash
  user_role :: role
  user_created_at :: nat

definition compare_password :: "user \<Rightarrow> string \<Rightarrow> bool" where
  "compare_password u pw \<longleftrightarrow> user_password u = Bcrypt pw"

record db =
  db_users :: "user list"
  db_products :: "product list"
  db_next_id :: oid

definition find_user_by_email :: "string \<Rightarrow> db \<Rightarrow> user option" where
  "find_user_by_email e d = find (\<lambda>u. user_email u = e) (db_users d)"

definition find_user_by_id :: "oid \<Rightarrow> db \<Rightarrow> user option" where
  "find_user_by_id i d = find (\<lambda>u. user_id u = i) (db_users d)"

text \<open>\<open>user.save()\<close>: the pre-save hook hashes the password; the unique index on
  email rejects a second user with the same email.\<close>

definition save_user :: "string \<Rightarrow> string \<Rightarrow> role \<Rightarrow> nat \<Rightarrow> db \<Rightarrow> store_error + (user \<times> db)" where
  "save_user e pw r now d =
     (if find_user_by_email e d \<noteq> None then Inl DuplicateKey
      else (let u = \<lparr>user_id = db_next_id d, user_email = e, user_password = Bcrypt pw,
                     user_role = r, user_created_at = now\<rparr>
            in Inr (u, d\<lparr>db_users := db_users d @ [u], db_next_id := Suc (db_next_id d)\<rparr>)))"

subsection \<open>Product queries\<close>

text \<open>The filter object built by \<open>GET /api/products\<close>: \<open>category\<close>, \<open>price\<close> with
  optional \<open>$gte\<close> and \<open>$lte\<close>, \<open>rating.$gte\<close>, and the \<open>$or\<close> of two
  case-insensitive \<open>$regex\<close> conditions.\<close>

record product_query =
  pq_category :: "string option"
  pq_price :: "(jsnum option \<times> jsnum option) option"
  pq_rating :: "jsnum option"
  pq_search :: "string option"

text \<open>\<open>$gte\<close> and \<open>$lte\<close> on numbers in BSON order; NaN as a bound matches only NaN.\<close>

definition mongo_gte :: "jsnum \<Rightarrow> jsnum \<Rightarrow> bool" where
  "mongo_gte x b \<longleftrightarrow> (if b = NaN then x = NaN else x \<noteq> NaN \<and> b \<le> x)"

definition mongo_lte :: "jsnum \<Rightarrow> jsnum \<Rightarrow> bool" where
  "mongo_lte x b \<longleftrightarrow> (if b = NaN then x = NaN else x \<noteq> NaN \<and> x \<le> b)"

definition opt_bound :: "(jsnum \<Rightarrow> jsnum \<Rightarrow> bool) \<Rightarrow> jsnum option \<Rightarrow> jsnum \<Rightarrow> bool" where
  "opt_bound cmp b x = (case b of None \<Rightarrow> True | Some v \<Rightarrow> cmp x v)"

definition query_matches :: "regex_engine \<Rightarrow> product_query \<Rightarrow> product \<Rightarrow> bool" where
  "query_matches rx q p \<longleftrightarrow>
     (case pq_category q of None \<Rightarrow> True | Some c \<Rightarrow> prod_category p = c) \<and>
     (case pq_price q of None \<Rightarrow> True
      | Some (lo, hi) \<Rightarrow> opt_bound mongo_gte lo (prod_price p) \<and> opt_bound mongo_lte hi (prod_price p)) \<and>
     opt_bound mongo_gte (pq_rating q) (prod_rating p) \<and>
     (case pq_search q of None \<Rightarrow> True
      | Some s \<Rightarrow> rx s (prod_name p) \<or> rx s (prod_description p))"

datatype sort_field = SortPrice | SortCreatedAt | SortRating

datatype sort_dir = Asc | Desc

fun sort_value :: "sort_field \<Rightarrow> product \<Rightarrow> jsnum" where
  "sort_value SortPrice p = prod_price p"
| "sort_value SortCreatedAt p = Fin (of_nat (prod_created_at p))"
| "sort_value SortRating p = prod_rating p"

text \<open>A stable sort on one key; descending keeps ties in insertion order too.\<close>

fun apply_sort :: "sort_field \<times> sort_dir \<Rightarrow> product list \<Rightarrow> product list" where
  "apply_sort (f, Asc) ps = sort_key (sort_value f) ps"
| "apply_sort (f, Desc) ps = rev (sort_key (sort_value f) (rev ps))"

definition cast_skip :: "jsnum \<Rightarrow> nat option" where
  "cast_skip n = (case n of Fin r \<Rightarrow> if r = of_int \<lfloor>r\<rfloor> \<and> 0 \<le> r then Some (nat \<lfloor>r\<rfloor>) else None | _ \<Rightarrow> None)"

definition cast_limit :: "jsval \<Rightarrow> int option" where
  "cast_limit v = (case to_number v of Fin r \<Rightarrow> if r = of_int \<lfloor>r\<rfloor> then Some \<lfloor>r\<rfloor> else None | _ \<Rightarrow> None)"

definition take_limit :: "int \<Rightarrow> 'a list \<Rightarrow> 'a list" where
  "take_limit l xs = (if l = 0 then xs else take (nat \<bar>l\<bar>) xs)"

definition matching :: "regex_engine \<Rightarrow> product_query \<Rightarrow> db \<Rightarrow> product list" where
  "matching rx q d = filter (query_matches rx q) (db_products d)"

text \<open>\<open>Product.find(query).sort(..).skip(..).limit(..)\<close>.\<close>

definition store_find ::
  "regex_engine \<Rightarrow> product_query \<Rightarrow> sort_field \<times> sort_dir \<Rightarrow> jsnum \<Rightarrow> jsval \<Rightarrow> db \<Rightarrow> store_error + product list" where
  "store_find rx q so sk lm d =
     (case (cast_skip sk, cast_limit lm) of
        (Some s, Some l) \<Rightarrow> Inr (take_limit l (drop s (apply_sort so (matching rx q d))))
      | _ \<Rightarrow> Inl BadValue)"

text \<open>\<open>Product.countDocuments(query)\<close>.\<close>

definition store_count :: "regex_engine \<Rightarrow> product_query \<Rightarrow> db \<Rightarrow> nat" where
  "store_count rx q d = length (matching rx q d)"

subsection \<open>Products by identifier\<close>

definition find_product :: "oid \<Rightarrow> db \<Rightarrow> product option" where
  "find_product i d = find (\<lambda>p. prod_id p = i) (db_products d)"

text \<open>\<open>Product.findById(id)\<close>: the string is cast first.\<close>

definition store_find_by_id :: "string \<Rightarrow> db \<Rightarrow> store_error + product option" where
  "store_find_by_id s d = (case parse_oid s of None \<Rightarrow> Inl CastError | Some i \<Rightarrow> Inr (find_product i d))"

text \<open>\<open>Product.findByIdAndDelete(id)\<close>: the deleted document, if there was one.\<close>

definition store_delete_by_id :: "string \<Rightarrow> db \<Rightarrow> store_error + (product option \<times> db)" where
  "store_delete_by_id s d =
     (case parse_oid s of None \<Rightarrow> Inl CastError
      | Some i \<Rightarrow> Inr (find_product i d, d\<lparr>db_products := filter (\<lambda>p. prod_id p \<noteq> i) (db_products d)\<rparr>))"

text \<open>\<open>new Product(fields).save()\<close>: the new document gets the next ObjectId and the
  current time, the String paths are cast, and the validators run before the write.\<close>

record product_fields =
  pf_name :: jsval
  pf_description :: jsval
  pf_price :: jsnum
  pf_category :: string
  pf_image :: jsval
  pf_stock :: jsnum
  pf_rating :: jsnum
  pf_num_reviews :: jsnum

definition cast_errors :: "(string \<times> string option) list \<Rightarrow> (string \<times> string) list" where
  "cast_errors ps = map (\<lambda>(path, _). (path, ''Cast to string failed'')) (filter (\<lambda>(_, v). v = None) ps)"

definition new_product :: "product_fields \<Rightarrow> nat \<Rightarrow> db \<Rightarrow> product" where
  "new_product f now d =
     \<lparr>prod_id = db_next_id d,
      prod_name = set_name (case cast_string (pf_name f) of Some s \<Rightarrow> s | None \<Rightarrow> []),
      prod_description = (case cast_string (pf_description f) of Some s \<Rightarrow> s | None \<Rightarrow> []),
      prod_category = pf_category f, prod_price = pf_price f, prod_rating = pf_rating f,
      prod_image = (case cast_string (pf_image f) of Some s \<Rightarrow> s | None \<Rightarrow> []),
      prod_stock = pf_stock f, prod_num_reviews = pf_num_reviews f,
      prod_created_at = now, prod_user = None\<rparr>"

definition fields_cast_errors :: "product_fields \<Rightarrow> (string \<times> string) list" where
  "fields_cast_errors f =
     cast_errors [(''name'', cast_string (pf_name f)), (''description'', cast_string (pf_description f)),
                  (''image'', cast_string (pf_image f))]"

definition store_create :: "product_fields \<Rightarrow> nat \<Rightarrow> db \<Rightarrow> store_error + (product \<times> db)" where
  "store_create f now d =
     (let p = new_product f now d;
          errs = fields_cast_errors f @ product_errors p
      in if errs \<noteq> [] then Inl (ValidationError errs)
         else Inr (p, d\<lparr>db_products := db_products d @ [p], db_next_id := Suc (db_next_id d)\<rparr>))"

text \<open>\<open>Product.findByIdAndUpdate(id, updateData, {new: true, runValidators: true})\<close>.
  Mongoose casts the id and the update first (a CastError), then runs the update
  validators of the paths being set, and only
  then looks the document up; the updated document is returned.\<close>

record product_update =
  pu_name :: "jsval option"
  pu_description :: "jsval option"
  pu_category :: "string option"
  pu_price :: "jsnum option"
  pu_stock :: "jsnum option"
  pu_image :: "jsval option"

record product_patch =
  pp_name :: "string option"
  pp_description :: "string option"
  pp_category :: "string option"
  pp_price :: "jsnum option"
  pp_stock :: "jsnum option"
  pp_image :: "string option"

definition cast_field :: "jsval option \<Rightarrow> string option option" where
  "cast_field v = (case v of None \<Rightarrow> Some None | Some x \<Rightarrow> map_option Some (cast_string x))"

definition cast_update :: "product_update \<Rightarrow> product_patch option" where
  "cast_update u =
     (case (cast_field (pu_name u), cast_field (pu_description u), cast_field (pu_image u)) of
        (Some n, Some de, Some im) \<Rightarrow>
          Some \<lparr>pp_name = map_option set_name n, pp_description = de, pp_category = pu_category u,
                pp_price = pu_price u, pp_stock = pu_stock u, pp_image = im\<rparr>
      | _ \<Rightarrow> None)"

text \<open>The update validators run the validators of every path the update sets,
  \<open>required\<close> included (an empty string fails it), and skip the others.\<close>

definition opt_path :: "string \<Rightarrow> ('a \<Rightarrow> (bool \<times> string) list) \<Rightarrow> 'a option \<Rightarrow> (string \<times> string) list" where
  "opt_path path checks v = (case v of Some x \<Rightarrow> check_path path (checks x) | None \<Rightarrow> [])"

definition patch_errors :: "product_patch \<Rightarrow> (string \<times> string) list" where
  "patch_errors u =
     opt_path ''name'' name_checks (pp_name u)
   @ opt_path ''description'' description_checks (pp_description u)
   @ opt_path ''category'' category_checks (pp_category u)
   @ opt_path ''price'' price_checks (pp_price u)
   @ opt_path ''stock'' stock_checks (pp_stock u)
   @ opt_path ''image'' image_checks (pp_image u)"

definition apply_patch :: "product_patch \<Rightarrow> product \<Rightarrow> product" where
  "apply_patch u p =
     p\<lparr>prod_name := case_option (prod_name p) id (pp_name u),
       prod_description := case_option (prod_description p) id (pp_description u),
       prod_category := case_option (prod_category p) id (pp_category u),
       prod_price := case_option (prod_price p) id (pp_price u),
       prod_stock := case_option (prod_stock p) id (pp_stock u),
       prod_image := case_option (prod_image p) id (pp_image u)\<rparr>"

definition store_update_by_id ::
  "string \<Rightarrow> product_update \<Rightarrow> db \<Rightarrow> store_error + (product option \<times> db)" where
  "store_update_by_id s u d =
     (case (parse_oid s, cast_update u) of
        (Some i, Some pt) \<Rightarrow>
          (if patch_errors pt \<noteq> [] then Inl (ValidationError (patch_errors pt))
           else (case find_product i d of
                   None \<Rightarrow> Inr (None, d)
                 | Some p \<Rightarrow>
                     Inr (Some (apply_patch pt p),
                          d\<lparr>db_products := map (\<lambda>q. if prod_id q = i then apply_patch pt q else q) (db_products d)\<rparr>)))
      | _ \<Rightarrow> Inl CastError)"

text \<open>Bounds with a finite number: \<open>$gte\<close> is the BSON order, \<open>$lte\<close> the BSON
  order without NaN.\<close>

lemma mongo_gte_Fin [simp]: "mongo_gte x (Fin a) \<longleftrightarrow> Fin a \<le> x"
  by (cases x) (auto simp: mongo_gte_def less_eq_jsnum_def)

lemma mongo_lte_Fin [simp]: "mongo_lte x (Fin a) \<longleftrightarrow> x \<noteq> NaN \<and> x \<le> Fin a"
  by (simp add: mongo_lte_def)

lemma length_apply_sort [simp]: "length (apply_sort so ps) = length ps"
  by (cases so; cases "snd so") auto

lemma opt_path_Nil [simp]: "opt_path path checks v = [] \<longleftrightarrow> (\<forall>x. v = Some x \<longrightarrow> list_all fst (checks x))"
  by (cases v) (simp_all add: opt_path_def)

text \<open>An update that passes the update validators keeps a valid document valid.\<close>

lemma product_valid_apply_patch:
  assumes "product_valid p" and "patch_errors pt = []"
  shows "product_valid (apply_patch pt p)"
  using assms unfolding product_valid_def product_errors_def patch_errors_def apply_patch_def
  by (simp split: option.splits)

lemma store_update_valid:
  assumes "store_update_by_id s u d = Inr (r, d')" and "list_all product_valid (db_products d)"
  shows "list_all product_valid (db_products d')"
  using assms product_valid_apply_patch
  by (auto simp: store_update_by_id_def list_all_iff split: option.splits if_splits)

lemma store_create_valid:
  assumes "store_create f now d = Inr (p, d')" and "list_all product_valid (db_products d)"
  shows "list_all product_valid (db_products d')"
  using assms by (auto simp: store_create_def product_valid_def Let_def split: if_splits)

lemma store_delete_valid:
  assumes "store_delete_by_id s d = Inr (r, d')" and "list_all product_valid (db_products d)"
  shows "list_all product_valid (db_products d')"
  using assms by (auto simp: store_delete_by_id_def list_all_iff split: option.splits)

text \<open>A regular-expression engine for patterns without metacharacters, where a
  case-insensitive \<open>$regex\<close> is a case-insensitive substring test. It is the
  engine the example computations use; the theorems hold for every engine.\<close>

fun contains_at :: "string \<Rightarrow> string \<Rightarrow> bool" where
  "contains_at p [] = has_prefix p []"
| "contains_at p (x # s) = (has_prefix p (x # s) \<or> contains_at p s)"

definition literal_regex_i :: regex_engine where
  "literal_regex_i pat s = contains_at (to_lower pat) (to_lower s)"

end
