(* ===== verification/Http.thy ===== *)
theory Http
  imports Store
begin

text \<open>
  The response envelope every handler of \<open>src/backend/routes\<close> sends:
  \<open>res.status(code).json({success, ...})\<close>. A response is its status code, the
  \<open>Authorization\<close> header when the handler sets one, and the JSON body, one
  constructor per body shape the handlers build. Express adds two: its HTML
  404 page and the \<open>{message}\<close> object of the final error handler of
  \<open>server.js\<close>, the one body without \<open>success\<close>.
\<close>

text \<open>The user as it leaves the server: \<open>{id, email, role}\<close> in the token
  responses, the document without its password from \<open>/verify\<close>.\<close>

record user_view =
  uv_id :: oid
  uv_email :: string
  uv_role :: role

record user_public =
  up_id :: oid
  up_email :: string
  up_role :: role
  up_created_at :: nat

datatype body =
    ErrorBody string
  | ErrorDetailBody string string
  | ProductsBody nat nat jsnum jsval "product list"
  | ProductBody product
  | AuthBody string user_view
  | UserBody user_public
  | EmptyBody
  | HtmlBody string
  | MessageBody string

datatype response = Response (resp_status: nat) (resp_header: "string option") (resp_body: body)

fun body_success :: "body \<Rightarrow> bool" where
  "body_success (ErrorBody m) = False"
| "body_success (ErrorDetailBody m e) = False"
| "body_success (HtmlBody h) = False"
| "body_success (MessageBody m) = False"
| "body_success b = True"

definition resp_success :: "response \<Rightarrow> bool" where
  "resp_success r = body_success (resp_body r)"

definition fail :: "nat \<Rightarrow> string \<Rightarrow> response" where
  "fail code msg = Response code None (ErrorBody msg)"

definition ok :: "nat \<Rightarrow> body \<Rightarrow> response" where
  "ok code b = Response code None b"

definition view_user :: "user \<Rightarrow> user_view" where
  "view_user u = \<lparr>uv_id = user_id u, uv_email = user_email u, uv_role = user_role u\<rparr>"

definition public_user :: "user \<Rightarrow> user_public" where
  "public_user u = \<lparr>up_id = user_id u, up_email = user_email u, up_role = user_role u,
                    up_created_at = user_created_at u\<rparr>"

lemma fail_simps [simp]:
  "resp_status (fail c m) = c" "resp_success (fail c m) = False" "resp_body (fail c m) = ErrorBody m"
  by (simp_all add: fail_def resp_success_def)

lemma ok_simps [simp]:
  "resp_status (ok c b) = c" "resp_body (ok c b) = b"
  by (simp_all add: ok_def)

end
