(* ===== verification/ProductQuery.thy ===== *)
theory ProductQuery
  imports Http
begin

text \<open>
  \<open>GET /api/products\<close> (\<open>src/backend/routes/products.js\<close>, the handler of
  \<open>router.get('/')\<close>): the query string's parameters become a filter object, a
  one-key sort and a skip/limit pair; the response carries the page of products,
  its length, the number of matching products and \<open>Math.ceil(total / limit)\<close>.
  Query-string values are strings or absent (\<open>string option\<close>); \<open>page\<close> and
  \<open>limit\<close> default to the numbers 1 and 10 only when absent.
\<close>

record list_params =
  lp_category :: "string option"
  lp_minPrice :: "string option"
  lp_maxPrice :: "string option"
  lp_minRating :: "string option"
  lp_search :: "string option"
  lp_sort :: "string option"
  lp_page :: "string option"
  lp_limit :: "string option"

text \<open>A query-string value as JavaScript sees it.\<close>

definition qv :: "string option \<Rightarrow> jsval" where
  "qv v = (case v of None \<Rightarrow> JUndefined | Some s \<Rightarrow> JStr s)"

definition present :: "string option \<Rightarrow> bool" where
  "present v \<longleftrightarrow> truthy (qv v)"

definition the_str :: "string option \<Rightarrow> string" where
  "the_str v = (case v of None \<Rightarrow> [] | Some s \<Rightarrow> s)"

subsection \<open>The filter object\<close>

definition build_query :: "list_params \<Rightarrow> product_query" where
  "build_query lp =
     \<lparr>pq_category = (if present (lp_category lp) then Some (to_lower (the_str (lp_category lp))) else None),
      pq_price =
        (if present (lp_minPrice lp) \<or> present (lp_maxPrice lp) then
           Some (if present (lp_minPrice lp) then Some (to_number (qv (lp_minPrice lp))) else None,
                 if present (lp_maxPrice lp) then Some (to_number (qv (lp_maxPrice lp))) else None)
         else None),
      pq_rating = (if present (lp_minRating lp) then Some (to_number (qv (lp_minRating lp))) else None),
      pq_search = (if present (lp_search lp) then Some (the_str (lp_search lp)) else None)\<rparr>"

subsection \<open>The sort\<close>

definition sort_switch :: "string \<Rightarrow> sort_field \<times> sort_dir" where
  "sort_switch v =
     (if v = ''price-asc'' then (SortPrice, Asc)
      else if v = ''price-desc'' then (SortPrice, Desc)
      else if v = ''newest'' then (SortCreatedAt, Desc)
      else if v = ''oldest'' then (SortCreatedAt, Asc)
      else if v = ''rating-desc'' then (SortRating, Desc)
      else if v = ''rating-asc'' then (SortRating, Asc)
      else (SortCreatedAt, Desc))"

definition sort_options :: "string option \<Rightarrow> sort_field \<times> sort_dir" where
  "sort_options s = (if present s then sort_switch (the_str s) else (SortCreatedAt, Desc))"

subsection \<open>Paging and the handler\<close>

definition page_param :: "list_params \<Rightarrow> jsval" where
  "page_param lp = (case lp_page lp of None \<Rightarrow> JNum (Fin 1) | Some s \<Rightarrow> JStr s)"

definition limit_param :: "list_params \<Rightarrow> jsval" where
  "limit_param lp = (case lp_limit lp of None \<Rightarrow> JNum (Fin 10) | Some s \<Rightarrow> JStr s)"

definition skip_value :: "jsval \<Rightarrow> jsval \<Rightarrow> jsnum" where
  "skip_value page limit = js_mul (js_sub (to_number page) (Fin 1)) (to_number limit)"

definition total_pages :: "nat \<Rightarrow> jsval \<Rightarrow> jsnum" where
  "total_pages cnt limit = js_ceil (js_div (Fin (of_nat cnt)) (to_number limit))"

definition get_products :: "regex_engine \<Rightarrow> list_params \<Rightarrow> db \<Rightarrow> response" where
  "get_products rx lp d =
     (let page = page_param lp; limit = limit_param lp;
          q = build_query lp; so = sort_options (lp_sort lp)
      in case store_find rx q so (skip_value page limit) limit d of
           Inl e \<Rightarrow> fail 500 ''Server error''
         | Inr ps \<Rightarrow>
             (let cnt = store_count rx q d
              in ok 200 (ProductsBody (length ps) cnt (total_pages cnt limit) page ps)))"

subsection \<open>The filter, parameter by parameter\<close>

lemma present_to_number [simp]: "present v \<Longrightarrow> to_number (qv v) = string_to_number (the_str v)"
  by (cases v) (simp_all add: qv_def present_def the_str_def)

lemma present_iff: "present v \<longleftrightarrow> v \<noteq> None \<and> v \<noteq> Some []"
  by (cases v) (simp_all add: qv_def present_def)

text \<open>What \<open>query_matches\<close> of the built filter says of a product: each supplied
  parameter constrains its field, an omitted or empty one constrains nothing.\<close>

lemma query_matches_build_query:
  "query_matches rx (build_query lp) p \<longleftrightarrow>
     (present (lp_category lp) \<longrightarrow> prod_category p = to_lower (the_str (lp_category lp))) \<and>
     (present (lp_minPrice lp) \<longrightarrow> mongo_gte (prod_price p) (string_to_number (the_str (lp_minPrice lp)))) \<and>
     (present (lp_maxPrice lp) \<longrightarrow> mongo_lte (prod_price p) (string_to_number (the_str (lp_maxPrice lp)))) \<and>
     (present (lp_minRating lp) \<longrightarrow> mongo_gte (prod_rating p) (string_to_number (the_str (lp_minRating lp)))) \<and>
     (present (lp_search lp) \<longrightarrow>
        rx (the_str (lp_search lp)) (prod_name p) \<or> rx (the_str (lp_search lp)) (prod_description p))"
  by (simp add: query_matches_def build_query_def opt_bound_def)

subsection \<open>Shape of the response\<close>

lemma store_find_Inr:
  "store_find rx q so sk lm d = Inr ps \<longleftrightarrow>
     (\<exists>s l. cast_skip sk = Some s \<and> cast_limit lm = Some l \<and>
            ps = take_limit l (drop s (apply_sort so (matching rx q d))))"
  by (auto simp: store_find_def split: option.splits)

lemma get_products_ProductsBody:
  "resp_body (get_products rx lp d) = ProductsBody c t tp cp ps \<longleftrightarrow>
     store_find rx (build_query lp) (sort_options (lp_sort lp))
       (skip_value (page_param lp) (limit_param lp)) (limit_param lp) d = Inr ps \<and>
     c = length ps \<and> t = store_count rx (build_query lp) d \<and>
     tp = total_pages t (limit_param lp) \<and> cp = page_param lp"
  by (auto simp: get_products_def Let_def split: sum.splits)

lemma get_products_cases:
  "get_products rx lp d = fail 500 ''Server error'' \<or>
   (\<exists>ps. get_products rx lp d =
      ok 200 (ProductsBody (length ps) (store_count rx (build_query lp) d)
        (total_pages (store_count rx (build_query lp) d) (limit_param lp)) (page_param lp) ps))"
  by (auto simp: get_products_def Let_def split: sum.splits)

subsection \<open>Sorted pages\<close>

fun sorted_for :: "sort_field \<times> sort_dir \<Rightarrow> product list \<Rightarrow> bool" where
  "sorted_for (f, Asc) ps = sorted (map (sort_value f) ps)"
| "sorted_for (f, Desc) ps = sorted_wrt (\<ge>) (map (sort_value f) ps)"

lemma sorted_for_apply_sort: "sorted_for so (apply_sort so ps)"
  by (cases so; cases "snd so") (auto simp: rev_map [symmetric] sorted_wrt_rev)

lemma sorted_for_drop: "sorted_for so ps \<Longrightarrow> sorted_for so (drop n ps)"
  by (cases so; cases "snd so") (auto simp: drop_map [symmetric] sorted_wrt_drop)

lemma sorted_for_take_limit: "sorted_for so ps \<Longrightarrow> sorted_for so (take_limit l ps)"
  by (cases so; cases "snd so") (auto simp: take_limit_def take_map [symmetric] sorted_wrt_take)

lemma set_apply_sort [simp]: "set (apply_sort so ps) = set ps"
  by (cases so; cases "snd so") auto

lemma apply_sort_Nil_iff [simp]: "apply_sort so ps = [] \<longleftrightarrow> ps = []"
  by (metis length_0_conv length_apply_sort)

lemma mset_apply_sort [simp]: "mset (apply_sort so ps) = mset ps"
  by (cases so; cases "snd so") (auto simp: mset_rev)

lemma store_find_page:
  assumes "store_find rx q so sk lm d = Inr ps"
  obtains s l where "ps = take_limit l (drop s (apply_sort so (matching rx q d)))"
  using assms by (auto simp: store_find_Inr)

lemma store_find_sorted: "store_find rx q so sk lm d = Inr ps \<Longrightarrow> sorted_for so ps"
  by (erule store_find_page) (simp add: sorted_for_take_limit sorted_for_drop sorted_for_apply_sort)

lemma set_take_limit: "set (take_limit l xs) \<subseteq> set xs"
  by (auto simp: take_limit_def dest: in_set_takeD)

lemma store_find_subset: "store_find rx q so sk lm d = Inr ps \<Longrightarrow> set ps \<subseteq> set (matching rx q d)"
proof (erule store_find_page)
  fix s l
  assume "ps = take_limit l (drop s (apply_sort so (matching rx q d)))"
  then have "set ps \<subseteq> set (drop s (apply_sort so (matching rx q d)))"
    by (simp add: set_take_limit)
  also have "\<dots> \<subseteq> set (matching rx q d)"
    by (metis set_apply_sort set_drop_subset)
  finally show ?thesis .
qed

lemmas listing_facts = get_products_ProductsBody store_find_sorted store_find_subset

subsection \<open>Example data\<close>

text \<open>A product and a store to evaluate the handlers on.\<close>

definition sample_product :: "oid \<Rightarrow> string \<Rightarrow> rat \<Rightarrow> nat \<Rightarrow> product" where
  "sample_product i c pr t =
     \<lparr>prod_id = i, prod_name = ''Desk lamp'', prod_description = ''An adjustable lamp'',
      prod_category = c, prod_price = Fin pr, prod_rating = Fin 0, prod_image = ''lamp.png'',
      prod_stock = Fin 3, prod_num_reviews = Fin 0, prod_created_at = t, prod_user = None\<rparr>"

definition sample_db :: "product list \<Rightarrow> db" where
  "sample_db ps = \<lparr>db_users = [], db_products = ps, db_next_id = 100\<rparr>"

definition no_params :: list_params where
  "no_params = \<lparr>lp_category = None, lp_minPrice = None, lp_maxPrice = None, lp_minRating = None,
                 lp_search = None, lp_sort = None, lp_page = None, lp_limit = None\<rparr>"

subsection \<open>Filtering\<close>

text \<open>C1: every product of a listing is a stored product that satisfies each
  supplied parameter; a parameter that is absent or empty does not constrain.\<close>

theorem get_products_filter_sound:
  assumes "resp_body (get_products rx lp d) = ProductsBody c t tp cp ps" and "p \<in> set ps"
  shows "p \<in> set (db_products d) \<and>
     (present (lp_category lp) \<longrightarrow> prod_category p = to_lower (the_str (lp_category lp))) \<and>
     (present (lp_minPrice lp) \<longrightarrow> mongo_gte (prod_price p) (string_to_number (the_str (lp_minPrice lp)))) \<and>
     (present (lp_maxPrice lp) \<longrightarrow> mongo_lte (prod_price p) (string_to_number (the_str (lp_maxPrice lp)))) \<and>
     (present (lp_minRating lp) \<longrightarrow> mongo_gte (prod_rating p) (string_to_number (the_str (lp_minRating lp)))) \<and>
     (present (lp_search lp) \<longrightarrow>
        rx (the_str (lp_search lp)) (prod_name p) \<or> rx (the_str (lp_search lp)) (prod_description p))"
proof -
  from assms(1) have "store_find rx (build_query lp) (sort_options (lp_sort lp))
       (skip_value (page_param lp) (limit_param lp)) (limit_param lp) d = Inr ps"
    by (simp add: get_products_ProductsBody)
  then have "set ps \<subseteq> set (matching rx (build_query lp) d)"
    by (rule store_find_subset)
  with assms(2) have "p \<in> set (db_products d)" and "query_matches rx (build_query lp) p"
    by (auto simp: matching_def)
  then show ?thesis by (simp add: query_matches_build_query)
qed

lemma get_products_example_1:
  "resp_body (get_products literal_regex_i
      (no_params\<lparr>lp_category := Some ''Electronics'', lp_minPrice := Some ''10'', lp_search := Some ''LAMP''\<rparr>)
      (sample_db [sample_product 1 ''electronics'' 20 5, sample_product 2 ''books'' 20 6])) =
    ProductsBody 1 1 (Fin 1) (JNum (Fin 1)) [sample_product 1 ''electronics'' 20 5]"
  by code_simp

theorem get_products_filter_sound_witness:
  "resp_body (get_products literal_regex_i
      (no_params\<lparr>lp_category := Some ''Electronics'', lp_minPrice := Some ''10'', lp_search := Some ''LAMP''\<rparr>)
      (sample_db [sample_product 1 ''electronics'' 20 5, sample_product 2 ''books'' 20 6])) =
    ProductsBody 1 1 (Fin 1) (JNum (Fin 1)) [sample_product 1 ''electronics'' 20 5] \<and>
   sample_product 1 ''electronics'' 20 5 \<in> set [sample_product 1 ''electronics'' 20 5] \<and>
   sample_product 1 ''electronics'' 20 5
     \<in> set (db_products (sample_db [sample_product 1 ''electronics'' 20 5, sample_product 2 ''books'' 20 6])) \<and>
   prod_category (sample_product 1 ''electronics'' 20 5) = to_lower ''Electronics''"
  using get_products_filter_sound [OF get_products_example_1, of "sample_product 1 ''electronics'' 20 5"]
    get_products_example_1
  by (simp add: present_def qv_def the_str_def no_params_def)

text \<open>C2: the listing for \<open>category=electronics&minPrice=10&maxPrice=50\<close> is the
  first page of ten, newest first, of exactly the electronics priced in [10, 50];
  \<open>total\<close> counts all of them.\<close>

theorem get_products_electronics_10_50:
  "get_products rx
     \<lparr>lp_category = Some ''electronics'', lp_minPrice = Some ''10'', lp_maxPrice = Some ''50'',
      lp_minRating = None, lp_search = None, lp_sort = None, lp_page = None, lp_limit = None\<rparr> d =
   (let ms = filter (\<lambda>p. prod_category p = ''electronics'' \<and> Fin 10 \<le> prod_price p \<and> prod_price p \<le> Fin 50)
               (db_products d)
    in ok 200 (ProductsBody (min (length ms) 10) (length ms) (js_ceil (Fin (of_nat (length ms) / 10)))
                 (JNum (Fin 1)) (take 10 (apply_sort (SortCreatedAt, Desc) ms))))"
proof -
  have n10: "string_to_number ''10'' = Fin 10" and n50: "string_to_number ''50'' = Fin 50"
    by code_simp+
  have lower: "to_lower ''electronics'' = ''electronics''"
    by code_simp
  have pred: "query_matches rx
      \<lparr>pq_category = Some ''electronics'', pq_price = Some (Some (Fin 10), Some (Fin 50)),
       pq_rating = None, pq_search = None\<rparr> =
     (\<lambda>p. prod_category p = ''electronics'' \<and> Fin 10 \<le> prod_price p \<and> prod_price p \<le> Fin 50)"
    by (auto simp: query_matches_def opt_bound_def fun_eq_iff less_eq_jsnum_def)
  show ?thesis
    by (simp add: get_products_def build_query_def present_def qv_def the_str_def n10 n50 lower
        sort_options_def page_param_def limit_param_def skip_value_def js_sub_def
        store_find_def cast_skip_def cast_limit_def take_limit_def store_count_def
        matching_def pred total_pages_def Let_def)
qed

subsection \<open>Sorting\<close>

lemma sort_value_fun [simp]:
  "sort_value SortPrice = prod_price" "sort_value SortRating = prod_rating"
  "sort_value SortCreatedAt = (\<lambda>p. Fin (of_nat (prod_created_at p)))"
  by (simp_all add: fun_eq_iff)

lemma sorted_desc_created_at:
  "sorted_wrt (\<ge>) (map (\<lambda>p. Fin (of_nat (prod_created_at p))) ps) \<longleftrightarrow>
   sorted_wrt (\<ge>) (map prod_created_at ps)"
  by (simp add: sorted_wrt_map)

lemma sort_options_present [simp]: "v \<noteq> [] \<Longrightarrow> sort_options (Some v) = sort_switch v"
  by (simp add: sort_options_def present_def qv_def the_str_def)

lemma get_products_sorted:
  "resp_body (get_products rx lp d) = ProductsBody c t tp cp ps \<Longrightarrow> sorted_for (sort_options (lp_sort lp)) ps"
  by (auto simp: get_products_ProductsBody intro: store_find_sorted)

text \<open>C3: \<open>sort=price-asc\<close> gives a page with non-decreasing prices.\<close>

theorem get_products_price_asc:
  assumes "lp_sort lp = Some ''price-asc''"
    and "resp_body (get_products rx lp d) = ProductsBody c t tp cp ps"
  shows "sorted (map prod_price ps)"
  using get_products_sorted [OF assms(2)] assms(1) by (simp add: sort_switch_def)

lemma get_products_example_2:
  "resp_body (get_products literal_regex_i (no_params\<lparr>lp_sort := Some ''price-asc''\<rparr>)
      (sample_db [sample_product 1 ''books'' 30 1, sample_product 2 ''books'' 10 2, sample_product 3 ''home'' 20 3])) =
    ProductsBody 3 3 (Fin 1) (JNum (Fin 1))
      [sample_product 2 ''books'' 10 2, sample_product 3 ''home'' 20 3, sample_product 1 ''books'' 30 1]"
  by code_simp

theorem get_products_price_asc_witness:
  "lp_sort (no_params\<lparr>lp_sort := Some ''price-asc''\<rparr>) = Some ''price-asc'' \<and>
   resp_body (get_products literal_regex_i (no_params\<lparr>lp_sort := Some ''price-asc''\<rparr>)
      (sample_db [sample_product 1 ''books'' 30 1, sample_product 2 ''books'' 10 2, sample_product 3 ''home'' 20 3])) =
    ProductsBody 3 3 (Fin 1) (JNum (Fin 1))
      [sample_product 2 ''books'' 10 2, sample_product 3 ''home'' 20 3, sample_product 1 ''books'' 30 1] \<and>
   sorted (map prod_price [sample_product 2 ''books'' 10 2, sample_product 3 ''home'' 20 3, sample_product 1 ''books'' 30 1])"
  using get_products_price_asc [OF _ get_products_example_2] get_products_example_2 by simp

text \<open>\<open>sort=rating-desc\<close> gives a page with non-increasing ratings.\<close>

theorem get_products_rating_desc:
  assumes "lp_sort lp = Some ''rating-desc''"
    and "resp_body (get_products rx lp d) = ProductsBody c t tp cp ps"
  shows "sorted_wrt (\<ge>) (map prod_rating ps)"
  using get_products_sorted [OF assms(2)] assms(1) by (simp add: sort_switch_def)

definition rated_products :: "product list" where
  "rated_products =
     [(sample_product 1 ''books'' 30 1)\<lparr>prod_rating := Fin 2\<rparr>,
      (sample_product 2 ''books'' 10 2)\<lparr>prod_rating := Fin 5\<rparr>,
      (sample_product 3 ''home'' 20 3)\<lparr>prod_rating := Fin (7 / 2)\<rparr>]"

lemma get_products_example_3:
  "resp_body (get_products literal_regex_i (no_params\<lparr>lp_sort := Some ''rating-desc''\<rparr>) (sample_db rated_products)) =
    ProductsBody 3 3 (Fin 1) (JNum (Fin 1)) [rated_products ! 1, rated_products ! 2, rated_products ! 0]"
  by code_simp

theorem get_products_rating_desc_witness:
  "lp_sort (no_params\<lparr>lp_sort := Some ''rating-desc''\<rparr>) = Some ''rating-desc'' \<and>
   resp_body (get_products literal_regex_i (no_params\<lparr>lp_sort := Some ''rating-desc''\<rparr>) (sample_db rated_products)) =
    ProductsBody 3 3 (Fin 1) (JNum (Fin 1)) [rated_products ! 1, rated_products ! 2, rated_products ! 0] \<and>
   sorted_wrt (\<ge>) (map prod_rating [rated_products ! 1, rated_products ! 2, rated_products ! 0])"
  using get_products_rating_desc [OF _ get_products_example_3] get_products_example_3 by simp

text \<open>C5: with no \<open>sort\<close>, an empty one or one the table does not know, the page
  is newest first (creation time non-increasing).\<close>

theorem get_products_default_sort:
  assumes "lp_sort lp = None \<or>
      (\<exists>v. lp_sort lp = Some v \<and> v \<notin> {''price-asc'', ''price-desc'', ''oldest'', ''rating-desc'', ''rating-asc''})"
    and "resp_body (get_products rx lp d) = ProductsBody c t tp cp ps"
  shows "sorted_wrt (\<ge>) (map prod_created_at ps)"
proof -
  from assms(1) have "sort_options (lp_sort lp) = (SortCreatedAt, Desc)"
    by (auto simp: sort_options_def sort_switch_def present_def qv_def the_str_def)
  with get_products_sorted [OF assms(2)] show ?thesis
    by (simp add: sorted_desc_created_at)
qed

lemma get_products_example_4:
  "resp_body (get_products literal_regex_i (no_params\<lparr>lp_sort := Some ''cheapest''\<rparr>)
      (sample_db [sample_product 1 ''books'' 30 1, sample_product 2 ''books'' 10 2, sample_product 3 ''home'' 20 3])) =
    ProductsBody 3 3 (Fin 1) (JNum (Fin 1))
      [sample_product 3 ''home'' 20 3, sample_product 2 ''books'' 10 2, sample_product 1 ''books'' 30 1]"
  by code_simp

theorem get_products_default_sort_witness:
  "(lp_sort (no_params\<lparr>lp_sort := Some ''cheapest''\<rparr>) = None \<or>
    (\<exists>v. lp_sort (no_params\<lparr>lp_sort := Some ''cheapest''\<rparr>) = Some v \<and>
         v \<notin> {''price-asc'', ''price-desc'', ''oldest'', ''rating-desc'', ''rating-asc''})) \<and>
   resp_body (get_products literal_regex_i (no_params\<lparr>lp_sort := Some ''cheapest''\<rparr>)
      (sample_db [sample_product 1 ''books'' 30 1, sample_product 2 ''books'' 10 2, sample_product 3 ''home'' 20 3])) =
    ProductsBody 3 3 (Fin 1) (JNum (Fin 1))
      [sample_product 3 ''home'' 20 3, sample_product 2 ''books'' 10 2, sample_product 1 ''books'' 30 1] \<and>
   sorted_wrt (\<ge>) (map prod_created_at
      [sample_product 3 ''home'' 20 3, sample_product 2 ''books'' 10 2, sample_product 1 ''books'' 30 1])"
proof -
  have h: "lp_sort (no_params\<lparr>lp_sort := Some ''cheapest''\<rparr>) = None \<or>
    (\<exists>v. lp_sort (no_params\<lparr>lp_sort := Some ''cheapest''\<rparr>) = Some v \<and>
         v \<notin> {''price-asc'', ''price-desc'', ''oldest'', ''rating-desc'', ''rating-asc''})"
    by simp
  show ?thesis using get_products_default_sort [OF h get_products_example_4] h get_products_example_4
    by blast
qed

subsection \<open>Paging\<close>

lemma cast_skip_of_nat [simp]: "cast_skip (Fin (of_nat n)) = Some n"
  by (simp add: cast_skip_def)

lemma cast_limit_of_nat: "to_number v = Fin (of_nat l) \<Longrightarrow> cast_limit v = Some (int l)"
  by (simp add: cast_limit_def)

lemma take_limit_pos [simp]: "0 < l \<Longrightarrow> take_limit (int l) xs = take l xs"
  by (simp add: take_limit_def)

lemma skip_value_nat:
  assumes "to_number page = Fin (of_nat p)" and "1 \<le> p" and "to_number limit = Fin (of_nat l)"
  shows "cast_skip (skip_value page limit) = Some ((p - 1) * l)"
proof -
  have "skip_value page limit = Fin (of_nat ((p - 1) * l))"
    using assms by (simp add: skip_value_def js_sub_def of_nat_diff)
  then show ?thesis by (simp only: cast_skip_of_nat)
qed

lemma total_pages_nat:
  "to_number limit = Fin (of_nat l) \<Longrightarrow> 0 < l \<Longrightarrow>
   total_pages n limit = Fin (of_int \<lceil>of_nat n / of_nat l :: rat\<rceil>)"
  by (simp add: total_pages_def)

text \<open>C6: with \<open>page\<close> and \<open>limit\<close> strings that read as naturals
  \<open>p \<ge> 1\<close> and \<open>l \<ge> 1\<close>, the listing skips \<open>(p - 1) * l\<close> matching products
  of the sorted order and takes the next \<open>l\<close>; \<open>total\<close> counts every match and
  \<open>totalPages\<close> is \<open>\<lceil>total / l\<rceil>\<close>; \<open>currentPage\<close> is echoed as the string received.\<close>

theorem get_products_paging:
  assumes "lp_page lp = Some sp" and "string_to_number sp = Fin (of_nat p)" and "1 \<le> p"
    and "lp_limit lp = Some sl" and "string_to_number sl = Fin (of_nat l)" and "1 \<le> l"
  shows "get_products rx lp d =
    (let ms = apply_sort (sort_options (lp_sort lp)) (matching rx (build_query lp) d);
         pg = take l (drop ((p - 1) * l) ms)
     in ok 200 (ProductsBody (length pg) (length ms) (Fin (of_int \<lceil>of_nat (length ms) / of_nat l :: rat\<rceil>))
                  (JStr sp) pg))"
proof -
  have pg: "page_param lp = JStr sp" and lm: "limit_param lp = JStr sl"
    using assms(1,4) by (simp_all add: page_param_def limit_param_def)
  have skip: "cast_skip (skip_value (JStr sp) (JStr sl)) = Some ((p - 1) * l)"
    using assms(2,3,5) by (simp add: skip_value_nat)
  have cl: "cast_limit (JStr sl) = Some (int l)"
    using assms(5) by (simp add: cast_limit_of_nat)
  have tp: "total_pages n (JStr sl) = Fin (of_int \<lceil>of_nat n / of_nat l :: rat\<rceil>)" for n
    using assms(5,6) by (simp add: total_pages_nat)
  show ?thesis
    using assms(6)
    by (simp add: get_products_def pg lm skip cl tp store_find_def store_count_def Let_def)
qed

definition twelve_books :: "product list" where
  "twelve_books = map (\<lambda>i. sample_product i ''books'' 10 i) [1..<13]"

text \<open>The spec's example: twelve matching products, \<open>page=2&limit=5\<close>, oldest
  first: the page holds the sixth to tenth, and \<open>totalPages\<close> is 3.\<close>

theorem get_products_paging_witness:
  "lp_page (no_params\<lparr>lp_page := Some ''2'', lp_limit := Some ''5'', lp_sort := Some ''oldest''\<rparr>) = Some ''2'' \<and>
   string_to_number ''2'' = Fin (of_nat 2) \<and> (1::nat) \<le> 2 \<and>
   lp_limit (no_params\<lparr>lp_page := Some ''2'', lp_limit := Some ''5'', lp_sort := Some ''oldest''\<rparr>) = Some ''5'' \<and>
   string_to_number ''5'' = Fin (of_nat 5) \<and> (1::nat) \<le> 5 \<and>
   get_products literal_regex_i (no_params\<lparr>lp_page := Some ''2'', lp_limit := Some ''5'', lp_sort := Some ''oldest''\<rparr>)
     (sample_db twelve_books) =
   ok 200 (ProductsBody 5 12 (Fin 3) (JStr ''2'') (map (\<lambda>i. sample_product i ''books'' 10 i) [6..<11]))"
proof -
  let ?lp = "no_params\<lparr>lp_page := Some ''2'', lp_limit := Some ''5'', lp_sort := Some ''oldest''\<rparr>"
  have h1: "lp_page ?lp = Some ''2''" and h4: "lp_limit ?lp = Some ''5''"
    by simp_all
  have h2: "string_to_number ''2'' = Fin (of_nat 2)" and h5: "string_to_number ''5'' = Fin (of_nat 5)"
    by code_simp+
  have h3: "(1::nat) \<le> 2" and h6: "(1::nat) \<le> 5" by simp_all
  have ms: "apply_sort (sort_options (lp_sort ?lp)) (matching literal_regex_i (build_query ?lp) (sample_db twelve_books))
      = twelve_books"
    by code_simp
  have c: "\<lceil>of_nat 12 / of_nat 5 :: rat\<rceil> = 3"
    by (simp add: ceiling_eq_iff)
  have "get_products literal_regex_i ?lp (sample_db twelve_books) =
    (let ms = apply_sort (sort_options (lp_sort ?lp)) (matching literal_regex_i (build_query ?lp) (sample_db twelve_books));
         pg = take 5 (drop ((2 - 1) * 5) ms)
     in ok 200 (ProductsBody (length pg) (length ms) (Fin (of_int \<lceil>of_nat (length ms) / of_nat 5 :: rat\<rceil>))
                  (JStr ''2'') pg))"
    by (rule get_products_paging [OF h1 h2 h3 h4 h5 h6])
  also have "\<dots> = ok 200 (ProductsBody (length (take 5 (drop 5 twelve_books))) (length twelve_books)
                  (Fin (of_int \<lceil>of_nat (length twelve_books) / of_nat 5 :: rat\<rceil>)) (JStr ''2'') (take 5 (drop 5 twelve_books)))"
    by (simp only: ms Let_def) simp
  also have "\<dots> = ok 200 (ProductsBody 5 12 (Fin 3) (JStr ''2'') (map (\<lambda>i. sample_product i ''books'' 10 i) [6..<11]))"
    using c by code_simp
  finally show ?thesis using h1 h2 h4 h5 by simp
qed

text \<open>C7: \<open>limit=0\<close> is passed to the store as \<open>limit(0)\<close>, which MongoDB reads
  as no limit: the first page holds every matching product and \<open>totalPages\<close> is
  \<open>Infinity\<close> (NaN when nothing matches), which JSON sends as \<open>null\<close>.\<close>

theorem get_products_limit_zero:
  assumes "lp_page lp = None" and "lp_limit lp = Some sl" and "string_to_number sl = Fin 0"
  shows "get_products rx lp d =
    (let ms = apply_sort (sort_options (lp_sort lp)) (matching rx (build_query lp) d)
     in ok 200 (ProductsBody (length ms) (length ms) (if ms = [] then NaN else PosInf) (JNum (Fin 1)) ms))"
proof -
  have pg: "page_param lp = JNum (Fin 1)" and lm: "limit_param lp = JStr sl"
    using assms(1,2) by (simp_all add: page_param_def limit_param_def)
  have n: "to_number (JStr sl) = Fin 0"
    using assms(3) by simp
  have skip: "cast_skip (skip_value (JNum (Fin 1)) (JStr sl)) = Some 0"
    using n by (simp add: skip_value_def js_sub_def cast_skip_def)
  have cl: "cast_limit (JStr sl) = Some 0"
    using n by (simp add: cast_limit_def)
  have tp: "total_pages k (JStr sl) = (if k = 0 then NaN else PosInf)" for k
    using n by (simp add: total_pages_def signed_inf_def)
  show ?thesis
    by (simp add: get_products_def pg lm skip cl tp store_find_def take_limit_def store_count_def Let_def)
qed

theorem get_products_limit_zero_witness:
  "lp_page (no_params\<lparr>lp_limit := Some ''0''\<rparr>) = None \<and>
   lp_limit (no_params\<lparr>lp_limit := Some ''0''\<rparr>) = Some ''0'' \<and> string_to_number ''0'' = Fin 0 \<and>
   get_products literal_regex_i (no_params\<lparr>lp_limit := Some ''0''\<rparr>) (sample_db twelve_books) =
   ok 200 (ProductsBody 12 12 PosInf (JNum (Fin 1)) (rev twelve_books))"
proof -
  have h1: "lp_page (no_params\<lparr>lp_limit := Some ''0''\<rparr>) = None"
    and h2: "lp_limit (no_params\<lparr>lp_limit := Some ''0''\<rparr>) = Some ''0''"
    by (simp_all add: no_params_def)
  have h3: "string_to_number ''0'' = Fin 0" by code_simp
  have "get_products literal_regex_i (no_params\<lparr>lp_limit := Some ''0''\<rparr>) (sample_db twelve_books) =
    (let ms = apply_sort (sort_options (lp_sort (no_params\<lparr>lp_limit := Some ''0''\<rparr>)))
                (matching literal_regex_i (build_query (no_params\<lparr>lp_limit := Some ''0''\<rparr>)) (sample_db twelve_books))
     in ok 200 (ProductsBody (length ms) (length ms) (if ms = [] then NaN else PosInf) (JNum (Fin 1)) ms))"
    by (rule get_products_limit_zero [OF h1 h2 h3])
  also have "\<dots> = ok 200 (ProductsBody 12 12 PosInf (JNum (Fin 1)) (rev twelve_books))"
    by code_simp
  finally show ?thesis using h1 h2 h3 by simp
qed

text \<open>C8: a \<open>page\<close> below 1 (\<open>page=0\<close>, \<open>page=-3\<close>, \<open>page=0.5\<close>) makes the skip
  negative; the store rejects it and the listing answers 500, not an empty page.\<close>

theorem get_products_page_below_one:
  assumes "lp_page lp = Some sp" and "string_to_number sp = Fin r" and "r < 1" and "lp_limit lp = None"
  shows "get_products rx lp d = fail 500 ''Server error''"
proof -
  have "skip_value (JStr sp) (JNum (Fin 10)) = Fin ((r - 1) * 10)"
    using assms(2) by (simp add: skip_value_def js_sub_def)
  moreover have "cast_skip (Fin ((r - 1) * 10)) = None"
    using assms(3) by (simp add: cast_skip_def)
  ultimately show ?thesis
    using assms(1,4) by (simp add: get_products_def page_param_def limit_param_def store_find_def)
qed

theorem get_products_page_below_one_witness:
  "lp_page (no_params\<lparr>lp_page := Some ''0''\<rparr>) = Some ''0'' \<and> string_to_number ''0'' = Fin 0 \<and> (0::rat) < 1 \<and>
   lp_limit (no_params\<lparr>lp_page := Some ''0''\<rparr>) = None \<and>
   get_products literal_regex_i (no_params\<lparr>lp_page := Some ''0''\<rparr>) (sample_db twelve_books) = fail 500 ''Server error''"
proof -
  have n0: "string_to_number ''0'' = Fin 0" by code_simp
  show ?thesis
    using get_products_page_below_one [of "no_params\<lparr>lp_page := Some ''0''\<rparr>" "''0''" 0, OF _ n0] n0
    by (simp add: no_params_def)
qed

end
