(* ===== verification/Token.thy ===== *)
theory Token
  imports Store
begin

text \<open>
  The bearer token of \<open>jsonwebtoken\<close>, as \<open>routes/auth.js\<close> uses it:
  \<open>jwt.sign({id}, JWT_SECRET, {expiresIn: '1d'})\<close> and
  \<open>jwt.verify(token, JWT_SECRET)\<close>. The library is external and modelled from its
  documented behaviour: a token carries the user id, the issue time \<open>iat\<close> and the
  expiry \<open>exp = iat + 86400\<close> (seconds), and a signature. The signature is
  idealised as the signing key itself, written in the token: a token verifies
  under a key exactly when it was signed with that key (no forgery is modelled).
  The text is four dot-separated decimal fields, so it contains no space, as a
  base64url JWT contains none. Verification checks the form, then the signature,
  then the expiry (\<open>now \<ge> exp\<close> is expired), in the library's order.
\<close>

datatype jwt_error = JsonWebTokenError | TokenExpiredError

definition token_lifetime :: nat where
  "token_lifetime = 86400"

definition jwt_sign :: "nat \<Rightarrow> oid \<Rightarrow> nat \<Rightarrow> string" where
  "jwt_sign key uid iat =
     dec_string uid @ ''.'' @ dec_string iat @ ''.'' @ dec_string (iat + token_lifetime) @ ''.'' @ dec_string key"

definition digit_field :: "string \<Rightarrow> bool" where
  "digit_field s \<longleftrightarrow> s \<noteq> [] \<and> list_all is_digit s"

definition jwt_verify :: "nat \<Rightarrow> nat \<Rightarrow> string \<Rightarrow> jwt_error + oid" where
  "jwt_verify key now tok =
     (case split_on CHR ''.'' tok of
        [u, i, e, sg] \<Rightarrow>
          if \<not> list_all digit_field [u, i, e, sg] then Inl JsonWebTokenError
          else if digits_val sg \<noteq> key then Inl JsonWebTokenError
          else if digits_val e \<le> now then Inl TokenExpiredError
          else Inr (digits_val u)
      | _ \<Rightarrow> Inl JsonWebTokenError)"

lemma dot_not_digit: "is_digit c \<Longrightarrow> c \<noteq> CHR ''.''"
  by (auto simp: is_digit_def)

lemma dec_string_no_dot [simp]: "CHR ''.'' \<notin> set (dec_string n)"
  using dec_string_digits [of n] dot_not_digit by blast

lemma dec_string_no_space [simp]: "CHR '' '' \<notin> set (dec_string n)"
  using dec_string_digits [of n] by (auto simp: is_digit_def)

lemma digit_field_dec [simp]: "digit_field (dec_string n)"
  using dec_string_digits [of n] by (auto simp: digit_field_def list_all_iff)

lemma split_jwt_sign:
  "split_on CHR ''.'' (jwt_sign key uid iat) =
     [dec_string uid, dec_string iat, dec_string (iat + token_lifetime), dec_string key]"
  by (simp add: jwt_sign_def split_on_append_sep split_on_no_sep)

text \<open>Round trip: a token verifies under its own key, to its user id, until
  \<open>iat + 86400\<close>; from then on it is expired.\<close>

lemma jwt_verify_sign:
  "jwt_verify key now (jwt_sign key uid iat) =
     (if iat + token_lifetime \<le> now then Inl TokenExpiredError else Inr uid)"
  by (simp add: jwt_verify_def split_jwt_sign)

lemma jwt_verify_other_key:
  "key' \<noteq> key \<Longrightarrow> jwt_verify key' now (jwt_sign key uid iat) = Inl JsonWebTokenError"
  by (simp add: jwt_verify_def split_jwt_sign)

lemma jwt_sign_no_space: "CHR '' '' \<notin> set (jwt_sign key uid iat)"
  by (simp add: jwt_sign_def)

lemma jwt_sign_nonempty [simp]: "jwt_sign key uid iat \<noteq> []"
  by (simp add: jwt_sign_def)

end
