(* ===== verification/Auth.thy ===== *)
theory Auth
  imports Token Http
begin

text \<open>
  \<open>src/backend/routes/auth.js\<close>: the \<open>auth\<close> middleware (bearer token \<open>\<rightarrow>\<close>
  user), \<open>GET /verify\<close>, \<open>POST /register\<close> and \<open>POST /login\<close>; and the
  \<open>protect\<close>/\<open>authorize\<close> middleware that \<open>routes/products.js\<close> imports from
  \<open>middleware/auth.js\<close>, a file that is not among the sources: it is modelled
  from the spec (sections 4.2 and 4.3), whose contract for \<open>protect\<close> is the
  one \<open>auth\<close> implements. A middleware either answers (\<open>Inl\<close> response) or
  passes the request on with the user attached (\<open>Inr\<close>). The server's key and
  clock are the parameters \<open>key\<close> and \<open>now\<close>; request bodies are JavaScript
  values, the Authorization header a string or absent.
\<close>

definition ADMIN_EMAIL :: string where
  "ADMIN_EMAIL = ''shubhankarrai007@gmail.com''"

definition no_token :: response where
  "no_token = fail 401 ''No token, authorization denied''"

subsection \<open>The \<open>auth\<close> middleware\<close>

text \<open>\<open>authHeader.split(' ')[1]\<close>: the second space-separated piece, if any.\<close>

definition bearer_token :: "string \<Rightarrow> string option" where
  "bearer_token h = nth_opt (split_on CHR '' '' h) 1"

definition auth :: "nat \<Rightarrow> nat \<Rightarrow> string option \<Rightarrow> db \<Rightarrow> response + user_public" where
  "auth key now hdr d =
     (case hdr of
        None \<Rightarrow> Inl no_token
      | Some h \<Rightarrow>
          if h = [] \<or> \<not> has_prefix ''Bearer '' h then Inl no_token
          else (case bearer_token h of
                  None \<Rightarrow> Inl no_token
                | Some tok \<Rightarrow>
                    if tok = [] then Inl no_token
                    else (case jwt_verify key now tok of
                            Inl JsonWebTokenError \<Rightarrow> Inl (fail 401 ''Invalid token'')
                          | Inl TokenExpiredError \<Rightarrow> Inl (fail 401 ''Token expired'')
                          | Inr uid \<Rightarrow>
                              (case find_user_by_id uid d of
                                 None \<Rightarrow> Inl (fail 401 ''User not found'')
                               | Some u \<Rightarrow> Inr (public_user u)))))"

subsection \<open>\<open>protect\<close> and \<open>authorize\<close> (from the spec)\<close>

definition protect :: "nat \<Rightarrow> nat \<Rightarrow> string option \<Rightarrow> db \<Rightarrow> response + user_public" where
  "protect = auth"

text \<open>\<open>authorize(...roles)\<close>: 403 unless the attached user's role is listed. The
  spec gives the status, not the message.\<close>

definition authorize :: "role list \<Rightarrow> user_public \<Rightarrow> response option" where
  "authorize roles u = (if up_role u \<in> set roles then None else Some (fail 403 ''Forbidden''))"

text \<open>A route behind \<open>protect, authorize('admin')\<close>: the handler runs only for an
  authenticated admin, and the store changes only then.\<close>

definition admin_route ::
  "nat \<Rightarrow> nat \<Rightarrow> string option \<Rightarrow> db \<Rightarrow> (user_public \<Rightarrow> db \<Rightarrow> response \<times> db) \<Rightarrow> response \<times> db" where
  "admin_route key now hdr d handler =
     (case protect key now hdr d of
        Inl r \<Rightarrow> (r, d)
      | Inr u \<Rightarrow> (case authorize [RoleAdmin] u of Some r \<Rightarrow> (r, d) | None \<Rightarrow> handler u d))"

subsection \<open>\<open>GET /api/auth/verify\<close>\<close>

definition verify_handler :: "user_public \<Rightarrow> db \<Rightarrow> response" where
  "verify_handler u d =
     (case find_user_by_id (up_id u) d of
        None \<Rightarrow> fail 401 ''User not found''
      | Some u' \<Rightarrow> ok 200 (UserBody (public_user u')))"

definition get_verify :: "nat \<Rightarrow> nat \<Rightarrow> string option \<Rightarrow> db \<Rightarrow> response" where
  "get_verify key now hdr d = (case auth key now hdr d of Inl r \<Rightarrow> r | Inr u \<Rightarrow> verify_handler u d)"

subsection \<open>\<open>POST /api/auth/register\<close>\<close>

text \<open>The role is \<open>admin\<close> when \<open>email === ADMIN_EMAIL\<close> (strict equality on the
  body value); \<open>findOne\<close> and \<open>new User\<close> cast the values to strings.\<close>

definition role_for :: "jsval \<Rightarrow> role" where
  "role_for email = (if email = JStr ADMIN_EMAIL then RoleAdmin else RoleUser)"

definition register ::
  "nat \<Rightarrow> nat \<Rightarrow> jsval \<Rightarrow> jsval \<Rightarrow> db \<Rightarrow> response \<times> db" where
  "register key now email password d =
     (if \<not> truthy email \<or> \<not> truthy password then (fail 400 ''Please provide email and password'', d)
      else (case (cast_string email, cast_string password) of
              (Some e, Some pw) \<Rightarrow>
                (case find_user_by_email e d of
                   Some _ \<Rightarrow> (fail 400 ''User already exists'', d)
                 | None \<Rightarrow>
                     (case save_user e pw (role_for email) now d of
                        Inl err \<Rightarrow> (fail 500 ''Server error'', d)
                      | Inr (u, d') \<Rightarrow>
                          (Response 201 None (AuthBody (jwt_sign key (user_id u) now) (view_user u)), d')))
            | _ \<Rightarrow> (fail 500 ''Server error'', d)))"

subsection \<open>\<open>POST /api/auth/login\<close>\<close>

text \<open>\<open>user.comparePassword\<close> is bcrypt's \<open>compare\<close>, which throws on a
  candidate that is not a string (a 500).\<close>

definition login :: "nat \<Rightarrow> nat \<Rightarrow> jsval \<Rightarrow> jsval \<Rightarrow> db \<Rightarrow> response" where
  "login key now email password d =
     (if \<not> truthy email \<or> \<not> truthy password then fail 400 ''Please provide email and password''
      else (case cast_string email of
              None \<Rightarrow> fail 500 ''Server error''
            | Some e \<Rightarrow>
                (case find_user_by_email e d of
                   None \<Rightarrow> fail 400 ''Invalid credentials''
                 | Some u \<Rightarrow>
                     (case password of
                        JStr pw \<Rightarrow>
                          if compare_password u pw
                          then (let tok = jwt_sign key (user_id u) now
                                in Response 200 (Some (''Bearer '' @ tok)) (AuthBody tok (view_user u)))
                          else fail 400 ''Invalid credentials''
                      | _ \<Rightarrow> fail 500 ''Server error''))))"

subsection \<open>The middleware on a bearer header\<close>

lemma bearer_token_Bearer: "CHR '' '' \<notin> set tok \<Longrightarrow> bearer_token (''Bearer '' @ tok) = Some tok"
  by (simp add: bearer_token_def split_on_no_sep)

lemma auth_bearer:
  assumes "CHR '' '' \<notin> set tok" and "tok \<noteq> []"
  shows "auth key now (Some (''Bearer '' @ tok)) d =
    (case jwt_verify key now tok of
       Inl JsonWebTokenError \<Rightarrow> Inl (fail 401 ''Invalid token'')
     | Inl TokenExpiredError \<Rightarrow> Inl (fail 401 ''Token expired'')
     | Inr uid \<Rightarrow> (case find_user_by_id uid d of None \<Rightarrow> Inl (fail 401 ''User not found'')
                  | Some u \<Rightarrow> Inr (public_user u)))"
  using assms by (simp add: auth_def bearer_token_def split_on_no_sep)

lemma auth_signed:
  "auth key now (Some (''Bearer '' @ jwt_sign key' uid t)) d =
    (if key' \<noteq> key then Inl (fail 401 ''Invalid token'')
     else if t + token_lifetime \<le> now then Inl (fail 401 ''Token expired'')
     else (case find_user_by_id uid d of None \<Rightarrow> Inl (fail 401 ''User not found'')
           | Some u \<Rightarrow> Inr (public_user u)))"
  by (subst auth_bearer) (simp_all add: jwt_sign_no_space jwt_verify_sign jwt_verify_other_key)

lemma find_user_by_email_Some: "find_user_by_email e d = Some u \<Longrightarrow> u \<in> set (db_users d) \<and> user_email u = e"
  by (auto simp: find_user_by_email_def find_Some_iff nth_mem)

lemma find_user_by_id_exists:
  assumes "u \<in> set (db_users d)"
  shows "\<exists>u'. find_user_by_id (user_id u) d = Some u' \<and> user_id u' = user_id u"
proof -
  from assms have "find_user_by_id (user_id u) d \<noteq> None"
    by (auto simp: find_user_by_id_def find_None_iff)
  then obtain u' where u': "find_user_by_id (user_id u) d = Some u'" by blast
  then have "user_id u' = user_id u"
    by (auto simp: find_user_by_id_def find_Some_iff)
  with u' show ?thesis by blast
qed

subsection \<open>Example data\<close>

definition empty_db :: db where
  "empty_db = \<lparr>db_users = [], db_products = [], db_next_id = 1\<rparr>"

definition alice :: user where
  "alice = \<lparr>user_id = 1, user_email = ''alice@example.com'', user_password = Bcrypt ''s3cret'',
            user_role = RoleUser, user_created_at = 100\<rparr>"

definition admin_user :: user where
  "admin_user = \<lparr>user_id = 2, user_email = ADMIN_EMAIL, user_password = Bcrypt ''r00t'',
                 user_role = RoleAdmin, user_created_at = 200\<rparr>"

definition users_db :: db where
  "users_db = \<lparr>db_users = [alice, admin_user], db_products = [], db_next_id = 3\<rparr>"

subsection \<open>Registration\<close>

text \<open>C9: a successful registration makes the account \<open>admin\<close> exactly when the
  email is the hard-coded administrator address, \<open>user\<close> otherwise, and the
  stored account has that role.\<close>

theorem register_role:
  assumes "register key now email password d = (Response 201 h (AuthBody tok uv), d')"
  shows "(uv_role uv = RoleAdmin \<longleftrightarrow> email = JStr ADMIN_EMAIL) \<and>
         (\<exists>u \<in> set (db_users d'). view_user u = uv \<and> user_role u = uv_role uv)"
  using assms
  by (auto simp: register_def role_for_def save_user_def view_user_def fail_def Let_def
      split: if_splits option.splits sum.splits prod.splits)

theorem register_role_witness:
  "register 42 1000 (JStr ADMIN_EMAIL) (JStr ''pw'') empty_db =
     (Response 201 None (AuthBody (jwt_sign 42 1 1000)
        \<lparr>uv_id = 1, uv_email = ADMIN_EMAIL, uv_role = RoleAdmin\<rparr>),
      empty_db\<lparr>db_users := [\<lparr>user_id = 1, user_email = ADMIN_EMAIL, user_password = Bcrypt ''pw'',
                              user_role = RoleAdmin, user_created_at = 1000\<rparr>], db_next_id := 2\<rparr>) \<and>
   uv_role \<lparr>uv_id = 1, uv_email = ADMIN_EMAIL, uv_role = RoleAdmin\<rparr> = RoleAdmin"
proof -
  have r: "register 42 1000 (JStr ADMIN_EMAIL) (JStr ''pw'') empty_db =
     (Response 201 None (AuthBody (jwt_sign 42 1 1000)
        \<lparr>uv_id = 1, uv_email = ADMIN_EMAIL, uv_role = RoleAdmin\<rparr>),
      empty_db\<lparr>db_users := [\<lparr>user_id = 1, user_email = ADMIN_EMAIL, user_password = Bcrypt ''pw'',
                              user_role = RoleAdmin, user_created_at = 1000\<rparr>], db_next_id := 2\<rparr>)"
    by (simp add: register_def ADMIN_EMAIL_def empty_db_def find_user_by_email_def save_user_def
        role_for_def view_user_def Let_def)
  show ?thesis using register_role [OF r] r by simp
qed

text \<open>Registering an email that already has an account answers 400
  \<open>User already exists\<close> and leaves the store unchanged.\<close>

theorem register_duplicate:
  assumes "truthy (JStr e)" and "truthy password" and "cast_string password \<noteq> None"
    and "find_user_by_email e d \<noteq> None"
  shows "register key now (JStr e) password d = (fail 400 ''User already exists'', d)"
  using assms by (auto simp: register_def)

theorem register_duplicate_witness:
  "truthy (JStr ''alice@example.com'') \<and> truthy (JStr ''other'') \<and> cast_string (JStr ''other'') \<noteq> None \<and>
   find_user_by_email ''alice@example.com'' users_db \<noteq> None \<and>
   register 42 1000 (JStr ''alice@example.com'') (JStr ''other'') users_db = (fail 400 ''User already exists'', users_db)"
proof -
  have h: "find_user_by_email ''alice@example.com'' users_db \<noteq> None"
    by (simp add: find_user_by_email_def users_db_def alice_def)
  show ?thesis using register_duplicate [OF _ _ _ h, of "JStr ''other''" 42 1000] h by simp
qed

subsection \<open>Login\<close>

text \<open>C11: an unknown email and a wrong password for a known email get the very
  same response (400 \<open>Invalid credentials\<close>).\<close>

theorem login_failures_indistinguishable:
  assumes "e1 \<noteq> []" and "pw1 \<noteq> []" and "find_user_by_email e1 d1 = None"
    and "e2 \<noteq> []" and "pw2 \<noteq> []" and "find_user_by_email e2 d2 = Some u" and "\<not> compare_password u pw2"
  shows "login key1 now1 (JStr e1) (JStr pw1) d1 = login key2 now2 (JStr e2) (JStr pw2) d2"
  using assms by (simp add: login_def)

theorem login_failures_indistinguishable_witness:
  "''nobody@example.com'' \<noteq> [] \<and> ''x'' \<noteq> [] \<and> find_user_by_email ''nobody@example.com'' users_db = None \<and>
   ''alice@example.com'' \<noteq> [] \<and> ''wrong'' \<noteq> [] \<and> find_user_by_email ''alice@example.com'' users_db = Some alice \<and>
   \<not> compare_password alice ''wrong'' \<and>
   login 42 1000 (JStr ''nobody@example.com'') (JStr ''x'') users_db =
   login 42 1000 (JStr ''alice@example.com'') (JStr ''wrong'') users_db"
proof -
  have h1: "find_user_by_email ''nobody@example.com'' users_db = None"
    and h2: "find_user_by_email ''alice@example.com'' users_db = Some alice"
    and h3: "\<not> compare_password alice ''wrong''"
    by (simp_all add: find_user_by_email_def users_db_def alice_def admin_user_def ADMIN_EMAIL_def
        compare_password_def)
  show ?thesis
    using login_failures_indistinguishable [of "''nobody@example.com''" "''x''" users_db "''alice@example.com''"
        "''wrong''" users_db alice, OF _ _ h1 _ _ h2 h3] h1 h2 h3
    by simp
qed

text \<open>C12: the token a successful login returns, sent back as the
  \<open>Authorization\<close> header login itself sets, passes the \<open>auth\<close> middleware for
  the next 86400 seconds and attaches the account it was issued for.\<close>

theorem login_token_accepted:
  assumes "login key t email password d = Response 200 h (AuthBody tok uv)"
    and "now < t + token_lifetime"
  shows "h = Some (''Bearer '' @ tok) \<and>
         (\<exists>u. find_user_by_id (uv_id uv) d = Some u \<and> auth key now h d = Inr (public_user u))"
proof -
  from assms(1) obtain e u where
    u: "find_user_by_email e d = Some u" and tok: "tok = jwt_sign key (user_id u) t"
    and h: "h = Some (''Bearer '' @ tok)" and uv: "uv = view_user u"
    by (auto simp: login_def fail_def Let_def split: if_splits option.splits jsval.splits)
  from u have "u \<in> set (db_users d)" by (simp add: find_user_by_email_Some)
  then obtain u' where u': "find_user_by_id (user_id u) d = Some u'"
    using find_user_by_id_exists by blast
  have "auth key now h d = Inr (public_user u')"
    using assms(2) u' auth_signed [of key now key "user_id u" t d] by (simp add: h tok)
  with u' h uv show ?thesis by (simp add: view_user_def)
qed

theorem login_token_accepted_witness:
  "login 42 1000 (JStr ''alice@example.com'') (JStr ''s3cret'') users_db =
     Response 200 (Some (''Bearer '' @ jwt_sign 42 1 1000)) (AuthBody (jwt_sign 42 1 1000) (view_user alice)) \<and>
   (5000::nat) < 1000 + token_lifetime \<and>
   auth 42 5000 (Some (''Bearer '' @ jwt_sign 42 1 1000)) users_db = Inr (public_user alice)"
proof -
  have l: "login 42 1000 (JStr ''alice@example.com'') (JStr ''s3cret'') users_db =
     Response 200 (Some (''Bearer '' @ jwt_sign 42 1 1000)) (AuthBody (jwt_sign 42 1 1000) (view_user alice))"
    by (simp add: login_def find_user_by_email_def users_db_def alice_def compare_password_def Let_def)
  have t: "(5000::nat) < 1000 + token_lifetime" by (simp add: token_lifetime_def)
  have f: "find_user_by_id (uv_id (view_user alice)) users_db = Some alice"
    by (simp add: find_user_by_id_def users_db_def alice_def view_user_def)
  show ?thesis using login_token_accepted [OF l t] l t f by simp
qed

subsection \<open>Rejections by the middleware\<close>

text \<open>C13: an absent header, one not starting with \<open>Bearer \<close>, or one whose
  second space-separated piece is missing or empty is answered 401
  \<open>No token, authorization denied\<close> before any token check.\<close>

theorem auth_no_token:
  assumes "hdr = None \<or> (\<exists>h. hdr = Some h \<and> (\<not> has_prefix ''Bearer '' h \<or> bearer_token h \<in> {None, Some []}))"
  shows "auth key now hdr d = Inl no_token"
  using assms by (auto simp: auth_def split: option.splits)

theorem auth_no_token_witness:
  "(Some ''Bearer  abc'' = None \<or>
    (\<exists>h. Some ''Bearer  abc'' = Some h \<and> (\<not> has_prefix ''Bearer '' h \<or> bearer_token h \<in> {None, Some []}))) \<and>
   auth 42 1000 (Some ''Bearer  abc'') users_db = Inl no_token"
proof -
  have h: "Some ''Bearer  abc'' = None \<or>
    (\<exists>h. Some ''Bearer  abc'' = Some h \<and> (\<not> has_prefix ''Bearer '' h \<or> bearer_token h \<in> {None, Some []}))"
    by (simp add: bearer_token_def)
  show ?thesis using auth_no_token [OF h] h by simp
qed

text \<open>C14: a token signed with the server's key but past its expiry is answered
  401 \<open>Token expired\<close>, whether or not its user still exists; a token signed with
  another key is answered 401 \<open>Invalid token\<close>.\<close>

theorem auth_expired_or_forged:
  "t + token_lifetime \<le> now \<Longrightarrow>
     auth key now (Some (''Bearer '' @ jwt_sign key uid t)) d = Inl (fail 401 ''Token expired'') \<and>
     auth key now (Some (''Bearer '' @ jwt_sign key' uid t')) d =
       (if key' = key then auth key now (Some (''Bearer '' @ jwt_sign key uid t')) d
        else Inl (fail 401 ''Invalid token''))"
  using auth_signed [of key now key uid t d] auth_signed [of key now key' uid t' d]
    auth_signed [of key now key uid t' d]
  by simp

theorem auth_expired_or_forged_witness:
  "(1000::nat) + token_lifetime \<le> 90000 \<and>
   auth 42 90000 (Some (''Bearer '' @ jwt_sign 42 1 1000)) users_db = Inl (fail 401 ''Token expired'') \<and>
   auth 42 90000 (Some (''Bearer '' @ jwt_sign 7 1 89999)) users_db = Inl (fail 401 ''Invalid token'')"
proof -
  have h: "(1000::nat) + token_lifetime \<le> 90000" by (simp add: token_lifetime_def)
  show ?thesis using auth_expired_or_forged [OF h, of 42 1 users_db 7 89999] h by simp
qed

end
