(* ===== verification/ProductCrud.thy ===== *)
theory ProductCrud
  imports Http
begin

text \<open>
  The single-product handlers of \<open>src/backend/routes/products.js\<close>:
  \<open>GET /:id\<close>, \<open>POST /\<close>, \<open>PUT /:id\<close> and \<open>DELETE /:id\<close> (the last three run
  after \<open>protect\<close> and \<open>authorize('admin')\<close>, see \<open>Auth.admin_route\<close>). The body
  fields are JavaScript values, tested with the handler's own truthiness,
  \<open>isNaN\<close>, \<open>< 0\<close> and \<open>toLowerCase\<close> checks; every \<open>return res.status(..)\<close> is
  a branch, and the \<open>catch\<close> blocks become the 500 answers.
\<close>

definition valid_categories :: "string list" where
  "valid_categories = [''electronics'', ''clothing'', ''books'', ''home'', ''other'']"

text \<open>The messages the \<open>catch\<close> of \<open>POST /\<close> puts in \<open>error\<close>.\<close>

definition validation_message :: "(string \<times> string) list \<Rightarrow> string" where
  "validation_message errs =
     ''Product validation failed: '' @
     concat (map (\<lambda>(i, (path, msg)). (if i = 0 then [] else '', '') @ path @ '': '' @ msg)
                 (enumerate (0::nat) errs))"

fun store_error_message :: "store_error \<Rightarrow> string" where
  "store_error_message (ValidationError errs) = validation_message errs"
| "store_error_message CastError = ''Cast to ObjectId failed''"
| "store_error_message BadValue = ''BadValue''"
| "store_error_message DuplicateKey = ''E11000 duplicate key error''"

definition type_error_message :: string where
  "type_error_message = ''category.toLowerCase is not a function''"

subsection \<open>\<open>GET /api/products/:id\<close>\<close>

definition get_product :: "string \<Rightarrow> db \<Rightarrow> response" where
  "get_product pid d =
     (case store_find_by_id pid d of
        Inl _ \<Rightarrow> fail 500 ''Server error''
      | Inr None \<Rightarrow> fail 404 ''Product not found''
      | Inr (Some p) \<Rightarrow> ok 200 (ProductBody p))"

subsection \<open>\<open>POST /api/products\<close>\<close>

record product_body =
  pb_name :: jsval
  pb_description :: jsval
  pb_price :: jsval
  pb_category :: jsval
  pb_image :: jsval
  pb_stock :: jsval

definition create_product :: "nat \<Rightarrow> product_body \<Rightarrow> db \<Rightarrow> response \<times> db" where
  "create_product now b d =
     (if \<not> truthy (pb_name b) \<or> \<not> truthy (pb_description b) \<or> \<not> truthy (pb_price b) \<or>
         \<not> truthy (pb_category b) \<or> \<not> truthy (pb_image b) \<or> \<not> truthy (pb_stock b)
      then (fail 400 ''Please provide all required fields'', d)
      else (case js_to_lower (pb_category b) of
              Inl _ \<Rightarrow> (Response 500 None (ErrorDetailBody ''Error creating product'' type_error_message), d)
            | Inr c \<Rightarrow>
                if c \<notin> set valid_categories then (fail 400 ''Invalid category'', d)
                else if is_nan (pb_price b) \<or> is_nan (pb_stock b) \<or>
                        js_less_num (pb_price b) 0 \<or> js_less_num (pb_stock b) 0
                then (fail 400 ''Price and stock must be positive numbers'', d)
                else (case store_create
                             \<lparr>pf_name = pb_name b, pf_description = pb_description b,
                              pf_price = to_number (pb_price b), pf_category = c,
                              pf_image = pb_image b, pf_stock = to_number (pb_stock b),
                              pf_rating = Fin 0, pf_num_reviews = Fin 0\<rparr> now d of
                        Inl e \<Rightarrow> (Response 500 None (ErrorDetailBody ''Error creating product''
                                                    (store_error_message e)), d)
                      | Inr (p, d') \<Rightarrow> (Response 201 None (ProductBody p), d'))))"

subsection \<open>\<open>PUT /api/products/:id\<close>\<close>

text \<open>Every field optional; a field is applied only when it is truthy (the spread
  \<open>...(price && {price: Number(price)})\<close>), and validated only then.\<close>

definition opt_field :: "jsval \<Rightarrow> jsval option" where
  "opt_field v = (if truthy v then Some v else None)"

definition update_category :: "jsval \<Rightarrow> js_exn + string option" where
  "update_category v = (if truthy v then map_sum id Some (js_to_lower v) else Inr None)"

definition update_product :: "string \<Rightarrow> product_body \<Rightarrow> db \<Rightarrow> response \<times> db" where
  "update_product pid b d =
     (case update_category (pb_category b) of
        Inl _ \<Rightarrow> (fail 500 ''Server error'', d)
      | Inr co \<Rightarrow>
          if co \<noteq> None \<and> the co \<notin> set valid_categories then (fail 400 ''Invalid category'', d)
          else if truthy (pb_price b) \<and> (is_nan (pb_price b) \<or> js_less_num (pb_price b) 0)
          then (fail 400 ''Price must be a positive number'', d)
          else if truthy (pb_stock b) \<and> (is_nan (pb_stock b) \<or> js_less_num (pb_stock b) 0)
          then (fail 400 ''Stock must be a positive number'', d)
          else (case store_update_by_id pid
                       \<lparr>pu_name = opt_field (pb_name b), pu_description = opt_field (pb_description b),
                        pu_category = co,
                        pu_price = map_option to_number (opt_field (pb_price b)),
                        pu_stock = map_option to_number (opt_field (pb_stock b)),
                        pu_image = opt_field (pb_image b)\<rparr> d of
                  Inl _ \<Rightarrow> (fail 500 ''Server error'', d)
                | Inr (None, d') \<Rightarrow> (fail 404 ''Product not found'', d')
                | Inr (Some p, d') \<Rightarrow> (ok 200 (ProductBody p), d')))"

subsection \<open>\<open>DELETE /api/products/:id\<close>\<close>

definition delete_product :: "string \<Rightarrow> db \<Rightarrow> response \<times> db" where
  "delete_product pid d =
     (case store_delete_by_id pid d of
        Inl _ \<Rightarrow> (fail 500 ''Server error'', d)
      | Inr (None, d') \<Rightarrow> (fail 404 ''Product not found'', d')
      | Inr (Some _, d') \<Rightarrow> (ok 200 EmptyBody, d'))"

subsection \<open>Example data\<close>

definition lamp_form :: product_body where
  "lamp_form = \<lparr>pb_name = JStr ''Lamp'', pb_description = JStr ''A desk lamp'', pb_price = JStr ''0'',
                 pb_category = JStr ''Home'', pb_image = JStr ''lamp.png'', pb_stock = JStr ''3''\<rparr>"

definition shop_db :: db where
  "shop_db = \<lparr>db_users = [], db_products = [], db_next_id = 5\<rparr>"

definition lamp :: product where
  "lamp = \<lparr>prod_id = 5, prod_name = ''Lamp'', prod_description = ''A desk lamp'', prod_category = ''home'',
            prod_price = Fin 12, prod_rating = Fin 0, prod_image = ''lamp.png'', prod_stock = Fin 3,
            prod_num_reviews = Fin 0, prod_created_at = 100, prod_user = None\<rparr>"

definition lamp_db :: db where
  "lamp_db = \<lparr>db_users = [], db_products = [lamp], db_next_id = 6\<rparr>"

definition lamp_id :: string where
  "lamp_id = ''000000000000000000000005''"

subsection \<open>Creating\<close>

lemma store_create_Inr:
  "store_create f now d = Inr (p, d') \<longleftrightarrow>
     p = new_product f now d \<and> fields_cast_errors f = [] \<and> product_valid p \<and>
     d' = d\<lparr>db_products := db_products d @ [p], db_next_id := Suc (db_next_id d)\<rparr>"
  by (auto simp: store_create_def product_valid_def Let_def)

text \<open>C15: a numeric \<open>0\<close> price or stock fails the truthiness check: 400
  \<open>Please provide all required fields\<close>, nothing stored.\<close>

theorem create_zero_rejected:
  assumes "pb_price b = JNum (Fin 0) \<or> pb_stock b = JNum (Fin 0)"
  shows "create_product now b d = (fail 400 ''Please provide all required fields'', d)"
  using assms by (auto simp: create_product_def)

theorem create_zero_rejected_witness:
  "(pb_price (lamp_form\<lparr>pb_price := JNum (Fin 0)\<rparr>) = JNum (Fin 0) \<or>
    pb_stock (lamp_form\<lparr>pb_price := JNum (Fin 0)\<rparr>) = JNum (Fin 0)) \<and>
   create_product 100 (lamp_form\<lparr>pb_price := JNum (Fin 0)\<rparr>) shop_db =
     (fail 400 ''Please provide all required fields'', shop_db)"
  using create_zero_rejected [of "lamp_form\<lparr>pb_price := JNum (Fin 0)\<rparr>" 100 shop_db] by simp

text \<open>C16: what a successful create stores: one new product at the end of the
  collection, with the next id, the request time, the lower-cased category,
  \<open>Number(price)\<close> and \<open>Number(stock)\<close>, rating and review count reset to 0, and
  every schema constraint satisfied.\<close>

theorem create_product_stores:
  assumes "create_product now b d = (Response 201 h (ProductBody p), d')"
  shows "d' = d\<lparr>db_products := db_products d @ [p], db_next_id := Suc (db_next_id d)\<rparr> \<and>
         product_valid p \<and> prod_id p = db_next_id d \<and> prod_created_at p = now \<and>
         js_to_lower (pb_category b) = Inr (prod_category p) \<and>
         prod_price p = to_number (pb_price b) \<and> prod_stock p = to_number (pb_stock b) \<and>
         prod_rating p = Fin 0 \<and> prod_num_reviews p = Fin 0"
  using assms
  by (auto simp: create_product_def store_create_Inr new_product_def fail_def
      split: if_splits sum.splits prod.splits)

text \<open>The admin forms send every field as a string, and \<open>"0"\<close> is truthy: a
  product with price 0 is created from the form, contrary to the documented
  rejection of a zero price.\<close>

lemma create_lamp_form:
  "create_product 100 lamp_form shop_db =
     (Response 201 None (ProductBody (new_product
        \<lparr>pf_name = JStr ''Lamp'', pf_description = JStr ''A desk lamp'', pf_price = Fin 0,
         pf_category = ''home'', pf_image = JStr ''lamp.png'', pf_stock = Fin 3,
         pf_rating = Fin 0, pf_num_reviews = Fin 0\<rparr> 100 shop_db)),
      shop_db\<lparr>db_products := [new_product
        \<lparr>pf_name = JStr ''Lamp'', pf_description = JStr ''A desk lamp'', pf_price = Fin 0,
         pf_category = ''home'', pf_image = JStr ''lamp.png'', pf_stock = Fin 3,
         pf_rating = Fin 0, pf_num_reviews = Fin 0\<rparr> 100 shop_db], db_next_id := 6\<rparr>)"
  by code_simp

theorem create_product_stores_witness:
  "create_product 100 lamp_form shop_db =
     (Response 201 None (ProductBody (new_product
        \<lparr>pf_name = JStr ''Lamp'', pf_description = JStr ''A desk lamp'', pf_price = Fin 0,
         pf_category = ''home'', pf_image = JStr ''lamp.png'', pf_stock = Fin 3,
         pf_rating = Fin 0, pf_num_reviews = Fin 0\<rparr> 100 shop_db)),
      shop_db\<lparr>db_products := [new_product
        \<lparr>pf_name = JStr ''Lamp'', pf_description = JStr ''A desk lamp'', pf_price = Fin 0,
         pf_category = ''home'', pf_image = JStr ''lamp.png'', pf_stock = Fin 3,
         pf_rating = Fin 0, pf_num_reviews = Fin 0\<rparr> 100 shop_db], db_next_id := 6\<rparr>) \<and>
   prod_price (new_product
        \<lparr>pf_name = JStr ''Lamp'', pf_description = JStr ''A desk lamp'', pf_price = Fin 0,
         pf_category = ''home'', pf_image = JStr ''lamp.png'', pf_stock = Fin 3,
         pf_rating = Fin 0, pf_num_reviews = Fin 0\<rparr> 100 shop_db) = to_number (JStr ''0'')"
  using create_product_stores [OF create_lamp_form] create_lamp_form by (simp add: lamp_form_def)

subsection \<open>Updating\<close>

lemma cast_field_opt:
  "cast_field (opt_field v) = Some x \<Longrightarrow> x = (if truthy v then Some (the (cast_string v)) else None)"
  by (auto simp: cast_field_def opt_field_def split: if_splits)

lemma store_update_Some:
  assumes "store_update_by_id s u d = Inr (Some p', d')"
  obtains i pt p where "parse_oid s = Some i" and "cast_update u = Some pt" and "find_product i d = Some p"
    and "p' = apply_patch pt p"
    and "d' = d\<lparr>db_products := map (\<lambda>q. if prod_id q = i then apply_patch pt q else q) (db_products d)\<rparr>"
  using assms by (auto simp: store_update_by_id_def split: option.splits if_splits)

lemma find_product_id: "find_product i d = Some p \<Longrightarrow> prod_id p = i \<and> p \<in> set (db_products d)"
  by (auto simp: find_product_def find_Some_iff nth_mem)

lemma filter_map_other:
  "filter (\<lambda>q. prod_id q \<noteq> i) (map (\<lambda>q. if prod_id q = i then g q else q) ps) = filter (\<lambda>q. prod_id q \<noteq> i) ps"
  if "\<And>q. prod_id (g q) = prod_id q"
  using that by (induction ps) auto

lemma apply_patch_id [simp]: "prod_id (apply_patch pt q) = prod_id q"
  by (simp add: apply_patch_def)

text \<open>C17: a successful update changes exactly the fields whose body value is
  truthy; a falsy value (a numeric \<open>0\<close> price or stock, an empty string) leaves
  the field as it was. Products with other ids are untouched.\<close>

theorem update_product_partial:
  assumes "update_product pid b d = (Response 200 h (ProductBody p'), d')"
  shows "\<exists>i p. parse_oid pid = Some i \<and> find_product i d = Some p \<and>
     prod_id p' = prod_id p \<and>
     prod_name p' = (if truthy (pb_name b) then set_name (the (cast_string (pb_name b))) else prod_name p) \<and>
     prod_description p' =
       (if truthy (pb_description b) then the (cast_string (pb_description b)) else prod_description p) \<and>
     prod_category p' = (case update_category (pb_category b) of Inr (Some c) \<Rightarrow> c | _ \<Rightarrow> prod_category p) \<and>
     prod_price p' = (if truthy (pb_price b) then to_number (pb_price b) else prod_price p) \<and>
     prod_stock p' = (if truthy (pb_stock b) then to_number (pb_stock b) else prod_stock p) \<and>
     prod_image p' = (if truthy (pb_image b) then the (cast_string (pb_image b)) else prod_image p) \<and>
     prod_rating p' = prod_rating p \<and> prod_num_reviews p' = prod_num_reviews p \<and>
     prod_created_at p' = prod_created_at p \<and>
     filter (\<lambda>q. prod_id q \<noteq> i) (db_products d') = filter (\<lambda>q. prod_id q \<noteq> i) (db_products d)"
proof -
  from assms obtain co where co: "update_category (pb_category b) = Inr co"
    and st: "store_update_by_id pid
       \<lparr>pu_name = opt_field (pb_name b), pu_description = opt_field (pb_description b), pu_category = co,
        pu_price = map_option to_number (opt_field (pb_price b)),
        pu_stock = map_option to_number (opt_field (pb_stock b)),
        pu_image = opt_field (pb_image b)\<rparr> d = Inr (Some p', d')"
    by (auto simp: update_product_def fail_def ok_def split: sum.splits if_splits option.splits prod.splits)
  from st obtain i pt p where i: "parse_oid pid = Some i" and pt: "cast_update
       \<lparr>pu_name = opt_field (pb_name b), pu_description = opt_field (pb_description b), pu_category = co,
        pu_price = map_option to_number (opt_field (pb_price b)),
        pu_stock = map_option to_number (opt_field (pb_stock b)),
        pu_image = opt_field (pb_image b)\<rparr> = Some pt"
    and p: "find_product i d = Some p" and p': "p' = apply_patch pt p"
    and d': "d' = d\<lparr>db_products := map (\<lambda>q. if prod_id q = i then apply_patch pt q else q) (db_products d)\<rparr>"
    by (rule store_update_Some)
  from pt have fields:
    "pp_name pt = map_option set_name (if truthy (pb_name b) then Some (the (cast_string (pb_name b))) else None)"
    "pp_description pt = (if truthy (pb_description b) then Some (the (cast_string (pb_description b))) else None)"
    "pp_image pt = (if truthy (pb_image b) then Some (the (cast_string (pb_image b))) else None)"
    "pp_category pt = co"
    "pp_price pt = map_option to_number (opt_field (pb_price b))"
    "pp_stock pt = map_option to_number (opt_field (pb_stock b))"
    by (auto simp: cast_update_def dest!: cast_field_opt split: option.splits)
  have "filter (\<lambda>q. prod_id q \<noteq> i) (db_products d') = filter (\<lambda>q. prod_id q \<noteq> i) (db_products d)"
    by (simp add: d' filter_map_other)
  with i p p' fields co show ?thesis
    by (auto simp: apply_patch_def opt_field_def split: option.splits)
qed

lemma update_lamp:
  "update_product lamp_id (lamp_form\<lparr>pb_name := JStr [], pb_price := JNum (Fin 0), pb_stock := JStr ''7''\<rparr>) lamp_db =
     (Response 200 None (ProductBody (lamp\<lparr>prod_stock := Fin 7\<rparr>)), lamp_db\<lparr>db_products := [lamp\<lparr>prod_stock := Fin 7\<rparr>]\<rparr>)"
  by code_simp

theorem update_product_partial_witness:
  "update_product lamp_id (lamp_form\<lparr>pb_name := JStr [], pb_price := JNum (Fin 0), pb_stock := JStr ''7''\<rparr>) lamp_db =
     (Response 200 None (ProductBody (lamp\<lparr>prod_stock := Fin 7\<rparr>)), lamp_db\<lparr>db_products := [lamp\<lparr>prod_stock := Fin 7\<rparr>]\<rparr>) \<and>
   prod_price (lamp\<lparr>prod_stock := Fin 7\<rparr>) = prod_price lamp \<and> prod_name (lamp\<lparr>prod_stock := Fin 7\<rparr>) = prod_name lamp"
proof -
  have "\<exists>i p. parse_oid lamp_id = Some i \<and> find_product i lamp_db = Some p \<and>
          prod_price (lamp\<lparr>prod_stock := Fin 7\<rparr>) = prod_price p \<and> prod_name (lamp\<lparr>prod_stock := Fin 7\<rparr>) = prod_name p"
    using update_product_partial [OF update_lamp] by auto
  moreover have "find_product 5 lamp_db = Some lamp" and "parse_oid lamp_id = Some 5"
    by (code_simp, code_simp)
  ultimately show ?thesis using update_lamp by auto
qed

subsection \<open>Deleting and reading\<close>

lemma delete_found:
  "parse_oid pid = Some i \<Longrightarrow> find_product i d = Some p \<Longrightarrow>
   delete_product pid d = (ok 200 EmptyBody, d\<lparr>db_products := filter (\<lambda>q. prod_id q \<noteq> i) (db_products d)\<rparr>)"
  by (simp add: delete_product_def store_delete_by_id_def)

lemma find_product_filter_other: "find_product i (d\<lparr>db_products := filter (\<lambda>q. prod_id q \<noteq> i) ps\<rparr>) = None"
  by (simp add: find_product_def find_None_iff)

text \<open>C18: deleting an existing product answers 200 with an empty payload and
  removes it; deleting it again answers 404 \<open>Product not found\<close> and changes
  nothing: idempotent in effect, not in status.\<close>

theorem delete_twice:
  assumes "parse_oid pid = Some i" and "find_product i d \<noteq> None"
  shows "fst (delete_product pid d) = ok 200 EmptyBody \<and>
         find_product i (snd (delete_product pid d)) = None \<and>
         delete_product pid (snd (delete_product pid d)) =
           (fail 404 ''Product not found'', snd (delete_product pid d))"
proof -
  from assms(2) obtain p where p: "find_product i d = Some p" by blast
  let ?d1 = "d\<lparr>db_products := filter (\<lambda>q. prod_id q \<noteq> i) (db_products d)\<rparr>"
  have first: "delete_product pid d = (ok 200 EmptyBody, ?d1)"
    using assms(1) p by (rule delete_found)
  have gone: "find_product i ?d1 = None"
    by (rule find_product_filter_other)
  then have "delete_product pid ?d1 = (fail 404 ''Product not found'', ?d1)"
    using assms(1) by (simp add: delete_product_def store_delete_by_id_def find_product_def)
  with first gone show ?thesis by simp
qed

theorem delete_twice_witness:
  "parse_oid lamp_id = Some 5 \<and> find_product 5 lamp_db \<noteq> None \<and>
   fst (delete_product lamp_id lamp_db) = ok 200 EmptyBody \<and>
   delete_product lamp_id (snd (delete_product lamp_id lamp_db)) =
     (fail 404 ''Product not found'', snd (delete_product lamp_id lamp_db))"
proof -
  have h1: "parse_oid lamp_id = Some 5" and h2: "find_product 5 lamp_db \<noteq> None"
    by (code_simp, code_simp)
  show ?thesis using delete_twice [OF h1 h2] h1 h2 by simp
qed

text \<open>C19: an id that is not 24 hexadecimal digits is not "not found": the cast
  to ObjectId throws and read and delete answer 500 \<open>Server error\<close>, where the
  spec promises 404.\<close>

theorem malformed_id_500:
  assumes "parse_oid pid = None"
  shows "get_product pid d = fail 500 ''Server error'' \<and> delete_product pid d = (fail 500 ''Server error'', d)"
  using assms by (simp add: get_product_def delete_product_def store_find_by_id_def store_delete_by_id_def)

theorem malformed_id_500_witness:
  "parse_oid ''5'' = None \<and> get_product ''5'' lamp_db = fail 500 ''Server error'' \<and>
   delete_product ''5'' lamp_db = (fail 500 ''Server error'', lamp_db)"
proof -
  have h: "parse_oid ''5'' = None" by (simp add: parse_oid_def)
  show ?thesis using malformed_id_500 [OF h] h by simp
qed

text \<open>C20: reading a well-formed id that no product has answers 404
  \<open>Product not found\<close>; an existing one answers 200 with the document.\<close>

theorem get_product_result:
  assumes "parse_oid pid = Some i"
  shows "get_product pid d = (case find_product i d of None \<Rightarrow> fail 404 ''Product not found''
                                | Some p \<Rightarrow> ok 200 (ProductBody p))"
  using assms by (simp add: get_product_def store_find_by_id_def split: option.splits)

theorem get_product_result_witness:
  "parse_oid ''000000000000000000000009'' = Some 9 \<and>
   get_product ''000000000000000000000009'' lamp_db = fail 404 ''Product not found''"
proof -
  have h: "parse_oid ''000000000000000000000009'' = Some 9" by code_simp
  have n: "find_product 9 lamp_db = None" by code_simp
  show ?thesis using get_product_result [OF h, of lamp_db] h n by simp
qed

end
