(* ===== verification/Server.thy ===== *)
theory Server
  imports ProductQuery Auth ProductCrud
begin

text \<open>
  The backend as one machine. \<open>src/backend/server.js\<close> mounts \<open>routes/auth.js\<close>
  at \<open>/api/auth\<close> and \<open>routes/products.js\<close> at \<open>/api/products\<close>; each route
  declaration names its middleware chain. A \<open>request\<close> is one HTTP request as
  the router sees it (method, path parameters, Authorization header, body or
  query), \<open>handle\<close> dispatches it to its chain and handler, and \<open>reachable\<close>
  is the set of databases that some sequence of requests, at any times, leads
  to from the empty collections \<open>server.js\<close> creates. The invariant \<open>db_ok\<close>
  holds on every reachable database; the gate properties hold for every
  protected request.
\<close>

datatype request =
    ReqRegister jsval jsval
  | ReqLogin jsval jsval
  | ReqVerify "string option"
  | ReqListProducts list_params
  | ReqGetProduct string
  | ReqCreateProduct "string option" product_body
  | ReqUpdateProduct "string option" string product_body
  | ReqDeleteProduct "string option" string

definition handle :: "regex_engine \<Rightarrow> nat \<Rightarrow> nat \<Rightarrow> request \<Rightarrow> db \<Rightarrow> response \<times> db" where
  "handle rx key now r d =
     (case r of
        ReqRegister e pw \<Rightarrow> register key now e pw d
      | ReqLogin e pw \<Rightarrow> (login key now e pw d, d)
      | ReqVerify h \<Rightarrow> (get_verify key now h d, d)
      | ReqListProducts lp \<Rightarrow> (get_products rx lp d, d)
      | ReqGetProduct pid \<Rightarrow> (get_product pid d, d)
      | ReqCreateProduct h b \<Rightarrow> admin_route key now h d (\<lambda>u. create_product now b)
      | ReqUpdateProduct h pid b \<Rightarrow> admin_route key now h d (\<lambda>u. update_product pid b)
      | ReqDeleteProduct h pid \<Rightarrow> admin_route key now h d (\<lambda>u. delete_product pid))"

text \<open>The routes behind \<open>protect, authorize('admin')\<close>, and their header.\<close>

fun admin_request :: "request \<Rightarrow> string option option" where
  "admin_request (ReqCreateProduct h _) = Some h"
| "admin_request (ReqUpdateProduct h _ _) = Some h"
| "admin_request (ReqDeleteProduct h _) = Some h"
| "admin_request _ = None"

text \<open>Every route that runs a token check (\<open>auth\<close> or \<open>protect\<close>), and its header.\<close>

fun protected_header :: "request \<Rightarrow> string option option" where
  "protected_header (ReqVerify h) = Some h"
| "protected_header r = admin_request r"

text \<open>The collections as \<open>server.js\<close> creates them: both empty.\<close>

definition init_db :: db where
  "init_db = \<lparr>db_users = [], db_products = [], db_next_id = 1\<rparr>"

inductive reachable :: "regex_engine \<Rightarrow> nat \<Rightarrow> db \<Rightarrow> bool" where
  init: "reachable rx key init_db"
| step: "reachable rx key d \<Longrightarrow> reachable rx key (snd (handle rx key now r d))"

text \<open>The store invariant: stored products satisfy the schema, emails are
  unique, and the identifiers handed out so far are distinct and below the
  next one.\<close>

definition db_ok :: "db \<Rightarrow> bool" where
  "db_ok d \<longleftrightarrow>
     list_all product_valid (db_products d) \<and>
     distinct (map user_email (db_users d)) \<and>
     distinct (map user_id (db_users d) @ map prod_id (db_products d)) \<and>
     list_all (\<lambda>i. i < db_next_id d) (map user_id (db_users d) @ map prod_id (db_products d))"

text \<open>A second invariant: every stored name is its own trim, because the
  \<open>trim: true\<close> setter writes every name that reaches the store.\<close>

definition names_trimmed :: "db \<Rightarrow> bool" where
  "names_trimmed d \<longleftrightarrow> list_all (\<lambda>p. trim_ws (prod_name p) = prod_name p) (db_products d)"

text \<open>Two invariants that only the handlers keep, the store checking neither:
  an account is an administrator exactly when its email is \<open>ADMIN_EMAIL\<close>
  (\<open>role_for\<close> in \<open>register\<close>), and every product still has the rating and
  review count 0 that \<open>create_product\<close> gives it (no handler writes them).\<close>

definition roles_by_email :: "db \<Rightarrow> bool" where
  "roles_by_email d \<longleftrightarrow> list_all (\<lambda>u. (user_role u = RoleAdmin) = (user_email u = ADMIN_EMAIL)) (db_users d)"

definition unrated :: "db \<Rightarrow> bool" where
  "unrated d \<longleftrightarrow> list_all (\<lambda>p. prod_rating p = Fin 0 \<and> prod_num_reviews p = Fin 0) (db_products d)"

subsection \<open>The middleware chain\<close>

lemma admin_route_cases:
  "admin_route key now h d f = (fst (admin_route key now h d f), d) \<or>
   (\<exists>u. auth key now h d = Inr u \<and> up_role u = RoleAdmin \<and> admin_route key now h d f = f u d)"
  by (auto simp: admin_route_def protect_def authorize_def split: sum.splits option.splits if_splits)

lemma admin_route_keeps:
  assumes "P d" and "\<And>u. P (snd (f u d))"
  shows "P (snd (admin_route key now h d f))"
  using admin_route_cases [of key now h d f] assms by (metis prod.sel(2))

lemma admin_route_rejects:
  "auth key now h d = Inl r \<Longrightarrow> admin_route key now h d f = (r, d)"
  by (simp add: admin_route_def protect_def)

lemma admin_route_forbidden:
  "auth key now h d = Inr u \<Longrightarrow> up_role u \<noteq> RoleAdmin \<Longrightarrow> admin_route key now h d f = (fail 403 ''Forbidden'', d)"
  by (simp add: admin_route_def protect_def authorize_def)

lemma admin_route_admin:
  "auth key now h d = Inr u \<Longrightarrow> up_role u = RoleAdmin \<Longrightarrow> admin_route key now h d f = f u d"
  by (simp add: admin_route_def protect_def authorize_def)

lemma handle_admin_request:
  "admin_request r = Some h \<Longrightarrow>
   \<exists>f. handle rx key now r d = admin_route key now h d f"
  by (cases r) (auto simp: handle_def)

lemma handle_other_request:
  "admin_request r = None \<Longrightarrow> db_products (snd (handle rx key now r d)) = db_products d"
  by (cases r) (auto simp: handle_def register_def save_user_def Let_def split: if_splits option.splits sum.splits prod.splits)

subsection \<open>The store invariant\<close>

lemma db_ok_fresh:
  "db_ok d \<Longrightarrow> db_next_id d \<notin> set (map user_id (db_users d) @ map prod_id (db_products d))"
  by (auto simp: db_ok_def list_all_iff)

lemma db_ok_save_user:
  assumes "save_user e pw rl now d = Inr (u, d')" and "db_ok d"
  shows "db_ok d'"
proof -
  from assms(1) have e: "e \<notin> user_email ` set (db_users d)" and u: "user_id u = db_next_id d"
    and d': "d' = d\<lparr>db_users := db_users d @ [u], db_next_id := Suc (db_next_id d)\<rparr>"
    and ue: "user_email u = e"
    by (auto simp: save_user_def find_user_by_email_def find_None_iff Let_def split: if_splits)
  have "distinct (map user_id (db_users d') @ map prod_id (db_products d'))"
    using assms(2) db_ok_fresh [OF assms(2)] by (auto simp: d' u db_ok_def)
  with assms(2) e u ue show ?thesis
    by (auto simp: d' db_ok_def list_all_iff less_Suc_eq)
qed

lemma db_ok_register: "db_ok d \<Longrightarrow> db_ok (snd (register key now e pw d))"
  by (auto simp: register_def dest: db_ok_save_user split: sum.splits option.splits prod.splits)

lemma db_ok_store_create:
  assumes "store_create f now d = Inr (p, d')" and "db_ok d"
  shows "db_ok d'"
proof -
  from assms(1) have p: "prod_id p = db_next_id d"
    and d': "d' = d\<lparr>db_products := db_products d @ [p], db_next_id := Suc (db_next_id d)\<rparr>"
    by (auto simp: store_create_def new_product_def Let_def split: if_splits)
  have "list_all product_valid (db_products d')"
    using store_create_valid [OF assms(1)] assms(2) by (simp add: db_ok_def)
  with assms(2) p d' show ?thesis
    by (auto simp: db_ok_def list_all_iff less_Suc_eq)
qed

lemma db_ok_create_product: "db_ok d \<Longrightarrow> db_ok (snd (create_product now b d))"
  by (auto simp: create_product_def dest: db_ok_store_create split: sum.splits if_splits prod.splits)

lemma map_prod_id_patch:
  "map prod_id (map (\<lambda>q. if prod_id q = i then apply_patch pt q else q) ps) = map prod_id ps"
  by (induction ps) auto

lemma db_ok_store_update:
  assumes "store_update_by_id s u d = Inr (r, d')" and "db_ok d"
  shows "db_ok d'"
proof -
  have v: "list_all product_valid (db_products d')"
    using store_update_valid [OF assms(1)] assms(2) by (simp add: db_ok_def)
  from assms(1) have "map prod_id (db_products d') = map prod_id (db_products d) \<and>
      db_users d' = db_users d \<and> db_next_id d' = db_next_id d"
    by (auto simp: store_update_by_id_def map_prod_id_patch split: option.splits if_splits)
  with v assms(2) show ?thesis by (simp add: db_ok_def)
qed

lemma db_ok_update_product: "db_ok d \<Longrightarrow> db_ok (snd (update_product pid b d))"
  by (auto simp: update_product_def dest: db_ok_store_update split: sum.splits if_splits prod.splits option.splits)

lemma db_ok_store_delete:
  assumes "store_delete_by_id s d = Inr (r, d')" and "db_ok d"
  shows "db_ok d'"
proof -
  have v: "list_all product_valid (db_products d')"
    using store_delete_valid [OF assms(1)] assms(2) by (simp add: db_ok_def)
  from assms(1) obtain i where d': "d' = d\<lparr>db_products := filter (\<lambda>p. prod_id p \<noteq> i) (db_products d)\<rparr>"
    by (auto simp: store_delete_by_id_def split: option.splits)
  have "distinct (map prod_id (filter (\<lambda>p. prod_id p \<noteq> i) (db_products d)))"
    using assms(2) by (simp add: db_ok_def distinct_map_filter)
  with v d' assms(2) show ?thesis
    by (auto simp: db_ok_def list_all_iff less_Suc_eq)
qed

lemma db_ok_delete_product: "db_ok d \<Longrightarrow> db_ok (snd (delete_product pid d))"
  by (auto simp: delete_product_def dest: db_ok_store_delete split: sum.splits prod.splits option.splits)

lemmas db_ok_admin_route = admin_route_keeps [where P = db_ok]

lemma db_ok_handle: "db_ok d \<Longrightarrow> db_ok (snd (handle rx key now r d))"
  by (cases r) (simp_all add: handle_def db_ok_register db_ok_admin_route db_ok_create_product
      db_ok_update_product db_ok_delete_product)

lemma db_ok_init: "db_ok init_db"
  by (simp add: db_ok_def init_db_def)

lemma handle_protected_auth:
  "protected_header r = Some h \<Longrightarrow> auth key now h d = Inl resp \<Longrightarrow> handle rx key now r d = (resp, d)"
  by (cases r) (simp_all add: handle_def get_verify_def admin_route_rejects)

lemma handle_admin_forbidden:
  "admin_request r = Some h \<Longrightarrow> auth key now h d = Inr u \<Longrightarrow> up_role u \<noteq> RoleAdmin \<Longrightarrow>
   handle rx key now r d = (fail 403 ''Forbidden'', d)"
  using handle_admin_request [of r h rx key now d] admin_route_forbidden by metis

lemma db_users_handlers:
  "db_users (snd (create_product now b d)) = db_users d"
  "db_users (snd (update_product pid b d)) = db_users d"
  "db_users (snd (delete_product pid d)) = db_users d"
  by (auto simp: create_product_def store_create_def update_product_def store_update_by_id_def
      delete_product_def store_delete_by_id_def Let_def split: sum.splits if_splits prod.splits option.splits)

lemma db_users_admin_route:
  "(\<And>u. db_users (snd (f u d)) = db_users d) \<Longrightarrow> db_users (snd (admin_route key now h d f)) = db_users d"
  using admin_route_cases [of key now h d f] by (metis prod.sel(2))

lemma db_users_register: "prefix (db_users d) (db_users (snd (register key now e pw d)))"
  by (auto simp: register_def save_user_def Let_def split: sum.splits option.splits prod.splits if_splits)

lemma find_user_by_id_fresh:
  "db_next_id d \<notin> user_id ` set (db_users d) \<Longrightarrow> user_id u = db_next_id d \<Longrightarrow>
   find_user_by_id (user_id u) (d\<lparr>db_users := db_users d @ [u], db_next_id := n\<rparr>) = Some u"
  by (simp add: find_user_by_id_def) (rule find_snoc_fresh; force)

subsection \<open>Stored names are trimmed\<close>

lemma set_name_trimmed: "trim_ws (set_name s) = set_name s"
  by (simp add: set_name_def trim_ws_idem)

lemma names_trimmed_register: "names_trimmed d \<Longrightarrow> names_trimmed (snd (register key now e pw d))"
  by (auto simp: register_def save_user_def names_trimmed_def Let_def split: sum.splits option.splits prod.splits if_splits)

lemma names_trimmed_create_product: "names_trimmed d \<Longrightarrow> names_trimmed (snd (create_product now b d))"
  by (auto simp: create_product_def store_create_def new_product_def names_trimmed_def set_name_trimmed Let_def
      split: sum.splits if_splits prod.splits)

lemma names_trimmed_patch:
  "trim_ws (prod_name q) = prod_name q \<Longrightarrow> cast_update u = Some pt \<Longrightarrow> trim_ws (prod_name (apply_patch pt q)) = prod_name (apply_patch pt q)"
  by (auto simp: cast_update_def apply_patch_def set_name_trimmed split: option.splits)

lemma names_trimmed_update_product: "names_trimmed d \<Longrightarrow> names_trimmed (snd (update_product pid b d))"
  by (auto simp: update_product_def store_update_by_id_def names_trimmed_def list_all_iff names_trimmed_patch
      split: sum.splits if_splits prod.splits option.splits)

lemma names_trimmed_delete_product: "names_trimmed d \<Longrightarrow> names_trimmed (snd (delete_product pid d))"
  by (auto simp: delete_product_def store_delete_by_id_def names_trimmed_def list_all_iff
      split: sum.splits prod.splits option.splits)

lemmas names_trimmed_admin_route = admin_route_keeps [where P = names_trimmed]

lemma names_trimmed_handle: "names_trimmed d \<Longrightarrow> names_trimmed (snd (handle rx key now r d))"
  by (cases r) (simp_all add: handle_def names_trimmed_register names_trimmed_admin_route
      names_trimmed_create_product names_trimmed_update_product names_trimmed_delete_product)

lemma reachable_names_trimmed: "reachable rx key d \<Longrightarrow> names_trimmed d"
  by (induction rule: reachable.induct) (simp add: names_trimmed_def init_db_def, simp add: names_trimmed_handle)

subsection \<open>Roles and ratings\<close>

lemma at_not_in_int_string: "CHR ''@'' \<notin> set (int_string i)"
  using dec_string_digits [of "nat i"] dec_string_digits [of "nat (- i)"] by (auto simp: int_string_def is_digit_def)

lemma cast_string_admin: "cast_string v = Some e \<Longrightarrow> (v = JStr ADMIN_EMAIL) = (e = ADMIN_EMAIL)"
proof (cases v)
  case (JNum n)
  assume c: "cast_string v = Some e"
  have "CHR ''@'' \<in> set ADMIN_EMAIL" by (simp add: ADMIN_EMAIL_def)
  moreover have "CHR ''@'' \<notin> set e"
    using c JNum at_not_in_int_string by (cases n) (auto split: if_splits)
  ultimately show ?thesis using JNum by auto
qed (auto simp: ADMIN_EMAIL_def split: if_splits)

lemma roles_by_email_register: "roles_by_email d \<Longrightarrow> roles_by_email (snd (register key now e pw d))"
  by (auto simp: register_def save_user_def roles_by_email_def role_for_def Let_def
      dest: cast_string_admin split: option.splits prod.splits sum.splits if_splits)

lemma unrated_register: "unrated d \<Longrightarrow> unrated (snd (register key now e pw d))"
  using db_users_register [of d key now e pw] handle_other_request [of "ReqRegister e pw"]
  by (simp add: unrated_def handle_def)

lemma store_create_rating:
  "store_create f now d = Inr (p, d') \<Longrightarrow>
   db_products d' = db_products d @ [p] \<and> prod_rating p = pf_rating f \<and> prod_num_reviews p = pf_num_reviews f"
  by (auto simp: store_create_def new_product_def Let_def split: if_splits)

lemma unrated_create_product: "unrated d \<Longrightarrow> unrated (snd (create_product now b d))"
  by (auto simp: create_product_def unrated_def dest!: store_create_rating split: sum.splits if_splits prod.splits)

lemma unrated_store_update:
  assumes "store_update_by_id s u d = Inr (r, d')" and "unrated d"
  shows "unrated d'"
proof -
  from assms(1) obtain i pt where
    "d' = d \<or> d' = d\<lparr>db_products := map (\<lambda>q. if prod_id q = i then apply_patch pt q else q) (db_products d)\<rparr>"
    by (auto simp: store_update_by_id_def split: option.splits if_splits prod.splits)
  then show ?thesis using assms(2) by (auto simp: unrated_def list_all_iff apply_patch_def)
qed

lemma unrated_update_product: "unrated d \<Longrightarrow> unrated (snd (update_product pid b d))"
  by (auto simp: update_product_def dest: unrated_store_update split: sum.splits if_splits prod.splits option.splits)

lemma unrated_store_delete:
  assumes "store_delete_by_id s d = Inr (r, d')" and "unrated d"
  shows "unrated d'"
proof -
  from assms(1) obtain i where "d' = d\<lparr>db_products := filter (\<lambda>p. prod_id p \<noteq> i) (db_products d)\<rparr>"
    by (auto simp: store_delete_by_id_def split: option.splits)
  then show ?thesis using assms(2) by (auto simp: unrated_def list_all_iff)
qed

lemma unrated_delete_product: "unrated d \<Longrightarrow> unrated (snd (delete_product pid d))"
  by (auto simp: delete_product_def dest: unrated_store_delete split: sum.splits prod.splits option.splits)

lemma roles_unrated_handle:
  assumes "roles_by_email d" and "unrated d"
  shows "roles_by_email (snd (handle rx key now r d)) \<and> unrated (snd (handle rx key now r d))"
proof -
  have users: "roles_by_email (snd (f d))" if "db_users (snd (f d)) = db_users d" for f :: "db \<Rightarrow> response \<times> db"
    using assms(1) that by (simp add: roles_by_email_def)
  show ?thesis
    by (cases r) (simp_all add: handle_def assms roles_by_email_register unrated_register
        admin_route_keeps users db_users_handlers unrated_create_product unrated_update_product unrated_delete_product)
qed

subsection \<open>Example states\<close>

definition shop_state :: db where
  "shop_state = \<lparr>db_users = [alice, admin_user], db_products = [lamp], db_next_id = 6\<rparr>"

definition admin_token :: string where
  "admin_token = ''Bearer '' @ jwt_sign 7 2 1000"

lemma auth_admin_token: "auth 7 2000 (Some admin_token) shop_state = Inr (public_user admin_user)"
proof -
  have "find_user_by_id 2 shop_state = Some admin_user"
    by (simp add: find_user_by_id_def shop_state_def alice_def admin_user_def)
  then show ?thesis
    using auth_signed [of 7 2000 7 2 1000 shop_state] by (simp add: admin_token_def token_lifetime_def)
qed

lemma delete_lamp_shop:
  "handle rx 7 2000 (ReqDeleteProduct (Some admin_token) lamp_id) shop_state =
     (ok 200 EmptyBody, shop_state\<lparr>db_products := []\<rparr>)"
proof -
  have i: "parse_oid lamp_id = Some 5" by code_simp
  have p: "find_product 5 shop_state = Some lamp" by (simp add: find_product_def shop_state_def lamp_def)
  have "handle rx 7 2000 (ReqDeleteProduct (Some admin_token) lamp_id) shop_state = delete_product lamp_id shop_state"
    using admin_route_admin [OF auth_admin_token] by (simp add: handle_def public_user_def admin_user_def)
  also have "\<dots> = (ok 200 EmptyBody, shop_state\<lparr>db_products := []\<rparr>)"
    using delete_found [OF i p] by (simp add: shop_state_def lamp_def)
  finally show ?thesis .
qed

subsection \<open>Properties over all requests\<close>

text \<open>On every database that a sequence of requests can produce from the
  empty collections, every stored product satisfies the product schema, emails
  are unique, and user and product identifiers are distinct and below the next
  identifier to be handed out. The store's own checks carry this.\<close>

theorem reachable_db_ok:
  assumes "reachable rx key d"
  shows "db_ok d"
  using assms by (induction rule: reachable.induct) (simp_all add: db_ok_init db_ok_handle)

theorem reachable_db_ok_witness:
  "reachable literal_regex_i 7
     (snd (handle literal_regex_i 7 100 (ReqRegister (JStr ''bob@example.com'') (JStr ''pw'')) init_db)) \<and>
   db_ok (snd (handle literal_regex_i 7 100 (ReqRegister (JStr ''bob@example.com'') (JStr ''pw'')) init_db))"
proof -
  have r: "reachable literal_regex_i 7
     (snd (handle literal_regex_i 7 100 (ReqRegister (JStr ''bob@example.com'') (JStr ''pw'')) init_db))"
    by (rule reachable.step [OF reachable.init])
  show ?thesis using r reachable_db_ok [OF r] by simp
qed

text \<open>C21: on every database that a sequence of requests can produce from the
  empty collections, an account has the role \<open>admin\<close> exactly when its
  email is the hard-coded \<open>ADMIN_EMAIL\<close>, and every product has rating 0 and
  review count 0: no handler ever writes a rating, so the \<open>minRating\<close> filter
  and the rating sorts of the listing act on zeros.\<close>

theorem reachable_roles_unrated:
  assumes "reachable rx key d"
  shows "list_all (\<lambda>u. (user_role u = RoleAdmin) = (user_email u = ADMIN_EMAIL)) (db_users d) \<and>
         list_all (\<lambda>p. prod_rating p = Fin 0 \<and> prod_num_reviews p = Fin 0) (db_products d)"
proof -
  have "roles_by_email d \<and> unrated d"
    using assms by (induction rule: reachable.induct)
      (simp add: roles_by_email_def unrated_def init_db_def, simp add: roles_unrated_handle)
  then show ?thesis by (simp add: roles_by_email_def unrated_def)
qed

theorem reachable_roles_unrated_witness:
  "reachable literal_regex_i 7
     (snd (handle literal_regex_i 7 100 (ReqRegister (JStr ADMIN_EMAIL) (JStr ''r00t'')) init_db)) \<and>
   list_all (\<lambda>u. (user_role u = RoleAdmin) = (user_email u = ADMIN_EMAIL))
     (db_users (snd (handle literal_regex_i 7 100 (ReqRegister (JStr ADMIN_EMAIL) (JStr ''r00t'')) init_db))) \<and>
   list_all (\<lambda>p. prod_rating p = Fin 0 \<and> prod_num_reviews p = Fin 0)
     (db_products (snd (handle literal_regex_i 7 100 (ReqRegister (JStr ADMIN_EMAIL) (JStr ''r00t'')) init_db)))"
proof -
  have r: "reachable literal_regex_i 7
     (snd (handle literal_regex_i 7 100 (ReqRegister (JStr ADMIN_EMAIL) (JStr ''r00t'')) init_db))"
    by (rule reachable.step [OF reachable.init])
  show ?thesis using r reachable_roles_unrated [OF r] by simp
qed

text \<open>A token past its expiry is rejected by every protected endpoint
  (\<open>/verify\<close> and the three admin routes) with 401 \<open>Token expired\<close>, whatever
  its user id and whatever the request's body, and the store is unchanged.\<close>

theorem expired_token_rejected:
  assumes "protected_header r = Some (Some (''Bearer '' @ jwt_sign key uid t))"
    and "t + token_lifetime \<le> now"
  shows "handle rx key now r d = (fail 401 ''Token expired'', d)"
proof -
  have "auth key now (Some (''Bearer '' @ jwt_sign key uid t)) d = Inl (fail 401 ''Token expired'')"
    using auth_signed [of key now key uid t d] assms(2) by simp
  with assms(1) show ?thesis by (rule handle_protected_auth)
qed

theorem expired_token_rejected_witness:
  "protected_header (ReqDeleteProduct (Some admin_token) lamp_id) = Some (Some (''Bearer '' @ jwt_sign 7 2 1000)) \<and>
   1000 + token_lifetime \<le> 87400 \<and>
   handle literal_regex_i 7 87400 (ReqDeleteProduct (Some admin_token) lamp_id) shop_state =
     (fail 401 ''Token expired'', shop_state)"
proof -
  have h: "protected_header (ReqDeleteProduct (Some admin_token) lamp_id) = Some (Some (''Bearer '' @ jwt_sign 7 2 1000))"
    by (simp add: admin_token_def)
  have t: "1000 + token_lifetime \<le> (87400::nat)" by (simp add: token_lifetime_def)
  show ?thesis using expired_token_rejected [OF h t] h t by simp
qed

text \<open>C23: a valid, unexpired token of an existing account with role \<open>user\<close>
  calling any admin-only endpoint gets 403 \<open>Forbidden\<close>, never 401, and the
  store is unchanged.\<close>

theorem non_admin_forbidden:
  assumes "admin_request r = Some (Some (''Bearer '' @ jwt_sign key uid t))"
    and "now < t + token_lifetime" and "find_user_by_id uid d = Some u" and "user_role u = RoleUser"
  shows "handle rx key now r d = (fail 403 ''Forbidden'', d)"
proof -
  have a: "auth key now (Some (''Bearer '' @ jwt_sign key uid t)) d = Inr (public_user u)"
    using auth_signed [of key now key uid t d] assms(2,3) by simp
  show ?thesis
    by (rule handle_admin_forbidden [OF assms(1) a]) (simp add: public_user_def assms(4))
qed

theorem non_admin_forbidden_witness:
  "admin_request (ReqCreateProduct (Some (''Bearer '' @ jwt_sign 7 1 1000)) lamp_form) =
     Some (Some (''Bearer '' @ jwt_sign 7 1 1000)) \<and>
   (2000::nat) < 1000 + token_lifetime \<and> find_user_by_id 1 shop_state = Some alice \<and> user_role alice = RoleUser \<and>
   handle literal_regex_i 7 2000 (ReqCreateProduct (Some (''Bearer '' @ jwt_sign 7 1 1000)) lamp_form) shop_state =
     (fail 403 ''Forbidden'', shop_state)"
proof -
  have a: "admin_request (ReqCreateProduct (Some (''Bearer '' @ jwt_sign 7 1 1000)) lamp_form) =
     Some (Some (''Bearer '' @ jwt_sign 7 1 1000))" by simp
  have t: "(2000::nat) < 1000 + token_lifetime" by (simp add: token_lifetime_def)
  have f: "find_user_by_id 1 shop_state = Some alice" and r: "user_role alice = RoleUser"
    by (code_simp, simp add: alice_def)
  show ?thesis using non_admin_forbidden [OF a t f r] a t f r by simp
qed

text \<open>C24: only an authenticated administrator changes the product collection:
  a request after which the products differ is an admin route whose header
  the \<open>auth\<close> middleware accepts for an account with role \<open>admin\<close>.\<close>

theorem mutation_requires_admin:
  assumes "db_products (snd (handle rx key now r d)) \<noteq> db_products d"
  shows "\<exists>h u. admin_request r = Some h \<and> auth key now h d = Inr u \<and> up_role u = RoleAdmin"
proof (cases "admin_request r")
  case None
  with assms show ?thesis by (simp add: handle_other_request)
next
  case (Some h)
  then obtain f where hf: "handle rx key now r d = admin_route key now h d f"
    using handle_admin_request by blast
  with assms have "snd (admin_route key now h d f) \<noteq> d" by auto
  then have "admin_route key now h d f \<noteq> (fst (admin_route key now h d f), d)" by (metis snd_conv)
  with admin_route_cases [of key now h d f] Some show ?thesis by blast
qed

theorem mutation_requires_admin_witness:
  "db_products (snd (handle literal_regex_i 7 2000 (ReqDeleteProduct (Some admin_token) lamp_id) shop_state))
     \<noteq> db_products shop_state \<and>
   (\<exists>h u. admin_request (ReqDeleteProduct (Some admin_token) lamp_id) = Some h \<and>
          auth 7 2000 h shop_state = Inr u \<and> up_role u = RoleAdmin)"
proof -
  have h: "db_products (snd (handle literal_regex_i 7 2000 (ReqDeleteProduct (Some admin_token) lamp_id) shop_state))
     \<noteq> db_products shop_state"
    using delete_lamp_shop [of literal_regex_i] by (simp add: shop_state_def)
  show ?thesis using mutation_requires_admin [OF h] h by simp
qed

text \<open>No request deletes or modifies an account: the accounts after any
  request extend the accounts before it, so a role, once assigned at
  registration, never changes.\<close>

theorem users_append_only:
  "prefix (db_users d) (db_users (snd (handle rx key now r d)))"
  by (cases r) (simp_all add: handle_def db_users_register db_users_admin_route db_users_handlers)

text \<open>The token returned by registering the administrator address on a
  consistent store passes \<open>protect\<close> and \<open>authorize('admin')\<close> for its whole
  lifetime: \<open>POST /api/products\<close> with it runs the create handler.\<close>

theorem admin_token_passes_gate:
  assumes "db_ok d"
    and "register key now (JStr ADMIN_EMAIL) (JStr pw) d = (Response 201 hdr (AuthBody tok v), d1)"
    and "t < now + token_lifetime"
  shows "uv_role v = RoleAdmin \<and>
         handle rx key t (ReqCreateProduct (Some (''Bearer '' @ tok)) b) d1 = create_product t b d1"
proof -
  from assms(2) obtain u where s: "save_user ADMIN_EMAIL pw RoleAdmin now d = Inr (u, d1)"
    and tok: "tok = jwt_sign key (user_id u) now" and v: "v = view_user u"
    by (auto simp: register_def role_for_def fail_def split: if_splits option.splits sum.splits)
  from s have u: "user_id u = db_next_id d" "user_role u = RoleAdmin"
    and d1: "d1 = d\<lparr>db_users := db_users d @ [u], db_next_id := Suc (db_next_id d)\<rparr>"
    by (auto simp: save_user_def Let_def split: if_splits)
  have "db_next_id d \<notin> user_id ` set (db_users d)"
    using db_ok_fresh [OF assms(1)] by auto
  then have f: "find_user_by_id (user_id u) d1 = Some u"
    unfolding d1 using u(1) by (rule find_user_by_id_fresh)
  have a: "auth key t (Some (''Bearer '' @ tok)) d1 = Inr (public_user u)"
    using auth_signed [of key t key "user_id u" now d1] f assms(3) tok by simp
  have "handle rx key t (ReqCreateProduct (Some (''Bearer '' @ tok)) b) d1 = create_product t b d1"
    using admin_route_admin [OF a, of "\<lambda>u. create_product t b"] u(2)
    by (simp add: handle_def public_user_def)
  with v u(2) show ?thesis by (simp add: view_user_def)
qed

theorem admin_token_passes_gate_witness:
  "db_ok init_db \<and>
   register 7 100 (JStr ADMIN_EMAIL) (JStr ''r00t'') init_db =
     (Response 201 None (AuthBody (jwt_sign 7 1 100) (view_user (admin_user\<lparr>user_id := 1, user_created_at := 100\<rparr>))),
      init_db\<lparr>db_users := [admin_user\<lparr>user_id := 1, user_created_at := 100\<rparr>], db_next_id := 2\<rparr>) \<and>
   (5000::nat) < 100 + token_lifetime \<and>
   handle literal_regex_i 7 5000 (ReqCreateProduct (Some (''Bearer '' @ jwt_sign 7 1 100)) lamp_form)
     (init_db\<lparr>db_users := [admin_user\<lparr>user_id := 1, user_created_at := 100\<rparr>], db_next_id := 2\<rparr>) =
   create_product 5000 lamp_form (init_db\<lparr>db_users := [admin_user\<lparr>user_id := 1, user_created_at := 100\<rparr>], db_next_id := 2\<rparr>)"
proof -
  have ok: "db_ok init_db" by (rule db_ok_init)
  have r: "register 7 100 (JStr ADMIN_EMAIL) (JStr ''r00t'') init_db =
     (Response 201 None (AuthBody (jwt_sign 7 1 100) (view_user (admin_user\<lparr>user_id := 1, user_created_at := 100\<rparr>))),
      init_db\<lparr>db_users := [admin_user\<lparr>user_id := 1, user_created_at := 100\<rparr>], db_next_id := 2\<rparr>)"
    by (simp add: register_def init_db_def save_user_def find_user_by_email_def role_for_def admin_user_def
        view_user_def Let_def ADMIN_EMAIL_def)
  have t: "(5000::nat) < 100 + token_lifetime" by (simp add: token_lifetime_def)
  note g = admin_token_passes_gate [OF ok r t, of literal_regex_i lamp_form]
  show ?thesis using ok r t g by blast
qed

end
