(* ===== verification/ClientSession.thy ===== *)
theory ClientSession
  imports Server
begin

text \<open>
  The browser side of authentication: \<open>src/dev/src/context/AuthContext.jsx\<close>
  (the provider \<open>App.jsx\<close> mounts) and the routing of \<open>src/dev/src/App.jsx\<close>.
  The session is the provider's state plus the two pieces of browser state it
  writes: \<open>localStorage.token\<close> and the default \<open>Authorization\<close> header of the
  global axios instance. A server reply reaches the client as a
  \<open>response option\<close>: \<open>None\<close> when the request fails without a response.
  axios resolves on a 2xx status and rejects otherwise, with the reply in
  \<open>error.response\<close>. The composed operations (\<open>session_login\<close>,
  \<open>session_reload\<close>) send the request the client builds to \<open>Server.handle\<close>.
\<close>

record client_user =
  cu_id :: oid
  cu_email :: string
  cu_role :: role

definition cuser_of_view :: "user_view \<Rightarrow> client_user" where
  "cuser_of_view v = \<lparr>cu_id = uv_id v, cu_email = uv_email v, cu_role = uv_role v\<rparr>"

definition cuser_of_public :: "user_public \<Rightarrow> client_user" where
  "cuser_of_public u = \<lparr>cu_id = up_id u, cu_email = up_email u, cu_role = up_role u\<rparr>"

record session =
  ss_token :: "string option"
  ss_auth_header :: "string option"
  ss_user :: "client_user option"
  ss_loading :: bool

definition initial_session :: "string option \<Rightarrow> session" where
  "initial_session stored = \<lparr>ss_token = stored, ss_auth_header = None, ss_user = None, ss_loading = True\<rparr>"

definition is_2xx :: "nat \<Rightarrow> bool" where
  "is_2xx st \<longleftrightarrow> 200 \<le> st \<and> st < 300"

text \<open>\<open>error.response?.data?.message || d\<close>.\<close>

fun body_message :: "body \<Rightarrow> string option" where
  "body_message (ErrorBody m) = Some m"
| "body_message (ErrorDetailBody m e) = Some m"
| "body_message (MessageBody m) = Some m"
| "body_message b = None"

definition message_or :: "response option \<Rightarrow> string \<Rightarrow> string" where
  "message_or r d = (case r of Some rs \<Rightarrow> (case body_message (resp_body rs) of Some m \<Rightarrow> if m = [] then d else m | None \<Rightarrow> d)
                   | None \<Rightarrow> d)"

definition clear_token :: "session \<Rightarrow> session" where
  "clear_token s = s\<lparr>ss_token := None, ss_auth_header := None\<rparr>"

subsection \<open>\<open>verifyToken\<close> on mount\<close>

text \<open>The header is set before the request; a reply that is not a 2xx success
  with a user clears the stored token; \<open>loading\<close> ends in every case.\<close>

definition verify_reply :: "response option \<Rightarrow> session \<Rightarrow> session" where
  "verify_reply r s =
     (case r of
        Some (Response st h b) \<Rightarrow>
          if is_2xx st \<and> body_success b
          then (case b of UserBody u \<Rightarrow> s\<lparr>ss_user := Some (cuser_of_public u)\<rparr> | _ \<Rightarrow> s)
          else clear_token s
      | None \<Rightarrow> clear_token s)"

definition verify_request :: "session \<Rightarrow> string option" where
  "verify_request s = (case ss_token s of Some tok \<Rightarrow> if tok = [] then None else Some (''Bearer '' @ tok) | None \<Rightarrow> None)"

definition verify_token :: "(string \<Rightarrow> response option) \<Rightarrow> session \<Rightarrow> session" where
  "verify_token call s =
     (case verify_request s of
        None \<Rightarrow> s\<lparr>ss_loading := False\<rparr>
      | Some hdr \<Rightarrow> (verify_reply (call hdr) (s\<lparr>ss_auth_header := Some hdr\<rparr>))\<lparr>ss_loading := False\<rparr>)"

subsection \<open>\<open>login\<close>, \<open>register\<close>, \<open>logout\<close>\<close>

text \<open>A 2xx reply whose \<open>success\<close> is false throws \<open>new Error\<close> inside the \<open>try\<close>;
  the \<open>catch\<close> then finds no \<open>error.response\<close> and throws the default.\<close>

definition auth_reply :: "string \<Rightarrow> response option \<Rightarrow> session \<Rightarrow> (string + client_user) \<times> session" where
  "auth_reply dflt r s =
     (case r of
        Some (Response st h b) \<Rightarrow>
          if is_2xx st then
            (case b of AuthBody tok v \<Rightarrow>
                 (Inr (cuser_of_view v),
                  s\<lparr>ss_token := Some tok, ss_auth_header := Some (''Bearer '' @ tok), ss_user := Some (cuser_of_view v)\<rparr>)
             | _ \<Rightarrow> (Inl dflt, s))
          else (Inl (message_or r dflt), s)
      | None \<Rightarrow> (Inl dflt, s))"

definition client_login :: "response option \<Rightarrow> session \<Rightarrow> (string + client_user) \<times> session" where
  "client_login = auth_reply ''Login failed''"

definition client_register :: "response option \<Rightarrow> session \<Rightarrow> (string + client_user) \<times> session" where
  "client_register = auth_reply ''Registration failed''"

definition logout :: "session \<Rightarrow> session \<times> string" where
  "logout s = ((clear_token s)\<lparr>ss_user := None\<rparr>, ''/login'')"

subsection \<open>The client against the server\<close>

text \<open>The login form sends its two strings; the provider's \<open>verifyToken\<close> sends
  \<open>GET /api/auth/verify\<close> with the stored token.\<close>

definition session_login ::
  "regex_engine \<Rightarrow> nat \<Rightarrow> nat \<Rightarrow> string \<Rightarrow> string \<Rightarrow> db \<Rightarrow> session \<Rightarrow> (string + client_user) \<times> session" where
  "session_login rx key now email pw d s =
     client_login (Some (fst (handle rx key now (ReqLogin (JStr email) (JStr pw)) d))) s"

definition session_reload :: "regex_engine \<Rightarrow> nat \<Rightarrow> nat \<Rightarrow> db \<Rightarrow> session \<Rightarrow> session" where
  "session_reload rx key now d s =
     verify_token (\<lambda>hdr. Some (fst (handle rx key now (ReqVerify (Some hdr)) d)))
       (initial_session (ss_token s))"

subsection \<open>Routes (\<open>App.jsx\<close>)\<close>

datatype page = LoginPage | RegisterPage | ProductListPage | AdminDashboardPage | AdminProductsPage | EditProductPage string

datatype outcome = Render page | Redirect string | NoMatch | Blank

definition protected_route :: "bool \<Rightarrow> client_user option \<Rightarrow> page \<Rightarrow> outcome" where
  "protected_route require_admin u p =
     (case u of
        None \<Rightarrow> Redirect ''/login''
      | Some cu \<Rightarrow> if require_admin \<and> cu_role cu \<noteq> RoleAdmin then Redirect ''/'' else Render p)"

definition app_routes :: "client_user option \<Rightarrow> string \<Rightarrow> outcome" where
  "app_routes u path =
     (case split_on CHR ''/'' path of
        [[], []] \<Rightarrow> Redirect ''/login''
      | [[], seg] \<Rightarrow>
          if seg = ''login'' then Render LoginPage
          else if seg = ''register'' then Render RegisterPage
          else if seg = ''products'' then protected_route False u ProductListPage
          else NoMatch
      | [[], a, b] \<Rightarrow>
          if a = ''admin'' \<and> b = ''dashboard'' then protected_route True u AdminDashboardPage
          else if a = ''admin'' \<and> b = ''products'' then protected_route True u AdminProductsPage
          else NoMatch
      | [[], a, b, c] \<Rightarrow>
          if a = ''admin'' \<and> b = ''products'' \<and> c = ''new'' then protected_route True u AdminProductsPage
          else NoMatch
      | [[], a, b, i, e] \<Rightarrow>
          if a = ''admin'' \<and> b = ''products'' \<and> i \<noteq> [] \<and> e = ''edit'' then protected_route True u (EditProductPage i)
          else NoMatch
      | _ \<Rightarrow> NoMatch)"

text \<open>The provider renders its children only once \<open>loading\<close> is false.\<close>

definition app_view :: "session \<Rightarrow> string \<Rightarrow> outcome" where
  "app_view s path = (if ss_loading s then Blank else app_routes (ss_user s) path)"

text \<open>Following \<open><Navigate>\<close> redirects, with fuel.\<close>

fun navigate :: "nat \<Rightarrow> client_user option \<Rightarrow> string \<Rightarrow> outcome \<times> string" where
  "navigate 0 u path = (app_routes u path, path)"
| "navigate (Suc n) u path = (case app_routes u path of Redirect p \<Rightarrow> navigate n u p | r \<Rightarrow> (r, path))"

definition is_auth_page :: "string \<Rightarrow> bool" where
  "is_auth_page path \<longleftrightarrow> path = ''/login'' \<or> path = ''/register''"

subsection \<open>Route facts\<close>

lemma app_routes_root [simp]: "app_routes u ''/'' = Redirect ''/login''"
  by (simp add: app_routes_def)

lemma app_routes_login [simp]: "app_routes u ''/login'' = Render LoginPage"
  by (simp add: app_routes_def)

lemma protected_route_redirect:
  "protected_route a u p = Redirect q \<Longrightarrow> q = ''/login'' \<or> q = ''/''"
  by (auto simp: protected_route_def split: option.splits if_splits)

lemma protected_route_render:
  "protected_route a u p = Render q \<Longrightarrow> q = p \<and> (\<exists>cu. u = Some cu \<and> (a \<longrightarrow> cu_role cu = RoleAdmin))"
  by (auto simp: protected_route_def split: option.splits if_splits)

lemma app_routes_redirect:
  "app_routes u path = Redirect q \<Longrightarrow> q = ''/login'' \<or> q = ''/''"
  unfolding app_routes_def
  by (auto split: list.splits if_splits dest: protected_route_redirect)

fun admin_page :: "page \<Rightarrow> bool" where
  "admin_page AdminDashboardPage = True"
| "admin_page AdminProductsPage = True"
| "admin_page (EditProductPage i) = True"
| "admin_page p = False"

lemma app_routes_render:
  "app_routes u path = Render pg \<Longrightarrow>
     (admin_page pg \<longrightarrow> (\<exists>cu. u = Some cu \<and> cu_role cu = RoleAdmin)) \<and>
     (pg = ProductListPage \<longrightarrow> u \<noteq> None)"
  unfolding app_routes_def
  by (auto split: list.splits if_splits dest!: protected_route_render)

subsection \<open>Session facts\<close>

lemma cuser_of_view_public: "cuser_of_view (view_user u) = cuser_of_public (public_user u)"
  by (simp add: cuser_of_view_def cuser_of_public_def view_user_def public_user_def)

lemma find_user_by_id_distinct:
  assumes "distinct (map user_id (db_users d))" and "u \<in> set (db_users d)"
  shows "find_user_by_id (user_id u) d = Some u"
  using assms by (simp add: find_user_by_id_def find_distinct_key)

lemma login_success:
  assumes "login key now (JStr email) (JStr pw) d = Response st h (AuthBody tok v)"
  shows "\<exists>u. find_user_by_email email d = Some u \<and> tok = jwt_sign key (user_id u) now \<and> v = view_user u \<and> st = 200"
  using assms by (auto simp: login_def fail_def Let_def split: if_splits option.splits)

lemma get_verify_signed:
  "find_user_by_id uid d = Some u \<Longrightarrow>
   get_verify key t (Some (''Bearer '' @ jwt_sign key uid t0)) d =
     (if t0 + token_lifetime \<le> t then fail 401 ''Token expired'' else ok 200 (UserBody (public_user u)))"
proof -
  assume f: "find_user_by_id uid d = Some u"
  then have "user_id u = uid" by (auto simp: find_user_by_id_def find_Some_iff)
  with f show ?thesis
    using auth_signed [of key t key uid t0 d]
    by (simp add: get_verify_def verify_handler_def public_user_def)
qed

lemma verify_token_stored:
  "tok \<noteq> [] \<Longrightarrow>
   verify_token call (initial_session (Some tok)) =
     (verify_reply (call (''Bearer '' @ tok))
        (initial_session (Some tok)\<lparr>ss_auth_header := Some (''Bearer '' @ tok)\<rparr>))\<lparr>ss_loading := False\<rparr>"
  by (simp add: verify_token_def verify_request_def initial_session_def)

lemma session_login_Inr:
  assumes "session_login rx key t0 email pw d s = (Inr cu, s1)"
  shows "\<exists>u. find_user_by_email email d = Some u \<and> cu = cuser_of_view (view_user u) \<and>
             ss_token s1 = Some (jwt_sign key (user_id u) t0)"
proof -
  obtain st h b where r: "login key t0 (JStr email) (JStr pw) d = Response st h b"
    by (cases "login key t0 (JStr email) (JStr pw) d")
  with assms obtain tok v where b: "b = AuthBody tok v" and cu: "cu = cuser_of_view v" and "ss_token s1 = Some tok"
    by (auto simp: session_login_def handle_def client_login_def auth_reply_def split: if_splits body.splits)
  moreover from r b obtain u where "find_user_by_email email d = Some u" "tok = jwt_sign key (user_id u) t0" "v = view_user u"
    using login_success by blast
  ultimately show ?thesis using cu by blast
qed

definition alice_client :: client_user where
  "alice_client = \<lparr>cu_id = 1, cu_email = ''alice@example.com'', cu_role = RoleUser\<rparr>"

definition alice_session :: session where
  "alice_session = (initial_session None)\<lparr>ss_token := Some (jwt_sign 7 1 1000),
     ss_auth_header := Some (''Bearer '' @ jwt_sign 7 1 1000), ss_user := Some alice_client\<rparr>"

lemma users_db_ok: "db_ok users_db"
  by (simp add: db_ok_def users_db_def alice_def admin_user_def ADMIN_EMAIL_def)

lemma alice_login:
  "session_login literal_regex_i 7 1000 ''alice@example.com'' ''s3cret'' users_db (initial_session None) =
     (Inr alice_client, alice_session)"
  by (simp add: session_login_def handle_def login_def users_db_def alice_def find_user_by_email_def
      compare_password_def client_login_def auth_reply_def is_2xx_def cuser_of_view_def view_user_def
      alice_client_def alice_session_def Let_def)

subsection \<open>Properties of the client\<close>

text \<open>C27: a session opened by logging in against a consistent store survives
  a page reload (the provider's \<open>verifyToken\<close> with the stored token) with the
  same account, as long as the token is younger than 86400 seconds; a reload
  after that clears the stored token and leaves no user signed in. Either way
  the provider stops loading.\<close>

theorem session_survives_reload:
  assumes "db_ok d" and "session_login rx key t0 email pw d s = (Inr cu, s1)"
  shows "\<not> ss_loading (session_reload rx key t d s1) \<and>
    (t < t0 + token_lifetime \<longrightarrow>
       ss_user (session_reload rx key t d s1) = Some cu \<and> ss_token (session_reload rx key t d s1) = ss_token s1) \<and>
    (t0 + token_lifetime \<le> t \<longrightarrow>
       ss_user (session_reload rx key t d s1) = None \<and> ss_token (session_reload rx key t d s1) = None)"
proof -
  from session_login_Inr [OF assms(2)] obtain u where
    e: "find_user_by_email email d = Some u" and cu: "cu = cuser_of_view (view_user u)"
    and tok: "ss_token s1 = Some (jwt_sign key (user_id u) t0)" by blast
  have "u \<in> set (db_users d)" using find_user_by_email_Some [OF e] by blast
  then have f: "find_user_by_id (user_id u) d = Some u"
    using assms(1) by (simp add: db_ok_def find_user_by_id_def find_distinct_key)
  have "session_reload rx key t d s1 =
     (verify_reply (Some (get_verify key t (Some (''Bearer '' @ jwt_sign key (user_id u) t0)) d))
        (initial_session (Some (jwt_sign key (user_id u) t0))\<lparr>ss_auth_header := Some (''Bearer '' @ jwt_sign key (user_id u) t0)\<rparr>))
       \<lparr>ss_loading := False\<rparr>"
    using verify_token_stored [of "jwt_sign key (user_id u) t0"] tok
    by (simp add: session_reload_def handle_def)
  then show ?thesis
    using get_verify_signed [OF f, of key t t0] cu tok
    by (cases "t0 + token_lifetime \<le> t")
      (simp_all add: verify_reply_def is_2xx_def clear_token_def initial_session_def cuser_of_view_public
         fail_def ok_def)
qed

theorem session_survives_reload_witness:
  "db_ok users_db \<and>
   session_login literal_regex_i 7 1000 ''alice@example.com'' ''s3cret'' users_db (initial_session None) =
     (Inr alice_client, alice_session) \<and>
   \<not> ss_loading (session_reload literal_regex_i 7 2000 users_db alice_session) \<and>
   ss_user (session_reload literal_regex_i 7 2000 users_db alice_session) = Some alice_client \<and>
   ss_user (session_reload literal_regex_i 7 90000 users_db alice_session) = None"
  using session_survives_reload [OF users_db_ok alice_login, of 2000]
    session_survives_reload [OF users_db_ok alice_login, of 90000] users_db_ok alice_login
  by (simp add: token_lifetime_def)

text \<open>C28: once the provider has loaded, an admin page (the dashboard, the
  product management pages, the edit page) is rendered only for a signed-in
  user whose role is \<open>admin\<close>, and the product list only for a signed-in user.\<close>

theorem admin_page_requires_admin:
  assumes "app_view s path = Render pg"
  shows "\<not> ss_loading s \<and>
    (admin_page pg \<longrightarrow> (\<exists>cu. ss_user s = Some cu \<and> cu_role cu = RoleAdmin)) \<and>
    (pg = ProductListPage \<longrightarrow> ss_user s \<noteq> None)"
  using assms app_routes_render [of "ss_user s" path pg]
  by (simp add: app_view_def split: if_splits)

theorem admin_page_requires_admin_witness:
  "app_view (alice_session\<lparr>ss_loading := False, ss_user := Some (alice_client\<lparr>cu_role := RoleAdmin\<rparr>)\<rparr>)
      ''/admin/products/42/edit'' = Render (EditProductPage ''42'') \<and>
   (\<exists>cu. ss_user (alice_session\<lparr>ss_loading := False, ss_user := Some (alice_client\<lparr>cu_role := RoleAdmin\<rparr>)\<rparr>) = Some cu
        \<and> cu_role cu = RoleAdmin)"
proof -
  have h: "app_view (alice_session\<lparr>ss_loading := False, ss_user := Some (alice_client\<lparr>cu_role := RoleAdmin\<rparr>)\<rparr>)
      ''/admin/products/42/edit'' = Render (EditProductPage ''42'')"
    by (simp add: app_view_def app_routes_def protected_route_def)
  show ?thesis using admin_page_requires_admin [OF h] h by simp
qed

text \<open>C29: the route table has no redirect loop: following \<open><Navigate>\<close> at most
  twice from any path, for any user, ends on a page, an unmatched path or a
  blank, never on another redirect.\<close>

theorem navigate_terminates: "fst (navigate 2 u path) \<noteq> Redirect q"
proof (cases "app_routes u path")
  case (Redirect p)
  then have "p = ''/login'' \<or> p = ''/''" by (rule app_routes_redirect)
  with Redirect show ?thesis by (auto simp: numeral_2_eq_2)
qed (simp_all add: numeral_2_eq_2)

text \<open>A signed-in user whose role is not \<open>admin\<close> who opens an admin page
  is redirected to \<open>/\<close>, which redirects to \<open>/login\<close>: the login form is shown
  to a user who is already signed in, where the product list would be expected.\<close>

theorem non_admin_sent_to_login:
  assumes "cu_role cu = RoleUser"
  shows "navigate 2 (Some cu) ''/admin/dashboard'' = (Render LoginPage, ''/login'')"
  using assms by (simp add: numeral_2_eq_2 app_routes_def protected_route_def)

theorem non_admin_sent_to_login_witness:
  "cu_role alice_client = RoleUser \<and> navigate 2 (Some alice_client) ''/admin/dashboard'' = (Render LoginPage, ''/login'')"
proof -
  have h: "cu_role alice_client = RoleUser" by (simp add: alice_client_def)
  show ?thesis using non_admin_sent_to_login [OF h] h by simp
qed

end
