(* ===== verification/QueryString.thy ===== *)
theory QueryString
  imports ProductQuery
begin

text \<open>
  How a query string travels from the client to \<open>req.query\<close>. The client
  builds it either with \<open>URLSearchParams\<close> (\<open>components/products/ProductList.jsx\<close>),
  whose serialiser is the \<open>application/x-www-form-urlencoded\<close> byte encoding,
  or by pasting values into a template literal (\<open>pages/ProductList.jsx\<close>,
  \<open>components/admin/ProductManagement.jsx\<close>). Express parses the query
  with \<open>qs\<close>: pieces between \<open>&\<close>, key and value split at the first \<open>=\<close>,
  \<open>+\<close> read as a space and \<open>%XX\<close> as the byte \<open>XX\<close>. Both are libraries,
  modelled from their documentation; strings are byte strings. A key that
  occurs more than once becomes an array in \<open>qs\<close>, a value the handlers'
  string model does not represent: \<open>query_get\<close> reads it as absent.
\<close>

subsection \<open>Form encoding (\<open>URLSearchParams.toString\<close>)\<close>

definition hex_char :: "nat \<Rightarrow> char" where
  "hex_char n = (if n < 10 then char_of (48 + n) else char_of (55 + n))"

definition form_unreserved :: "char \<Rightarrow> bool" where
  "form_unreserved c \<longleftrightarrow>
     (let k = (of_char c :: nat) in
      k = 42 \<or> k = 45 \<or> k = 46 \<or> k = 95 \<or> (48 \<le> k \<and> k \<le> 57) \<or> (65 \<le> k \<and> k \<le> 90) \<or> (97 \<le> k \<and> k \<le> 122))"

definition form_encode_char :: "char \<Rightarrow> string" where
  "form_encode_char c =
     (if form_unreserved c then [c]
      else if c = CHR '' '' then ''+''
      else [CHR ''%'', hex_char (of_char c div 16), hex_char (of_char c mod 16)])"

definition form_encode :: "string \<Rightarrow> string" where
  "form_encode s = concat (map form_encode_char s)"

text \<open>\<open>Array.prototype.join\<close> with a one-character separator, the inverse of \<open>split_on\<close>.\<close>

fun join_on :: "char \<Rightarrow> string list \<Rightarrow> string" where
  "join_on c [] = []"
| "join_on c [x] = x"
| "join_on c (x # xs) = x @ c # join_on c xs"

definition encode_pairs :: "(string \<times> string) list \<Rightarrow> string" where
  "encode_pairs kvs = join_on CHR ''&'' (map (\<lambda>(k, v). form_encode k @ ''='' @ form_encode v) kvs)"

subsection \<open>The server's query parser (\<open>qs\<close>)\<close>

fun form_decode :: "string \<Rightarrow> string" where
  "form_decode [] = []"
| "form_decode (c # r) =
     (if c = CHR ''+'' then CHR '' '' # form_decode r
      else if c = CHR ''%'' then
        (case r of
           a # b # r' \<Rightarrow>
             (case (radix_digit 16 a, radix_digit 16 b) of
                (Some x, Some y) \<Rightarrow> char_of (16 * x + y) # form_decode r'
              | _ \<Rightarrow> c # form_decode r)
         | _ \<Rightarrow> c # form_decode r)
      else c # form_decode r)"

definition parse_pair :: "string \<Rightarrow> string \<times> string" where
  "parse_pair s = (form_decode (takeWhile (\<lambda>c. c \<noteq> CHR ''='') s),
                   form_decode (drop 1 (dropWhile (\<lambda>c. c \<noteq> CHR ''='') s)))"

definition parse_query :: "string \<Rightarrow> (string \<times> string) list" where
  "parse_query q = map parse_pair (filter (\<lambda>s. s \<noteq> []) (split_on CHR ''&'' q))"

definition query_get :: "string \<Rightarrow> (string \<times> string) list \<Rightarrow> string option" where
  "query_get k kvs = (case map snd (filter (\<lambda>kv. fst kv = k) kvs) of [v] \<Rightarrow> Some v | _ \<Rightarrow> None)"

text \<open>The part of a request URL after the first \<open>?\<close>.\<close>

definition query_of_url :: "string \<Rightarrow> string" where
  "query_of_url u = drop 1 (dropWhile (\<lambda>c. c \<noteq> CHR ''?'') u)"

text \<open>\<open>req.query\<close> as the listing handler destructures it.\<close>

definition params_of_query :: "(string \<times> string) list \<Rightarrow> list_params" where
  "params_of_query kvs =
     \<lparr>lp_category = query_get ''category'' kvs, lp_minPrice = query_get ''minPrice'' kvs,
      lp_maxPrice = query_get ''maxPrice'' kvs, lp_minRating = query_get ''minRating'' kvs,
      lp_search = query_get ''search'' kvs, lp_sort = query_get ''sort'' kvs,
      lp_page = query_get ''page'' kvs, lp_limit = query_get ''limit'' kvs\<rparr>"

definition server_params :: "string \<Rightarrow> list_params" where
  "server_params url = params_of_query (parse_query (query_of_url url))"

subsection \<open>Round trip of the form encoding\<close>

lemma radix_digit_hex_char: "n < 16 \<Longrightarrow> radix_digit 16 (hex_char n) = Some n"
  by (auto simp: hex_char_def radix_digit_def Let_def)

lemma of_char_hex_char: "n < 16 \<Longrightarrow> (of_char (hex_char n) :: nat) = (if n < 10 then 48 + n else 55 + n)"
  by (simp add: hex_char_def)

lemma hex_char_not_special:
  assumes "n < 16" shows "hex_char n \<noteq> CHR ''&'' \<and> hex_char n \<noteq> CHR ''=''"
proof -
  have "(of_char (hex_char n) :: nat) \<noteq> of_char CHR ''&'' \<and> (of_char (hex_char n) :: nat) \<noteq> of_char CHR ''=''"
    using assms by (simp add: of_char_hex_char)
  then show ?thesis by auto
qed

lemma form_unreserved_not_special:
  "form_unreserved c \<Longrightarrow> c \<noteq> CHR ''+'' \<and> c \<noteq> CHR ''%'' \<and> c \<noteq> CHR ''&'' \<and> c \<noteq> CHR ''=''"
  by (auto simp: form_unreserved_def)

lemma hex_digits_lt: "(of_char c :: nat) div 16 < 16 \<and> (of_char c :: nat) mod 16 < 16"
proof -
  have "(of_char c :: nat) < 16 * 16" using nat_of_char_less_256 [of c] by simp
  then show ?thesis by (simp add: less_mult_imp_div_less)
qed

lemma char_of_hex_digits: "char_of (16 * (of_char c div 16) + of_char c mod 16) = (c :: char)"
proof -
  have "16 * (of_char c div 16) + of_char c mod 16 = (of_char c :: nat)" by simp
  then show ?thesis by simp
qed

lemma form_decode_encode_char: "form_decode (form_encode_char c @ r) = c # form_decode r"
proof (cases "form_unreserved c")
  case True
  then show ?thesis using form_unreserved_not_special [OF True] by (simp add: form_encode_char_def)
next
  case False
  have lt: "(of_char c :: nat) div 16 < 16" "(of_char c :: nat) mod 16 < 16"
    using hex_digits_lt [of c] by simp_all
  show ?thesis
    using False radix_digit_hex_char [OF lt(1)] radix_digit_hex_char [OF lt(2)]
    by (simp add: form_encode_char_def char_of_hex_digits)
qed

text \<open>What the server decodes is what the client encoded.\<close>

lemma form_decode_encode [simp]: "form_decode (form_encode s) = s"
  by (induction s) (simp_all add: form_encode_def form_decode_encode_char)

lemma form_encode_no_special: "CHR ''&'' \<notin> set (form_encode s) \<and> CHR ''='' \<notin> set (form_encode s)"
proof -
  have "CHR ''&'' \<notin> set (form_encode_char c) \<and> CHR ''='' \<notin> set (form_encode_char c)" for c
  proof -
    have lt: "(of_char c :: nat) div 16 < 16" "(of_char c :: nat) mod 16 < 16"
      using hex_digits_lt [of c] by simp_all
    show ?thesis
      using form_unreserved_not_special [of c] hex_char_not_special [OF lt(1)] hex_char_not_special [OF lt(2)]
      by (auto simp: form_encode_char_def)
  qed
  then show ?thesis by (auto simp: form_encode_def)
qed

lemma split_on_join_on:
  "xs \<noteq> [] \<Longrightarrow> \<forall>x\<in>set xs. c \<notin> set x \<Longrightarrow> split_on c (join_on c xs) = xs"
  by (induction c xs rule: join_on.induct) (simp_all add: split_on_no_sep split_on_append_sep)

lemma parse_pair_encoded: "parse_pair (form_encode k @ CHR ''='' # form_encode v) = (k, v)"
proof -
  have "\<forall>x\<in>set (form_encode k). x \<noteq> CHR ''=''" using form_encode_no_special [of k] by auto
  then show ?thesis by (simp add: parse_pair_def)
qed

text \<open>Every list of pairs survives \<open>URLSearchParams\<close> serialisation and the
  server's parse: keys and values are arbitrary byte strings.\<close>

lemma parse_encode_pairs [simp]: "parse_query (encode_pairs kvs) = kvs"
proof (cases "kvs = []")
  case True
  then show ?thesis by (simp add: parse_query_def encode_pairs_def)
next
  case False
  let ?segs = "map (\<lambda>(k, v). form_encode k @ ''='' @ form_encode v) kvs"
  have "\<forall>x\<in>set ?segs. CHR ''&'' \<notin> set x"
    using form_encode_no_special by auto
  then have "split_on CHR ''&'' (encode_pairs kvs) = ?segs"
    using False by (simp add: encode_pairs_def split_on_join_on)
  moreover have "filter (\<lambda>s. s \<noteq> []) ?segs = ?segs" by (induction kvs) auto
  moreover have "map parse_pair ?segs = kvs" by (induction kvs) (auto simp: parse_pair_encoded)
  ultimately show ?thesis by (simp add: parse_query_def)
qed

subsection \<open>Optional entries\<close>

text \<open>\<open>if (value) params.append(key, value)\<close>: the pairs of the entries that
  have a value, in order.\<close>

definition pairs_of :: "('k \<times> 'v option) list \<Rightarrow> ('k \<times> 'v) list" where
  "pairs_of es = concat (map (\<lambda>(k, ov). case ov of Some v \<Rightarrow> [(k, v)] | None \<Rightarrow> []) es)"

lemma pairs_of_simps [simp]:
  "pairs_of [] = []"
  "pairs_of ((k, None) # es) = pairs_of es"
  "pairs_of ((k, Some v) # es) = (k, v) # pairs_of es"
  by (simp_all add: pairs_of_def)

lemma set_pairs_of: "set (pairs_of es) = {(k, v). (k, Some v) \<in> set es}"
  by (auto simp: pairs_of_def split: option.splits)

lemma query_get_pairs_of:
  "distinct (map fst es) \<Longrightarrow> query_get k (pairs_of es) = (case map_of es k of Some ov \<Rightarrow> ov | None \<Rightarrow> None)"
proof (induction es)
  case Nil
  then show ?case by (simp add: query_get_def)
next
  case (Cons e es)
  obtain k' ov where e: "e = (k', ov)" by fastforce
  have none: "k' \<notin> fst ` set es" using Cons.prems e by simp
  have fk: "filter (\<lambda>kv. fst kv = k') (pairs_of es) = []"
    using none by (force simp: filter_empty_conv set_pairs_of)
  show ?case
    using Cons e fk by (cases ov) (auto simp: query_get_def)
qed

subsection \<open>Queries pasted into a template literal\<close>

text \<open>A value without \<open>+\<close> or \<open>%\<close> decodes to itself; a query assembled
  from such pairs without \<open>&\<close>, with keys free of \<open>=\<close>, parses back to
  its pairs (a \<open>=\<close> inside a value is kept).\<close>

definition raw_safe :: "string \<Rightarrow> bool" where
  "raw_safe s \<longleftrightarrow> CHR ''&'' \<notin> set s \<and> CHR ''+'' \<notin> set s \<and> CHR ''%'' \<notin> set s \<and> CHR ''#'' \<notin> set s"

lemma form_decode_raw: "CHR ''+'' \<notin> set s \<Longrightarrow> CHR ''%'' \<notin> set s \<Longrightarrow> form_decode s = s"
  by (induction s) auto

lemma parse_pair_raw:
  assumes "CHR ''='' \<notin> set k" and "raw_safe k" and "raw_safe v"
  shows "parse_pair (k @ CHR ''='' # v) = (k, v)"
proof -
  have "\<forall>c\<in>set k. c \<noteq> CHR ''=''" using assms(1) by auto
  then show ?thesis using assms(2,3) by (simp add: parse_pair_def form_decode_raw raw_safe_def)
qed

lemma parse_query_raw:
  assumes "kvs \<noteq> []"
    and "\<forall>(k, v)\<in>set kvs. CHR ''='' \<notin> set k \<and> raw_safe k \<and> raw_safe v"
  shows "parse_query (join_on CHR ''&'' (map (\<lambda>(k, v). k @ CHR ''='' # v) kvs)) = kvs"
proof -
  let ?segs = "map (\<lambda>(k, v). k @ CHR ''='' # v) kvs"
  have "\<forall>x\<in>set ?segs. CHR ''&'' \<notin> set x" using assms(2) by (auto simp: raw_safe_def)
  then have "split_on CHR ''&'' (join_on CHR ''&'' ?segs) = ?segs"
    using assms(1) by (simp add: split_on_join_on)
  moreover have "filter (\<lambda>s. s \<noteq> []) ?segs = ?segs" by (induction kvs) auto
  moreover have "map parse_pair ?segs = kvs"
    using assms(2) by (induction kvs) (auto simp: parse_pair_raw)
  ultimately show ?thesis by (simp add: parse_query_def)
qed

lemma query_get_distinct:
  "distinct (map fst kvs) \<Longrightarrow> query_get k kvs = map_of kvs k"
proof -
  assume d: "distinct (map fst kvs)"
  have "pairs_of (map (\<lambda>(k, v). (k, Some v)) kvs) = kvs" by (induction kvs) auto
  moreover have "distinct (map fst (map (\<lambda>(k, v). (k, Some v)) kvs))" using d by (simp add: case_prod_beta o_def)
  moreover have "(case map_of (map (\<lambda>(k, v). (k, Some v)) kvs) k of Some ov \<Rightarrow> ov | None \<Rightarrow> None) = map_of kvs k"
    by (induction kvs) auto
  ultimately show ?thesis using query_get_pairs_of by metis
qed

end
