(* ===== verification/ClientCatalog.thy ===== *)
theory ClientCatalog
  imports QueryString Server
begin

text \<open>
  The product catalogue component \<open>src/dev/src/components/products/ProductList.jsx\<close>:
  its filter state, the query it sends through \<open>URLSearchParams\<close>, the reply
  handling, the pager and the product cards. A product reaches the client as
  the JSON of its document; \<open>product_json\<close> is that object for the keys the
  client pages read (\<open>createdAt\<close>, \<open>user\<close> and \<open>__v\<close> are also sent but read
  by no page and left out). \<open>JSON.stringify\<close> writes NaN and the infinities as
  \<open>null\<close>, and an ObjectId as its 24 lower-case hexadecimal digits.
\<close>

subsection \<open>A product as JSON\<close>

fun json_num :: "jsnum \<Rightarrow> jsval" where
  "json_num (Fin r) = JNum (Fin r)"
| "json_num x = JNull"

definition hex_lower :: "nat \<Rightarrow> char" where
  "hex_lower n = (if n < 10 then char_of (48 + n) else char_of (87 + n))"

fun hex_digits :: "nat \<Rightarrow> nat \<Rightarrow> string" where
  "hex_digits 0 n = []"
| "hex_digits (Suc w) n = hex_digits w (n div 16) @ [hex_lower (n mod 16)]"

definition oid_hex :: "oid \<Rightarrow> string" where
  "oid_hex i = hex_digits 24 i"

definition product_json :: "product \<Rightarrow> string \<Rightarrow> jsval" where
  "product_json p k =
     (if k = ''_id'' then JStr (oid_hex (prod_id p))
      else if k = ''name'' then JStr (prod_name p)
      else if k = ''description'' then JStr (prod_description p)
      else if k = ''category'' then JStr (prod_category p)
      else if k = ''price'' then json_num (prod_price p)
      else if k = ''rating'' then json_num (prod_rating p)
      else if k = ''image'' then JStr (prod_image p)
      else if k = ''stock'' then json_num (prod_stock p)
      else if k = ''numReviews'' then json_num (prod_num_reviews p)
      else JUndefined)"

text \<open>\<open>v[i]\<close>: reading an index of \<open>undefined\<close> or \<open>null\<close> throws a TypeError.\<close>

fun js_index :: "jsval \<Rightarrow> nat \<Rightarrow> js_exn + jsval" where
  "js_index JUndefined i = Inl TypeError"
| "js_index JNull i = Inl TypeError"
| "js_index (JStr s) i = Inr (if i < length s then JStr [s ! i] else JUndefined)"
| "js_index v i = Inr JUndefined"

subsection \<open>Filters and the query\<close>

record filters =
  f_category :: string
  f_minPrice :: string
  f_maxPrice :: string
  f_minRating :: string
  f_search :: string
  f_sort :: string
  f_page :: nat
  f_limit :: nat

definition initial_filters :: filters where
  "initial_filters = \<lparr>f_category = [], f_minPrice = [], f_maxPrice = [], f_minRating = [], f_search = [],
                      f_sort = [], f_page = 1, f_limit = 10\<rparr>"

definition nonempty :: "string \<Rightarrow> string option" where
  "nonempty s = (if s = [] then None else Some s)"

definition num_entry :: "nat \<Rightarrow> string option" where
  "num_entry n = (if n = 0 then None else Some (dec_string n))"

text \<open>\<open>Object.entries(filters)\<close> in insertion order, each value kept when truthy
  and converted by \<open>String(value)\<close>.\<close>

definition filter_entries :: "filters \<Rightarrow> (string \<times> string option) list" where
  "filter_entries f =
     [(''category'', nonempty (f_category f)), (''minPrice'', nonempty (f_minPrice f)),
      (''maxPrice'', nonempty (f_maxPrice f)), (''minRating'', nonempty (f_minRating f)),
      (''search'', nonempty (f_search f)), (''sort'', nonempty (f_sort f)),
      (''page'', num_entry (f_page f)), (''limit'', num_entry (f_limit f))]"

definition products_url :: "filters \<Rightarrow> string" where
  "products_url f = ''http://localhost:5000/api/products?'' @ encode_pairs (pairs_of (filter_entries f))"

text \<open>The listing parameters the filters stand for.\<close>

definition filter_params :: "filters \<Rightarrow> list_params" where
  "filter_params f =
     \<lparr>lp_category = nonempty (f_category f), lp_minPrice = nonempty (f_minPrice f),
      lp_maxPrice = nonempty (f_maxPrice f), lp_minRating = nonempty (f_minRating f),
      lp_search = nonempty (f_search f), lp_sort = nonempty (f_sort f),
      lp_page = num_entry (f_page f), lp_limit = num_entry (f_limit f)\<rparr>"

text \<open>\<open>handleFilterChange\<close>: the input named \<open>name\<close> sets its field, and the
  page goes back to 1; \<open>handlePageChange\<close> sets the page.\<close>

definition handle_filter_change :: "string \<Rightarrow> string \<Rightarrow> filters \<Rightarrow> filters" where
  "handle_filter_change name v f =
     (let f' = (if name = ''category'' then f\<lparr>f_category := v\<rparr>
                else if name = ''minPrice'' then f\<lparr>f_minPrice := v\<rparr>
                else if name = ''maxPrice'' then f\<lparr>f_maxPrice := v\<rparr>
                else if name = ''minRating'' then f\<lparr>f_minRating := v\<rparr>
                else if name = ''search'' then f\<lparr>f_search := v\<rparr>
                else if name = ''sort'' then f\<lparr>f_sort := v\<rparr>
                else f)
      in f'\<lparr>f_page := 1\<rparr>)"

definition handle_page_change :: "nat \<Rightarrow> filters \<Rightarrow> filters" where
  "handle_page_change n f = f\<lparr>f_page := n\<rparr>"

subsection \<open>Reply, pager and cards\<close>

record catalog =
  cat_products :: "product list"
  cat_total_pages :: jsval
  cat_error :: string
  cat_loading :: bool

text \<open>\<open>setProducts(res.data.data); setTotalPages(res.data.totalPages)\<close> on a 2xx
  reply; \<open>Failed to fetch products\<close> when axios rejects.\<close>

definition catalog_reply :: "response option \<Rightarrow> catalog \<Rightarrow> catalog" where
  "catalog_reply r c =
     (case r of
        Some (Response st h (ProductsBody n t tp cp ps)) \<Rightarrow>
          if 200 \<le> st \<and> st < 300 then c\<lparr>cat_products := ps, cat_total_pages := json_num tp, cat_error := [],
                                         cat_loading := False\<rparr>
          else c\<lparr>cat_error := ''Failed to fetch products'', cat_loading := False\<rparr>
      | _ \<Rightarrow> c\<lparr>cat_error := ''Failed to fetch products'', cat_loading := False\<rparr>)"

text \<open>\<open>Array.from({ length: totalPages }, (_, i) => i + 1)\<close>: the length is
  \<open>ToLength\<close> of the value, 0 for \<open>null\<close>, NaN and non-positive numbers.\<close>

fun array_length :: "jsval \<Rightarrow> nat" where
  "array_length (JNum (Fin r)) = (if 0 < r then nat \<lfloor>r\<rfloor> else 0)"
| "array_length (JNum PosInf) = 2 ^ 53 - 1"
| "array_length v = 0"

definition pager_buttons :: "jsval \<Rightarrow> nat list" where
  "pager_buttons tp = [1..<Suc (array_length tp)]"

text \<open>A card's image: \<open>product.images[0] || placeholder\<close>.\<close>

definition card_image :: "product \<Rightarrow> js_exn + jsval" where
  "card_image p =
     (case js_index (product_json p ''images'') 0 of
        Inl e \<Rightarrow> Inl e
      | Inr v \<Rightarrow> Inr (if truthy v then v else JStr ''https://via.placeholder.com/300''))"

primrec render_catalog :: "product list \<Rightarrow> js_exn + jsval list" where
  "render_catalog [] = Inr []"
| "render_catalog (p # ps) =
     (case card_image p of Inl e \<Rightarrow> Inl e | Inr i \<Rightarrow> map_sum id (Cons i) (render_catalog ps))"

subsection \<open>Facts\<close>

lemma query_of_products_url: "query_of_url (products_url f) = encode_pairs (pairs_of (filter_entries f))"
  by (simp add: products_url_def query_of_url_def)

lemma distinct_filter_keys: "distinct (map fst (filter_entries f))"
  by (simp add: filter_entries_def)

lemma card_image_TypeError: "card_image p = Inl TypeError"
  by (simp add: card_image_def product_json_def)

lemma render_catalog_Cons: "render_catalog (p # ps) = Inl TypeError"
  by (simp add: card_image_TypeError)

lemma string_to_number_dec_string [simp]: "string_to_number (dec_string n) = Fin (of_nat n)"
proof -
  have "list_all is_digit (dec_string n)" using dec_string_digits [of n] by (auto simp: list_all_iff)
  then show ?thesis using string_to_number_digits [OF dec_string_nonempty] by simp
qed

lemma array_length_of_nat [simp]: "array_length (JNum (Fin (of_nat n))) = n"
  by simp

subsection \<open>Properties of the catalogue\<close>

text \<open>C31: the query the catalogue sends refines its filter state: the
  listing parameters the server reads from \<open>req.query\<close> are exactly the
  filters, an empty text filter and a zero number being absent.\<close>

theorem catalog_query_refines: "server_params (products_url f) = filter_params f"
  using distinct_filter_keys [of f]
  by (simp add: server_params_def query_of_products_url params_of_query_def
      query_get_pairs_of filter_params_def) (simp add: filter_entries_def)

text \<open>C32: the catalogue renders \<open>product.images[0]\<close>, but the server's
  products carry \<open>image\<close>, not \<open>images\<close>: whenever the listing for the
  filters is not empty, rendering the fetched page throws a TypeError.\<close>

theorem catalog_render_crashes:
  assumes "resp_body (get_products rx (server_params (products_url f)) d) = ProductsBody n t tp cp ps"
    and "ps \<noteq> []"
  shows "render_catalog (cat_products (catalog_reply (Some (get_products rx (server_params (products_url f)) d)) c))
           = Inl TypeError"
proof -
  obtain st h where "get_products rx (server_params (products_url f)) d = Response st h (ProductsBody n t tp cp ps)"
    using assms(1) by (cases "get_products rx (server_params (products_url f)) d") simp
  moreover have "st = 200" using calculation by (auto simp: get_products_def ok_def fail_def Let_def split: sum.splits)
  ultimately show ?thesis
    using assms(2) by (cases ps) (simp_all add: catalog_reply_def card_image_TypeError)
qed

lemma catalog_default_listing:
  "resp_body (get_products literal_regex_i (server_params (products_url initial_filters))
      (sample_db [sample_product 1 ''books'' 20 5])) =
   ProductsBody 1 1 (Fin 1) (JStr ''1'') [sample_product 1 ''books'' 20 5]"
  by code_simp

theorem catalog_render_crashes_witness:
  "resp_body (get_products literal_regex_i (server_params (products_url initial_filters))
      (sample_db [sample_product 1 ''books'' 20 5])) =
     ProductsBody 1 1 (Fin 1) (JStr ''1'') [sample_product 1 ''books'' 20 5] \<and>
   [sample_product 1 ''books'' 20 5] \<noteq> [] \<and>
   render_catalog (cat_products (catalog_reply (Some (get_products literal_regex_i
      (server_params (products_url initial_filters)) (sample_db [sample_product 1 ''books'' 20 5])))
      \<lparr>cat_products = [], cat_total_pages = JNum (Fin 1), cat_error = [], cat_loading = True\<rparr>)) = Inl TypeError"
  using catalog_render_crashes [OF catalog_default_listing, of
      "\<lparr>cat_products = [], cat_total_pages = JNum (Fin 1), cat_error = [], cat_loading = True\<rparr>"]
    catalog_default_listing by simp

text \<open>C33: with a page size \<open>l \<ge> 1\<close>, the pager shows exactly the buttons
  \<open>1 .. \<lceil>total / l\<rceil>\<close> (every one a page that exists); with \<open>limit=0\<close> the
  server's \<open>Infinity\<close> reaches the client as \<open>null\<close> and there is no button.\<close>

theorem pager_bounds:
  assumes "1 \<le> l"
  shows "pager_buttons (json_num (total_pages cnt (JStr (dec_string l)))) = [1..<Suc (nat \<lceil>of_nat cnt / (of_nat l :: rat)\<rceil>)] \<and>
         pager_buttons (json_num (total_pages cnt (JStr ''0''))) = []"
proof -
  have l: "to_number (JStr (dec_string l)) = Fin (of_nat l)" by simp
  have z: "to_number (JStr ''0'') = Fin 0" by code_simp
  have pos: "0 < (of_nat l :: rat)" using assms by simp
  have "0 \<le> of_nat cnt / (of_nat l :: rat)" using pos by simp
  then have "0 \<le> \<lceil>of_nat cnt / (of_nat l :: rat)\<rceil>" by linarith
  then show ?thesis using pos l z
    by (auto simp: total_pages_def pager_buttons_def signed_inf_def)
qed

theorem pager_bounds_witness:
  "(1::nat) \<le> 5 \<and> pager_buttons (json_num (total_pages 12 (JStr (dec_string 5)))) = [1, 2, 3] \<and>
   pager_buttons (json_num (total_pages 12 (JStr ''0''))) = []"
proof -
  have c: "\<lceil>of_nat 12 / (of_nat 5 :: rat)\<rceil> = 3" by code_simp
  show ?thesis using pager_bounds [of 5 12] c by (simp add: upt_rec)
qed

end
