(* ===== verification/ClientPages.thy ===== *)
theory ClientPages
  imports ClientSession ClientCatalog
begin

text \<open>
  The page routed at \<open>/products\<close>: \<open>src/dev/src/pages/ProductList.jsx\<close>. Its
  state is a record of the component's \<open>useState\<close> cells; every handler and
  effect is a function on it, and a run of the page is a sequence of events
  (user input, the debounce timer, server replies) folded over the state. The
  request it sends is the URL of a template literal, read by the server
  through \<open>QueryString.server_params\<close>; the replies are \<open>response option\<close>
  values as in \<open>ClientSession\<close>.
\<close>

record product_form =
  nf_name :: string
  nf_description :: string
  nf_price :: string
  nf_category :: string
  nf_image :: string
  nf_stock :: string

definition empty_form :: product_form where
  "empty_form = \<lparr>nf_name = [], nf_description = [], nf_price = [], nf_category = [], nf_image = [], nf_stock = []\<rparr>"

record plist =
  pl_products :: "product list"
  pl_loading :: bool
  pl_error :: string
  pl_search :: string
  pl_debounced :: string
  pl_category :: string
  pl_sort_by :: string
  pl_sort_order :: string
  pl_current_page :: nat
  pl_total_pages :: jsval
  pl_show_add :: bool
  pl_new :: product_form

definition plist_init :: plist where
  "plist_init =
     \<lparr>pl_products = [], pl_loading = True, pl_error = [], pl_search = [], pl_debounced = [], pl_category = [],
      pl_sort_by = ''createdAt'', pl_sort_order = ''desc'', pl_current_page = 1, pl_total_pages = JNum (Fin 1),
      pl_show_add = False, pl_new = empty_form\<rparr>"

subsection \<open>The request\<close>

definition plist_url :: "plist \<Rightarrow> string" where
  "plist_url s =
     ''/products?page='' @ dec_string (pl_current_page s) @ ''&limit=12&search='' @ pl_debounced s @
     ''&category='' @ pl_category s @ ''&sortBy='' @ pl_sort_by s @ ''&sortOrder='' @ pl_sort_order s"

subsection \<open>Handlers\<close>

text \<open>\<open>fetchProducts\<close>: a 2xx reply fills the list and \<open>totalPages || 1\<close>; a
  rejected request sets the error and empties the list.\<close>

definition plist_fetch_reply :: "response option \<Rightarrow> plist \<Rightarrow> plist" where
  "plist_fetch_reply r s =
     (case r of
        Some (Response st h b) \<Rightarrow>
          if is_2xx st then
            (if body_success b then
               (case b of ProductsBody n t tp cp ps \<Rightarrow>
                  s\<lparr>pl_products := ps, pl_total_pages := (if truthy (json_num tp) then json_num tp else JNum (Fin 1))\<rparr>
                | _ \<Rightarrow> s)
             else s\<lparr>pl_error := message_or r ''Failed to fetch products'', pl_products := []\<rparr>)
          else s\<lparr>pl_error := ''Failed to fetch products'', pl_products := []\<rparr>
      | None \<Rightarrow> s\<lparr>pl_error := ''Failed to fetch products'', pl_products := []\<rparr>)\<lparr>pl_loading := False\<rparr>"

text \<open>\<open>handleDelete\<close>: nothing unless the user confirms; on success the product
  is dropped from the list by its \<open>_id\<close>.\<close>

definition plist_delete :: "string \<Rightarrow> bool \<Rightarrow> response option \<Rightarrow> plist \<Rightarrow> plist" where
  "plist_delete pid confirmed r s =
     (if \<not> confirmed then s
      else (case r of
              Some (Response st h b) \<Rightarrow>
                if is_2xx st then
                  (if body_success b then s\<lparr>pl_products := filter (\<lambda>p. oid_hex (prod_id p) \<noteq> pid) (pl_products s)\<rparr>
                   else s\<lparr>pl_error := message_or r ''Failed to delete product''\<rparr>)
                else s\<lparr>pl_error := ''Failed to delete product''\<rparr>
            | None \<Rightarrow> s\<lparr>pl_error := ''Failed to delete product''\<rparr>))"

text \<open>\<open>handleAddProduct\<close>: on success the form closes and is reset (the page
  then fetches again, a separate event); a rejected request sets the error.\<close>

definition plist_add :: "response option \<Rightarrow> plist \<Rightarrow> plist" where
  "plist_add r s =
     (case r of
        Some (Response st h b) \<Rightarrow>
          if is_2xx st then (if body_success b then s\<lparr>pl_show_add := False, pl_new := empty_form\<rparr> else s)
          else s\<lparr>pl_error := ''Failed to add product''\<rparr>
      | None \<Rightarrow> s\<lparr>pl_error := ''Failed to add product''\<rparr>)\<lparr>pl_loading := False\<rparr>"

definition plist_form_change :: "string \<Rightarrow> string \<Rightarrow> plist \<Rightarrow> plist" where
  "plist_form_change name v s =
     (let fm = pl_new s;
          fm' = (if name = ''name'' then fm\<lparr>nf_name := v\<rparr>
                 else if name = ''description'' then fm\<lparr>nf_description := v\<rparr>
                 else if name = ''price'' then fm\<lparr>nf_price := v\<rparr>
                 else if name = ''category'' then fm\<lparr>nf_category := v\<rparr>
                 else if name = ''image'' then fm\<lparr>nf_image := v\<rparr>
                 else if name = ''stock'' then fm\<lparr>nf_stock := v\<rparr>
                 else fm)
      in s\<lparr>pl_new := fm'\<rparr>)"

text \<open>The sort menu: \<open>const [by, order] = value.split('-')\<close>; a missing second
  piece is \<open>undefined\<close>, which the template literal prints as such.\<close>

definition plist_sort_change :: "string \<Rightarrow> plist \<Rightarrow> plist" where
  "plist_sort_change v s =
     (let parts = split_on CHR ''-'' v
      in s\<lparr>pl_sort_by := hd parts,
           pl_sort_order := (case nth_opt parts 1 of Some ord \<Rightarrow> ord | None \<Rightarrow> ''undefined'')\<rparr>)"

datatype plist_event =
    SearchInput string
  | DebounceFired
  | CategoryInput string
  | SortInput string
  | PageClick nat
  | FetchStarted
  | FetchReply "response option"
  | DeleteClick string bool "response option"
  | AddSubmit "response option"
  | FormInput string string
  | ShowAddForm
  | HideAddForm

fun plist_step :: "plist_event \<Rightarrow> plist \<Rightarrow> plist" where
  "plist_step (SearchInput v) s = s\<lparr>pl_search := v\<rparr>"
| "plist_step DebounceFired s = s\<lparr>pl_debounced := pl_search s\<rparr>"
| "plist_step (CategoryInput v) s = s\<lparr>pl_category := v\<rparr>"
| "plist_step (SortInput v) s = plist_sort_change v s"
| "plist_step (PageClick n) s = s\<lparr>pl_current_page := n\<rparr>"
| "plist_step FetchStarted s = s\<lparr>pl_loading := True\<rparr>"
| "plist_step (FetchReply r) s = plist_fetch_reply r s"
| "plist_step (DeleteClick pid c r) s = plist_delete pid c r s"
| "plist_step (AddSubmit r) s = plist_add r s"
| "plist_step (FormInput n v) s = plist_form_change n v s"
| "plist_step ShowAddForm s = s\<lparr>pl_show_add := True\<rparr>"
| "plist_step HideAddForm s = s\<lparr>pl_show_add := False\<rparr>"

definition plist_run :: "plist_event list \<Rightarrow> plist \<Rightarrow> plist" where
  "plist_run evs s = fold plist_step evs s"

subsection \<open>What the page shows\<close>

datatype plist_view = Spinner | ErrorScreen string | ListView "product list" "nat list"

fun js_gt_one :: "jsval \<Rightarrow> bool" where
  "js_gt_one (JNum (Fin r)) = (1 < r)"
| "js_gt_one (JNum PosInf) = True"
| "js_gt_one (JStr s) = (case string_to_number s of Fin r \<Rightarrow> 1 < r | PosInf \<Rightarrow> True | _ \<Rightarrow> False)"
| "js_gt_one (JBool b) = False"
| "js_gt_one v = False"

definition plist_view :: "plist \<Rightarrow> plist_view" where
  "plist_view s =
     (if pl_loading s then Spinner
      else if pl_error s \<noteq> [] then ErrorScreen (pl_error s)
      else ListView (pl_products s) (if js_gt_one (pl_total_pages s) then pager_buttons (pl_total_pages s) else []))"

subsection \<open>The list markup\<close>

text \<open>What the page renders once it is neither loading nor failed: the
  heading and the toolbar (lines 143 to 201), the add form while
  \<open>showAddForm\<close> holds, a card per product and the pager. \<open>user?.role ===
  'admin'\<close> is the provider's user with role \<open>admin\<close>. A card holds the values
  its markup interpolates.\<close>

definition is_admin_user :: "client_user option \<Rightarrow> bool" where
  "is_admin_user u = (case u of Some cu \<Rightarrow> cu_role cu = RoleAdmin | None \<Rightarrow> False)"

definition plist_title :: "client_user option \<Rightarrow> string" where
  "plist_title u = (if is_admin_user u then ''Manage Products'' else ''Our Products'')"

definition plist_category_menu :: "(string \<times> string) list" where
  "plist_category_menu =
     [([], ''All Categories''), (''electronics'', ''Electronics''), (''clothing'', ''Clothing''),
      (''books'', ''Books''), (''home'', ''Home''), (''other'', ''Other'')]"

definition plist_sort_menu :: "(string \<times> string) list" where
  "plist_sort_menu =
     [(''createdAt-desc'', ''Newest''), (''createdAt-asc'', ''Oldest''), (''price-asc'', ''Price: Low to High''),
      (''price-desc'', ''Price: High to Low''), (''rating-desc'', ''Highest Rated''), (''rating-asc'', ''Lowest Rated'')]"

text \<open>The sort menu's \<open>value={`${sortBy}-${sortOrder}`}\<close>.\<close>

definition plist_sort_value :: "plist \<Rightarrow> string" where
  "plist_sort_value s = pl_sort_by s @ ''-'' @ pl_sort_order s"

text \<open>\<open>handleEdit\<close>: \<open>navigate(`/admin/products/${productId}/edit`)\<close>.\<close>

definition plist_edit_path :: "string \<Rightarrow> string" where
  "plist_edit_path pid = ''/admin/products/'' @ pid @ ''/edit''"

record plist_card =
  pc_key :: string
  pc_image :: jsval
  pc_alt :: jsval
  pc_admin_buttons :: bool
  pc_name :: jsval
  pc_description :: jsval
  pc_price :: jsval
  pc_stock :: jsval
  pc_category :: jsval
  pc_rating :: jsval

definition plist_card :: "client_user option \<Rightarrow> product \<Rightarrow> plist_card" where
  "plist_card u p =
     \<lparr>pc_key = oid_hex (prod_id p), pc_image = product_json p ''image'', pc_alt = product_json p ''name'',
      pc_admin_buttons = is_admin_user u, pc_name = product_json p ''name'',
      pc_description = product_json p ''description'', pc_price = product_json p ''price'',
      pc_stock = product_json p ''stock'', pc_category = product_json p ''category'',
      pc_rating = product_json p ''rating''\<rparr>"

record plist_screen =
  ps_title :: string
  ps_search :: string
  ps_category :: string
  ps_sort :: string
  ps_admin_tools :: bool
  ps_add_form :: "product_form option"
  ps_cards :: "plist_card list"
  ps_pager :: "(nat \<times> bool) list"

text \<open>The pager: \<open>totalPages > 1\<close> shows buttons \<open>1..totalPages\<close>, the one equal
  to \<open>currentPage\<close> highlighted.\<close>

definition plist_screen :: "client_user option \<Rightarrow> plist \<Rightarrow> plist_screen" where
  "plist_screen u s =
     \<lparr>ps_title = plist_title u, ps_search = pl_search s, ps_category = pl_category s,
      ps_sort = plist_sort_value s, ps_admin_tools = is_admin_user u,
      ps_add_form = (if pl_show_add s then Some (pl_new s) else None),
      ps_cards = map (plist_card u) (pl_products s),
      ps_pager = (if js_gt_one (pl_total_pages s)
                  then map (\<lambda>n. (n, pl_current_page s = n)) (pager_buttons (pl_total_pages s)) else [])\<rparr>"

text \<open>The controls and the events they raise: the search box, the two
  menus, the add and cancel buttons, a form field, a card's edit button
  (which leaves the page) and a pager button. The delete button raises
  \<open>DeleteClick\<close> with the confirmation and the reply.\<close>

datatype plist_control =
    SearchBox | CategoryMenu | SortMenu | AddButton | CancelButton | FormField string
  | EditButton string | PagerButton nat

definition plist_control :: "plist_control \<Rightarrow> string \<Rightarrow> plist_event + string" where
  "plist_control c v =
     (case c of
        SearchBox \<Rightarrow> Inl (SearchInput v)
      | CategoryMenu \<Rightarrow> Inl (CategoryInput v)
      | SortMenu \<Rightarrow> Inl (SortInput v)
      | AddButton \<Rightarrow> Inl ShowAddForm
      | CancelButton \<Rightarrow> Inl HideAddForm
      | FormField n \<Rightarrow> Inl (FormInput n v)
      | EditButton pid \<Rightarrow> Inr (plist_edit_path pid)
      | PagerButton n \<Rightarrow> Inl (PageClick n))"

subsection \<open>Facts\<close>

lemma raw_safe_dec_string: "raw_safe (dec_string n)"
  using dec_string_digits [of n] by (auto simp: raw_safe_def is_digit_def)

lemma plist_query:
  "query_of_url (plist_url s) =
     join_on CHR ''&'' (map (\<lambda>(k, v). k @ CHR ''='' # v)
       [(''page'', dec_string (pl_current_page s)), (''limit'', ''12''), (''search'', pl_debounced s),
        (''category'', pl_category s), (''sortBy'', pl_sort_by s), (''sortOrder'', pl_sort_order s)])"
  by (simp add: plist_url_def query_of_url_def)

lemma message_or_nonempty: "d \<noteq> [] \<Longrightarrow> message_or r d \<noteq> []"
  by (simp add: message_or_def split: option.splits)

lemma plist_step_error: "pl_error s \<noteq> [] \<Longrightarrow> pl_error (plist_step e s) \<noteq> []"
  by (cases e) (auto simp: plist_fetch_reply_def plist_delete_def plist_add_def plist_form_change_def
      plist_sort_change_def message_or_nonempty Let_def split: option.splits response.splits body.splits)

lemma plist_run_error: "pl_error s \<noteq> [] \<Longrightarrow> pl_error (plist_run evs s) \<noteq> []"
  unfolding plist_run_def by (induction evs arbitrary: s) (simp_all add: plist_step_error)

subsection \<open>Properties of the page\<close>

text \<open>C34: the page's sort menu never reaches the server. The page sends
  \<open>sortBy\<close> and \<open>sortOrder\<close>, the listing handler reads \<open>sort\<close>: the server
  sees no sort whatever the menu says, and lists newest first; it sees the
  page, a fixed limit of 12, the search text and the category.\<close>

theorem plist_sort_ignored:
  assumes "raw_safe (pl_debounced s)" and "raw_safe (pl_category s)"
    and "raw_safe (pl_sort_by s)" and "raw_safe (pl_sort_order s)"
  shows "server_params (plist_url s) =
     \<lparr>lp_category = Some (pl_category s), lp_minPrice = None, lp_maxPrice = None, lp_minRating = None,
      lp_search = Some (pl_debounced s), lp_sort = None, lp_page = Some (dec_string (pl_current_page s)),
      lp_limit = Some ''12''\<rparr>"
proof -
  let ?kvs = "[(''page'', dec_string (pl_current_page s)), (''limit'', ''12''), (''search'', pl_debounced s),
        (''category'', pl_category s), (''sortBy'', pl_sort_by s), (''sortOrder'', pl_sort_order s)]"
  have "parse_query (query_of_url (plist_url s)) = ?kvs"
    unfolding plist_query
    by (rule parse_query_raw) (simp_all add: assms raw_safe_dec_string, simp add: raw_safe_def)
  moreover have "distinct (map fst ?kvs)" by simp
  ultimately show ?thesis
    by (simp add: server_params_def params_of_query_def query_get_distinct)
qed

theorem plist_sort_ignored_witness:
  "raw_safe ''lamp'' \<and> raw_safe [] \<and> raw_safe ''price'' \<and> raw_safe ''asc'' \<and>
   server_params (plist_url (plist_init\<lparr>pl_debounced := ''lamp'', pl_sort_by := ''price'', pl_sort_order := ''asc''\<rparr>)) =
     \<lparr>lp_category = Some [], lp_minPrice = None, lp_maxPrice = None, lp_minRating = None,
      lp_search = Some ''lamp'', lp_sort = None, lp_page = Some ''1'', lp_limit = Some ''12''\<rparr>"
proof -
  have h: "raw_safe ''lamp''" "raw_safe []" "raw_safe ''price''" "raw_safe ''asc''"
    by (simp_all add: raw_safe_def)
  have "dec_string 1 = ''1''" by code_simp
  then show ?thesis
    using plist_sort_ignored [of "plist_init\<lparr>pl_debounced := ''lamp'', pl_sort_by := ''price'', pl_sort_order := ''asc''\<rparr>"] h
    by (simp add: plist_init_def)
qed

text \<open>C35: once the page has shown an error it shows nothing else: no handler
  ever clears \<open>error\<close>, so after any further events (a successful fetch,
  delete or add included) the page shows the spinner or the error screen,
  never the product list.\<close>

theorem plist_error_sticky:
  assumes "pl_error s \<noteq> []"
  shows "pl_error (plist_run evs s) \<noteq> [] \<and> (\<forall>ps bs. plist_view (plist_run evs s) \<noteq> ListView ps bs)"
  using plist_run_error [OF assms, of evs] by (simp add: plist_view_def)

theorem plist_error_sticky_witness:
  "pl_error (plist_init\<lparr>pl_error := ''Failed to delete product'', pl_loading := False\<rparr>) \<noteq> [] \<and>
   plist_view (plist_run [FetchStarted, FetchReply (Some (ok 200 (ProductsBody 0 0 (Fin 0) (JNum (Fin 1)) [])))]
     (plist_init\<lparr>pl_error := ''Failed to delete product'', pl_loading := False\<rparr>)) \<noteq> ListView [] []"
  using plist_error_sticky [of "plist_init\<lparr>pl_error := ''Failed to delete product'', pl_loading := False\<rparr>"
      "[FetchStarted, FetchReply (Some (ok 200 (ProductsBody 0 0 (Fin 0) (JNum (Fin 1)) [])))]"]
  by simp

text \<open>Every option of the sort menu survives its own \<open>onChange\<close>: splitting
  the value at \<open>-\<close> and writing it back through the template literal gives
  the option again, so the menu shows what was picked; the initial state
  shows \<open>Newest\<close>.\<close>

lemma plist_sort_menu_roundtrip:
  "list_all (\<lambda>(v, l). plist_sort_value (plist_sort_change v s) = v) plist_sort_menu \<and>
   plist_sort_value plist_init \<in> fst ` set plist_sort_menu"
  by (simp add: plist_sort_menu_def plist_sort_value_def plist_sort_change_def plist_init_def)

text \<open>The pager highlights exactly the current page when it lies in range.\<close>

lemma plist_pager_current:
  assumes "js_gt_one (pl_total_pages s)" and "1 \<le> pl_current_page s" and "pl_current_page s \<le> array_length (pl_total_pages s)"
  shows "filter snd (ps_pager (plist_screen u s)) = [(pl_current_page s, True)]"
proof -
  have "filter snd (map (\<lambda>n. (n, c = n)) [1..<Suc m]) = [(c, True)]" if "1 \<le> c" "c \<le> m" for c m :: nat
    using that by (induction m) (auto simp: filter_empty_conv)
  then show ?thesis using assms by (simp add: plist_screen_def pager_buttons_def)
qed

end
