(* ===== verification/Api.thy ===== *)
theory Api
  imports Server QueryString
begin

text \<open>
  The client's HTTP layer \<open>src/dev/src/api.js\<close> and the routing it meets on
  the server. An \<open>api_call\<close> is one exported function with its arguments;
  \<open>api_target\<close> is the method, path and JSON body it sends (relative to
  \<open>API_URL\<close>), and the request interceptor adds the stored token.
  \<open>express_route\<close> is the route table of \<open>server.js\<close> with the two routers
  mounted under \<open>/api\<close>: it yields the \<open>Server.request\<close> the matching route
  handles, or nothing, in which case Express answers its default 404 page.
  A JSON body is an object: an association list read with \<open>body_field\<close>.
\<close>

datatype http_method = GET | POST | PUT | DELETE

type_synonym json_object = "(string \<times> jsval) list"

definition body_field :: "json_object \<Rightarrow> string \<Rightarrow> jsval" where
  "body_field obj k = (case map_of obj k of Some v \<Rightarrow> v | None \<Rightarrow> JUndefined)"

datatype api_call =
    ApiLogin json_object
  | ApiRegister json_object
  | ApiGetProducts
  | ApiGetProduct string
  | ApiCreateProduct json_object
  | ApiUpdateProduct string json_object
  | ApiDeleteProduct string
  | ApiAddToCart jsval jsval
  | ApiGetCart
  | ApiUpdateCartItem string jsval
  | ApiRemoveFromCart string
  | ApiClearCart

fun api_target :: "api_call \<Rightarrow> http_method \<times> string \<times> json_object" where
  "api_target (ApiLogin cred) = (POST, ''/auth/login'', cred)"
| "api_target (ApiRegister ud) = (POST, ''/auth/register'', ud)"
| "api_target ApiGetProducts = (GET, ''/products'', [])"
| "api_target (ApiGetProduct i) = (GET, ''/products/'' @ i, [])"
| "api_target (ApiCreateProduct pd) = (POST, ''/products'', pd)"
| "api_target (ApiUpdateProduct i pd) = (PUT, ''/products/'' @ i, pd)"
| "api_target (ApiDeleteProduct i) = (DELETE, ''/products/'' @ i, [])"
| "api_target (ApiAddToCart pid q) = (POST, ''/cart'', [(''productId'', pid), (''quantity'', q)])"
| "api_target ApiGetCart = (GET, ''/cart'', [])"
| "api_target (ApiUpdateCartItem pid q) = (PUT, ''/cart/'' @ pid, [(''quantity'', q)])"
| "api_target (ApiRemoveFromCart pid) = (DELETE, ''/cart/'' @ pid, [])"
| "api_target ApiClearCart = (DELETE, ''/cart'', [])"

text \<open>The request interceptor: \<open>Authorization: Bearer token\<close> when a token is stored.\<close>

definition api_auth_header :: "string option \<Rightarrow> string option" where
  "api_auth_header stored = (case stored of Some tok \<Rightarrow> if tok = [] then None else Some (''Bearer '' @ tok) | None \<Rightarrow> None)"

definition product_body_of :: "json_object \<Rightarrow> product_body" where
  "product_body_of obj =
     \<lparr>pb_name = body_field obj ''name'', pb_description = body_field obj ''description'',
      pb_price = body_field obj ''price'', pb_category = body_field obj ''category'',
      pb_image = body_field obj ''image'', pb_stock = body_field obj ''stock''\<rparr>"

text \<open>The route table: \<open>/api/auth\<close> (\<open>POST /login\<close>, \<open>POST /register\<close>,
  \<open>GET /verify\<close>) and \<open>/api/products\<close> (\<open>GET /\<close>, \<open>GET /:id\<close>, \<open>POST /\<close>,
  \<open>PUT /:id\<close>, \<open>DELETE /:id\<close>). The path is split at \<open>?\<close> into route and query;
  \<open>GET /products/\<close> with a trailing slash is the listing (non-strict routing).\<close>

definition express_route :: "http_method \<Rightarrow> string \<Rightarrow> string option \<Rightarrow> json_object \<Rightarrow> request option" where
  "express_route m url hdr obj =
     (let path = takeWhile (\<lambda>c. c \<noteq> CHR ''?'') url; q = query_of_url url
      in case (m, split_on CHR ''/'' path) of
           (POST, [[], a, b]) \<Rightarrow>
             if a = ''auth'' \<and> b = ''login'' then Some (ReqLogin (body_field obj ''email'') (body_field obj ''password''))
             else if a = ''auth'' \<and> b = ''register'' then Some (ReqRegister (body_field obj ''email'') (body_field obj ''password''))
             else None
         | (GET, [[], a, b]) \<Rightarrow>
             if a = ''auth'' \<and> b = ''verify'' then Some (ReqVerify hdr)
             else if a = ''products'' \<and> b \<noteq> [] then Some (ReqGetProduct b)
             else if a = ''products'' then Some (ReqListProducts (params_of_query (parse_query q)))
             else None
         | (GET, [[], a]) \<Rightarrow> if a = ''products'' then Some (ReqListProducts (params_of_query (parse_query q))) else None
         | (POST, [[], a]) \<Rightarrow> if a = ''products'' then Some (ReqCreateProduct hdr (product_body_of obj)) else None
         | (PUT, [[], a, b]) \<Rightarrow> if a = ''products'' \<and> b \<noteq> [] then Some (ReqUpdateProduct hdr b (product_body_of obj)) else None
         | (DELETE, [[], a, b]) \<Rightarrow> if a = ''products'' \<and> b \<noteq> [] then Some (ReqDeleteProduct hdr b) else None
         | _ \<Rightarrow> None)"

fun method_name :: "http_method \<Rightarrow> string" where
  "method_name GET = ''GET''"
| "method_name POST = ''POST''"
| "method_name PUT = ''PUT''"
| "method_name DELETE = ''DELETE''"

text \<open>Express's final handler when no route matches.\<close>

definition express_404 :: "http_method \<Rightarrow> string \<Rightarrow> response" where
  "express_404 m url = Response 404 None (HtmlBody (''Cannot '' @ method_name m @ '' /api'' @ url))"

text \<open>The app as \<open>server.js\<close> assembles it: \<open>express.json()\<close> runs before
  any router and parses a JSON body (no body leaves \<open>req.body\<close> an empty
  object); a body it rejects (not JSON, or in strict mode not an object or
  array) is passed to \<open>next(err)\<close>, and the final error handler answers
  \<open>res.status(500).json({message: 'Something went wrong!'})\<close> whatever the
  path.\<close>

datatype raw_body = NoBody | JsonBody json_object | RejectedJson

definition app_error :: response where
  "app_error = Response 500 None (MessageBody ''Something went wrong!'')"

definition express_app ::
  "regex_engine \<Rightarrow> nat \<Rightarrow> nat \<Rightarrow> http_method \<Rightarrow> string \<Rightarrow> string option \<Rightarrow> raw_body \<Rightarrow> db \<Rightarrow> response \<times> db" where
  "express_app rx key now m url hdr b d =
     (case b of
        RejectedJson \<Rightarrow> (app_error, d)
      | NoBody \<Rightarrow> (case express_route m url hdr [] of Some r \<Rightarrow> handle rx key now r d | None \<Rightarrow> (express_404 m url, d))
      | JsonBody obj \<Rightarrow> (case express_route m url hdr obj of Some r \<Rightarrow> handle rx key now r d | None \<Rightarrow> (express_404 m url, d)))"

definition api_request :: "string option \<Rightarrow> api_call \<Rightarrow> request option" where
  "api_request stored c = (case api_target c of (m, url, obj) \<Rightarrow> express_route m url (api_auth_header stored) obj)"

text \<open>One call of \<open>api.js\<close> against the server: the reply and the new store.\<close>

definition route_exchange ::
  "regex_engine \<Rightarrow> nat \<Rightarrow> nat \<Rightarrow> string option \<Rightarrow> http_method \<Rightarrow> string \<Rightarrow> json_object \<Rightarrow> db \<Rightarrow> response \<times> db" where
  "route_exchange rx key now stored m url obj d =
     (case express_route m url (api_auth_header stored) obj of
        Some r \<Rightarrow> handle rx key now r d
      | None \<Rightarrow> (express_404 m url, d))"

definition api_exchange ::
  "regex_engine \<Rightarrow> nat \<Rightarrow> nat \<Rightarrow> string option \<Rightarrow> api_call \<Rightarrow> db \<Rightarrow> response \<times> db" where
  "api_exchange rx key now stored c d =
     (case api_target c of (m, url, obj) \<Rightarrow> route_exchange rx key now stored m url obj d)"

fun is_cart_call :: "api_call \<Rightarrow> bool" where
  "is_cart_call (ApiAddToCart p q) = True"
| "is_cart_call ApiGetCart = True"
| "is_cart_call (ApiUpdateCartItem p q) = True"
| "is_cart_call (ApiRemoveFromCart p) = True"
| "is_cart_call ApiClearCart = True"
| "is_cart_call c = False"

fun is_admin_call :: "api_call \<Rightarrow> bool" where
  "is_admin_call (ApiCreateProduct pd) = True"
| "is_admin_call (ApiUpdateProduct i pd) = True"
| "is_admin_call (ApiDeleteProduct i) = True"
| "is_admin_call c = False"

subsection \<open>Properties of the API layer\<close>

text \<open>C36: the server has no cart. Every cart function of \<open>api.js\<close> (add,
  read, update, remove, clear) meets no route: Express answers its 404 page,
  with any stored token and on any store, and nothing changes.\<close>

theorem cart_calls_unrouted:
  assumes "is_cart_call c"
  shows "api_exchange rx key now stored c d = (express_404 (fst (api_target c)) (fst (snd (api_target c))), d) \<and>
         resp_status (fst (api_exchange rx key now stored c d)) = 404"
  using assms
  by (cases c) (auto simp: api_exchange_def route_exchange_def express_route_def express_404_def query_of_url_def
      Let_def split: list.splits)

theorem cart_calls_unrouted_witness:
  "is_cart_call (ApiAddToCart (JStr ''000000000000000000000005'') (JNum (Fin 1))) \<and>
   api_exchange literal_regex_i 7 100 None (ApiAddToCart (JStr ''000000000000000000000005'') (JNum (Fin 1))) init_db =
     (Response 404 None (HtmlBody ''Cannot POST /api/cart''), init_db)"
proof -
  have h: "is_cart_call (ApiAddToCart (JStr ''000000000000000000000005'') (JNum (Fin 1)))" by simp
  show ?thesis using cart_calls_unrouted [OF h, of literal_regex_i 7 100 None init_db] h
    by (simp add: express_404_def)
qed

text \<open>The request interceptor puts the stored token on every admin call:
  create, update and delete reach an admin route whose Authorization header is
  \<open>Bearer\<close> and the token, for any id that is one path segment.\<close>

theorem admin_calls_carry_token:
  assumes "is_admin_call c" and "tok \<noteq> []"
    and "\<And>i pd. c = ApiUpdateProduct i pd \<or> c = ApiDeleteProduct i \<Longrightarrow>
           i \<noteq> [] \<and> CHR ''/'' \<notin> set i \<and> CHR ''?'' \<notin> set i"
  shows "\<exists>r. api_request (Some tok) c = Some r \<and> admin_request r = Some (Some (''Bearer '' @ tok))"
proof (cases c)
  case (ApiUpdateProduct i pd)
  then have i: "i \<noteq> []" "CHR ''/'' \<notin> set i" "CHR ''?'' \<notin> set i" using assms(3) by blast+
  then have tw: "takeWhile (\<lambda>c. c \<noteq> CHR ''?'') i = i" by (auto simp: takeWhile_eq_all_conv)
  show ?thesis using ApiUpdateProduct i assms(2)
    by (simp add: api_request_def express_route_def api_auth_header_def split_on_no_sep Let_def tw)
next
  case (ApiDeleteProduct i)
  then have i: "i \<noteq> []" "CHR ''/'' \<notin> set i" "CHR ''?'' \<notin> set i" using assms(3) by blast+
  then have tw: "takeWhile (\<lambda>c. c \<noteq> CHR ''?'') i = i" by (auto simp: takeWhile_eq_all_conv)
  show ?thesis using ApiDeleteProduct i assms(2)
    by (simp add: api_request_def express_route_def api_auth_header_def split_on_no_sep Let_def tw)
qed (use assms in \<open>simp_all add: api_request_def express_route_def api_auth_header_def Let_def\<close>)

theorem admin_calls_carry_token_witness:
  "is_admin_call (ApiDeleteProduct ''000000000000000000000005'') \<and> jwt_sign 7 2 1000 \<noteq> [] \<and>
   (\<exists>r. api_request (Some (jwt_sign 7 2 1000)) (ApiDeleteProduct ''000000000000000000000005'') = Some r \<and>
        admin_request r = Some (Some (''Bearer '' @ jwt_sign 7 2 1000)))"
proof -
  have h1: "is_admin_call (ApiDeleteProduct ''000000000000000000000005'')" by simp
  have h2: "jwt_sign 7 2 1000 \<noteq> []" by simp
  have h3: "\<And>i pd. ApiDeleteProduct ''000000000000000000000005'' = ApiUpdateProduct i pd \<or>
                    ApiDeleteProduct ''000000000000000000000005'' = ApiDeleteProduct i \<Longrightarrow>
                    i \<noteq> [] \<and> CHR ''/'' \<notin> set i \<and> CHR ''?'' \<notin> set i"
    by auto
  show ?thesis using admin_calls_carry_token [OF h1 h2 h3] h1 h2 by blast
qed

text \<open>axios sends every body as \<open>JSON.stringify\<close> of an object, which
  \<open>express.json()\<close> accepts, so a call of the client meets the app exactly
  as \<open>route_exchange\<close> says.\<close>

lemma route_exchange_app:
  "route_exchange rx key now stored m url obj d = express_app rx key now m url (api_auth_header stored) (JsonBody obj) d"
  by (simp add: route_exchange_def express_app_def)

text \<open>A body the parser rejects never reaches a router: the same path and
  header answer 404 with a parsed body when no route matches, and 500 with
  a rejected one; neither changes the store.\<close>

lemma rejected_body_before_routing:
  assumes "express_route m url hdr obj = None"
  shows "express_app rx key now m url hdr (JsonBody obj) d = (express_404 m url, d) \<and>
         express_app rx key now m url hdr RejectedJson d = (app_error, d)"
  using assms by (simp add: express_app_def)

end
