(* ===== verification/ClientShop.thy ===== *)
theory ClientShop
  imports Api ClientCatalog ClientSession
begin

text \<open>
  The shop pages \<open>src/dev/src/pages/Products.jsx\<close> (all products, filtered and
  sorted in the browser, with add-to-cart) and \<open>src/dev/src/pages/Product.jsx\<close>
  (one product with its star rating and a quantity field). Products arrive as
  JSON (\<open>ClientCatalog.product_json\<close>), so a price or rating that is not a
  finite number is \<open>null\<close> in the browser. \<open>Array.prototype.sort\<close> is stable;
  for a comparator that is consistent, every stable sort gives the same
  result, and \<open>js_sort\<close> is the insertion sort. \<open>localeCompare\<close> depends on
  the browser's locale and is the parameter \<open>lc\<close>.
\<close>

subsection \<open>Values as the browser sees them\<close>

text \<open>\<open>a.price\<close> in arithmetic: a JSON number, or \<open>null\<close>, which is 0.\<close>

definition client_price :: "product \<Rightarrow> rat" where
  "client_price p = (case prod_price p of Fin r \<Rightarrow> r | _ \<Rightarrow> 0)"

text \<open>\<open>a.rating || 0\<close>.\<close>

definition client_rating :: "product \<Rightarrow> rat" where
  "client_rating p = (case prod_rating p of Fin r \<Rightarrow> r | _ \<Rightarrow> 0)"

subsection \<open>\<open>Array.prototype.sort\<close>\<close>

text \<open>A negative comparator result puts the new element first; zero, positive
  and NaN keep the order.\<close>

fun js_insert :: "('a \<Rightarrow> 'a \<Rightarrow> jsnum) \<Rightarrow> 'a \<Rightarrow> 'a list \<Rightarrow> 'a list" where
  "js_insert cmp x [] = [x]"
| "js_insert cmp x (y # ys) = (if jsnum_less_rat (cmp x y) 0 then x # y # ys else y # js_insert cmp x ys)"

definition js_sort :: "('a \<Rightarrow> 'a \<Rightarrow> jsnum) \<Rightarrow> 'a list \<Rightarrow> 'a list" where
  "js_sort cmp xs = foldl (\<lambda>acc x. js_insert cmp x acc) [] xs"

subsection \<open>\<open>Products.jsx\<close>\<close>

record shop =
  sh_products :: "product list"
  sh_loading :: bool
  sh_error :: "string option"
  sh_cart :: "jsval list"
  sh_search :: string
  sh_category :: string
  sh_sort_by :: string
  sh_sort_order :: string

definition shop_init :: shop where
  "shop_init = \<lparr>sh_products = [], sh_loading = True, sh_error = None, sh_cart = [], sh_search = [],
                sh_category = ''all'', sh_sort_by = ''name'', sh_sort_order = ''asc''\<rparr>"

text \<open>\<open>fetchProducts\<close>: \<open>api.get('/products')\<close>, no parameters.\<close>

definition shop_fetch_reply :: "response option \<Rightarrow> shop \<Rightarrow> shop" where
  "shop_fetch_reply r s =
     (case r of
        Some (Response st h b) \<Rightarrow>
          if is_2xx st then
            (if body_success b then (case b of ProductsBody n t tp cp ps \<Rightarrow> s\<lparr>sh_products := ps\<rparr> | _ \<Rightarrow> s)
             else s\<lparr>sh_error := Some (message_or r ''Failed to fetch products'')\<rparr>)
          else s\<lparr>sh_error := Some ''Failed to fetch products''\<rparr>
      | None \<Rightarrow> s\<lparr>sh_error := Some ''Failed to fetch products''\<rparr>)\<lparr>sh_loading := False\<rparr>"

text \<open>The cart holds \<open>item.product\<close> of each item. \<open>response.data.data || []\<close>
  of a success body: a listing's products, which have no \<open>product\<close> field, or
  nothing. A single-product body would make the cart an object and the next
  \<open>isInCart\<close> throw; no route answers \<open>/cart\<close> with one, and the cart is
  then left as it was.\<close>

fun cart_items :: "body \<Rightarrow> jsval list option" where
  "cart_items (ProductsBody n t tp cp ps) = Some (map (\<lambda>p. product_json p ''product'') ps)"
| "cart_items (ProductBody p) = None"
| "cart_items b = Some []"

text \<open>\<open>fetchCart\<close> keeps the cart unless a 2xx reply says success.\<close>

definition shop_fetch_cart :: "response option \<Rightarrow> shop \<Rightarrow> shop" where
  "shop_fetch_cart r s =
     (case r of
        Some (Response st h b) \<Rightarrow>
          if is_2xx st \<and> body_success b then (case cart_items b of Some c \<Rightarrow> s\<lparr>sh_cart := c\<rparr> | None \<Rightarrow> s) else s
      | None \<Rightarrow> s)"

text \<open>\<open>handleAddToCart\<close>: without a user it navigates to \<open>/login\<close>; otherwise
  it posts to \<open>/cart/add\<close>.\<close>

definition shop_add_to_cart :: "bool \<Rightarrow> string \<Rightarrow> response option \<Rightarrow> shop \<Rightarrow> shop \<times> string option" where
  "shop_add_to_cart signed_in pid r s =
     (if \<not> signed_in then (s, Some ''/login'')
      else (case r of
              Some (Response st h b) \<Rightarrow>
                if is_2xx st then
                  (if body_success b then (s\<lparr>sh_cart := sh_cart s @ [JStr pid]\<rparr>, None)
                   else (s\<lparr>sh_error := Some (message_or r ''Failed to add to cart'')\<rparr>, None))
                else (s\<lparr>sh_error := Some ''Failed to add to cart''\<rparr>, None)
            | None \<Rightarrow> (s\<lparr>sh_error := Some ''Failed to add to cart''\<rparr>, None)))"

definition shop_cart_url :: string where
  "shop_cart_url = ''/cart/add''"

definition shop_cart_body :: "string \<Rightarrow> json_object" where
  "shop_cart_body pid = [(''productId'', JStr pid)]"

definition is_in_cart :: "shop \<Rightarrow> string \<Rightarrow> bool" where
  "is_in_cart s pid \<longleftrightarrow> JStr pid \<in> set (sh_cart s)"

text \<open>The filter: case-insensitive \<open>includes\<close> on name or description, and the
  category unless it is \<open>all\<close>.\<close>

definition shop_matches :: "string \<Rightarrow> string \<Rightarrow> product \<Rightarrow> bool" where
  "shop_matches search cat p \<longleftrightarrow>
     (contains_at (to_lower search) (to_lower (prod_name p)) \<or>
      contains_at (to_lower search) (to_lower (prod_description p))) \<and>
     (cat = ''all'' \<or> prod_category p = cat)"

definition shop_filtered :: "shop \<Rightarrow> product list" where
  "shop_filtered s = filter (shop_matches (sh_search s) (sh_category s)) (sh_products s)"

text \<open>The comparator of \<open>sortedProducts\<close>.\<close>

definition shop_cmp :: "(string \<Rightarrow> string \<Rightarrow> int) \<Rightarrow> string \<Rightarrow> string \<Rightarrow> product \<Rightarrow> product \<Rightarrow> jsnum" where
  "shop_cmp lc by ord a b =
     (if by = ''name'' then Fin (of_int (if ord = ''asc'' then lc (prod_name a) (prod_name b) else lc (prod_name b) (prod_name a)))
      else if by = ''price'' then Fin (if ord = ''asc'' then client_price a - client_price b else client_price b - client_price a)
      else if by = ''rating'' then Fin (if ord = ''asc'' then client_rating a - client_rating b else client_rating b - client_rating a)
      else Fin 0)"

definition shop_sorted :: "(string \<Rightarrow> string \<Rightarrow> int) \<Rightarrow> shop \<Rightarrow> product list" where
  "shop_sorted lc s = js_sort (shop_cmp lc (sh_sort_by s) (sh_sort_order s)) (shop_filtered s)"

definition toggle_order :: "shop \<Rightarrow> shop" where
  "toggle_order s = s\<lparr>sh_sort_order := (if sh_sort_order s = ''asc'' then ''desc'' else ''asc'')\<rparr>"

subsection \<open>\<open>Product.jsx\<close>\<close>

datatype star = FullStar | HalfStar | EmptyStar

text \<open>\<open>renderStars(rating)\<close>: \<open>Math.floor(rating)\<close> full stars, a half star when
  \<open>rating % 1 !== 0\<close>, then \<open>5 - stars.length\<close> empty ones (none when negative).\<close>

definition render_stars :: "rat \<Rightarrow> star list" where
  "render_stars r =
     (let full = replicate (nat \<lfloor>r\<rfloor>) FullStar;
          stars = full @ (if r \<noteq> of_int \<lfloor>r\<rfloor> then [HalfStar] else [])
      in stars @ replicate (nat (5 - int (length stars))) EmptyStar)"

text \<open>The quantity field: \<open>Math.min(Math.max(1, parseInt(value)), product.stock)\<close>.\<close>

definition quantity_change :: "string \<Rightarrow> product \<Rightarrow> jsnum" where
  "quantity_change v p = js_min (js_max (Fin 1) (parse_int v)) (to_number (json_num (prod_stock p)))"

record product_page =
  pp_product :: "product option"
  pp_loading :: bool
  pp_error :: "string option"
  pp_cart :: "jsval list"
  pp_quantity :: jsnum

definition product_page_reply :: "response option \<Rightarrow> product_page \<Rightarrow> product_page" where
  "product_page_reply r s =
     (case r of
        Some (Response st h b) \<Rightarrow>
          if is_2xx st then
            (if body_success b then (case b of ProductBody p \<Rightarrow> s\<lparr>pp_product := Some p\<rparr> | _ \<Rightarrow> s)
             else s\<lparr>pp_error := Some (message_or r ''Failed to fetch product'')\<rparr>)
          else s\<lparr>pp_error := Some ''Failed to fetch product''\<rparr>
      | None \<Rightarrow> s\<lparr>pp_error := Some ''Failed to fetch product''\<rparr>)\<lparr>pp_loading := False\<rparr>"

definition product_page_init :: product_page where
  "product_page_init = \<lparr>pp_product = None, pp_loading = True, pp_error = None, pp_cart = [], pp_quantity = Fin 1\<rparr>"

text \<open>\<open>handleAddToCart\<close> of the product page posts the id and the quantity.\<close>

definition product_add_to_cart :: "bool \<Rightarrow> string \<Rightarrow> response option \<Rightarrow> product_page \<Rightarrow> product_page \<times> string option" where
  "product_add_to_cart signed_in pid r s =
     (if \<not> signed_in then (s, Some ''/login'')
      else (case r of
              Some (Response st h b) \<Rightarrow>
                if is_2xx st then
                  (if body_success b then (s\<lparr>pp_cart := pp_cart s @ [JStr pid]\<rparr>, None)
                   else (s\<lparr>pp_error := Some (message_or r ''Failed to add to cart'')\<rparr>, None))
                else (s\<lparr>pp_error := Some ''Failed to add to cart''\<rparr>, None)
            | None \<Rightarrow> (s\<lparr>pp_error := Some ''Failed to add to cart''\<rparr>, None)))"

definition product_fetch_cart :: "response option \<Rightarrow> product_page \<Rightarrow> product_page" where
  "product_fetch_cart r s =
     (case r of
        Some (Response st h b) \<Rightarrow>
          if is_2xx st \<and> body_success b then (case cart_items b of Some c \<Rightarrow> s\<lparr>pp_cart := c\<rparr> | None \<Rightarrow> s) else s
      | None \<Rightarrow> s)"

definition product_in_cart :: "product_page \<Rightarrow> string \<Rightarrow> bool" where
  "product_in_cart s pid \<longleftrightarrow> JStr pid \<in> set (pp_cart s)"

definition product_cart_body :: "string \<Rightarrow> product_page \<Rightarrow> json_object" where
  "product_cart_body pid s = [(''productId'', JStr pid), (''quantity'', JNum (pp_quantity s))]"

definition product_quantity_change :: "string \<Rightarrow> product_page \<Rightarrow> product_page" where
  "product_quantity_change v s =
     (case pp_product s of Some p \<Rightarrow> s\<lparr>pp_quantity := quantity_change v p\<rparr> | None \<Rightarrow> s)"

text \<open>A comparator that subtracts numeric keys, as \<open>a.price - b.price\<close> does.\<close>

abbreviation key_cmp :: "('a \<Rightarrow> rat) \<Rightarrow> 'a \<Rightarrow> 'a \<Rightarrow> jsnum" where
  "key_cmp k a b \<equiv> Fin (k a - k b)"

text \<open>Example data: three books, two of the same price, and an out-of-stock lamp.\<close>

definition shelf :: "product list" where
  "shelf = [sample_product 1 ''books'' 30 1, sample_product 2 ''books'' 10 2, sample_product 3 ''books'' 30 3]"

definition shop_by_price :: shop where
  "shop_by_price = shop_init\<lparr>sh_products := shelf, sh_loading := False, sh_sort_by := ''price''\<rparr>"

definition sold_out :: product where
  "sold_out = (sample_product 4 ''home'' 12 4)\<lparr>prod_stock := Fin 0, prod_rating := Fin (7 / 2)\<rparr>"

subsection \<open>\<open>Array.prototype.sort\<close> with a key comparator is \<open>sort_key\<close>\<close>

text \<open>Inserting after every element that does not compare greater keeps the
  list sorted and keeps equal keys in arrival order, so by the
  characterisation \<open>properties_for_sort_key\<close> of \<open>HOL-Library.Multiset\<close> the
  insertion sort is the library's stable \<open>sort_key\<close>.\<close>

lemma mset_js_insert [simp]: "mset (js_insert cmp x ys) = add_mset x (mset ys)"
  by (induction ys) auto

lemma set_js_insert [simp]: "set (js_insert cmp x ys) = insert x (set ys)"
  by (induction ys) auto

lemma mset_js_sort [simp]: "mset (js_sort cmp xs) = mset xs"
  by (induction xs rule: rev_induct) (auto simp: js_sort_def)

lemma js_sort_Nil [simp]: "js_sort cmp [] = []"
  by (simp add: js_sort_def)

lemma js_sort_snoc: "js_sort cmp (xs @ [x]) = js_insert cmp x (js_sort cmp xs)"
  by (simp add: js_sort_def)

lemma sorted_js_insert:
  "sorted (map k ys) \<Longrightarrow> sorted (map k (js_insert (key_cmp k) x ys))"
  by (induction ys) auto

lemma filter_js_insert:
  "sorted (map k ys) \<Longrightarrow>
   filter (\<lambda>y. c = k y) (js_insert (key_cmp k) x ys) = filter (\<lambda>y. c = k y) ys @ (if c = k x then [x] else [])"
proof (induction ys)
  case (Cons y ys)
  have "filter (\<lambda>z. k x = k z) ys = []" if "k x < k y"
    using Cons.prems that by (force simp: filter_empty_conv)
  with Cons show ?case by auto
qed simp

lemma sorted_js_sort: "sorted (map k (js_sort (key_cmp k) xs))"
  by (induction xs rule: rev_induct) (auto simp: js_sort_snoc sorted_js_insert)

lemma filter_js_sort:
  "filter (\<lambda>y. c = k y) (js_sort (key_cmp k) xs) = filter (\<lambda>y. c = k y) xs"
  by (induction xs rule: rev_induct) (auto simp: js_sort_snoc filter_js_insert sorted_js_sort)

theorem js_sort_key_cmp: "js_sort (key_cmp k) xs = sort_key k xs"
  by (rule properties_for_sort_key [symmetric]) (auto simp: sorted_js_sort filter_js_sort)

lemma js_sort_const: "js_sort (\<lambda>a b. Fin 0) xs = xs"
proof -
  have ins: "insort_key (\<lambda>_. 0::rat) a ys = a # ys" for a ys by (cases ys) simp_all
  have "sort_key (\<lambda>_. 0::rat) xs = xs" by (induction xs) (simp_all add: ins)
  then show ?thesis using js_sort_key_cmp [of "\<lambda>_. 0" xs] by simp
qed

subsection \<open>The pages' values\<close>

lemma contains_at_Nil: "contains_at (to_lower []) s"
  by (cases s) (simp_all add: to_lower_def)

lemma shop_cmp_price:
  "shop_cmp lc ''price'' ord = key_cmp (if ord = ''asc'' then client_price else (\<lambda>p. - client_price p))"
  by (auto simp: shop_cmp_def fun_eq_iff)

lemma shop_cmp_rating:
  "shop_cmp lc ''rating'' ord = key_cmp (if ord = ''asc'' then client_rating else (\<lambda>p. - client_rating p))"
  by (auto simp: shop_cmp_def fun_eq_iff)

lemma render_stars_closed:
  assumes "0 \<le> r" "r \<le> 5"
  shows "render_stars r =
           replicate (nat \<lfloor>r\<rfloor>) FullStar @ (if r = of_int \<lfloor>r\<rfloor> then [] else [HalfStar]) @
           replicate (5 - nat \<lfloor>r\<rfloor> - (if r = of_int \<lfloor>r\<rfloor> then 0 else 1)) EmptyStar \<and>
         nat \<lfloor>r\<rfloor> + (if r = of_int \<lfloor>r\<rfloor> then 0 else 1) \<le> 5"
proof -
  have f: "\<lfloor>r\<rfloor> \<le> 5" using assms(2) by linarith
  have g: "0 \<le> \<lfloor>r\<rfloor>" using assms(1) by simp
  have h: "\<lfloor>r\<rfloor> \<le> 4" if "r \<noteq> of_int \<lfloor>r\<rfloor>"
  proof (rule ccontr)
    assume "\<not> \<lfloor>r\<rfloor> \<le> 4"
    then have "\<lfloor>r\<rfloor> = 5" using f by linarith
    then have "5 \<le> r" using of_int_floor_le [of r] by simp
    with assms(2) that \<open>\<lfloor>r\<rfloor> = 5\<close> show False by simp
  qed
  show ?thesis
  proof (cases "r = of_int \<lfloor>r\<rfloor>")
    case True
    then show ?thesis using f g by (simp add: render_stars_def Let_def nat_diff_distrib)
  next
    case False
    then have "\<lfloor>r\<rfloor> \<le> 4" by (rule h)
    then have "nat \<lfloor>r\<rfloor> \<le> 4" by arith
    moreover have "nat (4 - \<lfloor>r\<rfloor>) = 4 - nat \<lfloor>r\<rfloor>" using g by arith
    ultimately show ?thesis using False g by (simp add: render_stars_def Let_def nat_add_distrib)
  qed
qed

lemma client_rating_valid:
  assumes "product_valid p" shows "0 \<le> client_rating p \<and> client_rating p \<le> 5"
  using assms by (cases "prod_rating p") (auto simp: product_valid_iff client_rating_def)

lemma signed_radix_Fin:
  "(if ds = [] then NaN else case radix_val rdx 0 ds of Some n \<Rightarrow> Fin (if b then - of_nat n else of_nat n) | None \<Rightarrow> NaN) \<noteq> NaN \<Longrightarrow>
   \<exists>i::int. (if ds = [] then NaN else case radix_val rdx 0 ds of Some n \<Rightarrow> Fin (if b then - of_nat n else of_nat n) | None \<Rightarrow> NaN) = Fin (of_int i)"
  by (auto split: option.splits intro: exI [of _ "if b then - int n else int n" for n])

lemma parse_int_Fin: "parse_int v \<noteq> NaN \<Longrightarrow> \<exists>n::int. parse_int v = Fin (of_int n)"
  unfolding parse_int_def Let_def case_prod_beta by (rule signed_radix_Fin)

lemma js_min_max_Fin: "js_min (js_max (Fin a) (Fin b)) (Fin c) = Fin (min (max a b) c)"
  by (simp add: js_min_def js_max_def max_def min_def)

lemma parse_int_Nil: "parse_int [] = NaN"
  by (simp add: parse_int_def)

subsection \<open>The pages against the server\<close>

lemma route_cart_add: "express_route POST ''/cart/add'' hdr obj = None"
  by (simp add: express_route_def query_of_url_def)

lemma route_products: "express_route GET ''/products'' hdr obj = Some (ReqListProducts (params_of_query []))"
  by (simp add: express_route_def query_of_url_def parse_query_def)

lemma params_empty: "params_of_query [] = no_params"
  by (simp add: params_of_query_def query_get_def no_params_def)

lemma matching_no_params: "matching rx (build_query no_params) d = db_products d"
  by (simp add: matching_def build_query_def no_params_def present_def qv_def query_matches_def opt_bound_def)

lemma store_find_no_params:
  "store_find rx (build_query no_params) (sort_options (lp_sort no_params))
     (skip_value (page_param no_params) (limit_param no_params)) (limit_param no_params) d =
   Inr (take 10 (apply_sort (SortCreatedAt, Desc) (db_products d)))"
  unfolding store_find_def matching_no_params
  by (simp add: no_params_def sort_options_def present_def qv_def js_sub_def
      page_param_def limit_param_def skip_value_def cast_skip_def cast_limit_def take_limit_def)

subsection \<open>Properties of the shop pages\<close>

text \<open>C37: the Products page fetches \<open>/products\<close> with no parameters, so the
  server answers its default page: the page holds exactly the ten newest
  products of the store, whatever the store holds, and filters and sorts only
  those in the browser.\<close>

theorem shop_fetch_first_page:
  "shop_fetch_reply (Some (fst (route_exchange rx key now stored GET ''/products'' [] d))) s =
     s\<lparr>sh_products := take 10 (apply_sort (SortCreatedAt, Desc) (db_products d)), sh_loading := False\<rparr>"
  by (simp add: route_exchange_def route_products params_empty handle_def get_products_def Let_def store_find_no_params
      shop_fetch_reply_def ok_def is_2xx_def)


text \<open>C38: sorting by price is the library's stable sort on the price as the
  browser reads it (\<open>null\<close> as 0): ascending is \<open>sort_key client_price\<close>,
  descending is \<open>sort_key\<close> on the negated price, so products of equal price
  keep the order the server sent them in either direction.\<close>

theorem shop_sort_price_stable:
  assumes "sh_sort_by s = ''price''"
  shows "shop_sorted lc s =
           (if sh_sort_order s = ''asc'' then sort_key client_price (shop_filtered s)
            else sort_key (\<lambda>p. - client_price p) (shop_filtered s))"
  using assms by (simp add: shop_sorted_def shop_cmp_price js_sort_key_cmp)

theorem shop_sort_price_stable_witness:
  "sh_sort_by shop_by_price = ''price'' \<and>
   shop_sorted (\<lambda>a b. 0) shop_by_price = [sample_product 2 ''books'' 10 2, sample_product 1 ''books'' 30 1, sample_product 3 ''books'' 30 3]"
proof -
  have h: "sh_sort_by shop_by_price = ''price''" by (simp add: shop_by_price_def shop_init_def)
  have "sort_key client_price (shop_filtered shop_by_price) =
          [sample_product 2 ''books'' 10 2, sample_product 1 ''books'' 30 1, sample_product 3 ''books'' 30 3]"
    by (simp add: shop_filtered_def shop_by_price_def shop_init_def shelf_def shop_matches_def
        client_price_def sample_product_def contains_at_Nil)
  then show ?thesis using shop_sort_price_stable [OF h, of "\<lambda>a b. 0"] h by (simp add: shop_by_price_def shop_init_def)
qed

text \<open>Both shop pages post to \<open>/cart/add\<close>, a route the server does not
  have: for a signed-in user, adding a product always ends with the error
  \<open>Failed to add to cart\<close> (Express's 404 page is not a 2xx reply), the cart
  stays as it was and the store is unchanged.\<close>

theorem add_to_cart_unrouted:
  "shop_add_to_cart True pid (Some (fst (route_exchange rx key now stored POST shop_cart_url (shop_cart_body pid) d))) s =
     (s\<lparr>sh_error := Some ''Failed to add to cart''\<rparr>, None) \<and>
   product_add_to_cart True pid (Some (fst (route_exchange rx key now stored POST shop_cart_url (product_cart_body pid pg) d))) pg =
     (pg\<lparr>pp_error := Some ''Failed to add to cart''\<rparr>, None) \<and>
   snd (route_exchange rx key now stored POST shop_cart_url (shop_cart_body pid) d) = d"
  by (simp add: route_exchange_def shop_cart_url_def route_cart_add express_404_def shop_add_to_cart_def
      product_add_to_cart_def is_2xx_def)


text \<open>C40: the quantity field leaves the range \<open>[1, stock]\<close> its clamp is
  meant for: an emptied field (\<open>parseInt('')\<close>) sets the quantity to NaN, and
  a product whose stock is 0, or not a finite number (shown as \<open>null\<close>), gets
  quantity 0 for every number typed.\<close>

theorem quantity_escapes_range:
  "quantity_change [] p = NaN \<and>
   ((case prod_stock p of Fin s \<Rightarrow> s = 0 | _ \<Rightarrow> True) \<longrightarrow> parse_int v \<noteq> NaN \<longrightarrow> quantity_change v p = Fin 0)"
proof (intro conjI impI)
  show "quantity_change [] p = NaN" by (simp add: quantity_change_def parse_int_Nil js_max_def js_min_def)
next
  assume "case prod_stock p of Fin s \<Rightarrow> s = 0 | _ \<Rightarrow> True" and "parse_int v \<noteq> NaN"
  moreover obtain n where "parse_int v = Fin (of_int n)" using parse_int_Fin [OF \<open>parse_int v \<noteq> NaN\<close>] by blast
  ultimately show "quantity_change v p = Fin 0"
    by (cases "prod_stock p") (simp_all add: quantity_change_def js_min_max_Fin)
qed

theorem quantity_escapes_range_witness:
  "quantity_change [] sold_out = NaN \<and> parse_int ''3'' \<noteq> NaN \<and> quantity_change ''3'' sold_out = Fin 0"
proof -
  have n: "parse_int ''3'' \<noteq> NaN" by code_simp
  have s: "case prod_stock sold_out of Fin s \<Rightarrow> s = 0 | _ \<Rightarrow> True" by (simp add: sold_out_def)
  show ?thesis using quantity_escapes_range [of sold_out "''3''"] n s by simp
qed

text \<open>With a stock of at least 1 and a number typed, the clamp works.\<close>

theorem quantity_clamped:
  assumes "prod_stock p = Fin s" and "1 \<le> s" and "parse_int v \<noteq> NaN"
  shows "\<exists>q. quantity_change v p = Fin q \<and> 1 \<le> q \<and> q \<le> s"
proof -
  obtain n where n: "parse_int v = Fin (of_int n)" using parse_int_Fin [OF assms(3)] by blast
  show ?thesis using assms(1,2) by (simp add: quantity_change_def n js_min_max_Fin)
qed

theorem quantity_clamped_witness:
  "prod_stock (sample_product 1 ''books'' 30 1) = Fin 3 \<and> (1::rat) \<le> 3 \<and> parse_int ''7'' \<noteq> NaN \<and>
   (\<exists>q. quantity_change ''7'' (sample_product 1 ''books'' 30 1) = Fin q \<and> 1 \<le> q \<and> q \<le> 3)"
proof -
  have s: "prod_stock (sample_product 1 ''books'' 30 1) = Fin 3" by (simp add: sample_product_def)
  have n: "parse_int ''7'' \<noteq> NaN" by code_simp
  show ?thesis using quantity_clamped [OF s _ n] s n by simp
qed

text \<open>On a consistent store every product page shows five stars: the schema
  bounds the rating to \<open>[0, 5]\<close>.\<close>

theorem stored_product_five_stars:
  assumes "db_ok d" and "p \<in> set (db_products d)"
  shows "length (render_stars (client_rating p)) = 5 \<and>
         length (filter (\<lambda>x. x = FullStar) (render_stars (client_rating p))) = nat \<lfloor>client_rating p\<rfloor> \<and>
         (HalfStar \<in> set (render_stars (client_rating p)) \<longleftrightarrow> client_rating p \<notin> \<int>)"
proof -
  have v: "product_valid p" using assms by (auto simp: db_ok_def list_all_iff)
  from render_stars_closed [OF conjunct1 [OF client_rating_valid [OF v]] conjunct2 [OF client_rating_valid [OF v]]]
  show ?thesis by (auto simp: Ints_def filter_replicate)
qed

theorem stored_product_five_stars_witness:
  "db_ok (sample_db [sold_out]) \<and> sold_out \<in> set (db_products (sample_db [sold_out])) \<and>
   length (render_stars (client_rating sold_out)) = 5 \<and>
   render_stars (client_rating sold_out) = [FullStar, FullStar, FullStar, HalfStar, EmptyStar]"
proof -
  have d: "db_ok (sample_db [sold_out])"
    by (simp add: db_ok_def sample_db_def sold_out_def sample_product_def product_valid_iff product_categories_def)
  have m: "sold_out \<in> set (db_products (sample_db [sold_out]))" by (simp add: sample_db_def)
  have fl: "\<lfloor>7 / 2 :: rat\<rfloor> = 3" by (simp add: floor_eq_iff)
  have r: "render_stars (client_rating sold_out) = [FullStar, FullStar, FullStar, HalfStar, EmptyStar]"
    by (simp add: client_rating_def sold_out_def render_stars_def Let_def fl eval_nat_numeral)
  show ?thesis using stored_product_five_stars [OF d m] d m r by simp
qed

end
