(* ===== verification/ClientForms.thy ===== *)
theory ClientForms
  imports ClientSession "HOL-Library.AList"
begin

text \<open>
  The sign-in forms and the navigation bar: \<open>src/dev/src/pages/AuthPage.jsx\<close>
  (login and sign-up on one page), \<open>src/dev/src/components/auth/Register.jsx\<close>
  (the form \<open>App.jsx\<close> routes at \<open>/register\<close>) and
  \<open>src/dev/src/components/layout/Navbar.jsx\<close>. Both forms call the provider's
  \<open>login\<close> or \<open>register\<close> (\<open>ClientSession.auth_reply\<close>), which rethrow a
  failure as a plain string; the forms then read \<open>err.message\<close> of that
  string. Reading a property of a JavaScript value is \<open>js_prop\<close>.
\<close>

subsection \<open>Property access\<close>

text \<open>\<open>v.k\<close>: \<open>undefined\<close> and \<open>null\<close> throw a TypeError; a string has its
  \<open>length\<close> and no other own data property; numbers and booleans have none.\<close>

fun js_prop :: "jsval \<Rightarrow> string \<Rightarrow> js_exn + jsval" where
  "js_prop JUndefined k = Inl TypeError"
| "js_prop JNull k = Inl TypeError"
| "js_prop (JStr s) k = Inr (if k = ''length'' then JNum (Fin (of_nat (length s))) else JUndefined)"
| "js_prop (JNum n) k = Inr JUndefined"
| "js_prop (JBool b) k = Inr JUndefined"

text \<open>\<open>setError(err.message || dflt)\<close> for a thrown value \<open>err\<close>: a truthy
  string message is shown, anything else gives the default.\<close>

definition error_text :: "jsval \<Rightarrow> string \<Rightarrow> string" where
  "error_text err dflt =
     (case js_prop err ''message'' of
        Inr (JStr m) \<Rightarrow> if m \<noteq> [] then m else dflt
      | _ \<Rightarrow> dflt)"

subsection \<open>The provider's \<open>register\<close> against the server\<close>

definition session_register ::
  "regex_engine \<Rightarrow> nat \<Rightarrow> nat \<Rightarrow> string \<Rightarrow> string \<Rightarrow> db \<Rightarrow> session \<Rightarrow> ((string + client_user) \<times> session) \<times> db" where
  "session_register rx key now email pw d s =
     (case handle rx key now (ReqRegister (JStr email) (JStr pw)) d of
        (r, d') \<Rightarrow> (client_register (Some r) s, d'))"

subsection \<open>\<open>AuthPage.jsx\<close>\<close>

record auth_page =
  ap_is_login :: bool
  ap_email :: string
  ap_password :: string
  ap_username :: string
  ap_error :: string
  ap_loading :: bool

definition auth_page_init :: auth_page where
  "auth_page_init = \<lparr>ap_is_login = True, ap_email = [], ap_password = [], ap_username = [], ap_error = [],
                      ap_loading = False\<rparr>"

text \<open>The outcome of \<open>handleSubmit\<close> once the provider's call has settled:
  success navigates to \<open>/products\<close>, a thrown string becomes the error.\<close>

definition auth_page_result :: "string + client_user \<Rightarrow> auth_page \<Rightarrow> auth_page \<times> string option" where
  "auth_page_result res s =
     (case res of
        Inr u \<Rightarrow> (s\<lparr>ap_error := [], ap_loading := False\<rparr>, Some ''/products'')
      | Inl thrown \<Rightarrow> (s\<lparr>ap_error := error_text (JStr thrown) ''An error occurred'', ap_loading := False\<rparr>, None))"

text \<open>\<open>handleSubmit\<close> against the server: login or register with the two
  strings of the form (the username is never sent).\<close>

definition auth_page_submit ::
  "regex_engine \<Rightarrow> nat \<Rightarrow> nat \<Rightarrow> db \<Rightarrow> session \<Rightarrow> auth_page \<Rightarrow> (auth_page \<times> string option) \<times> session \<times> db" where
  "auth_page_submit rx key now d sess s =
     (if ap_is_login s then
        (case session_login rx key now (ap_email s) (ap_password s) d sess of
           (res, sess') \<Rightarrow> (auth_page_result res s, sess', d))
      else
        (case session_register rx key now (ap_email s) (ap_password s) d sess of
           ((res, sess'), d') \<Rightarrow> (auth_page_result res s, sess', d')))"

definition auth_page_toggle :: "bool \<Rightarrow> auth_page \<Rightarrow> auth_page" where
  "auth_page_toggle b s = s\<lparr>ap_is_login := b\<rparr>"

subsection \<open>\<open>Register.jsx\<close>\<close>

record register_form =
  rf_data :: "(string \<times> string) list"
  rf_error :: string
  rf_loading :: bool

definition register_init :: register_form where
  "register_init = \<lparr>rf_data = [(''username'', []), (''email'', []), (''password'', [])], rf_error = [], rf_loading = False\<rparr>"

definition register_change :: "string \<Rightarrow> string \<Rightarrow> register_form \<Rightarrow> register_form" where
  "register_change k v s = s\<lparr>rf_data := AList.update k v (rf_data s)\<rparr>"

definition form_value :: "(string \<times> string) list \<Rightarrow> string \<Rightarrow> string" where
  "form_value kvs k = (case map_of kvs k of Some v \<Rightarrow> v | None \<Rightarrow> [])"

definition register_result :: "string + client_user \<Rightarrow> register_form \<Rightarrow> register_form \<times> string option" where
  "register_result res s =
     (case res of
        Inr u \<Rightarrow> (s\<lparr>rf_error := [], rf_loading := False\<rparr>, Some ''/products'')
      | Inl thrown \<Rightarrow> (s\<lparr>rf_error := error_text (JStr thrown) ''Failed to create an account'', rf_loading := False\<rparr>, None))"

definition register_submit ::
  "regex_engine \<Rightarrow> nat \<Rightarrow> nat \<Rightarrow> db \<Rightarrow> session \<Rightarrow> register_form \<Rightarrow> (register_form \<times> string option) \<times> session \<times> db" where
  "register_submit rx key now d sess s =
     (case session_register rx key now (form_value (rf_data s) ''email'') (form_value (rf_data s) ''password'') d sess of
        ((res, sess'), d') \<Rightarrow> (register_result res s, sess', d'))"

subsection \<open>\<open>Navbar.jsx\<close>\<close>

datatype nav_item = NavLink string string | SignOut

definition nav_items :: "client_user option \<Rightarrow> nav_item list" where
  "nav_items u =
     [NavLink ''/'' ''E-Commerce'', NavLink ''/'' ''Products''] @
     (case u of Some cu \<Rightarrow> if cu_role cu = RoleAdmin then [NavLink ''/admin/products'' ''Admin Dashboard''] else [] | None \<Rightarrow> []) @
     (case u of Some cu \<Rightarrow> [SignOut] | None \<Rightarrow> [NavLink ''/login'' ''Login'', NavLink ''/register'' ''Register''])"

subsection \<open>Properties of the forms\<close>

lemma error_text_string [simp]: "error_text (JStr m) dflt = dflt"
  by (simp add: error_text_def)

lemma auth_page_result_Inl: "auth_page_result (Inl m) s = (s\<lparr>ap_error := ''An error occurred'', ap_loading := False\<rparr>, None)"
  by (simp add: auth_page_result_def)

lemma register_result_Inl:
  "register_result (Inl m) s = (s\<lparr>rf_error := ''Failed to create an account'', rf_loading := False\<rparr>, None)"
  by (simp add: register_result_def)

text \<open>C10: both sign-in forms lose the server's message. The provider rethrows
  a failed login or registration as the server's message string;
  \<open>err.message\<close> of a string is \<open>undefined\<close>, so AuthPage shows
  \<open>An error occurred\<close> and Register shows \<open>Failed to create an account\<close>,
  whatever the server said.\<close>

theorem auth_forms_hide_server_message:
  "(fst (session_login rx key now (ap_email s) (ap_password s) d sess) = Inl m \<longrightarrow> ap_is_login s \<longrightarrow>
      fst (auth_page_submit rx key now d sess s) = (s\<lparr>ap_error := ''An error occurred'', ap_loading := False\<rparr>, None)) \<and>
   (fst (fst (session_register rx key now (form_value (rf_data f) ''email'') (form_value (rf_data f) ''password'') d sess)) = Inl m' \<longrightarrow>
      fst (register_submit rx key now d sess f) = (f\<lparr>rf_error := ''Failed to create an account'', rf_loading := False\<rparr>, None))"
  by (auto simp: auth_page_submit_def register_submit_def auth_page_result_Inl register_result_Inl split: prod.splits)

text \<open>The navigation bar's \<open>Products\<close> link goes to \<open>/\<close>, which redirects
  to the login form, signed in or not.\<close>

lemma nav_products_to_login: "NavLink ''/'' ''Products'' \<in> set (nav_items u) \<and> navigate 2 u ''/'' = (Render LoginPage, ''/login'')"
  by (simp add: nav_items_def numeral_2_eq_2)

text \<open>A wrong password and a duplicate registration against the accounts of
  \<open>Auth.users_db\<close>.\<close>

lemma wrong_password_reply:
  "fst (session_login literal_regex_i 7 1000 ''alice@example.com'' ''wrong'' users_db (initial_session None)) =
     Inl ''Invalid credentials''"
  by (simp add: session_login_def handle_def login_def users_db_def alice_def find_user_by_email_def
      compare_password_def client_login_def auth_reply_def is_2xx_def message_or_def fail_def)

lemma duplicate_register_reply:
  "fst (fst (session_register literal_regex_i 7 1000 ''alice@example.com'' ''pw'' users_db (initial_session None))) =
     Inl ''User already exists''"
  by (simp add: session_register_def handle_def register_def users_db_def alice_def find_user_by_email_def
      client_register_def auth_reply_def is_2xx_def message_or_def fail_def Let_def)

theorem auth_forms_hide_server_message_witness:
  "fst (session_login literal_regex_i 7 1000 ''alice@example.com'' ''wrong'' users_db (initial_session None)) =
     Inl ''Invalid credentials'' \<and>
   fst (auth_page_submit literal_regex_i 7 1000 users_db (initial_session None)
          (auth_page_init\<lparr>ap_email := ''alice@example.com'', ap_password := ''wrong''\<rparr>)) =
     (auth_page_init\<lparr>ap_email := ''alice@example.com'', ap_password := ''wrong'', ap_error := ''An error occurred''\<rparr>, None) \<and>
   fst (fst (session_register literal_regex_i 7 1000 ''alice@example.com'' ''pw'' users_db (initial_session None))) =
     Inl ''User already exists'' \<and>
   fst (register_submit literal_regex_i 7 1000 users_db (initial_session None)
          (register_init\<lparr>rf_data := [(''email'', ''alice@example.com''), (''password'', ''pw'')]\<rparr>)) =
     (register_init\<lparr>rf_data := [(''email'', ''alice@example.com''), (''password'', ''pw'')],
        rf_error := ''Failed to create an account''\<rparr>, None)"
  using auth_forms_hide_server_message [of literal_regex_i 7 1000
      "auth_page_init\<lparr>ap_email := ''alice@example.com'', ap_password := ''wrong''\<rparr>" users_db "initial_session None"
      "''Invalid credentials''" "register_init\<lparr>rf_data := [(''email'', ''alice@example.com''), (''password'', ''pw'')]\<rparr>"
      "''User already exists''"]
    wrong_password_reply duplicate_register_reply
  by (simp add: auth_page_init_def register_init_def form_value_def)

end
