(* ===== verification/ClientAdmin.thy ===== *)
theory ClientAdmin
  imports ClientShop ClientForms
begin

text \<open>
  The administrator's pages: \<open>src/dev/src/pages/EditProduct.jsx\<close> (load one
  product into a form, edit it, \<open>PUT\<close> it back) and
  \<open>src/dev/src/pages/AdminDashboard.jsx\<close> (the product table with its edit
  links and delete buttons). The edit form's state is the product as a JSON
  object, an association list, because \<open>handleChange\<close> writes any key
  \<open>[name]: value\<close> into it and the whole object is sent. A product arrives as
  the object \<open>product_object\<close>: its \<open>_id\<close> and schema fields; \<open>createdAt\<close>
  and \<open>user\<close> travel too, but no page and no handler reads them, and they
  are left out. The dashboard's add form (\<open>components/admin/ProductForm\<close>)
  does not exist in the repository and is not modelled.
\<close>

subsection \<open>Products as JSON objects\<close>

definition product_keys :: "string list" where
  "product_keys = [''_id'', ''name'', ''description'', ''category'', ''price'', ''rating'', ''image'', ''stock'', ''numReviews'']"

definition product_object :: "product \<Rightarrow> json_object" where
  "product_object p = map (\<lambda>k. (k, product_json p k)) product_keys"

subsection \<open>\<open>EditProduct.jsx\<close>\<close>

record edit_page =
  ep_loading :: bool
  ep_error :: string
  ep_product :: json_object

definition edit_init :: edit_page where
  "edit_init = \<lparr>ep_loading = True, ep_error = [],
     ep_product = [(''name'', JStr []), (''description'', JStr []), (''price'', JStr []),
                   (''category'', JStr []), (''image'', JStr []), (''stock'', JStr [])]\<rparr>"

text \<open>The mount effect: anyone but a signed-in admin is sent to \<open>/login\<close>;
  otherwise the product is fetched (\<open>None\<close>: no navigation).\<close>

definition edit_mount :: "client_user option \<Rightarrow> string option" where
  "edit_mount u = (case u of Some cu \<Rightarrow> if cu_role cu = RoleAdmin then None else Some ''/login'' | None \<Rightarrow> Some ''/login'')"

definition edit_fetch_reply :: "response option \<Rightarrow> edit_page \<Rightarrow> edit_page" where
  "edit_fetch_reply r s =
     (case r of
        Some (Response st h b) \<Rightarrow>
          if is_2xx st then
            (if body_success b then (case b of ProductBody p \<Rightarrow> s\<lparr>ep_product := product_object p\<rparr> | _ \<Rightarrow> s)
             else s\<lparr>ep_error := ''Failed to fetch product''\<rparr>)
          else s\<lparr>ep_error := ''Failed to fetch product''\<rparr>
      | None \<Rightarrow> s\<lparr>ep_error := ''Failed to fetch product''\<rparr>)\<lparr>ep_loading := False\<rparr>"

text \<open>\<open>handleChange\<close>: \<open>{...prev, [name]: value}\<close> keeps the key's place, or
  appends a new key.\<close>

definition edit_change :: "string \<Rightarrow> string \<Rightarrow> edit_page \<Rightarrow> edit_page" where
  "edit_change k v s = s\<lparr>ep_product := AList.update k (JStr v) (ep_product s)\<rparr>"

definition edit_url :: "string \<Rightarrow> string" where
  "edit_url pid = ''/products/'' @ pid"

text \<open>\<open>handleSubmit\<close>: \<open>api.put(`/products/${id}`, product)\<close>; success navigates
  to \<open>/admin/products\<close>.\<close>

definition edit_submit_reply :: "response option \<Rightarrow> edit_page \<Rightarrow> edit_page \<times> string option" where
  "edit_submit_reply r s =
     (case r of
        Some (Response st h b) \<Rightarrow>
          if is_2xx st then
            (if body_success b then (s\<lparr>ep_loading := False\<rparr>, Some ''/admin/products'')
             else (s\<lparr>ep_error := ''Failed to update product'', ep_loading := False\<rparr>, None))
          else (s\<lparr>ep_error := ''Failed to update product'', ep_loading := False\<rparr>, None)
      | None \<Rightarrow> (s\<lparr>ep_error := ''Failed to update product'', ep_loading := False\<rparr>, None))"

datatype edit_view = EditSpinner | EditError string | EditForm json_object

definition edit_view :: "edit_page \<Rightarrow> edit_view" where
  "edit_view s = (if ep_loading s then EditSpinner else if ep_error s \<noteq> [] then EditError (ep_error s) else EditForm (ep_product s))"

subsection \<open>\<open>AdminDashboard.jsx\<close>\<close>

record dash =
  da_products :: "product list"
  da_loading :: bool
  da_error :: "string option"
  da_show_form :: bool

definition dash_init :: dash where
  "dash_init = \<lparr>da_products = [], da_loading = True, da_error = None, da_show_form = True\<rparr>"

definition dash_fetch_reply :: "response option \<Rightarrow> dash \<Rightarrow> dash" where
  "dash_fetch_reply r s =
     (case r of
        Some (Response st h b) \<Rightarrow>
          if is_2xx st then
            (if body_success b then (case b of ProductsBody n t tp cp ps \<Rightarrow> s\<lparr>da_products := ps\<rparr> | _ \<Rightarrow> s)
             else s\<lparr>da_error := Some (message_or r ''Failed to fetch products'')\<rparr>)
          else s\<lparr>da_error := Some ''Failed to fetch products''\<rparr>
      | None \<Rightarrow> s\<lparr>da_error := Some ''Failed to fetch products''\<rparr>)\<lparr>da_loading := False\<rparr>"

text \<open>\<open>handleDelete\<close>: nothing unless \<open>window.confirm\<close> says yes; on success the
  list is fetched again (the flag).\<close>

definition dash_delete :: "bool \<Rightarrow> response option \<Rightarrow> dash \<Rightarrow> dash \<times> bool" where
  "dash_delete confirmed r s =
     (if \<not> confirmed then (s, False)
      else (case r of
              Some (Response st h b) \<Rightarrow>
                if is_2xx st then
                  (if body_success b then (s, True)
                   else (s\<lparr>da_error := Some (message_or r ''Failed to delete product'')\<rparr>, False))
                else (s\<lparr>da_error := Some ''Failed to delete product''\<rparr>, False)
            | None \<Rightarrow> (s\<lparr>da_error := Some ''Failed to delete product''\<rparr>, False)))"

definition dash_toggle_form :: "dash \<Rightarrow> dash" where
  "dash_toggle_form s = s\<lparr>da_show_form := \<not> da_show_form s\<rparr>"

definition dash_edit_path :: "product \<Rightarrow> string" where
  "dash_edit_path p = ''/admin/products/'' @ oid_hex (prod_id p) @ ''/edit''"

definition dash_delete_url :: "product \<Rightarrow> string" where
  "dash_delete_url p = ''/products/'' @ oid_hex (prod_id p)"

subsection \<open>\<open>components/admin/ProductManagement.jsx\<close>\<close>

text \<open>The component imports \<open>api\<close> as the default export of \<open>api.js\<close>, which
  has only named exports: the binding is \<open>undefined\<close>, and every
  \<open>api.get\<close>, \<open>api.put\<close> or \<open>api.delete\<close> throws a TypeError before any
  request is sent. A call's outcome is that exception or the server's reply.\<close>

definition pm_api :: jsval where
  "pm_api = JUndefined"

definition pm_call :: "string \<Rightarrow> response option \<Rightarrow> js_exn + response option" where
  "pm_call m r = (case js_prop pm_api m of Inl e \<Rightarrow> Inl e | Inr f \<Rightarrow> Inr r)"

record pm =
  pm_products :: "product list"
  pm_loading :: bool
  pm_error :: "string option"
  pm_sort_by :: string
  pm_editing :: "string option"
  pm_form :: json_object

definition pm_init :: pm where
  "pm_init = \<lparr>pm_products = [], pm_loading = True, pm_error = None, pm_sort_by = ''newest'', pm_editing = None,
     pm_form = [(''name'', JStr []), (''description'', JStr []), (''price'', JStr []), (''category'', JStr []),
                (''image'', JStr []), (''stock'', JStr []), (''rating'', JStr [])]\<rparr>"

definition pm_url :: "string \<Rightarrow> string" where
  "pm_url sort_by = ''/products?sort='' @ sort_by"

text \<open>\<open>err.response?.data?.message || dflt\<close> for a thrown TypeError (no
  \<open>response\<close>) or a rejected request.\<close>

definition pm_error_of :: "js_exn + response option \<Rightarrow> string \<Rightarrow> string" where
  "pm_error_of c dflt = (case c of Inl e \<Rightarrow> dflt | Inr r \<Rightarrow> message_or r dflt)"

text \<open>\<open>fetchProducts\<close>: \<open>setProducts(response.data.data)\<close> on any 2xx reply.\<close>

definition pm_fetch_reply :: "js_exn + response option \<Rightarrow> pm \<Rightarrow> pm" where
  "pm_fetch_reply c s =
     (case c of
        Inr (Some (Response st h b)) \<Rightarrow>
          if is_2xx st then (case b of ProductsBody n t tp cp ps \<Rightarrow> s\<lparr>pm_products := ps\<rparr> | _ \<Rightarrow> s)
          else s\<lparr>pm_error := Some (pm_error_of c ''Failed to fetch products'')\<rparr>
      | _ \<Rightarrow> s\<lparr>pm_error := Some (pm_error_of c ''Failed to fetch products'')\<rparr>)\<lparr>pm_loading := False\<rparr>"

definition pm_sort_change :: "string \<Rightarrow> pm \<Rightarrow> pm" where
  "pm_sort_change v s = s\<lparr>pm_sort_by := v\<rparr>"

definition pm_edit :: "product \<Rightarrow> pm \<Rightarrow> pm" where
  "pm_edit p s = s\<lparr>pm_editing := Some (oid_hex (prod_id p)),
     pm_form := [(''name'', JStr (prod_name p)), (''description'', JStr (prod_description p)),
                 (''price'', json_num (prod_price p)), (''category'', JStr (prod_category p)),
                 (''image'', JStr (prod_image p)), (''stock'', json_num (prod_stock p)),
                 (''rating'', json_num (prod_rating p))]\<rparr>"

text \<open>\<open>handleUpdate\<close>: a 2xx reply closes the form and fetches again (the flag).\<close>

definition pm_update_reply :: "js_exn + response option \<Rightarrow> pm \<Rightarrow> pm \<times> bool" where
  "pm_update_reply c s =
     (case c of
        Inr (Some (Response st h b)) \<Rightarrow>
          if is_2xx st then (s\<lparr>pm_editing := None\<rparr>, True)
          else (s\<lparr>pm_error := Some (pm_error_of c ''Failed to update product'')\<rparr>, False)
      | _ \<Rightarrow> (s\<lparr>pm_error := Some (pm_error_of c ''Failed to update product'')\<rparr>, False))"

definition pm_delete :: "bool \<Rightarrow> js_exn + response option \<Rightarrow> pm \<Rightarrow> pm \<times> bool" where
  "pm_delete confirmed c s =
     (if \<not> confirmed then (s, False)
      else (case c of
              Inr (Some (Response st h b)) \<Rightarrow>
                if is_2xx st then (s, True)
                else (s\<lparr>pm_error := Some (pm_error_of c ''Failed to delete product'')\<rparr>, False)
            | _ \<Rightarrow> (s\<lparr>pm_error := Some (pm_error_of c ''Failed to delete product'')\<rparr>, False)))"

definition pm_change :: "string \<Rightarrow> string \<Rightarrow> pm \<Rightarrow> pm" where
  "pm_change k v s = s\<lparr>pm_form := AList.update k (JStr v) (pm_form s)\<rparr>"

text \<open>Example: the two accounts of \<open>Auth.users_db\<close> and the lamp of
  \<open>ProductCrud\<close>.\<close>

definition edit_db :: db where
  "edit_db = \<lparr>db_users = [alice, admin_user], db_products = [lamp], db_next_id = 6\<rparr>"

subsection \<open>ObjectId strings\<close>

text \<open>\<open>oid_hex\<close> writes 24 lower-case hex digits, which \<open>parse_oid\<close> reads
  back for every id below \<open>16^24\<close> (ObjectIds are 96 bits); the string is
  one path segment.\<close>

lemma radix_val_append:
  "radix_val r acc (xs @ ys) = (case radix_val r acc xs of None \<Rightarrow> None | Some a \<Rightarrow> radix_val r a ys)"
  by (induction xs arbitrary: acc) (auto split: option.splits)

lemma radix_digit_hex_lower: "n < 16 \<Longrightarrow> radix_digit 16 (hex_lower n) = Some n"
  by (auto simp: hex_lower_def radix_digit_def Let_def)

lemma radix_val_hex_digits: "radix_val 16 acc (hex_digits w n) = Some (acc * 16 ^ w + n mod 16 ^ w)"
proof (induction w arbitrary: acc n)
  case (Suc w)
  have "16 * (acc * 16 ^ w + n div 16 mod 16 ^ w) + n mod 16 = acc * 16 ^ Suc w + n mod 16 ^ Suc w"
    by (simp add: mod_mult2_eq algebra_simps)
  then show ?case by (simp add: Suc radix_val_append radix_digit_hex_lower)
qed simp

lemma length_hex_digits [simp]: "length (hex_digits w n) = w"
  by (induction w arbitrary: n) simp_all

lemma parse_oid_hex: "i < 16 ^ 24 \<Longrightarrow> parse_oid (oid_hex i) = Some i"
  by (simp add: parse_oid_def oid_hex_def radix_val_hex_digits)

lemma hex_lower_ascii: "n < 16 \<Longrightarrow> (of_char (hex_lower n) :: nat) = (if n < 10 then 48 + n else 87 + n)"
  by (simp add: hex_lower_def)

lemma set_hex_digits: "c \<in> set (hex_digits w n) \<Longrightarrow> c \<noteq> CHR ''/'' \<and> c \<noteq> CHR ''?''"
proof (induction w arbitrary: n)
  case (Suc w)
  have "(of_char (hex_lower (n mod 16)) :: nat) \<noteq> of_char CHR ''/'' \<and> (of_char (hex_lower (n mod 16)) :: nat) \<noteq> of_char CHR ''?''"
    by (simp add: hex_lower_ascii)
  then have "hex_lower (n mod 16) \<noteq> CHR ''/'' \<and> hex_lower (n mod 16) \<noteq> CHR ''?''" by auto
  with Suc show ?case by auto
qed simp

subsection \<open>The edit form sends back what it loaded\<close>

text \<open>A stored product, loaded into the form and sent unchanged, passes every
  check of \<open>PUT /:id\<close> and is written back as it was. The one condition
  beyond the invariant: the name has no surrounding white space, which holds
  for names the trimming setter wrote.\<close>

lemma map_of_product_object [simp]:
  "map_of (product_object p) k = (if k \<in> set product_keys then Some (product_json p k) else None)"
  by (auto simp: product_object_def map_of_map_restrict restrict_map_def)

lemma body_of_product_object:
  "product_body_of (product_object p) =
     \<lparr>pb_name = JStr (prod_name p), pb_description = JStr (prod_description p),
      pb_price = json_num (prod_price p), pb_category = JStr (prod_category p),
      pb_image = JStr (prod_image p), pb_stock = json_num (prod_stock p)\<rparr>"
  by (simp add: product_body_of_def body_field_def product_keys_def product_json_def)

lemma to_lower_category: "c \<in> set product_categories \<Longrightarrow> to_lower c = c"
  by (auto simp: product_categories_def to_lower_def lower_char_def)

lemma valid_categories_eq: "valid_categories = product_categories"
  by (simp add: valid_categories_def product_categories_def)

lemma find_product_stored:
  assumes "distinct (map prod_id (db_products d))" and "p \<in> set (db_products d)"
  shows "find_product (prod_id p) d = Some p"
  using assms unfolding find_product_def by (rule find_distinct_key)

lemma db_ok_ids_distinct: "db_ok d \<Longrightarrow> distinct (map prod_id (db_products d))"
  by (simp add: db_ok_def)

lemma map_update_stored:
  assumes "distinct (map prod_id ps)" and "p \<in> set ps" and "f p = p"
  shows "map (\<lambda>q. if prod_id q = prod_id p then f q else q) ps = ps"
proof (rule map_idI)
  fix q assume "q \<in> set ps"
  with assms(1,2) have "prod_id q = prod_id p \<Longrightarrow> q = p" by (meson inj_on_contraD distinct_map)
  with assms(3) show "(if prod_id q = prod_id p then f q else q) = q" by auto
qed

lemma price_check_passes:
  "min_ok 0 x \<Longrightarrow> \<not> (truthy (json_num x) \<and> (is_nan (json_num x) \<or> js_less_num (json_num x) 0))"
  by (cases x) (simp_all add: is_nan_def js_less_num_def)

lemma update_product_roundtrip:
  assumes "db_ok d" and "p \<in> set (db_products d)" and "prod_id p < 16 ^ 24"
    and "trim_ws (prod_name p) = prod_name p"
  shows "update_product (oid_hex (prod_id p)) (product_body_of (product_object p)) d = (ok 200 (ProductBody p), d)"
proof -
  have v: "product_valid p" using assms(1,2) by (auto simp: db_ok_def list_all_iff)
  then have c: "prod_category p \<in> set product_categories" by (simp add: product_valid_iff)
  then have cne: "prod_category p \<noteq> []" by (auto simp: product_categories_def)
  have dist: "distinct (map prod_id (db_products d))" using assms(1) by (rule db_ok_ids_distinct)
  define pt where "pt = \<lparr>pp_name = Some (prod_name p), pp_description = Some (prod_description p),
     pp_category = Some (prod_category p), pp_price = map_option to_number (opt_field (json_num (prod_price p))),
     pp_stock = map_option to_number (opt_field (json_num (prod_stock p))), pp_image = Some (prod_image p)\<rparr>"
  have ap: "apply_patch pt p = p"
    by (cases "prod_price p"; cases "prod_stock p") (simp_all add: apply_patch_def pt_def opt_field_def)
  have pe: "patch_errors pt = []"
    using v cne by (cases "prod_price p"; cases "prod_stock p")
      (simp_all add: patch_errors_def pt_def opt_path_def opt_field_def product_valid_iff path_checks)
  have uc: "update_category (JStr (prod_category p)) = Inr (Some (prod_category p))"
    using cne c by (simp add: update_category_def to_lower_category)
  have cu: "cast_update \<lparr>pu_name = opt_field (JStr (prod_name p)), pu_description = opt_field (JStr (prod_description p)),
      pu_category = Some (prod_category p), pu_price = map_option to_number (opt_field (json_num (prod_price p))),
      pu_stock = map_option to_number (opt_field (json_num (prod_stock p))), pu_image = opt_field (JStr (prod_image p))\<rparr> = Some pt"
    using v assms(4) by (simp add: cast_update_def cast_field_def opt_field_def product_valid_iff set_name_def pt_def)
  have su: "store_update_by_id (oid_hex (prod_id p)) \<lparr>pu_name = opt_field (JStr (prod_name p)),
      pu_description = opt_field (JStr (prod_description p)),
      pu_category = Some (prod_category p), pu_price = map_option to_number (opt_field (json_num (prod_price p))),
      pu_stock = map_option to_number (opt_field (json_num (prod_stock p))), pu_image = opt_field (JStr (prod_image p))\<rparr> d =
      Inr (Some p, d)"
    unfolding store_update_by_id_def
    using map_update_stored [OF dist assms(2), of "apply_patch pt"]
    by (simp add: cu parse_oid_hex [OF assms(3)] pe find_product_stored [OF dist assms(2)] ap)
  show ?thesis
    using v c su
    by (simp add: update_product_def body_of_product_object uc valid_categories_eq price_check_passes
        product_valid_iff ok_def)
qed

subsection \<open>Routing the edit and delete requests\<close>

lemma oid_hex_segment:
  "oid_hex i \<noteq> [] \<and> CHR ''/'' \<notin> set (oid_hex i) \<and> CHR ''?'' \<notin> set (oid_hex i)"
proof -
  have "length (oid_hex i) = 24" by (simp add: oid_hex_def)
  then have "oid_hex i \<noteq> []" by auto
  moreover have "CHR ''/'' \<notin> set (oid_hex i) \<and> CHR ''?'' \<notin> set (oid_hex i)"
    using set_hex_digits [of _ 24 i] by (auto simp: oid_hex_def)
  ultimately show ?thesis by simp
qed

lemma route_product_id:
  assumes "pid \<noteq> []" and "CHR ''/'' \<notin> set pid" and "CHR ''?'' \<notin> set pid"
  shows "express_route GET (''/products/'' @ pid) h obj = Some (ReqGetProduct pid) \<and>
         express_route PUT (''/products/'' @ pid) h obj = Some (ReqUpdateProduct h pid (product_body_of obj)) \<and>
         express_route DELETE (''/products/'' @ pid) h obj = Some (ReqDeleteProduct h pid)"
proof -
  have tw: "takeWhile (\<lambda>c. c \<noteq> CHR ''?'') pid = pid" using assms(3) by (auto simp: takeWhile_eq_all_conv)
  show ?thesis using assms by (simp add: express_route_def split_on_no_sep Let_def tw)
qed

lemma get_product_stored:
  "db_ok d \<Longrightarrow> p \<in> set (db_products d) \<Longrightarrow> prod_id p < 16 ^ 24 \<Longrightarrow>
   get_product (oid_hex (prod_id p)) d = ok 200 (ProductBody p)"
  by (simp add: get_product_def store_find_by_id_def parse_oid_hex find_product_stored db_ok_ids_distinct)

lemma dash_edit_link:
  assumes "cu_role cu = RoleAdmin"
  shows "app_routes (Some cu) (dash_edit_path p) = Render (EditProductPage (oid_hex (prod_id p)))"
proof -
  have seg: "oid_hex (prod_id p) \<noteq> []" "CHR ''/'' \<notin> set (oid_hex (prod_id p))" using oid_hex_segment by blast+
  have "split_on CHR ''/'' (dash_edit_path p) = [[], ''admin'', ''products'', oid_hex (prod_id p), ''edit'']"
    using seg(2) split_on_append_sep [of "CHR ''/''" "oid_hex (prod_id p)" "''edit''"]
    by (simp add: dash_edit_path_def split_on_no_sep)
  then show ?thesis using seg(1) assms by (simp add: app_routes_def protected_route_def)
qed

lemma dash_delete_removes:
  assumes "prod_id p < 16 ^ 24" and "find_product (prod_id p) d = Some p"
    and "protect key now (api_auth_header tok) d = Inr u" and "up_role u = RoleAdmin"
  shows "route_exchange rx key now tok DELETE (dash_delete_url p) [] d =
           (ok 200 EmptyBody, d\<lparr>db_products := filter (\<lambda>q. prod_id q \<noteq> prod_id p) (db_products d)\<rparr>) \<and>
         dash_delete True (Some (ok 200 EmptyBody)) s = (s, True)"
proof -
  have seg: "oid_hex (prod_id p) \<noteq> []" "CHR ''/'' \<notin> set (oid_hex (prod_id p))" "CHR ''?'' \<notin> set (oid_hex (prod_id p))"
    using oid_hex_segment by blast+
  show ?thesis using route_product_id [OF seg] assms
    by (simp add: route_exchange_def dash_delete_url_def handle_def admin_route_admin protect_def delete_product_def
        store_delete_by_id_def parse_oid_hex dash_delete_def ok_def is_2xx_def)
qed

lemma edit_db_admin_token:
  "protect 7 2000 (api_auth_header (Some (jwt_sign 7 2 1000))) edit_db = Inr (public_user admin_user)"
  using auth_signed [of 7 2000 7 2 1000 edit_db]
  by (simp add: protect_def api_auth_header_def token_lifetime_def find_user_by_id_def edit_db_def
      alice_def admin_user_def)

lemma dash_edit_link_witness:
  "cu_role \<lparr>cu_id = 2, cu_email = ADMIN_EMAIL, cu_role = RoleAdmin\<rparr> = RoleAdmin \<and>
   app_routes (Some \<lparr>cu_id = 2, cu_email = ADMIN_EMAIL, cu_role = RoleAdmin\<rparr>) (dash_edit_path lamp) =
     Render (EditProductPage (oid_hex 5))"
  using dash_edit_link [of "\<lparr>cu_id = 2, cu_email = ADMIN_EMAIL, cu_role = RoleAdmin\<rparr>" lamp]
  by (simp add: lamp_def)

lemma dash_delete_removes_witness:
  "prod_id lamp < 16 ^ 24 \<and> find_product (prod_id lamp) edit_db = Some lamp \<and>
   protect 7 2000 (api_auth_header (Some (jwt_sign 7 2 1000))) edit_db = Inr (public_user admin_user) \<and>
   up_role (public_user admin_user) = RoleAdmin \<and>
   route_exchange literal_regex_i 7 2000 (Some (jwt_sign 7 2 1000)) DELETE (dash_delete_url lamp) [] edit_db =
     (ok 200 EmptyBody, edit_db\<lparr>db_products := []\<rparr>)"
proof -
  have i: "prod_id lamp < 16 ^ 24" by (simp add: lamp_def)
  have f: "find_product (prod_id lamp) edit_db = Some lamp" by (simp add: find_product_def edit_db_def)
  have a: "protect 7 2000 (api_auth_header (Some (jwt_sign 7 2 1000))) edit_db = Inr (public_user admin_user)"
    by (rule edit_db_admin_token)
  have r: "up_role (public_user admin_user) = RoleAdmin" by (simp add: public_user_def admin_user_def)
  show ?thesis using dash_delete_removes [OF i f a r, of literal_regex_i dash_init] i f a r
    by (simp add: edit_db_def)
qed

text \<open>\<open>ProductManagement\<close> never reaches the server: with the undefined
  \<open>api\<close> binding every fetch ends in \<open>Failed to fetch products\<close>, and every
  update and delete in its error, whatever the server would answer.\<close>

lemma pm_never_reaches_server:
  "pm_fetch_reply (pm_call ''get'' r) s = s\<lparr>pm_error := Some ''Failed to fetch products'', pm_loading := False\<rparr> \<and>
   pm_update_reply (pm_call ''put'' r) s = (s\<lparr>pm_error := Some ''Failed to update product''\<rparr>, False) \<and>
   pm_delete True (pm_call ''delete'' r) s = (s\<lparr>pm_error := Some ''Failed to delete product''\<rparr>, False)"
  by (simp add: pm_call_def pm_api_def pm_fetch_reply_def pm_update_reply_def pm_delete_def pm_error_of_def)

end
