(* ===== verification/AdminViews.thy ===== *)
theory AdminViews
  imports ClientAdmin
begin

text \<open>
  The markup of the three admin components of \<open>ClientAdmin\<close>: what
  \<open>pages/EditProduct.jsx\<close>, \<open>pages/AdminDashboard.jsx\<close> and
  \<open>components/admin/ProductManagement.jsx\<close> render from their state, and the
  controls that raise their handlers. A rendered value is the JavaScript
  value the markup interpolates; a control's event is the handler it calls
  or the path it navigates to. A \<open>required\<close> field stops the browser from
  submitting while it is empty; the \<open>type="url"\<close> and \<open>type="number"\<close>
  checks of the browser are not modelled.
\<close>

subsection \<open>Form fields\<close>

text \<open>A controlled field shows nothing for \<open>undefined\<close> and \<open>null\<close>, and
  \<open>String(v)\<close> otherwise; \<open>required\<close> asks for a non-empty value.\<close>

definition field_filled :: "jsval \<Rightarrow> bool" where
  "field_filled v = (case v of JUndefined \<Rightarrow> False | JNull \<Rightarrow> False | JStr s \<Rightarrow> s \<noteq> [] | _ \<Rightarrow> True)"

subsection \<open>\<open>EditProduct.jsx\<close>\<close>

text \<open>The form's fields in order, each bound to \<open>product[name]\<close>.\<close>

definition edit_fields :: "string list" where
  "edit_fields = [''name'', ''description'', ''price'', ''stock'', ''category'', ''image'']"

definition edit_category_menu :: "(string \<times> string) list" where
  "edit_category_menu =
     [([], ''Select a category''), (''electronics'', ''Electronics''), (''clothing'', ''Clothing''),
      (''books'', ''Books''), (''home'', ''Home''), (''other'', ''Other'')]"

record edit_screen =
  es_error_box :: "string option"
  es_fields :: "(string \<times> jsval) list"
  es_submit_label :: string
  es_submit_disabled :: bool

definition edit_screen :: "edit_page \<Rightarrow> edit_screen" where
  "edit_screen s =
     \<lparr>es_error_box = (if ep_error s \<noteq> [] then Some (ep_error s) else None),
      es_fields = map (\<lambda>k. (k, body_field (ep_product s) k)) edit_fields,
      es_submit_label = (if ep_loading s then ''Updating...'' else ''Update Product''),
      es_submit_disabled = ep_loading s\<rparr>"

definition edit_required_ok :: "edit_page \<Rightarrow> bool" where
  "edit_required_ok s = list_all (\<lambda>kv. field_filled (snd kv)) (es_fields (edit_screen s))"

text \<open>Submitting: the browser runs \<open>handleSubmit\<close> only when every required
  field is filled; Cancel navigates to \<open>/admin/products\<close>.\<close>

definition edit_submit :: "response option \<Rightarrow> edit_page \<Rightarrow> edit_page \<times> string option" where
  "edit_submit r s = (if edit_required_ok s then edit_submit_reply r s else (s, None))"

datatype edit_control = EditField string | EditCancel

definition edit_control :: "edit_control \<Rightarrow> string \<Rightarrow> edit_page \<Rightarrow> edit_page + string" where
  "edit_control c v s = (case c of EditField n \<Rightarrow> Inl (edit_change n v s) | EditCancel \<Rightarrow> Inr ''/admin/products'')"

subsection \<open>\<open>AdminDashboard.jsx\<close>\<close>

record dash_row =
  dr_key :: string
  dr_name :: jsval
  dr_category :: jsval
  dr_price :: jsval
  dr_stock :: jsval

definition dash_row :: "product \<Rightarrow> dash_row" where
  "dash_row p =
     \<lparr>dr_key = oid_hex (prod_id p), dr_name = product_json p ''name'', dr_category = product_json p ''category'',
      dr_price = product_json p ''price'', dr_stock = product_json p ''stock''\<rparr>"

record dash_screen =
  ds_toggle_label :: string
  ds_error_box :: "string option"
  ds_form_shown :: bool
  ds_rows :: "dash_row list"

text \<open>\<open>None\<close> is the spinner of the early return.\<close>

definition dash_view :: "dash \<Rightarrow> dash_screen option" where
  "dash_view s =
     (if da_loading s then None
      else Some \<lparr>ds_toggle_label = (if da_show_form s then ''Hide Form'' else ''Add New Product''),
                 ds_error_box = da_error s, ds_form_shown = da_show_form s,
                 ds_rows = map dash_row (da_products s)\<rparr>)"

datatype dash_control = DashViewProducts | DashToggle | DashClose | DashEdit product

definition dash_control :: "dash_control \<Rightarrow> dash \<Rightarrow> dash + string" where
  "dash_control c s =
     (case c of
        DashViewProducts \<Rightarrow> Inr ''/products''
      | DashToggle \<Rightarrow> Inl (dash_toggle_form s)
      | DashClose \<Rightarrow> Inl (s\<lparr>da_show_form := False\<rparr>)
      | DashEdit p \<Rightarrow> Inr (dash_edit_path p))"

subsection \<open>\<open>ProductManagement.jsx\<close>\<close>

definition pm_sort_menu :: "(string \<times> string) list" where
  "pm_sort_menu =
     [(''newest'', ''Newest''), (''oldest'', ''Oldest''), (''price-asc'', ''Price: Low to High''),
      (''price-desc'', ''Price: High to Low''), (''rating-desc'', ''Highest Rated''), (''rating-asc'', ''Lowest Rated'')]"

text \<open>The card being edited is a form bound to \<open>formData\<close> (name,
  description, price, stock, category); every other card shows the product.\<close>

datatype pm_card =
    PmForm "(string \<times> jsval) list"
  | PmCard jsval jsval jsval jsval jsval jsval jsval

definition pm_form_fields :: "string list" where
  "pm_form_fields = [''name'', ''description'', ''price'', ''stock'', ''category'']"

definition pm_card :: "pm \<Rightarrow> product \<Rightarrow> pm_card" where
  "pm_card s p =
     (if pm_editing s = Some (oid_hex (prod_id p))
      then PmForm (map (\<lambda>k. (k, body_field (pm_form s) k)) pm_form_fields)
      else PmCard (product_json p ''image'') (product_json p ''name'') (product_json p ''name'')
             (product_json p ''description'') (product_json p ''price'') (product_json p ''stock'')
             (product_json p ''rating''))"

datatype pm_view = PmLoading | PmError string | PmScreen string "(string \<times> pm_card) list"

definition pm_view :: "pm \<Rightarrow> pm_view" where
  "pm_view s =
     (if pm_loading s then PmLoading
      else (case pm_error s of
              Some e \<Rightarrow> if e \<noteq> [] then PmError e else PmScreen (pm_sort_by s) (map (\<lambda>p. (oid_hex (prod_id p), pm_card s p)) (pm_products s))
            | None \<Rightarrow> PmScreen (pm_sort_by s) (map (\<lambda>p. (oid_hex (prod_id p), pm_card s p)) (pm_products s))))"

datatype pm_control = PmSortMenu | PmField string | PmCancel | PmEditButton product

definition pm_control :: "pm_control \<Rightarrow> string \<Rightarrow> pm \<Rightarrow> pm" where
  "pm_control c v s =
     (case c of
        PmSortMenu \<Rightarrow> pm_sort_change v s
      | PmField n \<Rightarrow> pm_change n v s
      | PmCancel \<Rightarrow> s\<lparr>pm_editing := None\<rparr>
      | PmEditButton p \<Rightarrow> pm_edit p s)"

subsection \<open>Properties of the admin markup\<close>

text \<open>Once the form renders, its inline error box and its \<open>Updating...\<close>
  label are dead: the error and the loading state both return early.\<close>

lemma edit_form_dead_code:
  assumes "edit_view s = EditForm obj"
  shows "es_error_box (edit_screen s) = None \<and> es_submit_label (edit_screen s) = ''Update Product'' \<and>
         \<not> es_submit_disabled (edit_screen s)"
  using assms by (simp add: edit_view_def edit_screen_def split: if_splits)

text \<open>Opening the editor on one card of a list with distinct ids turns that
  card, and only it, into a form holding the product's values.\<close>

lemma oid_hex_inj: "i < 16 ^ 24 \<Longrightarrow> j < 16 ^ 24 \<Longrightarrow> oid_hex i = oid_hex j \<Longrightarrow> i = j"
  by (metis option.inject parse_oid_hex)

lemma pm_edit_one_form:
  assumes "p \<in> set (pm_products s)" and "distinct (map prod_id (pm_products s))"
    and "list_all (\<lambda>q. prod_id q < 16 ^ 24) (pm_products s)"
  shows "list_all (\<lambda>q. (\<exists>fs. pm_card (pm_edit p s) q = PmForm fs) \<longleftrightarrow> q = p) (pm_products s) \<and>
         pm_card (pm_edit p s) p =
           PmForm [(''name'', JStr (prod_name p)), (''description'', JStr (prod_description p)),
                   (''price'', json_num (prod_price p)), (''stock'', json_num (prod_stock p)),
                   (''category'', JStr (prod_category p))]"
proof -
  have "q = p" if "q \<in> set (pm_products s)" "oid_hex (prod_id p) = oid_hex (prod_id q)" for q
  proof -
    have "prod_id p = prod_id q" using oid_hex_inj that assms(1,3) by (auto simp: list_all_iff)
    then show ?thesis using assms(1,2) that(1) by (metis distinct_map inj_on_eq_iff)
  qed
  then show ?thesis
    by (auto simp: list_all_iff pm_card_def pm_edit_def pm_form_fields_def body_field_def)
qed

end
