(* ===== verification/ShopViews.thy ===== *)
theory ShopViews
  imports ClientShop
begin

text \<open>
  The markup of the two shop pages of \<open>ClientShop\<close>, \<open>pages/Products.jsx\<close>
  and \<open>pages/Product.jsx\<close>: what they render from their state and the
  controls that raise their handlers. A rendered value is the JavaScript
  value the markup interpolates. A \<open>disabled\<close> button ignores clicks, so the
  cart buttons of a product already in the cart do nothing.
\<close>

text \<open>\<open>product.rating || 'No ratings yet'\<close>.\<close>

definition rating_text :: "product \<Rightarrow> jsval" where
  "rating_text p = (let r = product_json p ''rating'' in if truthy r then r else JStr ''No ratings yet'')"

definition cart_label :: "bool \<Rightarrow> string" where
  "cart_label added = (if added then ''Added to Cart'' else ''Add to Cart'')"

subsection \<open>\<open>Products.jsx\<close>\<close>

definition shop_category_menu :: "(string \<times> string) list" where
  "shop_category_menu =
     [(''all'', ''All Categories''), (''electronics'', ''Electronics''), (''clothing'', ''Clothing''),
      (''books'', ''Books''), (''home'', ''Home & Kitchen'')]"

definition shop_sort_menu :: "(string \<times> string) list" where
  "shop_sort_menu = [(''name'', ''Sort by Name''), (''price'', ''Sort by Price''), (''rating'', ''Sort by Rating'')]"

record shop_card =
  sc_key :: string
  sc_image :: jsval
  sc_alt :: jsval
  sc_name :: jsval
  sc_description :: jsval
  sc_rating :: jsval
  sc_price :: jsval
  sc_in_cart :: bool
  sc_label :: string

definition shop_card :: "shop \<Rightarrow> product \<Rightarrow> shop_card" where
  "shop_card s p =
     (let pid = oid_hex (prod_id p) in
      \<lparr>sc_key = pid, sc_image = product_json p ''image'', sc_alt = product_json p ''name'',
       sc_name = product_json p ''name'', sc_description = product_json p ''description'',
       sc_rating = rating_text p, sc_price = product_json p ''price'',
       sc_in_cart = is_in_cart s pid, sc_label = cart_label (is_in_cart s pid)\<rparr>)"

record shop_screen =
  ss_search :: string
  ss_category :: string
  ss_sort_by :: string
  ss_arrow_up :: bool
  ss_error_box :: "string option"
  ss_cards :: "shop_card list"

text \<open>\<open>None\<close> is the spinner of the early return; the order button shows an
  up arrow exactly for \<open>asc\<close>; the cards follow \<open>sortedProducts\<close>, with
  \<open>localeCompare\<close> as the parameter \<open>lc\<close>.\<close>

definition shop_view :: "(string \<Rightarrow> string \<Rightarrow> int) \<Rightarrow> shop \<Rightarrow> shop_screen option" where
  "shop_view lc s =
     (if sh_loading s then None
      else Some \<lparr>ss_search = sh_search s, ss_category = sh_category s, ss_sort_by = sh_sort_by s,
                 ss_arrow_up = (sh_sort_order s = ''asc''),
                 ss_error_box = (case sh_error s of Some e \<Rightarrow> if e \<noteq> [] then Some e else None | None \<Rightarrow> None),
                 ss_cards = map (shop_card s) (shop_sorted lc s)\<rparr>)"

datatype shop_control = ShopSearch | ShopCategory | ShopSortBy | ShopOrder

definition shop_control :: "shop_control \<Rightarrow> string \<Rightarrow> shop \<Rightarrow> shop" where
  "shop_control c v s =
     (case c of
        ShopSearch \<Rightarrow> s\<lparr>sh_search := v\<rparr>
      | ShopCategory \<Rightarrow> s\<lparr>sh_category := v\<rparr>
      | ShopSortBy \<Rightarrow> s\<lparr>sh_sort_by := v\<rparr>
      | ShopOrder \<Rightarrow> toggle_order s)"

text \<open>A card's cart button: disabled once the product is in the cart.\<close>

definition shop_cart_click :: "bool \<Rightarrow> string \<Rightarrow> response option \<Rightarrow> shop \<Rightarrow> shop \<times> string option" where
  "shop_cart_click signed_in pid r s =
     (if is_in_cart s pid then (s, None) else shop_add_to_cart signed_in pid r s)"

subsection \<open>\<open>Product.jsx\<close>\<close>

record product_screen =
  pv_image :: jsval
  pv_name :: jsval
  pv_stars :: "star list"
  pv_rating :: jsval
  pv_price :: jsval
  pv_description :: jsval
  pv_quantity :: jsnum
  pv_max :: jsval
  pv_in_cart :: bool
  pv_label :: string

datatype product_view = PvSpinner | PvError string | PvNotFound | PvScreen product_screen

text \<open>The three early returns, then the product; \<open>renderStars(product.rating
  || 0)\<close>; \<open>isInCart()\<close> looks for the route's \<open>id\<close>.\<close>

definition product_shown :: "string \<Rightarrow> product_page \<Rightarrow> product_view" where
  "product_shown pid s =
     (case pp_product s of
        None \<Rightarrow> PvNotFound
      | Some p \<Rightarrow>
          PvScreen \<lparr>pv_image = product_json p ''image'', pv_name = product_json p ''name'',
                    pv_stars = render_stars (client_rating p), pv_rating = rating_text p,
                    pv_price = product_json p ''price'', pv_description = product_json p ''description'',
                    pv_quantity = pp_quantity s, pv_max = product_json p ''stock'',
                    pv_in_cart = product_in_cart s pid, pv_label = cart_label (product_in_cart s pid)\<rparr>)"

definition product_view :: "string \<Rightarrow> product_page \<Rightarrow> product_view" where
  "product_view pid s =
     (if pp_loading s then PvSpinner
      else case pp_error s of
        Some e \<Rightarrow> if e \<noteq> [] then PvError e else product_shown pid s
      | None \<Rightarrow> product_shown pid s)"

definition product_cart_click ::
  "bool \<Rightarrow> string \<Rightarrow> response option \<Rightarrow> product_page \<Rightarrow> product_page \<times> string option" where
  "product_cart_click signed_in pid r s =
     (if product_in_cart s pid then (s, None) else product_add_to_cart signed_in pid r s)"

subsection \<open>Properties of the shop markup\<close>

text \<open>The category menu of the shop page has no \<open>other\<close>, a category of the
  schema: under every choice but \<open>all\<close> no product of category \<open>other\<close> is
  listed.\<close>

lemma shop_menu_hides_other:
  "list_all (\<lambda>(c, l). c \<noteq> ''all'' \<longrightarrow> list_all (\<lambda>p. prod_category p \<noteq> ''other'') (shop_filtered (s\<lparr>sh_category := c\<rparr>)))
     shop_category_menu"
  by (auto simp: shop_category_menu_def shop_filtered_def shop_matches_def list_all_iff)

text \<open>A product already in the cart has a disabled button: clicking it
  changes nothing and sends nothing.\<close>

lemma shop_cart_click_added: "is_in_cart s pid \<Longrightarrow> shop_cart_click b pid r s = (s, None)"
  by (simp add: shop_cart_click_def)

text \<open>The shop lists exactly the products that match its filters, each once,
  whatever the comparator: sorting only reorders them.\<close>

lemma shop_cards_perm:
  "shop_view lc s = Some sc \<Longrightarrow> mset (ss_cards sc) = mset (map (shop_card s) (shop_filtered s))"
  by (auto simp: shop_view_def shop_sorted_def split: if_splits)

end
