(* ===== verification/FormViews.thy ===== *)
theory FormViews
  imports ClientForms
begin

text \<open>
  The markup of the sign-in forms and the navigation bar of \<open>ClientForms\<close>:
  \<open>pages/AuthPage.jsx\<close>, \<open>components/auth/Register.jsx\<close> and
  \<open>components/layout/Navbar.jsx\<close>. The browser runs a form's \<open>onSubmit\<close>
  only when its constraints hold: every \<open>required\<close> field non-empty and the
  AuthPage password at least \<open>minLength={6}\<close> characters long. The
  \<open>type="email"\<close> check is not modelled.
\<close>

subsection \<open>\<open>AuthPage.jsx\<close>\<close>

record auth_screen =
  as_heading :: string
  as_error_box :: "string option"
  as_show_username :: bool
  as_inputs_disabled :: bool
  as_button_label :: string

definition auth_screen :: "auth_page \<Rightarrow> auth_screen" where
  "auth_screen s =
     \<lparr>as_heading = (if ap_is_login s then ''Welcome Back'' else ''Create Account''),
      as_error_box = (if ap_error s \<noteq> [] then Some (ap_error s) else None),
      as_show_username = (\<not> ap_is_login s),
      as_inputs_disabled = ap_loading s,
      as_button_label = (if ap_loading s then ''Processing...'' else if ap_is_login s then ''Login'' else ''Sign Up'')\<rparr>"

text \<open>The username field exists only on the sign-up tab, and is then
  required.\<close>

definition auth_constraints_ok :: "auth_page \<Rightarrow> bool" where
  "auth_constraints_ok s \<longleftrightarrow>
     (ap_is_login s \<or> ap_username s \<noteq> []) \<and> ap_email s \<noteq> [] \<and> ap_password s \<noteq> [] \<and> 6 \<le> length (ap_password s)"

datatype auth_control = AuthTab bool | AuthUsername | AuthEmail | AuthPassword

definition auth_control :: "auth_control \<Rightarrow> string \<Rightarrow> auth_page \<Rightarrow> auth_page" where
  "auth_control c v s =
     (case c of
        AuthTab b \<Rightarrow> auth_page_toggle b s
      | AuthUsername \<Rightarrow> s\<lparr>ap_username := v\<rparr>
      | AuthEmail \<Rightarrow> s\<lparr>ap_email := v\<rparr>
      | AuthPassword \<Rightarrow> s\<lparr>ap_password := v\<rparr>)"

text \<open>A submit: nothing when the constraints fail (the browser shows its
  own message), \<open>handleSubmit\<close> otherwise.\<close>

definition auth_form_submit ::
  "regex_engine \<Rightarrow> nat \<Rightarrow> nat \<Rightarrow> db \<Rightarrow> session \<Rightarrow> auth_page \<Rightarrow> (auth_page \<times> string option) \<times> session \<times> db" where
  "auth_form_submit rx key now d sess s =
     (if auth_constraints_ok s then auth_page_submit rx key now d sess s else ((s, None), sess, d))"

subsection \<open>\<open>Register.jsx\<close>\<close>

text \<open>The form is routed at \<open>/register\<close>; its tab bar highlights Login
  exactly on \<open>/login\<close>.\<close>

record register_screen =
  rs_login_tab_active :: bool
  rs_error_box :: "string option"
  rs_fields :: "(string \<times> string) list"
  rs_button_disabled :: bool
  rs_button_label :: string

definition register_fields :: "string list" where
  "register_fields = [''username'', ''email'', ''password'']"

definition register_screen :: "string \<Rightarrow> register_form \<Rightarrow> register_screen" where
  "register_screen path s =
     \<lparr>rs_login_tab_active = (path = ''/login''),
      rs_error_box = (if rf_error s \<noteq> [] then Some (rf_error s) else None),
      rs_fields = map (\<lambda>k. (k, form_value (rf_data s) k)) register_fields,
      rs_button_disabled = rf_loading s,
      rs_button_label = (if rf_loading s then ''Creating Account...'' else ''Sign Up'')\<rparr>"

definition register_constraints_ok :: "register_form \<Rightarrow> bool" where
  "register_constraints_ok s = list_all (\<lambda>k. form_value (rf_data s) k \<noteq> []) register_fields"

definition register_form_submit ::
  "regex_engine \<Rightarrow> nat \<Rightarrow> nat \<Rightarrow> db \<Rightarrow> session \<Rightarrow> register_form \<Rightarrow> (register_form \<times> string option) \<times> session \<times> db" where
  "register_form_submit rx key now d sess s =
     (if register_constraints_ok s then register_submit rx key now d sess s else ((s, None), sess, d))"

subsection \<open>\<open>Navbar.jsx\<close>\<close>

text \<open>Following a link navigates to its path; Sign Out calls the provider's
  \<open>logout\<close>.\<close>

fun nav_activate :: "nav_item \<Rightarrow> session \<Rightarrow> session \<times> string option" where
  "nav_activate (NavLink path label) s = (s, Some path)"
| "nav_activate SignOut s = (case logout s of (s', path) \<Rightarrow> (s', Some path))"

subsection \<open>\<open>App.jsx\<close>: the shell\<close>

text \<open>\<open>App\<close> wraps \<open>AppContent\<close> in the provider, which renders nothing
  while it loads; \<open>AppContent\<close> shows the navigation bar except on
  \<open>/login\<close> and \<open>/register\<close>, above the routed outcome.\<close>

definition app_shell :: "session \<Rightarrow> string \<Rightarrow> (nav_item list option \<times> outcome) option" where
  "app_shell s path =
     (if ss_loading s then None
      else Some (if is_auth_page path then None else Some (nav_items (ss_user s)), app_routes (ss_user s) path))"

subsection \<open>Example: a short password\<close>

definition bob_form :: register_form where
  "bob_form = register_init\<lparr>rf_data := [(''username'', ''bob''), (''email'', ''bob@example.com''), (''password'', ''abc'')]\<rparr>"

subsection \<open>Properties of the forms\<close>

text \<open>The two sign-up forms disagree on passwords: the sign-up tab of
  AuthPage refuses a three-character password (\<open>minLength={6}\<close>), while
  Register has no minimum and the server accepts it, creating the account.\<close>

lemma short_password_divergence:
  "\<not> auth_constraints_ok (auth_page_init\<lparr>ap_is_login := False, ap_username := ''bob'', ap_email := ''bob@example.com'',
       ap_password := ''abc''\<rparr>) \<and>
   register_constraints_ok bob_form \<and>
   map user_email (db_users (snd (snd (register_form_submit literal_regex_i 7 1000 empty_db (initial_session None) bob_form)))) =
     [''bob@example.com'']"
proof -
  have a: "\<not> auth_constraints_ok (auth_page_init\<lparr>ap_is_login := False, ap_username := ''bob'', ap_email := ''bob@example.com'',
       ap_password := ''abc''\<rparr>)"
    by (simp add: auth_constraints_ok_def)
  have r: "register_constraints_ok bob_form"
    by (simp add: register_constraints_ok_def bob_form_def register_init_def register_fields_def form_value_def)
  have d: "map user_email (db_users (snd (snd (register_form_submit literal_regex_i 7 1000 empty_db (initial_session None) bob_form)))) =
     [''bob@example.com'']"
    using r by (simp add: register_form_submit_def register_submit_def session_register_def handle_def register_def
        bob_form_def register_init_def form_value_def empty_db_def find_user_by_email_def save_user_def Let_def
        split: prod.split)
  show ?thesis using a r d by blast
qed

text \<open>Once the provider has loaded, every page but the two sign-in pages
  carries the navigation bar, which offers Sign Out exactly when a user is
  signed in; nothing at all renders while it loads.\<close>

lemma app_shell_navbar:
  "(ss_loading s \<longrightarrow> app_shell s path = None) \<and>
   (\<not> ss_loading s \<longrightarrow> \<not> is_auth_page path \<longrightarrow>
      (\<exists>items. app_shell s path = Some (Some items, app_routes (ss_user s) path) \<and>
               (SignOut \<in> set items \<longleftrightarrow> ss_user s \<noteq> None)))"
  by (auto simp: app_shell_def nav_items_def split: option.splits)

end
