(* ===== verification/CatalogView.thy ===== *)
theory CatalogView
  imports ClientAdmin
begin

text \<open>
  The markup of the catalogue component \<open>components/products/ProductList.jsx\<close>
  (\<open>ClientCatalog\<close>): its two early returns, the filter inputs bound to the
  \<open>filters\<close> state, a card per product and the pager. Rendering a card reads
  \<open>product.images[0]\<close> first, so a card is a value or the exception it
  throws. No module imports the component (\<open>App.jsx\<close> routes
  \<open>pages/ProductList.jsx\<close>).
\<close>

subsection \<open>Cards\<close>

text \<open>\<open>to={`/products/${product._id}`}\<close>.\<close>

definition catalog_detail_path :: "product \<Rightarrow> string" where
  "catalog_detail_path p = ''/products/'' @ oid_hex (prod_id p)"

record catalog_card =
  cc_key :: string
  cc_image :: jsval
  cc_alt :: jsval
  cc_name :: jsval
  cc_summary :: string
  cc_price :: jsval
  cc_rating :: jsval
  cc_link :: string

text \<open>The image first, then \<open>{product.description.substring(0, 100)}...\<close>
  and the other values.\<close>

definition catalog_card :: "product \<Rightarrow> js_exn + catalog_card" where
  "catalog_card p =
     (case card_image p of
        Inl e \<Rightarrow> Inl e
      | Inr img \<Rightarrow>
          Inr \<lparr>cc_key = oid_hex (prod_id p), cc_image = img, cc_alt = product_json p ''name'',
               cc_name = product_json p ''name'', cc_summary = take 100 (prod_description p) @ ''...'',
               cc_price = product_json p ''price'', cc_rating = product_json p ''rating'',
               cc_link = catalog_detail_path p\<rparr>)"

primrec catalog_cards :: "product list \<Rightarrow> js_exn + catalog_card list" where
  "catalog_cards [] = Inr []"
| "catalog_cards (p # ps) =
     (case catalog_card p of Inl e \<Rightarrow> Inl e | Inr c \<Rightarrow> map_sum id (Cons c) (catalog_cards ps))"

subsection \<open>The view\<close>

definition catalog_category_menu :: "(string \<times> string) list" where
  "catalog_category_menu =
     [([], ''All Categories''), (''electronics'', ''Electronics''), (''clothing'', ''Clothing''),
      (''books'', ''Books''), (''home'', ''Home''), (''other'', ''Other'')]"

definition catalog_sort_menu :: "(string \<times> string) list" where
  "catalog_sort_menu =
     [([], ''Sort By''), (''price-asc'', ''Price: Low to High''), (''price-desc'', ''Price: High to Low''),
      (''rating-desc'', ''Rating: High to Low'')]"

record catalog_screen =
  cs_search :: string
  cs_category :: string
  cs_sort :: string
  cs_min_price :: string
  cs_max_price :: string
  cs_min_rating :: string
  cs_cards :: "catalog_card list"
  cs_pager :: "(nat \<times> bool) list"

datatype catalog_view = CatLoading | CatError string | CatScreen catalog_screen

text \<open>\<open>Loading...\<close>, the error, or the page; the pager always renders,
  its button equal to \<open>filters.page\<close> highlighted.\<close>

definition catalog_view :: "filters \<Rightarrow> catalog \<Rightarrow> js_exn + catalog_view" where
  "catalog_view f c =
     (if cat_loading c then Inr CatLoading
      else if cat_error c \<noteq> [] then Inr (CatError (cat_error c))
      else map_sum id
             (\<lambda>cards. CatScreen \<lparr>cs_search = f_search f, cs_category = f_category f, cs_sort = f_sort f,
                        cs_min_price = f_minPrice f, cs_max_price = f_maxPrice f, cs_min_rating = f_minRating f,
                        cs_cards = cards,
                        cs_pager = map (\<lambda>n. (n, f_page f = n)) (pager_buttons (cat_total_pages c))\<rparr>)
             (catalog_cards (cat_products c)))"

text \<open>Every filter input calls \<open>handleFilterChange\<close> with its \<open>name\<close>; a pager
  button calls \<open>handlePageChange\<close>.\<close>

datatype catalog_control = CatInput string | CatPage nat

definition catalog_control :: "catalog_control \<Rightarrow> string \<Rightarrow> filters \<Rightarrow> filters" where
  "catalog_control c v f = (case c of CatInput name \<Rightarrow> handle_filter_change name v f | CatPage n \<Rightarrow> handle_page_change n f)"

subsection \<open>Properties of the catalogue markup\<close>

text \<open>The full card rendering refines the image-only model of
  \<open>ClientCatalog.render_catalog\<close>: it throws exactly when that one does, and
  otherwise shows the same images.\<close>

lemma catalog_cards_images: "map_sum id (map cc_image) (catalog_cards ps) = render_catalog ps"
proof (induction ps)
  case (Cons p ps)
  show ?case by (cases "catalog_cards ps"; cases "card_image p"; simp add: catalog_card_def Cons.IH [symmetric])
qed simp

text \<open>So the page renders only while the list is empty: any fetched product
  makes the view throw.\<close>

lemma catalog_view_crashes:
  assumes "\<not> cat_loading c" and "cat_error c = []" and "cat_products c \<noteq> []"
  shows "catalog_view f c = Inl TypeError"
proof -
  obtain p ps where "cat_products c = p # ps" using assms(3) by (cases "cat_products c") auto
  then show ?thesis using assms(1,2) by (simp add: catalog_view_def catalog_card_def card_image_TypeError)
qed

text \<open>The \<open>View Details\<close> link of a card meets no route of \<open>App.jsx\<close>, signed
  in or not: \<open>/products/:id\<close> is not in the route table.\<close>

lemma catalog_detail_unrouted: "app_routes u (catalog_detail_path p) = NoMatch"
proof -
  have "CHR ''/'' \<notin> set (oid_hex (prod_id p))" using set_hex_digits by (auto simp: oid_hex_def)
  then have "split_on CHR ''/'' (catalog_detail_path p) = [[], ''products'', oid_hex (prod_id p)]"
    by (simp add: catalog_detail_path_def split_on_no_sep)
  then show ?thesis by (simp add: app_routes_def)
qed

text \<open>A filter input resets the page to 1, so the next request asks for the
  first page.\<close>

lemma catalog_input_first_page: "f_page (catalog_control (CatInput name) v f) = 1"
  by (simp add: catalog_control_def handle_filter_change_def Let_def)

end
