(* ===== verification/Seed.thy ===== *)
theory Seed
  imports Store
begin

text \<open>
  The seed script \<open>src/backend/insertProduct.js\<close>: it builds one product
  document and saves it. The document has an \<open>images\<close> array, a path the
  schema does not have (strict mode drops it), and no \<open>image\<close>, which the
  schema requires. The connection and logging are I/O and not modelled; the
  explicit \<open>_id\<close>, \<open>user\<close> and dates do not matter, because validation fails
  before the document is written.
\<close>

definition seed_product_data :: product_fields where
  "seed_product_data =
     \<lparr>pf_name = JStr ''Sample Product'', pf_description = JStr ''This is a sample product description'',
      pf_price = Fin (9999 / 100), pf_category = ''electronics'', pf_image = JUndefined,
      pf_stock = Fin 50, pf_rating = Fin (9 / 2), pf_num_reviews = Fin 0\<rparr>"

text \<open>\<open>insertProduct()\<close>: save, then report success or the error.\<close>

definition seed_insert :: "nat \<Rightarrow> db \<Rightarrow> db \<times> string" where
  "seed_insert now d =
     (case store_create seed_product_data now d of
        Inr (p, d') \<Rightarrow> (d', ''Product inserted successfully'')
      | Inl e \<Rightarrow> (d, ''Error inserting product''))"

text \<open>The seed never inserts anything: the save is rejected with an error on
  the \<open>image\<close> path, on every store and at every time.\<close>

lemma seed_insert_fails:
  "(\<exists>errs. store_create seed_product_data now d = Inl (ValidationError errs) \<and> ''image'' \<in> fst ` set errs) \<and>
   seed_insert now d = (d, ''Error inserting product'')"
  by (auto simp: store_create_def seed_product_data_def fields_cast_errors_def cast_errors_def seed_insert_def Let_def)

end
