(* ===== verification/RootAuthContext.thy ===== *)
theory RootAuthContext
  imports ClientAdmin
begin

text \<open>
  The second authentication provider \<open>src/dev/src/AuthContext.jsx\<close>, which no
  module imports (\<open>App.jsx\<close> mounts \<open>context/AuthContext.jsx\<close>, theory
  \<open>ClientSession\<close>). It imports \<open>api\<close> as the default export of \<open>api.js\<close>,
  which has only named exports, so every \<open>api.get\<close> and \<open>api.post\<close> throws a
  TypeError before a request is sent (as in \<open>ClientAdmin.pm_call\<close>); a call's
  outcome is that exception or, were the binding there, the server's reply.
  The handlers read the reply's JSON themselves (\<open>res.data.token\<close>,
  \<open>res.data.user\<close>), so the model needs the replies as JSON: \<open>body_json\<close>
  writes each body constructor of \<open>Http\<close> as the object its handler passes to
  \<open>res.json\<close>. The state cells hold JavaScript values (\<open>json\<close>, \<open>null\<close> being
  \<open>JV JNull\<close>); \<open>localStorage\<close> holds a string.
\<close>

subsection \<open>Replies as JSON\<close>

datatype json = JV jsval | JO "(string \<times> json) list" | JA "json list"

text \<open>\<open>JSON.stringify\<close> leaves out a key whose value is \<open>undefined\<close>.\<close>

definition jobj :: "(string \<times> json) list \<Rightarrow> json" where
  "jobj kvs = JO (filter (\<lambda>(k, v). v \<noteq> JV JUndefined) kvs)"

fun role_text :: "role \<Rightarrow> string" where
  "role_text RoleUser = ''user''"
| "role_text RoleAdmin = ''admin''"

definition product_doc :: "product \<Rightarrow> json" where
  "product_doc p = jobj (map (\<lambda>(k, v). (k, JV v)) (product_object p))"

definition user_view_json :: "user_view \<Rightarrow> json" where
  "user_view_json v = jobj [(''id'', JV (JStr (oid_hex (uv_id v)))), (''email'', JV (JStr (uv_email v))),
                           (''role'', JV (JStr (role_text (uv_role v))))]"

definition user_public_json :: "user_public \<Rightarrow> json" where
  "user_public_json u = jobj [(''_id'', JV (JStr (oid_hex (up_id u)))), (''email'', JV (JStr (up_email u))),
                             (''role'', JV (JStr (role_text (up_role u))))]"

fun json_of_val :: "jsval \<Rightarrow> json" where
  "json_of_val (JNum n) = JV (json_num n)"
| "json_of_val v = JV v"

text \<open>The objects of \<open>routes/auth.js\<close> and \<open>routes/products.js\<close>; Express's
  404 page is an HTML string.\<close>

fun body_json :: "body \<Rightarrow> json" where
  "body_json (ErrorBody m) = jobj [(''success'', JV (JBool False)), (''message'', JV (JStr m))]"
| "body_json (ErrorDetailBody m e) =
     jobj [(''success'', JV (JBool False)), (''message'', JV (JStr m)), (''error'', JV (JStr e))]"
| "body_json (ProductsBody c t tp cp ps) =
     jobj [(''success'', JV (JBool True)), (''count'', JV (JNum (Fin (of_nat c)))),
           (''total'', JV (JNum (Fin (of_nat t)))), (''totalPages'', JV (json_num tp)),
           (''currentPage'', json_of_val cp), (''data'', JA (map product_doc ps))]"
| "body_json (ProductBody p) = jobj [(''success'', JV (JBool True)), (''data'', product_doc p)]"
| "body_json (AuthBody tok v) =
     jobj [(''success'', JV (JBool True)),
           (''data'', jobj [(''token'', JV (JStr tok)), (''user'', user_view_json v)])]"
| "body_json (UserBody u) = jobj [(''success'', JV (JBool True)), (''data'', user_public_json u)]"
| "body_json EmptyBody = jobj [(''success'', JV (JBool True)), (''data'', jobj [])]"
| "body_json (HtmlBody h) = JV (JStr h)"
| "body_json (MessageBody m) = jobj [(''message'', JV (JStr m))]"

subsection \<open>Reading JSON values\<close>

fun jtruthy :: "json \<Rightarrow> bool" where
  "jtruthy (JV v) = truthy v"
| "jtruthy (JO kvs) = True"
| "jtruthy (JA xs) = True"

text \<open>\<open>v.k\<close> on a JSON value, and \<open>v?.k\<close>, which gives \<open>undefined\<close> where
  \<open>v.k\<close> throws (on \<open>null\<close> and \<open>undefined\<close>).\<close>

fun jget :: "json \<Rightarrow> string \<Rightarrow> js_exn + json" where
  "jget (JV v) k = map_sum id JV (js_prop v k)"
| "jget (JO kvs) k = Inr (case map_of kvs k of Some v \<Rightarrow> v | None \<Rightarrow> JV JUndefined)"
| "jget (JA xs) k = Inr (if k = ''length'' then JV (JNum (Fin (of_nat (length xs)))) else JV JUndefined)"

definition opt_get :: "json \<Rightarrow> string \<Rightarrow> json" where
  "opt_get v k = (case jget v k of Inr w \<Rightarrow> w | Inl e \<Rightarrow> JV JUndefined)"

text \<open>\<open>a || b\<close>.\<close>

definition jor :: "json \<Rightarrow> json \<Rightarrow> json" where
  "jor a b = (if jtruthy a then a else b)"

text \<open>\<open>error.response?.data?.message\<close>: only a rejected request (a non-2xx
  reply) has \<open>error.response\<close>; the callers pass \<open>None\<close> for every other
  error.\<close>

definition reply_message :: "response option \<Rightarrow> json" where
  "reply_message r = (case r of Some rs \<Rightarrow> opt_get (body_json (resp_body rs)) ''message'' | None \<Rightarrow> JV JUndefined)"

text \<open>\<open>{...v}\<close>: an object's own entries, an array's or a string's elements
  under their indices, nothing for other values.\<close>

fun spread :: "json \<Rightarrow> (string \<times> json) list" where
  "spread (JO kvs) = kvs"
| "spread (JA xs) = zip (map dec_string [0..<length xs]) xs"
| "spread (JV (JStr s)) = zip (map dec_string [0..<length s]) (map (\<lambda>c. JV (JStr [c])) s)"
| "spread (JV v) = []"

definition with_admin_flag :: "json \<Rightarrow> bool \<Rightarrow> json" where
  "with_admin_flag u b = JO (AList.update ''isAdmin'' (JV (JBool b)) (spread u))"

subsection \<open>\<open>String(v)\<close>\<close>

text \<open>\<open>localStorage.setItem\<close> stores \<open>String(v)\<close>. A number is written in
  positional notation, as JavaScript writes those below \<open>10^21\<close>;
  \<open>frac_digits\<close> writes up to twenty fractional digits, exact for a decimal
  with at most twenty.\<close>

fun frac_digits :: "nat \<Rightarrow> rat \<Rightarrow> string" where
  "frac_digits 0 r = []"
| "frac_digits (Suc n) r =
     (if r = 0 then [] else digit_char (nat \<lfloor>10 * r\<rfloor>) # frac_digits n (10 * r - of_int \<lfloor>10 * r\<rfloor>))"

fun jsnum_text :: "jsnum \<Rightarrow> string" where
  "jsnum_text NaN = ''NaN''"
| "jsnum_text PosInf = ''Infinity''"
| "jsnum_text NegInf = ''-Infinity''"
| "jsnum_text (Fin r) =
     (if r < 0 then ''-'' else []) @ dec_string (nat \<lfloor>\<bar>r\<bar>\<rfloor>) @
     (if \<bar>r\<bar> = of_int \<lfloor>\<bar>r\<bar>\<rfloor> then [] else ''.'' @ frac_digits 20 (\<bar>r\<bar> - of_int \<lfloor>\<bar>r\<bar>\<rfloor>))"

fun jsval_text :: "jsval \<Rightarrow> string" where
  "jsval_text JUndefined = ''undefined''"
| "jsval_text JNull = ''null''"
| "jsval_text (JBool b) = (if b then ''true'' else ''false'')"
| "jsval_text (JNum n) = jsnum_text n"
| "jsval_text (JStr s) = s"

text \<open>An array joins its elements with commas, \<open>null\<close> and \<open>undefined\<close>
  elements written as nothing.\<close>

fun json_text :: "json \<Rightarrow> string" where
  "json_text (JV v) = jsval_text v"
| "json_text (JO kvs) = ''[object Object]''"
| "json_text (JA xs) =
     join_on CHR '','' (map (\<lambda>x. if x = JV JUndefined \<or> x = JV JNull then [] else json_text x) xs)"

subsection \<open>The provider's state\<close>

text \<open>The four \<open>useState\<close> cells, \<open>localStorage.token\<close>, the page's path
  and a pending assignment to \<open>window.location.href\<close>, which loads a new
  page.\<close>

record root_ctx =
  rc_user :: json
  rc_token :: json
  rc_loading :: bool
  rc_error :: json
  rc_stored :: "string option"
  rc_href :: string
  rc_nav :: "string option"

text \<open>\<open>useState(localStorage.getItem('token') || null)\<close> and the other
  initial values.\<close>

definition rc_init :: "string option \<Rightarrow> string \<Rightarrow> root_ctx" where
  "rc_init stored path =
     \<lparr>rc_user = JV JNull,
      rc_token = (case stored of Some t \<Rightarrow> if t \<noteq> [] then JV (JStr t) else JV JNull | None \<Rightarrow> JV JNull),
      rc_loading = True, rc_error = JV JNull, rc_stored = stored, rc_href = path, rc_nav = None\<rparr>"

text \<open>The request interceptor of \<open>api.js\<close> reads the token from
  \<open>localStorage\<close>, not from the provider's state.\<close>

definition rc_header :: "root_ctx \<Rightarrow> string option" where
  "rc_header s = api_auth_header (rc_stored s)"

text \<open>\<open>import api from './api'\<close> binds \<open>undefined\<close>; \<open>api.m(...)\<close> reads
  the method first.\<close>

definition rc_api :: jsval where
  "rc_api = JUndefined"

definition rc_call :: "string \<Rightarrow> response option \<Rightarrow> js_exn + response option" where
  "rc_call m r = (case js_prop rc_api m of Inl e \<Rightarrow> Inl e | Inr f \<Rightarrow> Inr r)"

subsection \<open>\<open>verifyToken\<close>\<close>

text \<open>The \<open>catch\<close> block: a 401 reply clears the token and the user and
  leaves for \<open>/login\<close> unless already there; any other error is shown.\<close>

definition rc_verify_catch :: "response option \<Rightarrow> root_ctx \<Rightarrow> root_ctx" where
  "rc_verify_catch e s =
     (if (case e of Some rs \<Rightarrow> resp_status rs = 401 | None \<Rightarrow> False)
      then s\<lparr>rc_stored := None, rc_token := JV JNull, rc_user := JV JNull,
             rc_error := JV (JStr ''Your session has expired. Please log in again.''),
             rc_nav := (if rc_href s \<noteq> ''/login'' then Some ''/login'' else rc_nav s)\<rparr>
      else s\<lparr>rc_error := jor (reply_message e) (JV (JStr ''Token verification failed''))\<rparr>)"

text \<open>The reply to \<open>GET /auth/verify\<close>: a 2xx reply whose \<open>res.data.user\<close>
  is truthy signs that user in, flagged \<open>isAdmin\<close> by its email; a 2xx reply
  without it throws \<open>Invalid response format\<close>, caught with no response;
  \<open>finally\<close> ends the loading.\<close>

definition rc_verify_reply :: "js_exn + response option \<Rightarrow> root_ctx \<Rightarrow> root_ctx" where
  "rc_verify_reply c s =
     (case c of
        Inl e \<Rightarrow> rc_verify_catch None s
      | Inr (Some rs) \<Rightarrow>
          if is_2xx (resp_status rs) then
            (let d = body_json (resp_body rs) in
             if jtruthy d \<and> jtruthy (opt_get d ''user'') then
               (let u = opt_get d ''user'' in
                s\<lparr>rc_user := with_admin_flag u (opt_get u ''email'' = JV (JStr ADMIN_EMAIL)), rc_error := JV JNull\<rparr>)
             else rc_verify_catch None s)
          else rc_verify_catch (Some rs) s
      | Inr None \<Rightarrow> rc_verify_catch None s)\<lparr>rc_loading := False\<rparr>"

definition rc_verify_token :: "(string option \<Rightarrow> js_exn + response option) \<Rightarrow> root_ctx \<Rightarrow> root_ctx" where
  "rc_verify_token call s =
     (if \<not> jtruthy (rc_token s) then s\<lparr>rc_loading := False\<rparr>
      else rc_verify_reply (call (rc_header s)) s)"

text \<open>The effect on \<open>[token]\<close>.\<close>

definition rc_effect :: "(string option \<Rightarrow> js_exn + response option) \<Rightarrow> root_ctx \<Rightarrow> root_ctx" where
  "rc_effect call s = (if jtruthy (rc_token s) then rc_verify_token call s else s\<lparr>rc_loading := False\<rparr>)"

subsection \<open>\<open>login\<close>, \<open>register\<close>, \<open>logout\<close>\<close>

text \<open>The shared \<open>catch\<close>: show and rethrow \<open>error.response?.data?.message\<close>
  or the default.\<close>

definition rc_fail :: "string \<Rightarrow> response option \<Rightarrow> root_ctx \<Rightarrow> (json + bool) \<times> root_ctx" where
  "rc_fail dflt e s = (let m = jor (reply_message e) (JV (JStr dflt)) in (Inl m, s\<lparr>rc_error := m\<rparr>))"

text \<open>\<open>login(email, password)\<close> once \<open>POST /auth/login\<close> has settled: a 2xx
  reply must carry a truthy \<open>res.data.token\<close>; the user is flagged
  \<open>isAdmin\<close> by the typed email, and the page leaves for the admin or the
  shop listing.\<close>

definition rc_login_reply :: "string \<Rightarrow> js_exn + response option \<Rightarrow> root_ctx \<Rightarrow> (json + bool) \<times> root_ctx" where
  "rc_login_reply email c s0 =
     (let s = s0\<lparr>rc_error := JV JNull\<rparr> in
      case c of
        Inl e \<Rightarrow> rc_fail ''Login failed'' None s
      | Inr (Some rs) \<Rightarrow>
          if is_2xx (resp_status rs) then
            (let d = body_json (resp_body rs) in
             if \<not> jtruthy d \<or> \<not> jtruthy (opt_get d ''token'') then rc_fail ''Login failed'' None s
             else
               (let tok = opt_get d ''token''; adm = (email = ADMIN_EMAIL) in
                (Inr True, s\<lparr>rc_token := tok, rc_user := with_admin_flag (opt_get d ''user'') adm,
                              rc_stored := Some (json_text tok),
                              rc_nav := Some (if adm then ''/admin/products'' else ''/products'')\<rparr>)))
          else rc_fail ''Login failed'' (Some rs) s
      | Inr None \<Rightarrow> rc_fail ''Login failed'' None s)"

definition rc_register_reply :: "js_exn + response option \<Rightarrow> root_ctx \<Rightarrow> (json + bool) \<times> root_ctx" where
  "rc_register_reply c s0 =
     (let s = s0\<lparr>rc_error := JV JNull\<rparr> in
      case c of
        Inl e \<Rightarrow> rc_fail ''Registration failed'' None s
      | Inr (Some rs) \<Rightarrow>
          if is_2xx (resp_status rs) then
            (let d = body_json (resp_body rs) in
             if \<not> jtruthy d \<or> \<not> jtruthy (opt_get d ''token'') then rc_fail ''Registration failed'' None s
             else
               (let tok = opt_get d ''token'' in
                (Inr True, s\<lparr>rc_token := tok, rc_user := opt_get d ''user'',
                              rc_stored := Some (json_text tok), rc_nav := Some ''/''\<rparr>)))
          else rc_fail ''Registration failed'' (Some rs) s
      | Inr None \<Rightarrow> rc_fail ''Registration failed'' None s)"

definition rc_logout :: "root_ctx \<Rightarrow> root_ctx" where
  "rc_logout s = s\<lparr>rc_token := JV JNull, rc_user := JV JNull, rc_error := JV JNull, rc_stored := None,
                    rc_nav := Some ''/login''\<rparr>"

text \<open>\<open>isAuthenticated: !!token\<close>; the provider renders its children once
  \<open>loading\<close> is false.\<close>

definition rc_authenticated :: "root_ctx \<Rightarrow> bool" where
  "rc_authenticated s = jtruthy (rc_token s)"

definition rc_renders_children :: "root_ctx \<Rightarrow> bool" where
  "rc_renders_children s = (\<not> rc_loading s)"

subsection \<open>The provider against the server\<close>

text \<open>A call would go through \<open>api\<close> (base URL \<open>/api\<close>, the interceptor's
  header) to \<open>Server.handle\<close>; the missing binding throws first, and then no
  request is sent and the store is unchanged.\<close>

definition rc_server :: "regex_engine \<Rightarrow> nat \<Rightarrow> nat \<Rightarrow> db \<Rightarrow> string option \<Rightarrow> js_exn + response option" where
  "rc_server rx key now d hdr = rc_call ''get'' (Some (fst (handle rx key now (ReqVerify hdr) d)))"

definition rc_session_login ::
  "regex_engine \<Rightarrow> nat \<Rightarrow> nat \<Rightarrow> string \<Rightarrow> string \<Rightarrow> db \<Rightarrow> root_ctx \<Rightarrow> (json + bool) \<times> root_ctx" where
  "rc_session_login rx key now email pw d s =
     rc_login_reply email (rc_call ''post'' (Some (fst (handle rx key now (ReqLogin (JStr email) (JStr pw)) d)))) s"

definition rc_session_register ::
  "regex_engine \<Rightarrow> nat \<Rightarrow> nat \<Rightarrow> string \<Rightarrow> string \<Rightarrow> db \<Rightarrow> root_ctx \<Rightarrow> ((json + bool) \<times> root_ctx) \<times> db" where
  "rc_session_register rx key now email pw d s =
     (case js_prop rc_api ''post'' of
        Inl e \<Rightarrow> (rc_register_reply (Inl e) s, d)
      | Inr f \<Rightarrow> (case handle rx key now (ReqRegister (JStr email) (JStr pw)) d of
                    (r, d') \<Rightarrow> (rc_register_reply (Inr (Some r)) s, d')))"

text \<open>A page load: the provider starts from \<open>localStorage\<close> and runs its
  effect against the server.\<close>

definition rc_mount :: "regex_engine \<Rightarrow> nat \<Rightarrow> nat \<Rightarrow> db \<Rightarrow> string option \<Rightarrow> string \<Rightarrow> root_ctx" where
  "rc_mount rx key now d stored path = rc_effect (rc_server rx key now d) (rc_init stored path)"

subsection \<open>Page loads and runs of the provider\<close>

text \<open>An assignment to \<open>window.location.href\<close> loads a new page, whose
  provider starts again from \<open>localStorage\<close>. \<open>rc_follow\<close> follows such
  loads with fuel: \<open>None\<close> when the fuel runs out with a load pending.\<close>

fun rc_follow :: "nat \<Rightarrow> regex_engine \<Rightarrow> nat \<Rightarrow> nat \<Rightarrow> db \<Rightarrow> root_ctx \<Rightarrow> root_ctx option" where
  "rc_follow 0 rx key now d s = (if rc_nav s = None then Some s else None)"
| "rc_follow (Suc n) rx key now d s =
     (case rc_nav s of
        None \<Rightarrow> Some s
      | Some path \<Rightarrow> rc_follow n rx key now d (rc_mount rx key now d (rc_stored s) path))"

text \<open>A page load: two loads always suffice (\<open>rc_page_load_settles\<close>).\<close>

definition rc_load :: "regex_engine \<Rightarrow> nat \<Rightarrow> nat \<Rightarrow> db \<Rightarrow> string option \<Rightarrow> string \<Rightarrow> root_ctx option" where
  "rc_load rx key now d stored path = rc_follow 2 rx key now d (rc_mount rx key now d stored path)"

text \<open>After a call: a changed token reruns the effect on \<open>[token]\<close>; a
  pending assignment to \<open>window.location.href\<close> then loads the new page.\<close>

datatype rc_event = RcLogin nat string string | RcRegister nat string string | RcLogout nat

definition rc_settle :: "regex_engine \<Rightarrow> nat \<Rightarrow> nat \<Rightarrow> db \<Rightarrow> root_ctx \<Rightarrow> root_ctx \<Rightarrow> root_ctx" where
  "rc_settle rx key now d s s' =
     (let s'' = (if rc_nav s' = None \<and> rc_token s' \<noteq> rc_token s then rc_effect (rc_server rx key now d) s' else s')
      in case rc_nav s'' of
           None \<Rightarrow> s''
         | Some path \<Rightarrow> (case rc_load rx key now d (rc_stored s'') path of Some t \<Rightarrow> t | None \<Rightarrow> s''))"

fun rc_step :: "regex_engine \<Rightarrow> nat \<Rightarrow> rc_event \<Rightarrow> root_ctx \<times> db \<Rightarrow> root_ctx \<times> db" where
  "rc_step rx key (RcLogin now e p) (s, d) = (rc_settle rx key now d s (snd (rc_session_login rx key now e p d s)), d)"
| "rc_step rx key (RcRegister now e p) (s, d) =
     (case rc_session_register rx key now e p d s of ((res, s'), d') \<Rightarrow> (rc_settle rx key now d' s s', d'))"
| "rc_step rx key (RcLogout now) (s, d) = (rc_settle rx key now d s (rc_logout s), d)"

definition rc_run :: "regex_engine \<Rightarrow> nat \<Rightarrow> rc_event list \<Rightarrow> root_ctx \<times> db \<Rightarrow> root_ctx \<times> db" where
  "rc_run rx key evs c = fold (rc_step rx key) evs c"

subsection \<open>What the properties are stated with\<close>

text \<open>The text a failed call rethrows: the default after an exception or a
  2xx reply (the check on \<open>res.data.token\<close> throws inside the \<open>try\<close>), the
  server's message after a rejected request.\<close>

definition rc_thrown :: "string \<Rightarrow> js_exn + response option \<Rightarrow> string" where
  "rc_thrown dflt c =
     (case c of Inr (Some rs) \<Rightarrow> if is_2xx (resp_status rs) then dflt else message_or (Some rs) dflt | _ \<Rightarrow> dflt)"

text \<open>Well-formed JSON: every atom is a value \<open>JSON.parse\<close> can produce (no
  \<open>undefined\<close>, no NaN or infinity), and no object repeats a key.\<close>

fun json_atom_ok :: "jsval \<Rightarrow> bool" where
  "json_atom_ok JUndefined = False"
| "json_atom_ok (JNum n) = (case n of Fin r \<Rightarrow> True | _ \<Rightarrow> False)"
| "json_atom_ok v = True"

fun json_wf :: "json \<Rightarrow> bool" where
  "json_wf (JV v) = json_atom_ok v"
| "json_wf (JO kvs) = (distinct (map fst kvs) \<and> list_all (\<lambda>kv. json_wf (snd kv)) kvs)"
| "json_wf (JA xs) = list_all json_wf xs"

text \<open>A settled provider: rendering its children, no page load pending.\<close>

definition rc_quiet :: "root_ctx \<Rightarrow> bool" where
  "rc_quiet s \<longleftrightarrow> \<not> rc_loading s \<and> rc_nav s = None"

subsection \<open>Properties\<close>

lemma jget_jobj [simp]:
  "jget (jobj kvs) k = Inr (case map_of (filter (\<lambda>(k, v). v \<noteq> JV JUndefined) kvs) k of Some v \<Rightarrow> v | None \<Rightarrow> JV JUndefined)"
  by (simp add: jobj_def)

lemma body_json_other_key:
  assumes "k \<notin> set [''success'', ''message'', ''error'', ''count'', ''total'', ''totalPages'', ''currentPage'', ''data'', ''length'']"
  shows "opt_get (body_json b) k = JV JUndefined"
  using assms by (cases b) (auto simp: opt_get_def)

lemma reply_message_or: "jor (reply_message r) (JV (JStr dflt)) = JV (JStr (message_or r dflt))"
proof (cases r)
  case None then show ?thesis by (simp add: reply_message_def message_or_def jor_def opt_get_def)
next
  case (Some rs)
  then show ?thesis
    by (cases "resp_body rs") (auto simp: reply_message_def message_or_def jor_def opt_get_def)
qed

lemma body_json_token: "opt_get (body_json b) ''token'' = JV JUndefined"
  by (rule body_json_other_key) simp

lemma rc_fail_text: "rc_fail dflt r s = (Inl (JV (JStr (message_or r dflt))), s\<lparr>rc_error := JV (JStr (message_or r dflt))\<rparr>)"
  by (simp add: rc_fail_def reply_message_or Let_def)

lemma message_or_None [simp]: "message_or None dflt = dflt"
  by (simp add: message_or_def)

text \<open>C26: the unused provider can never sign anyone in. Whatever a call's
  outcome, \<open>login\<close> and \<open>register\<close> throw and change nothing but the error:
  the server nests the token under \<open>data\<close>, so \<open>res.data.token\<close> is
  \<open>undefined\<close> in every reply, and a rejected request rethrows the server's
  message. Against the server the calls throw before sending anything, so
  registering creates no account.\<close>

lemma rc_call_throws [simp]: "rc_call m r = Inl TypeError"
  by (simp add: rc_call_def rc_api_def)

lemma rc_api_post [simp]: "js_prop rc_api ''post'' = Inl TypeError"
  by (simp add: rc_api_def)

theorem rc_auth_never_succeeds:
  "rc_login_reply email c s =
     (Inl (JV (JStr (rc_thrown ''Login failed'' c))), s\<lparr>rc_error := JV (JStr (rc_thrown ''Login failed'' c))\<rparr>) \<and>
   rc_register_reply c s =
     (Inl (JV (JStr (rc_thrown ''Registration failed'' c))), s\<lparr>rc_error := JV (JStr (rc_thrown ''Registration failed'' c))\<rparr>) \<and>
   rc_session_login rx key now email pw d s = (Inl (JV (JStr ''Login failed'')), s\<lparr>rc_error := JV (JStr ''Login failed'')\<rparr>) \<and>
   rc_session_register rx key now email pw d s =
     ((Inl (JV (JStr ''Registration failed'')), s\<lparr>rc_error := JV (JStr ''Registration failed'')\<rparr>), d)"
  by (auto simp: rc_login_reply_def rc_register_reply_def rc_thrown_def rc_fail_text body_json_token Let_def
      rc_session_login_def rc_session_register_def split: option.split sum.split)

lemma body_json_user: "opt_get (body_json b) ''user'' = JV JUndefined"
  by (rule body_json_other_key) simp

lemma rc_verify_reply_caught:
  "rc_verify_reply c s =
     (rc_verify_catch (case c of Inr (Some rs) \<Rightarrow> if is_2xx (resp_status rs) then None else Some rs | _ \<Rightarrow> None) s)
       \<lparr>rc_loading := False\<rparr>"
  by (simp add: rc_verify_reply_def body_json_user Let_def split: option.split sum.split)

lemma rc_init_token:
  "jtruthy (rc_token (rc_init stored path)) \<longleftrightarrow> (\<exists>t. stored = Some t \<and> t \<noteq> [])"
  by (cases stored) (auto simp: rc_init_def)

lemma rc_init_stored [simp]: "rc_stored (rc_init stored path) = stored"
  by (simp add: rc_init_def)

lemma rc_mount_cases:
  "rc_mount rx key now d stored path =
     (if \<exists>t. stored = Some t \<and> t \<noteq> []
      then rc_verify_reply (Inl TypeError) (rc_init stored path)
      else (rc_init stored path)\<lparr>rc_loading := False\<rparr>)"
  by (simp add: rc_mount_def rc_effect_def rc_verify_token_def rc_init_token rc_header_def rc_server_def handle_def)
    auto

text \<open>C22: a page load with the unused provider never restores a session.
  With a stored token the verification call throws, and the provider keeps
  the token, shows \<open>Token verification failed\<close> and renders with no user;
  without one it renders at once. Were \<open>api\<close> bound, no reply of the server
  would sign a user in either: \<open>/verify\<close> sends the user as \<open>data\<close>, not
  \<open>user\<close>, so \<open>verifyToken\<close> keeps the user or clears it.\<close>

theorem rc_reload_never_restores:
  "rc_mount rx key now d stored path =
     (if \<exists>t. stored = Some t \<and> t \<noteq> []
      then (rc_init stored path)\<lparr>rc_loading := False, rc_error := JV (JStr ''Token verification failed'')\<rparr>
      else (rc_init stored path)\<lparr>rc_loading := False\<rparr>) \<and>
   (rc_user (rc_verify_reply c s) = rc_user s \<or> rc_user (rc_verify_reply c s) = JV JNull)"
  by (auto simp: rc_mount_cases rc_verify_reply_caught rc_verify_catch_def reply_message_def jor_def rc_init_def)

lemma json_wf_jobj:
  assumes "distinct (map fst kvs)" and "list_all (\<lambda>kv. snd kv = JV JUndefined \<or> json_wf (snd kv)) kvs"
  shows "json_wf (jobj kvs)"
proof -
  have "distinct (map fst (filter (\<lambda>(k, v). v \<noteq> JV JUndefined) kvs))"
    using assms(1) by (induction kvs) (auto simp: image_iff)
  moreover have "list_all (\<lambda>kv. json_wf (snd kv)) (filter (\<lambda>(k, v). v \<noteq> JV JUndefined) kvs)"
    using assms(2) by (induction kvs) auto
  ultimately show ?thesis by (simp add: jobj_def)
qed

lemma json_num_ok [simp]: "json_atom_ok (json_num n)"
  by (cases n) simp_all

lemma json_of_val_ok: "json_of_val v = JV JUndefined \<or> json_wf (json_of_val v)"
  by (cases v) simp_all

lemma product_doc_wf [simp]: "json_wf (product_doc p)"
  unfolding product_doc_def by (rule json_wf_jobj) (simp_all add: product_object_def product_keys_def product_json_def)

lemma user_jsons_wf [simp]: "json_wf (user_view_json v)" "json_wf (user_public_json u)"
  by (simp_all add: json_wf_jobj user_view_json_def user_public_json_def)

text \<open>Every reply body the server sends is well-formed JSON; apart from
  Express's HTML 404 page and the \<open>{message}\<close> object of the final error
  handler of \<open>server.js\<close>, which has no \<open>success\<close> field, it is an object
  whose \<open>success\<close> field is the boolean \<open>body_success\<close> the client models
  read.\<close>

theorem body_json_typed:
  "json_wf (body_json b) \<and>
   (case b of HtmlBody h \<Rightarrow> body_json b = JV (JStr h)
    | MessageBody m \<Rightarrow> body_json b = JO [(''message'', JV (JStr m))] \<and> opt_get (body_json b) ''success'' = JV JUndefined
    | _ \<Rightarrow> (\<exists>kvs. body_json b = JO kvs) \<and> opt_get (body_json b) ''success'' = JV (JBool (body_success b)))"
proof (cases b)
  case (ProductsBody c t tp cp ps)
  then show ?thesis using json_of_val_ok [of cp]
    by (auto simp: json_wf_jobj list_all_iff opt_get_def jobj_def)
qed (auto simp: json_wf_jobj opt_get_def jobj_def)

lemma rc_mount_loaded: "\<not> rc_loading (rc_mount rx key now d stored path)"
  by (simp add: rc_mount_cases rc_verify_reply_caught rc_verify_catch_def rc_init_def)

lemma rc_mount_nav: "rc_nav (rc_mount rx key now d stored path) = None \<or> rc_stored (rc_mount rx key now d stored path) = None"
  by (simp add: rc_mount_cases rc_verify_reply_caught rc_verify_catch_def rc_init_def)

lemma rc_mount_signed_out: "rc_nav (rc_mount rx key now d None path) = None"
  by (simp add: rc_mount_cases rc_init_def)

lemma rc_load_quiet: "\<exists>t. rc_load rx key now d stored path = Some t \<and> rc_quiet t"
  using rc_mount_nav [of rx key now d stored path] rc_mount_loaded rc_mount_signed_out
  by (auto simp: rc_load_def rc_quiet_def numeral_2_eq_2 split: option.split)

lemma rc_effect_loaded: "\<not> rc_loading (rc_effect call s)"
  by (simp add: rc_effect_def rc_verify_token_def rc_verify_reply_def)

lemma rc_handlers_keep_loading:
  "rc_loading (snd (rc_login_reply e r s)) = rc_loading s"
  "rc_loading (snd (rc_register_reply r s)) = rc_loading s"
  "rc_loading (rc_logout s) = rc_loading s"
  by (simp_all add: rc_login_reply_def rc_register_reply_def rc_fail_def rc_logout_def Let_def split: option.split sum.split)

lemma rc_settle_quiet:
  assumes "\<not> rc_loading s'"
  shows "rc_quiet (rc_settle rx key now d s s')"
proof -
  define s'' where "s'' = (if rc_nav s' = None \<and> rc_token s' \<noteq> rc_token s then rc_effect (rc_server rx key now d) s' else s')"
  have "\<not> rc_loading s''" using assms rc_effect_loaded by (simp add: s''_def)
  moreover have "rc_quiet t" if "rc_load rx key now d (rc_stored s'') p = Some t" for p t
    using rc_load_quiet [of rx key now d "rc_stored s''" p] that by auto
  moreover have "rc_load rx key now d (rc_stored s'') p \<noteq> None" for p
    using rc_load_quiet [of rx key now d "rc_stored s''" p] by auto
  moreover have "rc_settle rx key now d s s' =
      (case rc_nav s'' of None \<Rightarrow> s''
       | Some p \<Rightarrow> (case rc_load rx key now d (rc_stored s'') p of Some t \<Rightarrow> t | None \<Rightarrow> s''))"
    unfolding rc_settle_def s''_def Let_def by (rule refl)
  ultimately show ?thesis
    by (cases "rc_nav s''") (auto simp: rc_quiet_def split: option.split)
qed

lemma rc_step_quiet:
  assumes "rc_quiet (fst c)"
  shows "rc_quiet (fst (rc_step rx key ev c))"
proof -
  obtain s d where c: "c = (s, d)" by fastforce
  have l: "\<not> rc_loading s" using assms c by (simp add: rc_quiet_def)
  show ?thesis
  proof (cases ev)
    case (RcRegister now e p)
    obtain res s' d' where r: "rc_session_register rx key now e p d s = ((res, s'), d')" by (metis prod.exhaust)
    then have "s' = snd (rc_register_reply (Inl TypeError) s)"
      by (auto simp: rc_session_register_def)
    then have "\<not> rc_loading s'" using l by (simp add: rc_handlers_keep_loading)
    then show ?thesis using c r RcRegister by (simp add: rc_settle_quiet)
  qed (use c l in \<open>simp_all add: rc_settle_quiet rc_session_login_def rc_handlers_keep_loading\<close>)
qed

lemma rc_run_quiet: "rc_quiet (fst c) \<Longrightarrow> rc_quiet (fst (rc_run rx key evs c))"
  unfolding rc_run_def by (induction evs arbitrary: c) (simp_all add: rc_step_quiet)

text \<open>Every page load with the unused provider settles: the children render
  and no load is pending, whatever is stored and whatever the store holds,
  and so it stays after any sequence of logins, registrations and logouts.
  This holds because every call of the provider throws before a reply (the
  \<open>api\<close> import is undefined), so no load ever redirects; the fuel 2 of
  \<open>rc_load\<close> is never used up.\<close>

theorem rc_page_load_settles:
  "\<exists>t. rc_load rx key now d stored path = Some t \<and> rc_renders_children t \<and> rc_nav t = None \<and>
       (\<forall>evs. rc_renders_children (fst (rc_run rx key evs (t, d))) \<and> rc_nav (fst (rc_run rx key evs (t, d))) = None)"
proof -
  obtain t where l: "rc_load rx key now d stored path = Some t" and q: "rc_quiet t"
    using rc_load_quiet by blast
  have "rc_quiet (fst (rc_run rx key evs (t, d)))" for evs using rc_run_quiet [of "(t, d)"] q by simp
  then show ?thesis using l q by (auto simp: rc_quiet_def rc_renders_children_def)
qed

text \<open>A request body \<open>express.json()\<close> rejects is answered 500, on every
  path and with any header, with a body that has no \<open>success\<close> field:
  not the 400 \<open>ValidationError\<close> envelope the spec gives for malformed
  input.\<close>

lemma rejected_body_envelope:
  "resp_status (fst (express_app rx key now m url hdr RejectedJson d)) = 500 \<and>
   opt_get (body_json (resp_body (fst (express_app rx key now m url hdr RejectedJson d)))) ''success'' = JV JUndefined \<and>
   snd (express_app rx key now m url hdr RejectedJson d) = d"
  by (simp add: express_app_def app_error_def opt_get_def jobj_def)

end
