(* ===== verification/Concurrency.thy ===== *)
theory Concurrency
  imports Server
begin

text \<open>
  Concurrent requests. Node runs one handler per request, and a handler
  gives up control only at an \<open>await\<close> on the store (spec, section 5), so
  the handlers of concurrent requests interleave at their store operations.
  A handler in flight is a \<open>proc\<close>: finished with its response, or waiting
  on one store operation, which runs atomically on the store of the moment
  and yields the rest of the handler. \<open>handler_proc\<close> cuts each handler of
  \<open>Server.handle\<close> at its awaits; run alone it is \<open>handle\<close>. A configuration
  is the handlers in flight and the store; \<open>conc_reach\<close> is every
  configuration that requests arriving at any times and steps of any
  handler in flight, in any order, lead to.
\<close>

datatype proc = Done response | Await "db \<Rightarrow> proc \<times> db"

text \<open>A handler run with no other request in between.\<close>

primrec run_alone :: "proc \<Rightarrow> db \<Rightarrow> response \<times> db" where
  "run_alone (Done r) d = (r, d)"
| "run_alone (Await f) d = (case map_prod run_alone id (f d) of (g, d') \<Rightarrow> g d')"

text \<open>An await on an operation that may write, and one that only reads.\<close>

definition await_op :: "(db \<Rightarrow> response \<times> db) \<Rightarrow> proc" where
  "await_op f = Await (\<lambda>d. case f d of (r, d') \<Rightarrow> (Done r, d'))"

definition await_read :: "(db \<Rightarrow> response) \<Rightarrow> proc" where
  "await_read f = Await (\<lambda>d. (Done (f d), d))"

subsection \<open>The handlers, cut at their awaits\<close>

text \<open>The \<open>auth\<close> middleware awaits \<open>User.findById\<close>; its header checks and
  \<open>jwt.verify\<close> are synchronous and read no store, so they run inside the
  same step.\<close>

definition auth_gate :: "nat \<Rightarrow> nat \<Rightarrow> string option \<Rightarrow> (user_public \<Rightarrow> proc) \<Rightarrow> db \<Rightarrow> proc" where
  "auth_gate key now hdr k d = (case auth key now hdr d of Inl r \<Rightarrow> Done r | Inr u \<Rightarrow> k u)"

definition auth_proc :: "nat \<Rightarrow> nat \<Rightarrow> string option \<Rightarrow> (user_public \<Rightarrow> proc) \<Rightarrow> proc" where
  "auth_proc key now hdr k = Await (\<lambda>d. (auth_gate key now hdr k d, d))"

text \<open>\<open>protect, authorize('admin')\<close>, then the handler's one store operation
  (\<open>save\<close>, \<open>findByIdAndUpdate\<close> or \<open>findByIdAndDelete\<close>).\<close>

definition admin_proc :: "nat \<Rightarrow> nat \<Rightarrow> string option \<Rightarrow> (db \<Rightarrow> response \<times> db) \<Rightarrow> proc" where
  "admin_proc key now hdr h =
     auth_proc key now hdr (\<lambda>u. case authorize [RoleAdmin] u of Some r \<Rightarrow> Done r | None \<Rightarrow> await_op h)"

text \<open>\<open>POST /register\<close>: \<open>await User.findOne({email})\<close>, then
  \<open>await user.save()\<close>, two separate steps.\<close>

definition register_proc :: "nat \<Rightarrow> nat \<Rightarrow> jsval \<Rightarrow> jsval \<Rightarrow> proc" where
  "register_proc key now email password =
     (if \<not> truthy email \<or> \<not> truthy password then Done (fail 400 ''Please provide email and password'')
      else (case (cast_string email, cast_string password) of
              (Some e, Some pw) \<Rightarrow>
                Await (\<lambda>d. (case find_user_by_email e d of
                               Some _ \<Rightarrow> Done (fail 400 ''User already exists'')
                             | None \<Rightarrow>
                                 await_op (\<lambda>d'. case save_user e pw (role_for email) now d' of
                                   Inl err \<Rightarrow> (fail 500 ''Server error'', d')
                                 | Inr (u, d'') \<Rightarrow>
                                     (Response 201 None (AuthBody (jwt_sign key (user_id u) now) (view_user u)), d'')),
                             d))
            | _ \<Rightarrow> Done (fail 500 ''Server error'')))"

text \<open>\<open>GET /api/products\<close>: \<open>await Product.find(query)...\<close>, then
  \<open>await Product.countDocuments(query)\<close>, two separate steps.\<close>

definition get_products_proc :: "regex_engine \<Rightarrow> list_params \<Rightarrow> proc" where
  "get_products_proc rx lp =
     (let page = page_param lp; limit = limit_param lp; q = build_query lp; so = sort_options (lp_sort lp)
      in Await (\<lambda>d. (case store_find rx q so (skip_value page limit) limit d of
                        Inl e \<Rightarrow> Done (fail 500 ''Server error'')
                      | Inr ps \<Rightarrow>
                          await_read (\<lambda>d'. let cnt = store_count rx q d'
                                           in ok 200 (ProductsBody (length ps) cnt (total_pages cnt limit) page ps)),
                      d)))"

definition handler_proc :: "regex_engine \<Rightarrow> nat \<Rightarrow> nat \<Rightarrow> request \<Rightarrow> proc" where
  "handler_proc rx key now r =
     (case r of
        ReqRegister e pw \<Rightarrow> register_proc key now e pw
      | ReqLogin e pw \<Rightarrow> await_read (login key now e pw)
      | ReqVerify h \<Rightarrow> auth_proc key now h (\<lambda>u. await_read (verify_handler u))
      | ReqListProducts lp \<Rightarrow> get_products_proc rx lp
      | ReqGetProduct pid \<Rightarrow> await_read (get_product pid)
      | ReqCreateProduct h b \<Rightarrow> admin_proc key now h (create_product now b)
      | ReqUpdateProduct h pid b \<Rightarrow> admin_proc key now h (update_product pid b)
      | ReqDeleteProduct h pid \<Rightarrow> admin_proc key now h (delete_product pid))"

subsection \<open>Interleavings\<close>

text \<open>One step of the handler at position \<open>i\<close>: nothing when there is none or
  it has finished.\<close>

definition sched_step :: "proc list \<times> db \<Rightarrow> nat \<Rightarrow> proc list \<times> db" where
  "sched_step c i =
     (case c of (ps, d) \<Rightarrow>
        if i < length ps then (case ps ! i of Done r \<Rightarrow> (ps, d) | Await f \<Rightarrow> (case f d of (p, d') \<Rightarrow> (ps[i := p], d')))
        else (ps, d))"

definition run_sched :: "proc list \<times> db \<Rightarrow> nat list \<Rightarrow> proc list \<times> db" where
  "run_sched c js = foldl sched_step c js"

fun proc_response :: "proc \<Rightarrow> response option" where
  "proc_response (Done r) = Some r"
| "proc_response (Await f) = None"

inductive conc_reach :: "regex_engine \<Rightarrow> nat \<Rightarrow> proc list \<times> db \<Rightarrow> bool" for rx key where
  start: "conc_reach rx key ([], init_db)"
| arrive: "conc_reach rx key (ps, d) \<Longrightarrow> conc_reach rx key (ps @ [handler_proc rx key now r], d)"
| step: "conc_reach rx key c \<Longrightarrow> conc_reach rx key (sched_step c i)"

text \<open>A handler keeps a store property \<open>I\<close> when each of its steps does.\<close>

inductive proc_safe :: "(db \<Rightarrow> bool) \<Rightarrow> proc \<Rightarrow> bool" for I where
  finished: "proc_safe I (Done r)"
| waiting: "(\<And>d. I d \<Longrightarrow> I (snd (f d)) \<and> proc_safe I (fst (f d))) \<Longrightarrow> proc_safe I (Await f)"

text \<open>The store invariants of \<open>Server\<close> together.\<close>

definition store_inv :: "db \<Rightarrow> bool" where
  "store_inv d \<longleftrightarrow> db_ok d \<and> names_trimmed d"

subsection \<open>Example interleavings\<close>


text \<open>Two registrations of the same new email, from the empty collections.\<close>

definition register_race_cfg :: "proc list \<times> db" where
  "register_race_cfg =
     ([handler_proc literal_regex_i 7 100 (ReqRegister (JStr ''bob@example.com'') (JStr ''pw-one'')),
       handler_proc literal_regex_i 7 100 (ReqRegister (JStr ''bob@example.com'') (JStr ''pw-two''))], init_db)"

subsection \<open>Run alone, a handler is \<open>handle\<close>\<close>

lemma run_alone_await_op [simp]: "run_alone (await_op f) d = f d"
  by (simp add: await_op_def split: prod.split)

lemma run_alone_await_read [simp]: "run_alone (await_read f) d = (f d, d)"
  by (simp add: await_read_def)

lemma run_alone_auth_proc:
  "run_alone (auth_proc key now h k) d = (case auth key now h d of Inl r \<Rightarrow> (r, d) | Inr u \<Rightarrow> run_alone (k u) d)"
  by (simp add: auth_proc_def auth_gate_def split: sum.split)

lemma run_alone_admin_proc: "run_alone (admin_proc key now h f) d = admin_route key now h d (\<lambda>u. f)"
  by (simp add: admin_proc_def run_alone_auth_proc admin_route_def protect_def split: sum.split option.split)

lemma run_alone_register_proc: "run_alone (register_proc key now e pw) d = register key now e pw d"
  by (simp add: register_proc_def register_def split: option.split sum.split prod.split)

lemma run_alone_get_products_proc: "run_alone (get_products_proc rx lp) d = (get_products rx lp d, d)"
  by (simp add: get_products_proc_def get_products_def Let_def split: sum.split)

text \<open>Cutting the handlers at their awaits changes nothing when a request
  runs alone: the run is \<open>Server.handle\<close>.\<close>

theorem handler_proc_refines: "run_alone (handler_proc rx key now r) d = handle rx key now r d"
  by (cases r) (simp_all add: handler_proc_def handle_def run_alone_register_proc run_alone_get_products_proc
      run_alone_auth_proc run_alone_admin_proc get_verify_def split: sum.split)

subsection \<open>Safety\<close>

lemma proc_safe_await_op:
  assumes "\<And>d. I d \<Longrightarrow> I (snd (f d))"
  shows "proc_safe I (await_op f)"
  unfolding await_op_def
proof (rule proc_safe.waiting)
  fix d
  assume "I d"
  then show "I (snd (case f d of (r, d') \<Rightarrow> (Done r, d'))) \<and> proc_safe I (fst (case f d of (r, d') \<Rightarrow> (Done r, d')))"
    using assms [of d] by (cases "f d") (simp add: proc_safe.finished)
qed

lemma proc_safe_await_read: "proc_safe I (await_read f)"
  by (auto simp: await_read_def intro!: proc_safe.intros)

lemma proc_safe_auth_proc: "(\<And>u. proc_safe I (k u)) \<Longrightarrow> proc_safe I (auth_proc key now h k)"
  by (auto simp: auth_proc_def auth_gate_def intro!: proc_safe.intros split: sum.split)

lemma proc_safe_admin_proc: "(\<And>d. I d \<Longrightarrow> I (snd (f d))) \<Longrightarrow> proc_safe I (admin_proc key now h f)"
  by (auto simp: admin_proc_def intro!: proc_safe_auth_proc proc_safe_await_op proc_safe.intros split: option.split)

lemma proc_safe_register_proc:
  "(\<And>e pw rl now d u d'. I d \<Longrightarrow> save_user e pw rl now d = Inr (u, d') \<Longrightarrow> I d') \<Longrightarrow>
   proc_safe I (register_proc key now email password)"
  by (auto simp: register_proc_def intro!: proc_safe.intros proc_safe_await_op split: option.split sum.split)

lemma proc_safe_get_products_proc: "proc_safe I (get_products_proc rx lp)"
  by (auto simp: get_products_proc_def Let_def intro!: proc_safe.intros proc_safe_await_read split: sum.split)

lemma save_user_products: "save_user e pw rl now d = Inr (u, d') \<Longrightarrow> db_products d' = db_products d"
  by (auto simp: save_user_def Let_def split: if_splits)

lemma store_inv_save_user: "store_inv d \<Longrightarrow> save_user e pw rl now d = Inr (u, d') \<Longrightarrow> store_inv d'"
  by (auto simp: store_inv_def names_trimmed_def save_user_products dest: db_ok_save_user)

lemma proc_safe_admin_store_inv:
  "(\<And>d. db_ok d \<Longrightarrow> db_ok (snd (f d))) \<Longrightarrow> (\<And>d. names_trimmed d \<Longrightarrow> names_trimmed (snd (f d))) \<Longrightarrow>
   proc_safe store_inv (admin_proc key now h f)"
  by (rule proc_safe_admin_proc) (simp add: store_inv_def)

lemma proc_safe_handler_proc: "proc_safe store_inv (handler_proc rx key now r)"
proof (cases r)
  case (ReqVerify h)
  then show ?thesis by (simp add: handler_proc_def proc_safe_auth_proc proc_safe_await_read)
qed (simp_all add: handler_proc_def proc_safe_await_read proc_safe_get_products_proc
      proc_safe_register_proc [OF store_inv_save_user] proc_safe_admin_store_inv
      db_ok_create_product names_trimmed_create_product db_ok_update_product names_trimmed_update_product
      db_ok_delete_product names_trimmed_delete_product)

lemma sched_step_safe:
  assumes "I d" and "list_all (proc_safe I) ps"
  shows "I (snd (sched_step (ps, d) i)) \<and> list_all (proc_safe I) (fst (sched_step (ps, d) i))"
proof (cases "i < length ps")
  case True
  show ?thesis
  proof (cases "ps ! i")
    case (Await f)
    have "proc_safe I (Await f)" using assms(2) True Await by (metis list_all_length)
    then have "I (snd (f d)) \<and> proc_safe I (fst (f d))" using assms(1) by (cases rule: proc_safe.cases) auto
    then show ?thesis using assms(2) True Await
      by (auto simp: sched_step_def list_all_iff split: prod.split dest!: set_update_subset_insert [THEN subsetD])
  qed (use assms True in \<open>simp add: sched_step_def\<close>)
qed (use assms in \<open>simp add: sched_step_def\<close>)

lemma conc_reach_safe: "conc_reach rx key c \<Longrightarrow> store_inv (snd c) \<and> list_all (proc_safe store_inv) (fst c)"
proof (induction rule: conc_reach.induct)
  case start
  show ?case using db_ok_init by (simp add: store_inv_def names_trimmed_def init_db_def)
next
  case (arrive ps d now r)
  then show ?case by (simp add: proc_safe_handler_proc)
next
  case (step c i)
  then show ?case using sched_step_safe [of store_inv "snd c" "fst c" i] by (cases c) simp
qed

text \<open>The store invariants of \<open>Server\<close> survive concurrency. In every
  configuration that concurrent requests reach, arriving at any times and
  interleaving at their awaits in any order, every stored product satisfies
  the schema, emails are unique, identifiers are distinct and fresh, and
  stored names are trimmed.\<close>

theorem conc_reach_invariant: "conc_reach rx key (ps, d) \<Longrightarrow> db_ok d \<and> names_trimmed d"
  using conc_reach_safe [of rx key "(ps, d)"] by (simp add: store_inv_def)

lemma conc_reach_run_sched: "conc_reach rx key c \<Longrightarrow> conc_reach rx key (run_sched c js)"
proof (induction js arbitrary: c)
  case (Cons i js)
  then show ?case using conc_reach.step [OF Cons.prems, of i] by (simp add: run_sched_def)
qed (simp add: run_sched_def)

lemma conc_reach_register_race: "conc_reach literal_regex_i 7 (run_sched register_race_cfg [0, 1, 0, 1])"
proof -
  have "conc_reach literal_regex_i 7 register_race_cfg"
    using conc_reach.arrive [OF conc_reach.arrive [OF conc_reach.start]] by (simp add: register_race_cfg_def)
  then show ?thesis by (rule conc_reach_run_sched)
qed

theorem conc_reach_invariant_witness:
  "conc_reach literal_regex_i 7 (fst (run_sched register_race_cfg [0, 1, 0, 1]), snd (run_sched register_race_cfg [0, 1, 0, 1])) \<and>
   db_ok (snd (run_sched register_race_cfg [0, 1, 0, 1])) \<and> names_trimmed (snd (run_sched register_race_cfg [0, 1, 0, 1]))"
  using conc_reach_register_race conc_reach_invariant [of literal_regex_i 7 "fst (run_sched register_race_cfg [0, 1, 0, 1])"
      "snd (run_sched register_race_cfg [0, 1, 0, 1])"]
  by simp

subsection \<open>Serial runs are interleavings\<close>

lemma conc_reach_run_last:
  "conc_reach rx key (ps @ [p], d) \<Longrightarrow> conc_reach rx key (ps @ [Done (fst (run_alone p d))], snd (run_alone p d))"
proof (induction p arbitrary: d)
  case (Done r)
  then show ?case by simp
next
  case (Await f)
  obtain p' d' where fd: "f d = (p', d')" by (cases "f d")
  have "sched_step (ps @ [Await f], d) (length ps) = (ps @ [p'], d')" by (simp add: sched_step_def fd)
  then have "conc_reach rx key (ps @ [p'], d')" using conc_reach.step [OF Await.prems, of "length ps"] by simp
  moreover have "p' \<in> Basic_BNFs.fsts (f d)" by (simp add: fd)
  ultimately have "conc_reach rx key (ps @ [Done (fst (run_alone p' d'))], snd (run_alone p' d'))"
    using Await.IH [of "f d" p' d'] by blast
  then show ?case by (simp add: fd)
qed

text \<open>Every store the serial model reaches is reached by an interleaving
  in which every handler has finished.\<close>

theorem reachable_serial_interleaving:
  "reachable rx key d \<Longrightarrow> \<exists>ps. conc_reach rx key (ps, d) \<and> list_all (\<lambda>p. proc_response p \<noteq> None) ps"
proof (induction rule: reachable.induct)
  case (init rx key)
  show ?case using conc_reach.start by fastforce
next
  case (step rx key d now r)
  then obtain ps where c: "conc_reach rx key (ps, d)" and fin: "list_all (\<lambda>p. proc_response p \<noteq> None) ps" by blast
  have "conc_reach rx key (ps @ [handler_proc rx key now r], d)" using conc_reach.arrive [OF c] .
  from conc_reach_run_last [OF this] show ?case using fin by (auto simp: handler_proc_refines)
qed

subsection \<open>Admin requests are serialisable\<close>

text \<open>The admin handlers read the users once (\<open>protect\<close>) and then make
  their one write, which leaves the users alone; so two admin requests in
  flight together give, in each of the six interleavings, the responses and
  the store of the serial run in the order of their writes. A concurrent
  update and delete of one product (spec, section 5) thus ends as update
  then delete or as delete then update (404), with no third outcome.\<close>

lemma auth_users:
  assumes "db_users d' = db_users d"
  shows "auth key now h d' = auth key now h d"
proof -
  have f: "find_user_by_id i d' = find_user_by_id i d" for i using assms by (simp add: find_user_by_id_def)
  show ?thesis unfolding auth_def by (simp only: f cong: option.case_cong sum.case_cong)
qed

lemma auth_gate_users: "db_users d' = db_users d \<Longrightarrow> auth_gate key now h k d' = auth_gate key now h k d"
  unfolding auth_gate_def by (drule auth_users [of _ _ key now h]) simp

lemma sched_step_Await:
  "i < length ps \<Longrightarrow> ps ! i = Await f \<Longrightarrow> sched_step (ps, d) i = (ps[i := fst (f d)], snd (f d))"
  by (simp add: sched_step_def split: prod.split)

lemma sched_step_Done: "ps ! i = Done r \<Longrightarrow> sched_step (ps, d) i = (ps, d)"
  by (simp add: sched_step_def)

lemma await_op_alt: "await_op f = Await (\<lambda>d. (Done (fst (f d)), snd (f d)))"
  by (simp add: await_op_def case_prod_beta)

lemma admin_gate_cases:
  "auth_gate key now h (\<lambda>u. case authorize [RoleAdmin] u of Some r \<Rightarrow> Done r | None \<Rightarrow> await_op f) d = await_op f \<or>
   (\<exists>r. auth_gate key now h (\<lambda>u. case authorize [RoleAdmin] u of Some r \<Rightarrow> Done r | None \<Rightarrow> await_op f) d = Done r)"
  unfolding auth_gate_def by (cases "auth key now h d") (auto split: option.split)

lemma admin_pair_serialisable:
  assumes u1: "\<And>d. db_users (snd (f1 d)) = db_users d" and u2: "\<And>d. db_users (snd (f2 d)) = db_users d"
  shows "run_sched ([admin_proc key n1 h1 f1, admin_proc key n2 h2 f2], d) [0, 1, 0, 1] =
           run_sched ([admin_proc key n1 h1 f1, admin_proc key n2 h2 f2], d) [0, 0, 1, 1] \<and>
         run_sched ([admin_proc key n1 h1 f1, admin_proc key n2 h2 f2], d) [1, 0, 0, 1] =
           run_sched ([admin_proc key n1 h1 f1, admin_proc key n2 h2 f2], d) [0, 0, 1, 1] \<and>
         run_sched ([admin_proc key n1 h1 f1, admin_proc key n2 h2 f2], d) [1, 0, 1, 0] =
           run_sched ([admin_proc key n1 h1 f1, admin_proc key n2 h2 f2], d) [1, 1, 0, 0] \<and>
         run_sched ([admin_proc key n1 h1 f1, admin_proc key n2 h2 f2], d) [0, 1, 1, 0] =
           run_sched ([admin_proc key n1 h1 f1, admin_proc key n2 h2 f2], d) [1, 1, 0, 0]"
proof -
  let ?k1 = "\<lambda>u. case authorize [RoleAdmin] u of Some r \<Rightarrow> Done r | None \<Rightarrow> await_op f1"
  let ?k2 = "\<lambda>u. case authorize [RoleAdmin] u of Some r \<Rightarrow> Done r | None \<Rightarrow> await_op f2"
  define g1 where "g1 = auth_gate key n1 h1 ?k1 d"
  define g2 where "g2 = auth_gate key n2 h2 ?k2 d"
  have a1: "\<And>d'. db_users d' = db_users d \<Longrightarrow> auth_gate key n1 h1 ?k1 d' = g1"
    unfolding g1_def by (rule auth_gate_users)
  have a2: "\<And>d'. db_users d' = db_users d \<Longrightarrow> auth_gate key n2 h2 ?k2 d' = g2"
    unfolding g2_def by (rule auth_gate_users)
  have p: "admin_proc key n1 h1 f1 = Await (\<lambda>d. (auth_gate key n1 h1 ?k1 d, d))"
          "admin_proc key n2 h2 f2 = Await (\<lambda>d. (auth_gate key n2 h2 ?k2 d, d))"
    by (simp_all add: admin_proc_def auth_proc_def)
  have c1: "g1 = await_op f1 \<or> (\<exists>r. g1 = Done r)" unfolding g1_def by (rule admin_gate_cases)
  have c2: "g2 = await_op f2 \<or> (\<exists>r. g2 = Done r)" unfolding g2_def by (rule admin_gate_cases)
  show ?thesis
    using c1 c2
    by (elim disjE exE) (simp_all add: run_sched_def p sched_step_Await sched_step_Done await_op_alt a1 a2 u1 u2)
qed

lemma handler_proc_admin:
  "admin_request r = Some h \<Longrightarrow>
   \<exists>f. handler_proc rx key now r = admin_proc key now h f \<and> (\<forall>d. handle rx key now r d = admin_route key now h d (\<lambda>u. f)) \<and>
       (\<forall>d. db_users (snd (f d)) = db_users d)"
  by (cases r) (auto simp: handler_proc_def handle_def db_users_handlers)

lemma admin_proc_two_steps:
  assumes "i < length ps" and "ps ! i = admin_proc key n h f"
  shows "run_sched (ps, d) [i, i] =
           (ps[i := Done (fst (admin_route key n h d (\<lambda>u. f)))], snd (admin_route key n h d (\<lambda>u. f)))"
proof -
  have p: "admin_proc key n h f = Await (\<lambda>d. (auth_gate key n h (\<lambda>u. case authorize [RoleAdmin] u of Some r \<Rightarrow> Done r | None \<Rightarrow> await_op f) d, d))"
    by (simp add: admin_proc_def auth_proc_def)
  show ?thesis
    using assms
    by (simp add: run_sched_def p sched_step_Await sched_step_Done await_op_alt auth_gate_def admin_route_def protect_def
        split: sum.split option.split)
qed

lemma run_sched_append: "run_sched c (xs @ ys) = run_sched (run_sched c xs) ys"
  by (simp add: run_sched_def)

text \<open>C25: two admin requests in flight together (create, update or delete,
  with any headers, at any times, on any store) are serialisable: each of
  the six interleavings of their steps gives the responses and the store of
  running them one after the other, in the order in which they write. A
  concurrent update and delete of one product thus ends as update then
  delete, or as delete then update (404), and nothing else.\<close>

theorem admin_requests_serialisable:
  assumes "admin_request r1 = Some h1" and "admin_request r2 = Some h2"
  shows "(\<forall>js \<in> {[0, 0, 1, 1], [0, 1, 0, 1], [1, 0, 0, 1]}.
            run_sched ([handler_proc rx key n1 r1, handler_proc rx key n2 r2], d) js =
              (let d1 = snd (handle rx key n1 r1 d)
                 in ([Done (fst (handle rx key n1 r1 d)), Done (fst (handle rx key n2 r2 d1))], snd (handle rx key n2 r2 d1)))) \<and>
         (\<forall>js \<in> {[1, 1, 0, 0], [1, 0, 1, 0], [0, 1, 1, 0]}.
            run_sched ([handler_proc rx key n1 r1, handler_proc rx key n2 r2], d) js =
              (let d2 = snd (handle rx key n2 r2 d)
                 in ([Done (fst (handle rx key n1 r1 d2)), Done (fst (handle rx key n2 r2 d))], snd (handle rx key n1 r1 d2))))"
proof -
  obtain f1 where p1: "handler_proc rx key n1 r1 = admin_proc key n1 h1 f1"
    and h1: "\<And>d. handle rx key n1 r1 d = admin_route key n1 h1 d (\<lambda>u. f1)" and u1: "\<And>d. db_users (snd (f1 d)) = db_users d"
    using handler_proc_admin [OF assms(1), of rx key n1] by blast
  obtain f2 where p2: "handler_proc rx key n2 r2 = admin_proc key n2 h2 f2"
    and h2: "\<And>d. handle rx key n2 r2 d = admin_route key n2 h2 d (\<lambda>u. f2)" and u2: "\<And>d. db_users (snd (f2 d)) = db_users d"
    using handler_proc_admin [OF assms(2), of rx key n2] by blast
  let ?c = "([admin_proc key n1 h1 f1, admin_proc key n2 h2 f2], d)"
  have s01: "run_sched ?c [0, 0, 1, 1] =
      (let d1 = snd (handle rx key n1 r1 d)
       in ([Done (fst (handle rx key n1 r1 d)), Done (fst (handle rx key n2 r2 d1))], snd (handle rx key n2 r2 d1)))"
    using run_sched_append [of ?c "[0, 0]" "[1, 1]"]
    by (simp add: admin_proc_two_steps h1 h2 Let_def)
  have s10: "run_sched ?c [1, 1, 0, 0] =
      (let d2 = snd (handle rx key n2 r2 d)
       in ([Done (fst (handle rx key n1 r1 d2)), Done (fst (handle rx key n2 r2 d))], snd (handle rx key n1 r1 d2)))"
    using run_sched_append [of ?c "[1, 1]" "[0, 0]"]
    by (simp add: admin_proc_two_steps h1 h2 Let_def)
  note ser = admin_pair_serialisable [OF u1 u2, of key n1 h1 n2 h2 d]
  show ?thesis using ser s01 s10 by (simp only: p1 p2 ball_simps insert_iff empty_iff)
qed

theorem admin_requests_serialisable_witness:
  "admin_request (ReqUpdateProduct (Some admin_token) lamp_id lamp_form) = Some (Some admin_token) \<and>
   admin_request (ReqDeleteProduct (Some admin_token) lamp_id) = Some (Some admin_token) \<and>
   run_sched ([handler_proc literal_regex_i 7 2000 (ReqUpdateProduct (Some admin_token) lamp_id lamp_form),
               handler_proc literal_regex_i 7 2000 (ReqDeleteProduct (Some admin_token) lamp_id)], shop_state) [1, 0, 1, 0] =
     (let d2 = snd (handle literal_regex_i 7 2000 (ReqDeleteProduct (Some admin_token) lamp_id) shop_state)
      in ([Done (fst (handle literal_regex_i 7 2000 (ReqUpdateProduct (Some admin_token) lamp_id lamp_form) d2)),
           Done (fst (handle literal_regex_i 7 2000 (ReqDeleteProduct (Some admin_token) lamp_id) shop_state))],
          snd (handle literal_regex_i 7 2000 (ReqUpdateProduct (Some admin_token) lamp_id lamp_form) d2)))"
proof -
  have a1: "admin_request (ReqUpdateProduct (Some admin_token) lamp_id lamp_form) = Some (Some admin_token)" by simp
  have a2: "admin_request (ReqDeleteProduct (Some admin_token) lamp_id) = Some (Some admin_token)" by simp
  have "[1, 0, 1, 0] \<in> {[1, 1, 0, 0], [1, 0, 1, 0], [0, 1, 1, 0 :: nat]}" by simp
  then show ?thesis
    using conjunct2 [OF admin_requests_serialisable [OF a1 a2, of literal_regex_i 7 2000 2000 shop_state]] a1 a2
    by blast
qed

subsection \<open>Races\<close>

lemma length_take_limit: "length (take_limit l xs) \<le> length xs"
  by (simp add: take_limit_def)

text \<open>Run alone, the listing never reports more products on the page than
  it counts in total.\<close>

lemma get_products_count_le_total:
  assumes "resp_body (get_products rx lp d) = ProductsBody c t tp cp ps"
  shows "c \<le> t"
proof -
  let ?ms = "apply_sort (sort_options (lp_sort lp)) (matching rx (build_query lp) d)"
  have f: "store_find rx (build_query lp) (sort_options (lp_sort lp))
             (skip_value (page_param lp) (limit_param lp)) (limit_param lp) d = Inr ps"
    and c: "c = length ps" and t: "t = store_count rx (build_query lp) d"
    using assms [unfolded get_products_ProductsBody] by blast+
  from f obtain s l where "ps = take_limit l (drop s ?ms)" unfolding store_find_Inr by blast
  then have "length ps \<le> length ?ms" using length_take_limit [of l "drop s ?ms"] by simp
  then show ?thesis by (simp add: c t store_count_def)
qed


text \<open>C39: two registrations of the same new email: run one after the other, the
  second is told \<open>User already exists\<close> (400); interleaved, both
  \<open>findOne\<close> calls see no user, the unique index rejects the second
  \<open>save\<close>, and it gets 500 \<open>Server error\<close>. One account is created either
  way.\<close>

theorem register_race:
  assumes "e \<noteq> []" and "pw \<noteq> []" and "pw' \<noteq> []" and "find_user_by_email e d = None"
  shows "map proc_response (fst (run_sched ([register_proc key now (JStr e) (JStr pw), register_proc key now' (JStr e) (JStr pw')], d) [0, 1, 0, 1])) =
           [Some (Response 201 None (AuthBody (jwt_sign key (db_next_id d) now)
                    \<lparr>uv_id = db_next_id d, uv_email = e, uv_role = role_for (JStr e)\<rparr>)), Some (fail 500 ''Server error'')] \<and>
         map proc_response (fst (run_sched ([register_proc key now (JStr e) (JStr pw), register_proc key now' (JStr e) (JStr pw')], d) [0, 0, 1, 1])) =
           [Some (Response 201 None (AuthBody (jwt_sign key (db_next_id d) now)
                    \<lparr>uv_id = db_next_id d, uv_email = e, uv_role = role_for (JStr e)\<rparr>)), Some (fail 400 ''User already exists'')]"
proof -
  define u where "u = \<lparr>user_id = db_next_id d, user_email = e, user_password = Bcrypt pw,
                     user_role = role_for (JStr e), user_created_at = now\<rparr>"
  define d1 where "d1 = d\<lparr>db_users := db_users d @ [u], db_next_id := Suc (db_next_id d)\<rparr>"
  have s1: "save_user e pw (role_for (JStr e)) now d = Inr (u, d1)"
    using assms(4) by (simp add: save_user_def u_def d1_def Let_def)
  have f1: "find_user_by_email e d1 = Some u"
    using assms(4) unfolding find_user_by_email_def d1_def
    by (simp add: find_None_iff u_def) (rule find_snoc_fresh; simp)
  then have s2: "save_user e pw' (role_for (JStr e)) now' d1 = Inl DuplicateKey"
    by (simp add: save_user_def)
  have v: "view_user u = \<lparr>uv_id = db_next_id d, uv_email = e, uv_role = role_for (JStr e)\<rparr>"
    by (simp add: view_user_def u_def)
  have uid: "user_id u = db_next_id d" by (simp add: u_def)
  show ?thesis
    using assms(1-4)
    by (simp add: run_sched_def sched_step_def register_proc_def await_op_def s1 s2 f1 v uid)
qed

theorem register_race_witness:
  "''bob@example.com'' \<noteq> [] \<and> ''pw-one'' \<noteq> [] \<and> ''pw-two'' \<noteq> [] \<and> find_user_by_email ''bob@example.com'' init_db = None \<and>
   map proc_response (fst (run_sched ([register_proc 7 100 (JStr ''bob@example.com'') (JStr ''pw-one''),
       register_proc 7 100 (JStr ''bob@example.com'') (JStr ''pw-two'')], init_db) [0, 1, 0, 1])) =
     [Some (Response 201 None (AuthBody (jwt_sign 7 (db_next_id init_db) 100)
        \<lparr>uv_id = db_next_id init_db, uv_email = ''bob@example.com'', uv_role = role_for (JStr ''bob@example.com'')\<rparr>)),
      Some (fail 500 ''Server error'')] \<and>
   map proc_response (fst (run_sched ([register_proc 7 100 (JStr ''bob@example.com'') (JStr ''pw-one''),
       register_proc 7 100 (JStr ''bob@example.com'') (JStr ''pw-two'')], init_db) [0, 0, 1, 1])) =
     [Some (Response 201 None (AuthBody (jwt_sign 7 (db_next_id init_db) 100)
        \<lparr>uv_id = db_next_id init_db, uv_email = ''bob@example.com'', uv_role = role_for (JStr ''bob@example.com'')\<rparr>)),
      Some (fail 400 ''User already exists'')]"
proof -
  have h1: "''bob@example.com'' \<noteq> []" and h2: "''pw-one'' \<noteq> []" and h3: "''pw-two'' \<noteq> []" by simp_all
  have h4: "find_user_by_email ''bob@example.com'' init_db = None" by (simp add: find_user_by_email_def init_db_def)
  show ?thesis using register_race [OF h1 h2 h3 h4, of 7 100 100] h1 h2 h3 h4 by blast
qed

end
