(* ===== verification/Spec2Isabelle.thy ===== *)
theory Spec2Isabelle
  imports ClientPages AdminViews ShopViews FormViews CatalogView Seed RootAuthContext Concurrency
begin

text \<open>
  \<^bold>\<open>A verification development for the E-commerce storefront (Cout-dev/E-commerce).\<close>

  The program is an Express backend (\<open>src/backend\<close>) over a MongoDB store and a
  React client (\<open>src/dev/src\<close>). \<open>server.js\<close> mounts two routers:
  \<open>routes/products.js\<close> (listing with filter, sort and paging; read, create,
  update and delete of one product, the last three behind \<open>protect\<close> and
  \<open>authorize('admin')\<close>) and \<open>routes/auth.js\<close> (register, login, and
  \<open>/verify\<close> behind the \<open>auth\<close> middleware that checks a bearer token); every
  other path gets Express's 404 page. The client talks to it through axios:
  \<open>api.js\<close> (an instance with a token interceptor) and the global instance
  that \<open>context/AuthContext.jsx\<close> configures. Requests flow page \<open>\<rightarrow>\<close> axios
  \<open>\<rightarrow>\<close> route table \<open>\<rightarrow>\<close> middleware \<open>\<rightarrow>\<close> handler \<open>\<rightarrow>\<close> store \<open>\<rightarrow>\<close> JSON
  envelope \<open>\<rightarrow>\<close> page state. A second provider, \<open>src/dev/src/AuthContext.jsx\<close>,
  is imported by no module.

  \<^bold>\<open>Library layout\<close> (each theory imports the ones it calls).
  \<^item> \<open>Prelude\<close>: shared lemmas on lists, \<open>split_on\<close>, prefixes, decimal strings.
  \<^item> \<open>JsValue\<close>: JavaScript values and numbers (exact rationals plus NaN and the
    infinities): truthiness, \<open>Number()\<close> on strings, \<open>parseInt\<close>, arithmetic,
    \<open>Math.floor/ceil/max/min\<close>, \<open>toLowerCase\<close>.
  \<^item> \<open>ProductModel\<close>: \<open>models/Product.js\<close>: the document, casts on assignment,
    validators with their messages (\<open>product_valid\<close>).
  \<^item> \<open>Store\<close>, \<open>Token\<close>: MongoDB and \<open>jsonwebtoken\<close>, external libraries
    modelled from their documentation; users from the spec (\<open>models/User.js\<close>
    is not among the sources). The \<open>$regex\<close> engine is a parameter.
  \<^item> \<open>Seed\<close>: the seed script \<open>insertProduct.js\<close>, whose one save is
    always rejected (\<open>images\<close> instead of the required \<open>image\<close>).
  \<^item> \<open>Http\<close>: the response envelope. \<open>ProductQuery\<close>: \<open>GET /api/products\<close>.
    \<open>Auth\<close>: \<open>routes/auth.js\<close> and the \<open>protect\<close>/\<open>authorize\<close> gate.
    \<open>ProductCrud\<close>: the single-product handlers.
  \<^item> \<open>Server\<close>: \<open>handle\<close>, one step of the backend per request, and the
    inductive \<open>reachable\<close> set of databases with the invariants \<open>db_ok\<close>
    (schema, unique emails, fresh ids) and \<open>names_trimmed\<close>.
  \<^item> \<open>QueryString\<close>: URLSearchParams encoding and the \<open>qs\<close> parser Express
    uses, with the round trip \<open>parse_query (encode_pairs kvs) = kvs\<close>.
  \<^item> \<open>Api\<close>: \<open>api.js\<close> (every exported call as method, path and body; the
    interceptor) and the route table, with \<open>route_exchange\<close> sending a request
    to \<open>Server.handle\<close> or to the 404 page; \<open>express_app\<close> is the app of
    \<open>server.js\<close> with the body parser in front, a rejected body going to
    the final error handler.
  \<^item> \<open>ClientSession\<close>: \<open>AuthContext.jsx\<close> and the routes of \<open>App.jsx\<close>.
    \<open>ClientCatalog\<close>: \<open>components/products/ProductList.jsx\<close>.
    \<open>ClientPages\<close>: \<open>pages/ProductList.jsx\<close> as a step function over events.
    \<open>ClientShop\<close>: \<open>pages/Products.jsx\<close> and \<open>pages/Product.jsx\<close>.
    \<open>ClientAdmin\<close>: \<open>pages/EditProduct.jsx\<close>, \<open>pages/AdminDashboard.jsx\<close> and
    \<open>components/admin/ProductManagement.jsx\<close>,
    with the ObjectId round trip \<open>parse_oid (oid_hex i) = Some i\<close>.
    \<open>ClientForms\<close>: \<open>pages/AuthPage.jsx\<close>, \<open>components/auth/Register.jsx\<close>
    and \<open>components/layout/Navbar.jsx\<close>.
  \<^item> \<open>AdminViews\<close>, \<open>ShopViews\<close>, \<open>FormViews\<close>: the markup of the admin
    pages, the shop pages and the sign-in forms with the navigation bar: each
    page's screen as a record of the values it renders, its early returns,
    and its controls as the events or paths they raise; the browser's
    \<open>required\<close> and \<open>minLength\<close> checks gate a form's submit, and a
    \<open>disabled\<close> button ignores clicks. The list markup of
    \<open>pages/ProductList.jsx\<close> is in \<open>ClientPages\<close> (\<open>plist_screen\<close>).
    \<open>FormViews.app_shell\<close> is the shell of \<open>App.jsx\<close>: nothing while the
    provider loads, then the navigation bar off the sign-in pages above
    the routed outcome.
  \<^item> \<open>CatalogView\<close>: the markup of \<open>components/products/ProductList.jsx\<close>
    (early returns, filter inputs, a card per product, the pager).
  \<^item> \<open>RootAuthContext\<close>: the unused second provider \<open>src/dev/src/AuthContext.jsx\<close>
    (state cells with \<open>localStorage\<close> and a pending page load; \<open>verifyToken\<close>,
    \<open>login\<close>, \<open>register\<close>, \<open>logout\<close>, the effect on \<open>[token]\<close>, page loads
    \<open>rc_load\<close> and runs of calls \<open>rc_run\<close>), and the server's replies as JSON
    (\<open>body_json\<close>, with \<open>String(v)\<close> and property reads on JSON values).
  \<^item> \<open>Concurrency\<close>: concurrent requests (spec, section 5). Each handler of
    \<open>Server.handle\<close> is cut at its store awaits into a \<open>proc\<close>
    (\<open>handler_proc\<close>: \<open>auth\<close>'s \<open>findById\<close>, register's \<open>findOne\<close> and
    \<open>save\<close>, the listing's \<open>find\<close> and \<open>countDocuments\<close>); \<open>sched_step\<close>
    runs one await of one handler in flight, and the inductive \<open>conc_reach\<close>
    lets requests arrive at any time and interleave in any order.
  A client page is a record of its \<open>useState\<close> cells; each handler or effect
  is a function from a server reply (\<open>None\<close> for a network failure) to the
  new state. Composition lemmas feed the reply of \<open>Server.handle\<close> to them.

  \<^bold>\<open>What is proved.\<close> The listing filters soundly, sorts and pages as the
  table says, with its edge cases (C1 to C3, C5 to C8). Editing a product
  through the edit page is faithful on every reachable store: an unchanged
  form writes the product back as it was (C4, with the invariants of
  \<open>Server\<close> proved by rule induction on \<open>reachable\<close>). Registration, login and the token
  middleware behave as specified, including their failures (C9, C11 to C14);
  the sign-in forms replace every server message by their default text (C10). The
  product handlers validate, store, update and delete, with their 400, 404 and
  500 paths (C15 to C20). On every reachable database an account is admin
  exactly when its email is \<open>ADMIN_EMAIL\<close> and every product keeps rating
  and review count 0, since no handler writes them (C21); the admin gate is
  sound (C23, C24). The store's own checks keep the schema, unique emails and
  fresh identifiers on every reachable database (\<open>Server.reachable_db_ok\<close>),
  and every reply body is well-formed JSON (\<open>RootAuthContext.body_json_typed\<close>).
  The client session
  survives a reload, the route guard works, and navigation terminates (C27 to
  C29). The unused provider never restores a session on a page load (C22) and
  never signs anyone in (C26); its page loads settle at once, since every
  call throws before a reply. The client's
  queries refine its filter state; the catalogue's image crash and the pager's
  bounds are proved (C31 to C33). On \<open>pages/ProductList.jsx\<close>, the sort is
  ignored and an error is never cleared (C34, C35). Cart calls meet no route
  (C36). The Products page holds only the first server page (C37), and its
  price sort equals \<open>sort_key\<close> (C38). The quantity field leaves its range
  (C40). Under concurrency two admin requests are serialisable in the order
  of their writes (C25); the listing is not atomic, a delete between its
  \<open>find\<close> and its \<open>countDocuments\<close> giving a page larger than its total (C30);
  and of two interleaved registrations of one new email the second gets 500
  instead of 400 (C39). A handler run alone is \<open>handle\<close>, every serial run is
  an interleaving, and the store invariants hold in every interleaving. Further lemmas: five stars for every stored product, the clamp for a
  positive stock, the interceptor's token on admin calls, the dashboard's
  edit link and delete button, and the navigation bar's Products link
  ending on the login form, and the management table that never reaches the
  server (its \<open>api\<close> import is undefined). On the markup: the sort menu
  of \<open>pages/ProductList.jsx\<close> shows every option it sets and its pager
  highlights exactly the current page; the edit form's inline error box and
  \<open>Updating...\<close> label are dead code; opening the table editor turns exactly
  one card into a form; the shop's category menu hides the schema's
  \<open>other\<close> category; the two sign-up forms disagree on a three-character
  password, which the server accepts; the shop lists each matching product
  once, sorting only reorders; the catalogue's full cards refine its
  image model, so any fetched product makes it throw, and their
  \<open>View Details\<close> link meets no route; the App shell shows the navigation
  bar, with Sign Out exactly for a signed-in user, on every page but the
  two sign-in pages.

  \<^bold>\<open>Bounds and fuel.\<close> A \<open>proc\<close> is a finite tree (a handler has at
  most two awaits), so running one alone is structural recursion. \<open>ClientSession.navigate\<close> follows redirects with fuel;
  two steps reach a page from every path, which C29 proves.
  \<open>RootAuthContext.rc_follow\<close> follows page loads with fuel; \<open>rc_load\<close> gives
  it 2, enough because a redirect to \<open>/login\<close> clears the stored token, so
  the second load sends no request; with the undefined \<open>api\<close> import no
  load redirects at all (\<open>rc_page_load_settles\<close>).
  \<open>String(v)\<close> of a number writes at most twenty fractional digits. All other
  definitions are total (structural recursion), so no other fuel is needed.
  \<open>Array.prototype.sort\<close> is a stable insertion sort; for a comparator that
  subtracts keys, every stable sort gives this result (C38). Numbers are exact:
  rounding of doubles is not modelled, and neither is a \<open>parseInt\<close> beyond
  the double range.

  \<^bold>\<open>Not modelled.\<close> Styling and layout (class names, icons); the
  browser's \<open>type="email"\<close>, \<open>type="url"\<close> and \<open>type="number"\<close> checks; CORS and static files; the JSON
  grammar of the body parser (a rejected body is one value, whatever the text); bcrypt (an opaque hash); \<open>localeCompare\<close>
  (a parameter); the seed script's connection and logging; the dashboard's
  missing \<open>ProductForm\<close>, and the other two missing modules that \<open>App.jsx\<close>
  imports; the \<open>createdAt\<close>, \<open>user\<close> and \<open>__v\<close> fields of a document sent
  as JSON, which no client code reads; awaits that touch no store (bcrypt's
  hash and compare) are not suspension points of \<open>Concurrency\<close>, which
  follows the spec in taking store operations as the only ones, each atomic.
  \<open>import api from './api'\<close> in \<open>src/dev/src/AuthContext.jsx\<close> and
  \<open>components/admin/ProductManagement.jsx\<close> names a default export that
  \<open>api.js\<close> does not have; the model takes the binding as \<open>undefined\<close>, so
  each call throws. Under Vite's strict module linking the import is a
  \<open>SyntaxError\<close> instead and neither module would load at all; no module of
  the app imports either, so the running client is the same under both
  readings, and the claims about them (C22, C26) describe the modules as the
  model reads them.
\<close>

subsection \<open>Example: an administrator's store\<close>

definition admin_one :: user where
  "admin_one = admin_user\<lparr>user_id := 1, user_created_at := 100\<rparr>"

definition lamp_two :: product where
  "lamp_two = lamp\<lparr>prod_id := 2, prod_price := Fin 0, prod_created_at := 5000\<rparr>"

definition admin_db :: db where
  "admin_db = \<lparr>db_users = [admin_one], db_products = [], db_next_id = 2\<rparr>"

definition admin_lamp_db :: db where
  "admin_lamp_db = \<lparr>db_users = [admin_one], db_products = [lamp_two], db_next_id = 3\<rparr>"

subsection \<open>Properties across the client and the server\<close>

lemma reachable_consistent: "reachable rx key d \<Longrightarrow> db_ok d \<and> names_trimmed d"
proof (induction rule: reachable.induct)
  case init
  show ?case using db_ok_init by (simp add: names_trimmed_def init_db_def)
next
  case (step rx key d now r)
  then show ?case by (simp add: db_ok_handle names_trimmed_handle)
qed

text \<open>A reachable store: the administrator registers, then creates the lamp.\<close>

lemma register_admin_one:
  "handle rx 7 100 (ReqRegister (JStr ADMIN_EMAIL) (JStr ''r00t'')) init_db =
     (Response 201 None (AuthBody (jwt_sign 7 1 100) (view_user admin_one)), admin_db)"
  by (simp add: handle_def register_def init_db_def save_user_def find_user_by_email_def role_for_def admin_user_def
      admin_one_def view_user_def Let_def ADMIN_EMAIL_def admin_db_def)

lemma admin_one_token:
  "db_users d = [admin_one] \<Longrightarrow> t < 100 + token_lifetime \<Longrightarrow>
   auth 7 t (Some (''Bearer '' @ jwt_sign 7 1 100)) d = Inr (public_user admin_one)"
  using auth_signed [of 7 t 7 1 100 d] by (simp add: find_user_by_id_def admin_one_def admin_user_def)

lemma create_lamp_two:
  "handle rx 7 5000 (ReqCreateProduct (Some (''Bearer '' @ jwt_sign 7 1 100)) lamp_form) admin_db =
     (Response 201 None (ProductBody lamp_two), admin_lamp_db)"
proof -
  have a: "auth 7 5000 (Some (''Bearer '' @ jwt_sign 7 1 100)) admin_db = Inr (public_user admin_one)"
    by (rule admin_one_token) (simp_all add: admin_db_def token_lifetime_def)
  have c: "create_product 5000 lamp_form admin_db = (Response 201 None (ProductBody lamp_two), admin_lamp_db)"
    by code_simp
  show ?thesis
    using admin_route_admin [OF a, of "\<lambda>u. create_product 5000 lamp_form"] c
    by (simp add: handle_def public_user_def admin_one_def admin_user_def)
qed

text \<open>C4: editing is faithful across the whole system. On every store that
  some sequence of requests produces from the empty collections, the edit page
  of a stored product loads it into the form, and submitting the form
  unchanged with an administrator's token answers 200 with the same product,
  leaves the store exactly as it was, and navigates to \<open>/admin/products\<close>.
  The invariants \<open>db_ok\<close> and \<open>names_trimmed\<close> of \<open>Server\<close> supply what the
  update handler needs.\<close>

theorem reachable_edit_noop:
  assumes "reachable rx key d" and "p \<in> set (db_products d)" and "prod_id p < 16 ^ 24"
    and "protect key now (api_auth_header tok) d = Inr u" and "up_role u = RoleAdmin"
  shows "edit_fetch_reply (Some (fst (route_exchange rx key now tok GET (edit_url (oid_hex (prod_id p))) [] d))) edit_init =
           edit_init\<lparr>ep_loading := False, ep_product := product_object p\<rparr> \<and>
         route_exchange rx key now tok PUT (edit_url (oid_hex (prod_id p))) (product_object p) d = (ok 200 (ProductBody p), d) \<and>
         edit_submit_reply (Some (ok 200 (ProductBody p))) (edit_init\<lparr>ep_loading := False, ep_product := product_object p\<rparr>) =
           (edit_init\<lparr>ep_loading := False, ep_product := product_object p\<rparr>, Some ''/admin/products'')"
proof -
  from reachable_consistent [OF assms(1)] have ok: "db_ok d" and nt: "names_trimmed d" by simp_all
  from nt assms(2) have t: "trim_ws (prod_name p) = prod_name p" by (simp add: names_trimmed_def list_all_iff)
  let ?i = "oid_hex (prod_id p)"
  have seg: "?i \<noteq> []" "CHR ''/'' \<notin> set ?i" "CHR ''?'' \<notin> set ?i" using oid_hex_segment by blast+
  have g: "route_exchange rx key now tok GET (edit_url ?i) [] d = (ok 200 (ProductBody p), d)"
    using route_product_id [OF seg] ok assms(2,3)
    by (simp add: route_exchange_def edit_url_def handle_def get_product_stored)
  have u: "route_exchange rx key now tok PUT (edit_url ?i) (product_object p) d = (ok 200 (ProductBody p), d)"
    using route_product_id [OF seg] ok t assms(2-5)
    by (simp add: route_exchange_def edit_url_def handle_def admin_route_admin protect_def update_product_roundtrip)
  show ?thesis
    by (simp add: g u edit_fetch_reply_def edit_submit_reply_def ok_def is_2xx_def edit_init_def)
qed

theorem reachable_edit_noop_witness:
  "reachable literal_regex_i 7 admin_lamp_db \<and> lamp_two \<in> set (db_products admin_lamp_db) \<and>
   prod_id lamp_two < 16 ^ 24 \<and>
   protect 7 6000 (api_auth_header (Some (jwt_sign 7 1 100))) admin_lamp_db = Inr (public_user admin_one) \<and>
   up_role (public_user admin_one) = RoleAdmin \<and>
   route_exchange literal_regex_i 7 6000 (Some (jwt_sign 7 1 100)) PUT (edit_url (oid_hex 2)) (product_object lamp_two)
     admin_lamp_db = (ok 200 (ProductBody lamp_two), admin_lamp_db)"
proof -
  have r1: "reachable literal_regex_i 7 admin_db"
    using reachable.step [OF reachable.init, of literal_regex_i 7 100 "ReqRegister (JStr ADMIN_EMAIL) (JStr ''r00t'')"]
    by (simp add: register_admin_one)
  have r: "reachable literal_regex_i 7 admin_lamp_db"
    using reachable.step [OF r1, of 5000 "ReqCreateProduct (Some (''Bearer '' @ jwt_sign 7 1 100)) lamp_form"]
      create_lamp_two [of literal_regex_i]
    by simp
  have m: "lamp_two \<in> set (db_products admin_lamp_db)" by (simp add: admin_lamp_db_def)
  have i: "prod_id lamp_two < 16 ^ 24" by (simp add: lamp_two_def)
  have a: "protect 7 6000 (api_auth_header (Some (jwt_sign 7 1 100))) admin_lamp_db = Inr (public_user admin_one)"
    using admin_one_token [of admin_lamp_db 6000]
    by (simp add: protect_def api_auth_header_def admin_lamp_db_def token_lifetime_def)
  have ro: "up_role (public_user admin_one) = RoleAdmin" by (simp add: public_user_def admin_one_def admin_user_def)
  show ?thesis using reachable_edit_noop [OF r m i a ro] r m i a ro
    by (simp add: lamp_two_def)
qed

end
